(* ===== verification/Prelude.thy ===== *)
theory Prelude
  imports "HOL-Library.Word" "HOL-Library.AList" "HOL-Library.Sublist"
begin

text \<open>
  Shared vocabulary of the podmesh development.

  \<^item> Rust's \<open>Result\<close> with the two combinators its code is written in: \<open>ensure\<close> stands for
    \<open>anyhow::ensure!(cond, msg); rest\<close> and \<open>try_r\<close> for \<open>let x = expr?; rest\<close>. An error is
    the message the code gives it, so that two refusals of one handler are told apart.
  \<^item> Machine integers as words, with the saturating and checked operations the sources call.
    Lemmas that read them as natural numbers are collected in \<open>unat_simps\<close>.
  \<^item> \<open>HashMap\<close> as an association list without duplicate keys (\<open>hm_wf\<close>). Iteration follows the
    list; where a result could depend on the order, the component proves that it does not.
  \<^item> \<open>VecDeque\<close> as a list whose head is the front. \<open>usize\<close> counts of entries in memory are
    \<open>nat\<close>; Rust strings are byte strings, so \<open>length\<close> is Rust's \<open>len\<close>.
\<close>

named_theorems unat_simps \<open>saturating, checked and comparing word operations read as nat\<close>
named_theorems hm_simps \<open>lookup, keys and size after a hash map operation\<close>

type_synonym u8 = "8 word"
type_synonym u16 = "16 word"
type_synonym u32 = "32 word"
type_synonym u64 = "64 word"
type_synonym u128 = "128 word"
type_synonym bytes = "8 word list"

section \<open>Results\<close>

datatype ('a, 'e) result = Ok 'a | Err 'e

type_synonym 'a res = "('a, string) result"

fun is_ok :: "('a, 'e) result \<Rightarrow> bool" where
  "is_ok (Ok _) = True"
| "is_ok (Err _) = False"

definition ensure :: "bool \<Rightarrow> 'e \<Rightarrow> ('a, 'e) result \<Rightarrow> ('a, 'e) result" where
  "ensure c e k = (if c then k else Err e)"

fun try_r :: "('a, 'e) result \<Rightarrow> ('a \<Rightarrow> ('b, 'e) result) \<Rightarrow> ('b, 'e) result" where
  "try_r (Ok x) k = k x"
| "try_r (Err e) k = Err e"

text \<open>\<open>.map_err(f)\<close>, and anyhow's \<open>.context(msg)\<close>, whose message is the one displayed.\<close>

fun map_err :: "('e \<Rightarrow> 'f) \<Rightarrow> ('a, 'e) result \<Rightarrow> ('a, 'f) result" where
  "map_err f (Ok x) = Ok x"
| "map_err f (Err e) = Err (f e)"

definition ctx :: "string \<Rightarrow> 'a res \<Rightarrow> 'a res" where
  "ctx msg r = map_err (\<lambda>_. msg) r"

fun ok_or :: "'a option \<Rightarrow> 'e \<Rightarrow> ('a, 'e) result" where
  "ok_or (Some x) e = Ok x"
| "ok_or None e = Err e"

lemma ensure_simps [simp]:
  "ensure True e k = k"
  "ensure False e k = Err e"
  by (simp_all add: ensure_def)

lemma ensure_Ok_iff [simp]: "ensure c e k = Ok x \<longleftrightarrow> c \<and> k = Ok x"
  by (simp add: ensure_def)

lemma ensure_Err_iff: "ensure c e k = Err e' \<longleftrightarrow> (\<not> c \<and> e = e') \<or> (c \<and> k = Err e')"
  by (auto simp: ensure_def)

lemma try_r_Ok_iff [simp]: "try_r r k = Ok y \<longleftrightarrow> (\<exists>x. r = Ok x \<and> k x = Ok y)"
  by (cases r) auto

lemma try_u_Ok_iff [simp]: "try_r (r :: (unit, 'e) result) k = Ok y \<longleftrightarrow> r = Ok () \<and> k () = Ok y"
  by (cases r) auto

lemma try_r_Err_iff: "try_r r k = Err e \<longleftrightarrow> r = Err e \<or> (\<exists>x. r = Ok x \<and> k x = Err e)"
  by (cases r) auto

lemma map_err_Ok_iff [simp]: "map_err f r = Ok x \<longleftrightarrow> r = Ok x"
  by (cases r) auto

lemma ctx_Ok_iff [simp]: "ctx msg r = Ok x \<longleftrightarrow> r = Ok x"
  by (simp add: ctx_def)

lemma ctx_simps [simp]: "ctx msg (Ok x) = Ok x" "ctx msg (Err e) = Err msg"
  by (simp_all add: ctx_def)

lemma ok_or_Ok_iff [simp]: "ok_or o' e = Ok x \<longleftrightarrow> o' = Some x"
  by (cases o') auto

lemma is_ok_iff: "is_ok r \<longleftrightarrow> (\<exists>x. r = Ok x)"
  by (cases r) auto

lemma not_is_ok_iff: "\<not> is_ok r \<longleftrightarrow> (\<exists>e. r = Err e)"
  by (cases r) auto

text \<open>\<open>collect::<Result<Vec<_>>>()\<close>: the first error wins.\<close>

fun collect_r :: "('a, 'e) result list \<Rightarrow> ('a list, 'e) result" where
  "collect_r [] = Ok []"
| "collect_r (r # rs) = try_r r (\<lambda>x. try_r (collect_r rs) (\<lambda>xs. Ok (x # xs)))"

lemma collect_r_map_Ok:
  "collect_r (map f xs) = Ok ys \<longleftrightarrow> map f xs = map Ok ys"
  by (induction xs arbitrary: ys) (auto simp: Cons_eq_map_conv)

section \<open>Machine integers\<close>

definition saturating_add :: "'a::len word \<Rightarrow> 'a word \<Rightarrow> 'a word" where
  "saturating_add a b = (if a + b < a then - 1 else a + b)"

definition saturating_sub :: "'a::len word \<Rightarrow> 'a word \<Rightarrow> 'a word" where
  "saturating_sub a b = (if a < b then 0 else a - b)"

definition checked_add :: "'a::len word \<Rightarrow> 'a word \<Rightarrow> 'a word option" where
  "checked_add a b = (if unat a + unat b < 2 ^ LENGTH('a) then Some (a + b) else None)"

definition checked_mul :: "'a::len word \<Rightarrow> 'a word \<Rightarrow> 'a word option" where
  "checked_mul a b = (if unat a * unat b < 2 ^ LENGTH('a) then Some (a * b) else None)"

definition abs_diff :: "'a::len word \<Rightarrow> 'a word \<Rightarrow> 'a word" where
  "abs_diff a b = (if a < b then b - a else a - b)"

text \<open>\<open>u32::try_from(x)\<close> and its kin: the value when it fits the narrower type.\<close>

definition try_from :: "'a::len word \<Rightarrow> 'b::len word option" where
  "try_from x = (if unat x < 2 ^ LENGTH('b) then Some (ucast x) else None)"

lemma unat_max_word: "unat (- 1 :: 'a::len word) = 2 ^ LENGTH('a) - 1"
  by (simp add: unsigned_minus_1_eq_mask mask_eq_exp_minus_1)

lemma unat_less_pow: "unat (a :: 'a::len word) < 2 ^ LENGTH('a)"
  by (rule unsigned_less)

lemma unat_le_max: "unat (a :: 'a::len word) \<le> 2 ^ LENGTH('a) - 1"
  using unat_less_pow [of a] by linarith

lemmas unat_eqI = word_unat_eq_iff [THEN iffD2]

lemma add_wraps_iff: "(a :: 'a::len word) + b < a \<longleftrightarrow> 2 ^ LENGTH('a) \<le> unat a + unat b"
proof (cases "unat a + unat b < 2 ^ LENGTH('a)")
  case True
  then have "unat (a + b) = unat a + unat b" by (rule unat_add_lem [THEN iffD1])
  with True show ?thesis by (simp add: word_less_nat_alt)
next
  case False
  have "unat (a + b) = unat a + unat b - 2 ^ LENGTH('a)"
    using False by (simp add: unat_plus_if')
  with False unat_less_pow [of b] unat_less_pow [of a] show ?thesis
    by (simp add: word_less_nat_alt del: unsigned_less)
qed

lemma unat_saturating_add [unat_simps]:
  "unat (saturating_add a b) = min (unat a + unat b) (2 ^ LENGTH('a) - 1)"
  for a b :: "'a::len word"
proof (cases "unat a + unat b < 2 ^ LENGTH('a)")
  case True
  then show ?thesis
    by (simp add: saturating_add_def add_wraps_iff unat_add_lem [THEN iffD1])
next
  case False
  then show ?thesis by (simp add: saturating_add_def add_wraps_iff unat_max_word)
qed

lemma unat_saturating_sub [unat_simps]:
  "unat (saturating_sub a b) = unat a - unat b"
  by (auto simp: saturating_sub_def word_less_nat_alt not_less unat_sub word_le_nat_alt)

lemma unat_abs_diff [unat_simps]:
  "unat (abs_diff a b) = (if unat a < unat b then unat b - unat a else unat a - unat b)"
  by (auto simp: abs_diff_def word_less_nat_alt not_less unat_sub word_le_nat_alt)

lemma checked_add_Some [unat_simps]:
  "checked_add a b = Some c \<longleftrightarrow> unat a + unat b < 2 ^ LENGTH('a) \<and> unat c = unat a + unat b"
  for a b c :: "'a::len word"
  by (auto simp: checked_add_def unat_add_lem [THEN iffD1] intro: unat_eqI)

lemma checked_mul_Some [unat_simps]:
  "checked_mul a b = Some c \<longleftrightarrow> unat a * unat b < 2 ^ LENGTH('a) \<and> unat c = unat a * unat b"
  for a b c :: "'a::len word"
  by (auto simp: checked_mul_def unat_mult_lem [THEN iffD1] intro: unat_eqI)

lemma checked_add_None: "checked_add a b = None \<longleftrightarrow> 2 ^ LENGTH('a) \<le> unat a + unat b"
  for a b :: "'a::len word"
  by (auto simp: checked_add_def)

lemma saturating_add_le: "a \<le> saturating_add a b"
  using unat_le_max [of a] by (simp add: word_le_nat_alt unat_saturating_add)

lemma saturating_add_commute: "saturating_add a b = saturating_add b a"
  by (rule unat_eqI) (simp add: unat_saturating_add add.commute)

lemma saturating_add_assoc:
  "saturating_add (saturating_add a b) c = saturating_add a (saturating_add b c)"
  by (rule unat_eqI) (auto simp: unat_saturating_add min_def)

section \<open>Hash maps\<close>

type_synonym ('k, 'v) hmap = "('k \<times> 'v) list"

definition hm_wf :: "('k, 'v) hmap \<Rightarrow> bool" where
  "hm_wf m \<longleftrightarrow> distinct (map fst m)"

abbreviation hm_get :: "('k, 'v) hmap \<Rightarrow> 'k \<Rightarrow> 'v option" where
  "hm_get \<equiv> map_of"

definition hm_contains :: "('k, 'v) hmap \<Rightarrow> 'k \<Rightarrow> bool" where
  "hm_contains m k \<longleftrightarrow> map_of m k \<noteq> None"

definition hm_insert :: "'k \<Rightarrow> 'v \<Rightarrow> ('k, 'v) hmap \<Rightarrow> ('k, 'v) hmap" where
  "hm_insert k v m = AList.update k v m"

definition hm_remove :: "'k \<Rightarrow> ('k, 'v) hmap \<Rightarrow> ('k, 'v) hmap" where
  "hm_remove k m = AList.delete k m"

definition hm_retain :: "('k \<Rightarrow> 'v \<Rightarrow> bool) \<Rightarrow> ('k, 'v) hmap \<Rightarrow> ('k, 'v) hmap" where
  "hm_retain P m = filter (\<lambda>(k, v). P k v) m"

definition hm_map :: "('k \<Rightarrow> 'v \<Rightarrow> 'w) \<Rightarrow> ('k, 'v) hmap \<Rightarrow> ('k, 'w) hmap" where
  "hm_map f m = map (\<lambda>(k, v). (k, f k v)) m"

definition hm_keys :: "('k, 'v) hmap \<Rightarrow> 'k set" where
  "hm_keys m = fst ` set m"

definition hm_values :: "('k, 'v) hmap \<Rightarrow> 'v list" where
  "hm_values m = map snd m"

lemma hm_wf_empty [simp]: "hm_wf []"
  by (simp add: hm_wf_def)

lemma hm_wf_insert [simp, intro]: "hm_wf m \<Longrightarrow> hm_wf (hm_insert k v m)"
  by (simp add: hm_wf_def hm_insert_def distinct_update)

lemma hm_wf_remove [simp, intro]: "hm_wf m \<Longrightarrow> hm_wf (hm_remove k m)"
  by (simp add: hm_wf_def hm_remove_def distinct_delete)

lemma hm_wf_retain [simp, intro]: "hm_wf m \<Longrightarrow> hm_wf (hm_retain P m)"
  by (auto simp: hm_wf_def hm_retain_def distinct_map_filter)

lemma hm_get_insert [hm_simps, simp]: "hm_get (hm_insert k v m) = (hm_get m)(k \<mapsto> v)"
  by (simp add: hm_insert_def update_conv')

lemma hm_get_remove [hm_simps, simp]: "hm_get (hm_remove k m) = (hm_get m)(k := None)"
  by (simp add: hm_remove_def delete_conv')

lemma hm_get_retain [hm_simps]:
  "hm_wf m \<Longrightarrow> hm_get (hm_retain P m) k =
     (case hm_get m k of None \<Rightarrow> None | Some v \<Rightarrow> if P k v then Some v else None)"
proof (induction m)
  case Nil
  then show ?case by (simp add: hm_retain_def)
next
  case (Cons p m)
  obtain j w where p: "p = (j, w)" by (cases p)
  from Cons.prems have "hm_wf m" and j: "j \<notin> fst ` set m" by (auto simp: hm_wf_def p)
  then have IH: "hm_get (hm_retain P m) k =
     (case hm_get m k of None \<Rightarrow> None | Some v \<Rightarrow> if P k v then Some v else None)"
    by (intro Cons.IH)
  have "hm_get m j = None" using j by (simp add: map_of_eq_None_iff)
  then show ?case using IH by (auto simp: hm_retain_def p split: option.splits)
qed

lemma fst_hm_map: "map fst (hm_map f m) = map fst m"
  by (induction m) (auto simp: hm_map_def)

lemma hm_wf_map [simp]: "hm_wf (hm_map f m) = hm_wf m"
  by (simp add: hm_wf_def fst_hm_map)

lemma hm_get_map [hm_simps]: "hm_get (hm_map f m) k = map_option (f k) (hm_get m k)"
  by (induction m) (auto simp: hm_map_def)

lemma hm_keys_map [simp]: "hm_keys (hm_map f m) = hm_keys m"
  unfolding hm_keys_def by (metis fst_hm_map set_map)

lemma length_hm_map [simp]: "length (hm_map f m) = length m"
  by (simp add: hm_map_def)

lemma hm_keys_dom: "hm_keys m = dom (hm_get m)"
  by (simp add: hm_keys_def dom_map_of_conv_image_fst)

lemma hm_contains_iff: "hm_contains m k \<longleftrightarrow> k \<in> hm_keys m"
  by (simp add: hm_contains_def hm_keys_dom domIff)

lemma hm_keys_insert [hm_simps, simp]: "hm_keys (hm_insert k v m) = insert k (hm_keys m)"
  by (simp add: hm_keys_dom)

lemma hm_keys_remove [hm_simps, simp]: "hm_keys (hm_remove k m) = hm_keys m - {k}"
  by (simp add: hm_keys_dom)

lemma hm_keys_empty [simp]: "hm_keys [] = {}"
  by (simp add: hm_keys_def)

lemma hm_keys_finite [simp]: "finite (hm_keys m)"
  by (simp add: hm_keys_def)

lemma hm_keys_retain_subset: "hm_keys (hm_retain P m) \<subseteq> hm_keys m"
  by (auto simp: hm_keys_def hm_retain_def)

lemma hm_get_Some_key: "hm_get m k = Some v \<Longrightarrow> k \<in> hm_keys m"
  by (auto simp: hm_keys_dom)

lemma hm_length_card: "hm_wf m \<Longrightarrow> length m = card (hm_keys m)"
  by (metis distinct_card hm_keys_def hm_wf_def length_map set_map)

lemma hm_length_insert [hm_simps]:
  "hm_wf m \<Longrightarrow> length (hm_insert k v m) = (if k \<in> hm_keys m then length m else Suc (length m))"
  by (simp add: hm_length_card insert_absorb)

lemma hm_length_remove [hm_simps]:
  "hm_wf m \<Longrightarrow> length (hm_remove k m) = (if k \<in> hm_keys m then length m - 1 else length m)"
  by (simp add: hm_length_card)

lemma hm_length_remove_le: "length (hm_remove k m) \<le> length m"
  by (simp add: hm_remove_def length_delete_le)

lemma hm_length_retain_le: "length (hm_retain P m) \<le> length m"
  by (simp add: hm_retain_def)

lemma hm_get_in_set: "hm_wf m \<Longrightarrow> hm_get m k = Some v \<longleftrightarrow> (k, v) \<in> set m"
  by (simp add: hm_wf_def map_of_eq_Some_iff)

lemma hm_insert_fresh: "k \<notin> hm_keys m \<Longrightarrow> hm_insert k v m = m @ [(k, v)]"
  by (induction m) (auto simp: hm_insert_def hm_keys_def)

section \<open>Strings\<close>

definition is_ascii_digit :: "char \<Rightarrow> bool" where
  "is_ascii_digit c \<longleftrightarrow> c \<in> set ''0123456789''"

definition is_ascii_hexdigit :: "char \<Rightarrow> bool" where
  "is_ascii_hexdigit c \<longleftrightarrow> c \<in> set ''0123456789abcdefABCDEF''"

definition is_lower_hexdigit :: "char \<Rightarrow> bool" where
  "is_lower_hexdigit c \<longleftrightarrow> c \<in> set ''0123456789abcdef''"

text \<open>The bytes of a string, as \<open>as_bytes\<close> gives them, and the digits \<open>format!\<close> prints for a
  number.\<close>

definition str_bytes :: "string \<Rightarrow> bytes" where
  "str_bytes s = map (\<lambda>c. word_of_nat (of_char c)) s"

fun nat_str :: "nat \<Rightarrow> string" where
  "nat_str n = (if n < 10 then [char_of (48 + n)] else nat_str (n div 10) @ [char_of (48 + n mod 10)])"

declare nat_str.simps [simp del]

lemma length_str_bytes [simp]: "length (str_bytes s) = length s"
  by (simp add: str_bytes_def)

lemma byte_of_char_inj:
  "(word_of_nat (of_char c) :: u8) = word_of_nat (of_char d) \<longleftrightarrow> c = d"
proof
  assume "(word_of_nat (of_char c) :: u8) = word_of_nat (of_char d)"
  then have "unat (word_of_nat (of_char c) :: u8) = unat (word_of_nat (of_char d) :: u8)" by simp
  then have "(of_char c :: nat) mod 256 = of_char d mod 256"
    by (simp add: unat_of_nat)
  then have "(of_char c :: nat) = of_char d"
    using nat_of_char_less_256 [of c] nat_of_char_less_256 [of d] by simp
  then show "c = d" by (rule of_char_eq_iff [THEN iffD1])
qed simp

lemma str_bytes_inj [simp]: "str_bytes s = str_bytes t \<longleftrightarrow> s = t"
proof (induction s arbitrary: t)
  case (Cons c s)
  then show ?case by (cases t) (auto simp: str_bytes_def byte_of_char_inj)
qed (auto simp: str_bytes_def)

definition str_nat :: "string \<Rightarrow> nat" where
  "str_nat s = foldl (\<lambda>n c. n * 10 + (of_char c - 48)) 0 s"

lemma str_nat_nat_str [simp]: "str_nat (nat_str n) = n"
proof (induction n rule: nat_str.induct)
  case (1 n)
  have digit: "of_char (char_of (48 + d) :: char) - 48 = d" if "d < 10" for d :: nat
    using that by (simp add: of_char_of)
  show ?case
  proof (cases "n < 10")
    case True
    then show ?thesis using digit [of n] by (simp add: nat_str.simps [of n] str_nat_def)
  next
    case False
    with 1 have "str_nat (nat_str (n div 10)) = n div 10" by simp
    with False show ?thesis
      using digit [of "n mod 10"] by (simp add: nat_str.simps [of n] str_nat_def)
  qed
qed

lemma nat_str_inj [simp]: "nat_str m = nat_str n \<longleftrightarrow> m = n"
  by (metis str_nat_nat_str)

section \<open>Integers as bytes\<close>

definition to_le_bytes16 :: "u16 \<Rightarrow> bytes" where
  "to_le_bytes16 w = [word_of_nat (unat w), word_of_nat (unat w div 2 ^ 8)]"

definition to_le_bytes32 :: "u32 \<Rightarrow> bytes" where
  "to_le_bytes32 w = map (\<lambda>i. word_of_nat (unat w div 2 ^ (8 * i))) [0, 1, 2, 3]"

definition to_be_bytes32 :: "u32 \<Rightarrow> bytes" where
  "to_be_bytes32 w = map (\<lambda>i. word_of_nat (unat w div 2 ^ (8 * i))) [3, 2, 1, 0]"

fun from_be_bytes :: "nat \<Rightarrow> bytes \<Rightarrow> nat" where
  "from_be_bytes acc [] = acc"
| "from_be_bytes acc (b # bs) = from_be_bytes (acc * 256 + unat b) bs"

lemma digits_256: "(n :: nat) < 2 ^ 32 \<Longrightarrow>
  ((n div 16777216 mod 256 * 256 + n div 65536 mod 256) * 256 + n div 256 mod 256) * 256 + n mod 256 = n"
proof -
  assume "n < 2 ^ 32"
  then have "n div 16777216 < 256" by (simp add: div_less_iff_less_mult)
  moreover have "n div 16777216 = n div 65536 div 256" "n div 65536 = n div 256 div 256"
    by (simp_all add: div_mult2_eq [symmetric])
  ultimately show ?thesis
    by (metis div_mult_mod_eq mod_less)
qed

lemma unat_ucast8: "unat (ucast w :: u8) = unat w mod 256"
  by (simp add: unsigned_ucast_eq take_bit_eq_mod)

lemma from_to_be_bytes32 [simp]: "from_be_bytes 0 (to_be_bytes32 w) = unat w"
  using digits_256 [of "unat w"] unat_less_pow [of w]
  by (simp add: to_be_bytes32_def unat_of_nat unat_ucast8)

lemma length_to_be_bytes32 [simp]: "length (to_be_bytes32 w) = 4"
  by (simp add: to_be_bytes32_def)

lemma to_le_bytes16_inj [simp]: "to_le_bytes16 v = to_le_bytes16 w \<longleftrightarrow> v = w"
proof
  assume "to_le_bytes16 v = to_le_bytes16 w"
  then have "unat v mod 256 = unat w mod 256" "unat v div 256 mod 256 = unat w div 256 mod 256"
    by (auto simp: to_le_bytes16_def word_unat_eq_iff unat_of_nat unat_ucast8)
  moreover have "unat v div 256 < 256" "unat w div 256 < 256"
    using unat_less_pow [of v] unat_less_pow [of w] by (simp_all add: div_less_iff_less_mult)
  ultimately have "unat v = unat w" by (metis div_mult_mod_eq mod_less)
  then show "v = w" by (rule unat_eqI)
qed simp

end
