(* ===== verification/Replay_Window.thy ===== *)
theory Replay_Window
  imports Prelude
begin

text \<open>
  The contract shared by podmesh's replay caches: a map of recorded keys kept beside a queue of
  the same keys in insertion order. Three components implement it: the per-peer nonce buckets of
  \<open>shared/protocol/src/replay_registry.rs\<close>, the agent's \<open>ReplayCache\<close>
  (\<open>podmesh-agent/src/service.rs\<close>) and the agent's \<open>SeenQueries\<close>
  (\<open>podmesh-agent/src/machine/seen.rs\<close>), the last two through \<open>fifo_cache\<close>. Each interprets the
  contract on its own definitions; what follows for every one of them is proved once here.
\<close>

section \<open>The entries queued behind a key\<close>

definition after :: "'k \<Rightarrow> 'k list \<Rightarrow> 'k list" where
  "after j xs = tl (dropWhile (\<lambda>x. x \<noteq> j) xs)"

lemma after_Cons [simp]: "after j (x # xs) = (if x = j then xs else after j xs)"
  by (simp add: after_def)

lemma after_snoc: "j \<in> set xs \<Longrightarrow> after j (xs @ ys) = after j xs @ ys"
  by (induction xs) auto

lemma after_snoc_new: "j \<notin> set xs \<Longrightarrow> after j (xs @ [j]) = []"
  by (induction xs) auto

lemma after_drop: "distinct xs \<Longrightarrow> j \<in> set (drop n xs) \<Longrightarrow> after j (drop n xs) = after j xs"
proof (induction xs arbitrary: n)
  case (Cons x xs)
  then show ?case by (cases n) (auto dest: in_set_dropD)
qed simp

lemma length_after_filter: "P j \<Longrightarrow> length (after j (filter P xs)) \<le> length (after j xs)"
proof (induction xs)
  case (Cons x xs)
  then show ?case by (auto intro: le_trans [OF length_filter_le])
qed (simp add: after_def)

lemma length_after_less: "j \<in> set xs \<Longrightarrow> length (after j xs) < length xs"
proof (induction xs)
  case (Cons x xs)
  then show ?case by (cases "x = j") auto
qed simp

lemma length_after_hd: "xs \<noteq> [] \<Longrightarrow> length (after (hd xs) xs) = length xs - 1"
  by (cases xs) auto

section \<open>The locale\<close>

text \<open>
  \<open>step k t s\<close> offers key \<open>k\<close> at time \<open>t\<close>: the new state and whether the key was accepted.
  \<open>life s k\<close> is what the cache stores for \<open>k\<close>, and \<open>live t e\<close> says that a stored value
  \<open>e\<close> still protects its key at time \<open>t\<close>.
\<close>

locale replay_cache =
  fixes step :: "'k \<Rightarrow> 't \<Rightarrow> 's \<Rightarrow> 's \<times> bool"
    and order :: "'s \<Rightarrow> 'k list"
    and life :: "'s \<Rightarrow> 'k \<Rightarrow> 'e option"
    and live :: "'t \<Rightarrow> 'e \<Rightarrow> bool"
    and inv :: "'s \<Rightarrow> bool"
    and cap :: "'s \<Rightarrow> nat"
  assumes step_inv: "inv s \<Longrightarrow> inv (fst (step k t s))"
    and step_cap: "cap (fst (step k t s)) = cap s"
    and order_bound: "inv s \<Longrightarrow> length (order s) \<le> cap s"
    and order_life: "inv s \<Longrightarrow> set (order s) = dom (life s)"
    and refuse: "inv s \<Longrightarrow> life s k = Some e \<Longrightarrow> live t e \<Longrightarrow> \<not> snd (step k t s)"
    and accept: "inv s \<Longrightarrow> snd (step k t s) \<Longrightarrow>
      life (fst (step k t s)) k \<noteq> None \<and> after k (order (fst (step k t s))) = []"
    and survive: "inv s \<Longrightarrow> life s j = Some e \<Longrightarrow> live t e \<Longrightarrow>
      Suc (length (after j (order s))) < cap s \<Longrightarrow>
      life (fst (step k t s)) j = Some e \<and>
      length (after j (order (fst (step k t s)))) \<le> Suc (length (after j (order s)))"
begin

lemma run_inv: "inv s \<Longrightarrow> inv (fold (\<lambda>(k, t) s. fst (step k t s)) ops s)"
  by (induction ops arbitrary: s) (auto simp: step_inv)

lemma run_cap: "cap (fold (\<lambda>(k, t) s. fst (step k t s)) ops s) = cap s"
  by (induction ops arbitrary: s) (auto simp: step_cap)

lemma run_bound: "inv s \<Longrightarrow> length (order (fold (\<lambda>(k, t) s. fst (step k t s)) ops s)) \<le> cap s"
  using order_bound [OF run_inv] by (simp add: run_cap)

lemma run_survives:
  assumes "inv s" and "life s j = Some e"
    and "\<forall>(k, t) \<in> set ops. live t e"
    and "length (after j (order s)) + length ops < cap s"
  shows "life (fold (\<lambda>(k, t) s. fst (step k t s)) ops s) j = Some e"
  using assms
proof (induction ops arbitrary: s)
  case Nil
  then show ?case by simp
next
  case (Cons op ops)
  obtain k t where op: "op = (k, t)" by (cases op)
  let ?s = "fst (step k t s)"
  have "life ?s j = Some e \<and> length (after j (order ?s)) \<le> Suc (length (after j (order s)))"
    using Cons.prems op by (intro survive) auto
  with Cons.prems have "length (after j (order ?s)) + length ops < cap ?s"
    by (simp add: step_cap)
  with Cons.prems op \<open>life ?s j = Some e \<and> _\<close> show ?case
    by (simp add: Cons.IH [of ?s] step_inv)
qed

text \<open>A key accepted once is refused when it comes back, through any run of fewer than \<open>cap\<close>
  further offers, as long as its entry is live.\<close>

lemma no_replay:
  assumes "inv s" and "snd (step k t s)"
    and "life (fst (step k t s)) k = Some e"
    and "\<forall>(j, u) \<in> set ops. live u e" and "live t' e"
    and "length ops < cap s"
  shows "\<not> snd (step k t' (fold (\<lambda>(k, t) s. fst (step k t s)) ops (fst (step k t s))))"
proof (rule refuse [where e = e])
  have "after k (order (fst (step k t s))) = []" using accept assms by blast
  then show "life (fold (\<lambda>(k, t) s. fst (step k t s)) ops (fst (step k t s))) k = Some e"
    using assms by (intro run_survives) (simp_all add: step_inv step_cap)
qed (use assms in \<open>simp_all add: run_inv step_inv\<close>)

end

end
