(* ===== verification/Replay_Registry.thy ===== *)
theory Replay_Registry
  imports Replay_Window
begin

text \<open>
  \<open>shared/protocol/src/replay_registry.rs\<close>: the bounded, process-owned replay protection every
  workload envelope passes through. An \<open>Instant\<close> is a number of nanoseconds on the monotonic
  clock and a \<open>Duration\<close> a number of nanoseconds, so \<open>saturating_duration_since\<close> is natural
  subtraction. The mutex makes \<open>check_and_insert\<close> atomic: it is one function of the state.
\<close>

type_synonym instant = nat
type_synonym duration = nat

definition from_secs :: "nat \<Rightarrow> duration" where
  "from_secs n = n * 1000000000"

definition DEFAULT_REPLAY_MAX_PEERS :: nat where "DEFAULT_REPLAY_MAX_PEERS = 10000"
definition DEFAULT_REPLAY_NONCES_PER_PEER :: nat where "DEFAULT_REPLAY_NONCES_PER_PEER = 1000"
definition DEFAULT_REPLAY_MAX_NONCE_BYTES :: nat where "DEFAULT_REPLAY_MAX_NONCE_BYTES = 128"
definition DEFAULT_REPLAY_RETENTION :: duration where "DEFAULT_REPLAY_RETENTION = from_secs 120"
definition MAX_REPLAY_PEERS :: nat where "MAX_REPLAY_PEERS = 10000"
definition MAX_REPLAY_NONCES_PER_PEER :: nat where "MAX_REPLAY_NONCES_PER_PEER = 1000"
definition MIN_REPLAY_NONCE_BYTES :: nat where "MIN_REPLAY_NONCE_BYTES = 36"
definition MAX_REPLAY_NONCE_BYTES :: nat where "MAX_REPLAY_NONCE_BYTES = 128"
definition MIN_REPLAY_RETENTION :: duration where "MIN_REPLAY_RETENTION = from_secs 60"
definition MAX_REPLAY_RETENTION :: duration where "MAX_REPLAY_RETENTION = from_secs 300"

lemmas replay_consts =
  DEFAULT_REPLAY_MAX_PEERS_def DEFAULT_REPLAY_NONCES_PER_PEER_def
  DEFAULT_REPLAY_MAX_NONCE_BYTES_def DEFAULT_REPLAY_RETENTION_def MAX_REPLAY_PEERS_def
  MAX_REPLAY_NONCES_PER_PEER_def MIN_REPLAY_NONCE_BYTES_def MAX_REPLAY_NONCE_BYTES_def
  MIN_REPLAY_RETENTION_def MAX_REPLAY_RETENTION_def from_secs_def

section \<open>Limits\<close>

record ReplayLimits =
  max_peers :: nat
  nonces_per_peer :: nat
  max_nonce_bytes :: nat
  retention :: duration

definition ReplayLimits_default :: ReplayLimits where
  "ReplayLimits_default =
     \<lparr>max_peers = DEFAULT_REPLAY_MAX_PEERS,
      nonces_per_peer = DEFAULT_REPLAY_NONCES_PER_PEER,
      max_nonce_bytes = DEFAULT_REPLAY_MAX_NONCE_BYTES,
      retention = DEFAULT_REPLAY_RETENTION\<rparr>"

definition ReplayLimits_validate :: "ReplayLimits \<Rightarrow> ReplayLimits res" where
  "ReplayLimits_validate l =
     ensure (1 \<le> max_peers l \<and> max_peers l \<le> MAX_REPLAY_PEERS)
       ''replay peer limit is outside its allowed range'' (
     ensure (1 \<le> nonces_per_peer l \<and> nonces_per_peer l \<le> MAX_REPLAY_NONCES_PER_PEER)
       ''replay per-peer nonce limit is outside its allowed range'' (
     ensure (MIN_REPLAY_NONCE_BYTES \<le> max_nonce_bytes l
         \<and> max_nonce_bytes l \<le> MAX_REPLAY_NONCE_BYTES)
       ''replay nonce byte limit is outside its allowed range'' (
     ensure (MIN_REPLAY_RETENTION \<le> retention l \<and> retention l \<le> MAX_REPLAY_RETENTION)
       ''replay retention is outside its allowed range'' (
     Ok l))))"

section \<open>The nonces of one peer\<close>

record PeerNonces =
  pn_seen :: "(string, instant) hmap"
  pn_order :: "string list"

definition PeerNonces_default :: PeerNonces where
  "PeerNonces_default = \<lparr>pn_seen = [], pn_order = []\<rparr>"

text \<open>The \<open>while let Some(nonce) = self.order.front()\<close> loop of \<open>prune_expired\<close>.\<close>

fun prune_loop ::
  "instant \<Rightarrow> duration \<Rightarrow> string list \<Rightarrow> (string, instant) hmap
    \<Rightarrow> string list \<times> (string, instant) hmap" where
  "prune_loop now ret [] seen = ([], seen)"
| "prune_loop now ret (nonce # rest) seen =
     (case hm_get seen nonce of
        Some recorded \<Rightarrow>
          if ret \<le> now - recorded then prune_loop now ret rest (hm_remove nonce seen)
          else (nonce # rest, seen)
      | None \<Rightarrow> prune_loop now ret rest seen)"

definition PeerNonces_prune_expired :: "instant \<Rightarrow> duration \<Rightarrow> PeerNonces \<Rightarrow> PeerNonces" where
  "PeerNonces_prune_expired now ret p =
     (let (order, seen) = prune_loop now ret (pn_order p) (pn_seen p)
      in \<lparr>pn_seen = seen, pn_order = order\<rparr>)"

definition PeerNonces_insert :: "string \<Rightarrow> instant \<Rightarrow> nat \<Rightarrow> PeerNonces \<Rightarrow> PeerNonces" where
  "PeerNonces_insert nonce now limit p =
     (let p' =
        (if limit \<le> length (pn_order p) then
           (case pn_order p of
              [] \<Rightarrow> p
            | oldest # rest \<Rightarrow> \<lparr>pn_seen = hm_remove oldest (pn_seen p), pn_order = rest\<rparr>)
         else p)
      in \<lparr>pn_seen = hm_insert nonce now (pn_seen p'), pn_order = pn_order p' @ [nonce]\<rparr>)"

text \<open>The branch of \<open>check_and_insert\<close> for a peer that is already tracked. The expired nonces
  are gone even when the nonce is refused.\<close>

definition PeerNonces_check_and_insert ::
  "ReplayLimits \<Rightarrow> string \<Rightarrow> instant \<Rightarrow> PeerNonces \<Rightarrow> PeerNonces \<times> unit res" where
  "PeerNonces_check_and_insert l nonce now p =
     (let pruned = PeerNonces_prune_expired now (retention l) p
      in if hm_contains (pn_seen pruned) nonce then (pruned, Err ''envelope replay detected'')
         else (PeerNonces_insert nonce now (nonces_per_peer l) pruned, Ok ()))"

section \<open>The registry\<close>

record ReplayState =
  peers :: "(string, PeerNonces) hmap"
  peer_order :: "string list"

record PeerReplayRegistry =
  limits :: ReplayLimits
  state :: ReplayState

definition ReplayState_default :: ReplayState where
  "ReplayState_default = \<lparr>peers = [], peer_order = []\<rparr>"

definition PeerReplayRegistry_new :: "ReplayLimits \<Rightarrow> PeerReplayRegistry res" where
  "PeerReplayRegistry_new l =
     try_r (ReplayLimits_validate l) (\<lambda>l'. Ok \<lparr>limits = l', state = ReplayState_default\<rparr>)"

definition prune_expired_peers :: "ReplayLimits \<Rightarrow> instant \<Rightarrow> ReplayState \<Rightarrow> ReplayState" where
  "prune_expired_peers l now s =
     (let pruned = hm_map (\<lambda>_. PeerNonces_prune_expired now (retention l)) (peers s);
          kept = hm_retain (\<lambda>_ p. pn_seen p \<noteq> []) pruned
      in \<lparr>peers = kept, peer_order = filter (hm_contains kept) (peer_order s)\<rparr>)"

text \<open>The eviction that \<open>check_and_insert\<close> runs before it tracks a new peer.\<close>

definition make_room :: "ReplayLimits \<Rightarrow> instant \<Rightarrow> ReplayState \<Rightarrow> ReplayState" where
  "make_room l now s =
     (let s1 = (if max_peers l \<le> length (peers s) then prune_expired_peers l now s else s)
      in if max_peers l \<le> length (peers s1) then
           (case peer_order s1 of
              [] \<Rightarrow> s1
            | oldest # rest \<Rightarrow> \<lparr>peers = hm_remove oldest (peers s1), peer_order = rest\<rparr>)
         else s1)"

definition check_and_insert ::
  "PeerReplayRegistry \<Rightarrow> string \<Rightarrow> string \<Rightarrow> instant \<Rightarrow> PeerReplayRegistry \<times> unit res" where
  "check_and_insert r peer_id nonce now =
     (if peer_id = [] then (r, Err ''replay peer id is empty'')
      else if nonce = [] then (r, Err ''envelope nonce is empty'')
      else if \<not> length nonce \<le> max_nonce_bytes (limits r)
        then (r, Err ''envelope nonce exceeds configured byte limit'')
      else
        (case hm_get (peers (state r)) peer_id of
           Some peer \<Rightarrow>
             (let (peer', res) = PeerNonces_check_and_insert (limits r) nonce now peer
              in (r\<lparr>state := (state r)\<lparr>peers := hm_insert peer_id peer' (peers (state r))\<rparr>\<rparr>, res))
         | None \<Rightarrow>
             (let s = make_room (limits r) now (state r);
                  peer = PeerNonces_insert nonce now (nonces_per_peer (limits r)) PeerNonces_default
              in (r\<lparr>state := \<lparr>peers = hm_insert peer_id peer (peers s),
                              peer_order = peer_order s @ [peer_id]\<rparr>\<rparr>, Ok ()))))"

section \<open>A peer's bucket is a replay cache\<close>

definition pn_inv :: "nat \<Rightarrow> PeerNonces \<Rightarrow> bool" where
  "pn_inv limit p \<longleftrightarrow> 0 < limit \<and> hm_wf (pn_seen p) \<and> distinct (pn_order p)
     \<and> set (pn_order p) = hm_keys (pn_seen p) \<and> length (pn_order p) \<le> limit"

lemma prune_loop_spec:
  assumes "distinct q" and "set q = hm_keys m" and "hm_wf m" and "prune_loop now ret q m = (q', m')"
  shows "\<exists>n. q' = drop n q \<and> hm_wf m' \<and> set q' = hm_keys m'
    \<and> (\<forall>k. hm_get m' k = (if k \<in> set q' then hm_get m k else None))
    \<and> (\<forall>k \<in> set (take n q). \<exists>r. hm_get m k = Some r \<and> ret \<le> now - r)"
  using assms
proof (induction q arbitrary: m)
  case Nil
  then have "m = []" by (cases m) (auto simp: hm_keys_def)
  with Nil show ?case by auto
next
  case (Cons x q)
  then obtain r where r: "hm_get m x = Some r"
    by (metis domD hm_keys_dom list.set_intros(1))
  show ?case
  proof (cases "ret \<le> now - r")
    case False
    with Cons.prems r have "q' = x # q \<and> m' = m" by simp
    with Cons.prems show ?thesis
      by (intro exI [of _ 0]) (auto simp: hm_keys_dom domIff)
  next
    case True
    let ?m = "hm_remove x m"
    have loop: "prune_loop now ret q ?m = (q', m')" using Cons.prems True r by simp
    have "distinct q" and "set q = hm_keys ?m" and "hm_wf ?m" using Cons.prems by auto
    from Cons.IH [OF this loop] obtain n where n: "q' = drop n q" "hm_wf m'" "set q' = hm_keys m'"
      "\<And>k. hm_get m' k = (if k \<in> set q' then hm_get ?m k else None)"
      "\<And>k. k \<in> set (take n q) \<Longrightarrow> \<exists>r. hm_get ?m k = Some r \<and> ret \<le> now - r"
      by blast
    have "x \<notin> set q'" using Cons.prems n(1) by (auto dest: in_set_dropD)
    then have "hm_get m' k = (if k \<in> set q' then hm_get m k else None)" for k
      using n(4) [of k] by auto
    moreover have "\<exists>r. hm_get m k = Some r \<and> ret \<le> now - r" if "k \<in> set (take (Suc n) (x # q))" for k
      using that n(5) [of k] r True by (auto split: if_splits)
    ultimately show ?thesis
      using n by (intro exI [of _ "Suc n"]) simp
  qed
qed

lemma PeerNonces_prune_expired_spec:
  fixes now ret
  assumes "pn_inv limit p"
  defines "p' \<equiv> PeerNonces_prune_expired now ret p"
  shows "\<exists>n. pn_order p' = drop n (pn_order p) \<and> pn_inv limit p'
    \<and> (\<forall>k. hm_get (pn_seen p') k =
         (if k \<in> set (drop n (pn_order p)) then hm_get (pn_seen p) k else None))
    \<and> (\<forall>k r. hm_get (pn_seen p) k = Some r \<longrightarrow> now - r < ret \<longrightarrow> k \<in> set (drop n (pn_order p)))"
proof -
  obtain q m where qm: "prune_loop now ret (pn_order p) (pn_seen p) = (q, m)"
    by (metis surj_pair)
  from assms have inv: "distinct (pn_order p)" "set (pn_order p) = hm_keys (pn_seen p)"
    "hm_wf (pn_seen p)" by (auto simp: pn_inv_def)
  from prune_loop_spec [OF inv qm] obtain n where n: "q = drop n (pn_order p)" "hm_wf m"
    "set q = hm_keys m" "\<And>k. hm_get m k = (if k \<in> set q then hm_get (pn_seen p) k else None)"
    "\<And>k. k \<in> set (take n (pn_order p)) \<Longrightarrow> \<exists>r. hm_get (pn_seen p) k = Some r \<and> ret \<le> now - r"
    by blast
  have eq: "PeerNonces_prune_expired now ret p = \<lparr>pn_seen = m, pn_order = q\<rparr>"
    by (simp add: PeerNonces_prune_expired_def qm)
  have "k \<in> set (drop n (pn_order p))"
    if "hm_get (pn_seen p) k = Some r" "now - r < ret" for k r
  proof -
    have "k \<in> set (pn_order p)" using that inv(2) by (auto simp: hm_keys_dom)
    then have "k \<in> set (take n (pn_order p)) \<or> k \<in> set (drop n (pn_order p))"
      by (metis Un_iff append_take_drop_id set_append)
    with n(5) [of k] that show ?thesis by auto
  qed
  moreover have "pn_inv limit \<lparr>pn_seen = m, pn_order = q\<rparr>"
    using assms n by (auto simp: pn_inv_def)
  ultimately show ?thesis using n by (auto simp: eq p'_def)
qed

lemma PeerNonces_insert_spec:
  fixes now
  assumes "pn_inv limit p" and "nonce \<notin> hm_keys (pn_seen p)"
  defines "n \<equiv> if limit \<le> length (pn_order p) then 1 else 0"
  shows "pn_inv limit (PeerNonces_insert nonce now limit p)
    \<and> pn_order (PeerNonces_insert nonce now limit p) = drop n (pn_order p) @ [nonce]
    \<and> (\<forall>k. hm_get (pn_seen (PeerNonces_insert nonce now limit p)) k =
      (if k = nonce then Some now
       else if k \<in> set (drop n (pn_order p)) then hm_get (pn_seen p) k else None))"
proof (cases "limit \<le> length (pn_order p)")
  case True
  with assms(1) obtain x q where q: "pn_order p = x # q"
    by (cases "pn_order p") (auto simp: pn_inv_def)
  with assms True have eq: "PeerNonces_insert nonce now limit p =
      \<lparr>pn_seen = hm_insert nonce now (hm_remove x (pn_seen p)), pn_order = q @ [nonce]\<rparr>"
    by (simp add: PeerNonces_insert_def)
  have keys: "insert x (set q) = hm_keys (pn_seen p)" "x \<notin> set q"
    using assms q by (auto simp: pn_inv_def)
  have "pn_inv limit (PeerNonces_insert nonce now limit p)"
    unfolding eq using assms True q keys by (auto simp: pn_inv_def)
  moreover have "hm_get (pn_seen (PeerNonces_insert nonce now limit p)) k =
      (if k = nonce then Some now else if k \<in> set q then hm_get (pn_seen p) k else None)" for k
    unfolding eq using keys by (auto simp: hm_keys_dom domIff)
  ultimately show ?thesis using True q eq by (simp add: n_def)
next
  case False
  then have eq: "PeerNonces_insert nonce now limit p =
      \<lparr>pn_seen = hm_insert nonce now (pn_seen p), pn_order = pn_order p @ [nonce]\<rparr>"
    by (simp add: PeerNonces_insert_def)
  have "pn_inv limit (PeerNonces_insert nonce now limit p)"
    unfolding eq using assms False by (auto simp: pn_inv_def)
  moreover have "hm_get (pn_seen (PeerNonces_insert nonce now limit p)) k =
      (if k = nonce then Some now
       else if k \<in> set (pn_order p) then hm_get (pn_seen p) k else None)" for k
    unfolding eq using assms by (auto simp: pn_inv_def hm_keys_dom domIff)
  ultimately show ?thesis using False eq by (simp add: n_def)
qed

abbreviation bucket_step :: "ReplayLimits \<Rightarrow> string \<Rightarrow> instant \<Rightarrow> PeerNonces \<Rightarrow> PeerNonces \<times> bool" where
  "bucket_step l nonce now p \<equiv>
     (fst (PeerNonces_check_and_insert l nonce now p),
      is_ok (snd (PeerNonces_check_and_insert l nonce now p)))"

lemma bucket_step_accepts:
  assumes "pn_inv (nonces_per_peer l) p"
    and "is_ok (snd (PeerNonces_check_and_insert l k t p))"
  defines "p' \<equiv> fst (PeerNonces_check_and_insert l k t p)"
  shows "pn_inv (nonces_per_peer l) p'" and "hm_get (pn_seen p') k = Some t"
    and "after k (pn_order p') = []"
proof -
  let ?q = "PeerNonces_prune_expired t (retention l) p"
  have q: "pn_inv (nonces_per_peer l) ?q"
    using PeerNonces_prune_expired_spec [OF assms(1)] by blast
  from assms(2) have k: "k \<notin> hm_keys (pn_seen ?q)"
    by (auto simp: PeerNonces_check_and_insert_def Let_def hm_contains_iff split: if_splits)
  then have p': "p' = PeerNonces_insert k t (nonces_per_peer l) ?q"
    by (simp add: p'_def PeerNonces_check_and_insert_def hm_contains_iff)
  from PeerNonces_insert_spec [OF q k, of t]
  obtain n where n: "pn_inv (nonces_per_peer l) p'" "pn_order p' = drop n (pn_order ?q) @ [k]"
    "hm_get (pn_seen p') k = Some t"
    unfolding p' by auto
  have "k \<notin> set (drop n (pn_order ?q))"
    using q k by (auto simp: pn_inv_def dest: in_set_dropD)
  with n show "pn_inv (nonces_per_peer l) p'" "hm_get (pn_seen p') k = Some t"
    "after k (pn_order p') = []" by (simp_all add: after_snoc_new)
qed

lemma bucket_step_survive:
  fixes k :: string
  assumes p: "pn_inv (nonces_per_peer l) p" and j: "hm_get (pn_seen p) j = Some r"
    and live: "t - r < retention l"
    and room: "Suc (length (after j (pn_order p))) < nonces_per_peer l"
  defines "p' \<equiv> fst (PeerNonces_check_and_insert l k t p)"
  shows "hm_get (pn_seen p') j = Some r
    \<and> length (after j (pn_order p')) \<le> Suc (length (after j (pn_order p)))"
proof -
  let ?q = "PeerNonces_prune_expired t (retention l) p"
  from p obtain n where q: "pn_order ?q = drop n (pn_order p)" "pn_inv (nonces_per_peer l) ?q"
    and seen: "\<And>k. hm_get (pn_seen ?q) k =
      (if k \<in> set (drop n (pn_order p)) then hm_get (pn_seen p) k else None)"
    and kept: "\<And>k r. hm_get (pn_seen p) k = Some r \<Longrightarrow> t - r < retention l \<Longrightarrow>
      k \<in> set (drop n (pn_order p))"
    using PeerNonces_prune_expired_spec [of _ p t "retention l"] by blast
  have jq: "j \<in> set (pn_order ?q)" "hm_get (pn_seen ?q) j = Some r"
    using kept [OF j live] seen [of j] j q(1) by simp_all
  have aft: "after j (pn_order ?q) = after j (pn_order p)"
    using p q jq by (simp add: after_drop pn_inv_def)
  show ?thesis
  proof (cases "k \<in> hm_keys (pn_seen ?q)")
    case True
    then have "p' = ?q" by (simp add: p'_def PeerNonces_check_and_insert_def hm_contains_iff)
    with jq aft show ?thesis by simp
  next
    case False
    then have p': "p' = PeerNonces_insert k t (nonces_per_peer l) ?q"
      by (simp add: p'_def PeerNonces_check_and_insert_def hm_contains_iff)
    have "j \<noteq> k" using False jq by (auto simp: hm_keys_dom)
    define n :: nat where n: "n = (if nonces_per_peer l \<le> length (pn_order ?q) then 1 else 0)"
    have ins: "pn_order p' = drop n (pn_order ?q) @ [k]"
      "hm_get (pn_seen p') i = (if i = k then Some t
        else if i \<in> set (drop n (pn_order ?q)) then hm_get (pn_seen ?q) i else None)" for i
      unfolding p' n using PeerNonces_insert_spec [OF q(2) False, of t] by blast+
    have jn: "j \<in> set (drop n (pn_order ?q))"
    proof (cases "nonces_per_peer l \<le> length (pn_order ?q)")
      case True
      have "hd (pn_order ?q) \<noteq> j"
      proof
        assume "hd (pn_order ?q) = j"
        then have "length (after j (pn_order ?q)) = length (pn_order ?q) - 1"
          using jq(1) by (metis length_after_hd list.set_cases list.distinct(1))
        with room aft True show False by simp
      qed
      with jq(1) show ?thesis using n True by (cases "pn_order ?q") auto
    qed (use n jq(1) in simp)
    have "distinct (pn_order ?q)" using q(2) by (simp add: pn_inv_def)
    with jn have "after j (pn_order p') = after j (pn_order p) @ [k]"
      using ins(1) aft by (simp add: after_snoc after_drop)
    with ins(2) [of j] \<open>j \<noteq> k\<close> jn jq show ?thesis by simp
  qed
qed

interpretation bucket: replay_cache "bucket_step l" pn_order "\<lambda>p. hm_get (pn_seen p)"
  "\<lambda>now recorded. now - recorded < retention l" "pn_inv (nonces_per_peer l)"
  "\<lambda>_. nonces_per_peer l" for l
proof (unfold_locales, goal_cases)
  case (1 s k t)
  let ?q = "PeerNonces_prune_expired t (retention l) s"
  show ?case
  proof (cases "is_ok (snd (PeerNonces_check_and_insert l k t s))")
    case True
    with 1 show ?thesis by (simp add: bucket_step_accepts(1))
  next
    case False
    then have "fst (PeerNonces_check_and_insert l k t s) = ?q"
      by (auto simp: PeerNonces_check_and_insert_def Let_def)
    moreover have "pn_inv (nonces_per_peer l) ?q"
      using PeerNonces_prune_expired_spec [OF 1] by blast
    ultimately show ?thesis by simp
  qed
next
  case (5 s k e t)
  from PeerNonces_prune_expired_spec [OF 5(1), of t "retention l"] obtain n where
    "hm_get (pn_seen (PeerNonces_prune_expired t (retention l) s)) k =
      (if k \<in> set (drop n (pn_order s)) then hm_get (pn_seen s) k else None)"
    "hm_get (pn_seen s) k = Some e \<longrightarrow> t - e < retention l \<longrightarrow> k \<in> set (drop n (pn_order s))"
    by blast
  with 5(2,3) have "hm_contains (pn_seen (PeerNonces_prune_expired t (retention l) s)) k"
    by (simp add: hm_contains_def)
  then show ?case by (simp add: PeerNonces_check_and_insert_def)
next
  case (6 s k t)
  with bucket_step_accepts [of l s k t] show ?case by simp
next
  case (7 s j e t k)
  then show ?case using bucket_step_survive [of l s j e t k] by simp
qed (auto simp: pn_inv_def hm_keys_dom)

section \<open>The registry's invariant\<close>

definition rs_inv :: "ReplayLimits \<Rightarrow> ReplayState \<Rightarrow> bool" where
  "rs_inv l s \<longleftrightarrow> hm_wf (peers s) \<and> distinct (peer_order s)
     \<and> set (peer_order s) = hm_keys (peers s) \<and> length (peers s) \<le> max_peers l
     \<and> (\<forall>id p. hm_get (peers s) id = Some p \<longrightarrow> pn_inv (nonces_per_peer l) p)"

definition reg_inv :: "PeerReplayRegistry \<Rightarrow> bool" where
  "reg_inv r \<longleftrightarrow> ReplayLimits_validate (limits r) = Ok (limits r) \<and> rs_inv (limits r) (state r)"

lemma reg_inv_limits: "reg_inv r \<Longrightarrow> 0 < max_peers (limits r) \<and> 0 < nonces_per_peer (limits r)"
  by (auto simp: reg_inv_def ReplayLimits_validate_def)

lemma PeerNonces_default_inv: "0 < limit \<Longrightarrow> pn_inv limit PeerNonces_default"
  by (simp add: pn_inv_def PeerNonces_default_def)

lemma prune_expired_peers_inv:
  assumes "rs_inv l s"
  shows "rs_inv l (prune_expired_peers l now s)"
proof -
  let ?f = "\<lambda>_. PeerNonces_prune_expired now (retention l)"
  let ?kept = "hm_retain (\<lambda>_ p. pn_seen p \<noteq> []) (hm_map ?f (peers s))"
  have wf: "hm_wf (hm_map ?f (peers s))" using assms by (simp add: rs_inv_def)
  have sub: "hm_keys ?kept \<subseteq> hm_keys (peers s)"
    using hm_keys_retain_subset [of _ "hm_map ?f (peers s)"] by simp
  have "pn_inv (nonces_per_peer l) p" if "hm_get ?kept id = Some p" for id p
    using that assms PeerNonces_prune_expired_spec
    by (fastforce simp: hm_get_retain [OF wf] hm_get_map rs_inv_def split: option.splits if_splits)
  moreover have "length ?kept \<le> max_peers l"
    using assms hm_length_retain_le [of "\<lambda>_ p. pn_seen p \<noteq> []" "hm_map ?f (peers s)"]
    by (simp add: rs_inv_def)
  ultimately show ?thesis
    using assms wf sub by (auto simp: rs_inv_def prune_expired_peers_def hm_contains_iff Let_def)
qed

lemma make_room_inv:
  assumes "rs_inv l s" and "0 < max_peers l"
  shows "rs_inv l (make_room l now s) \<and> length (peers (make_room l now s)) < max_peers l
    \<and> hm_keys (peers (make_room l now s)) \<subseteq> hm_keys (peers s)"
proof -
  define s1 where "s1 = (if max_peers l \<le> length (peers s) then prune_expired_peers l now s else s)"
  have s1: "rs_inv l s1" using assms by (simp add: s1_def prune_expired_peers_inv)
  have keys: "hm_keys (peers s1) \<subseteq> hm_keys (peers s)"
    using hm_keys_retain_subset
    by (fastforce simp: s1_def prune_expired_peers_def Let_def split: if_splits)
  show ?thesis
  proof (cases "max_peers l \<le> length (peers s1)")
    case False
    with s1 keys show ?thesis by (simp add: make_room_def flip: s1_def)
  next
    case True
    with assms(2) have "hm_keys (peers s1) \<noteq> {}" by (auto simp: hm_keys_def)
    with s1 obtain x q where q: "peer_order s1 = x # q"
      by (cases "peer_order s1") (auto simp: rs_inv_def)
    then have eq: "make_room l now s = \<lparr>peers = hm_remove x (peers s1), peer_order = q\<rparr>"
      using True by (simp add: make_room_def flip: s1_def)
    have x: "x \<in> hm_keys (peers s1)" and "length (peers s1) = max_peers l"
      using s1 q True by (auto simp: rs_inv_def)
    then have "length (hm_remove x (peers s1)) < max_peers l"
      using s1 assms(2) by (simp add: rs_inv_def hm_length_remove)
    with s1 q keys show ?thesis
      unfolding eq by (auto simp: rs_inv_def split: if_splits)
  qed
qed

lemma make_room_id: "length (peers s) < max_peers l \<Longrightarrow> make_room l now s = s"
  by (simp add: make_room_def)

text \<open>A nonce recorded for a peer that is not tracked yet goes through the same bucket step.\<close>

lemma PeerNonces_fresh_insert:
  "0 < nonces_per_peer l \<Longrightarrow>
   PeerNonces_check_and_insert l nonce now PeerNonces_default =
     (PeerNonces_insert nonce now (nonces_per_peer l) PeerNonces_default, Ok ())"
  by (simp add: PeerNonces_check_and_insert_def PeerNonces_prune_expired_def PeerNonces_default_def
      hm_contains_def)

lemma peers_update: "s\<lparr>peers := m\<rparr> = \<lparr>peers = m, peer_order = peer_order s\<rparr>"
  by simp

lemma rs_inv_insert:
  assumes "rs_inv l s" and "pn_inv (nonces_per_peer l) p"
    and "i \<in> hm_keys (peers s) \<and> q = peer_order s \<or>
      i \<notin> hm_keys (peers s) \<and> length (peers s) < max_peers l \<and> q = peer_order s @ [i]"
  shows "rs_inv l \<lparr>peers = hm_insert i p (peers s), peer_order = q\<rparr>"
  using assms by (auto simp: rs_inv_def hm_length_insert insert_absorb)

lemma check_and_insert_reg_inv:
  assumes "reg_inv r"
  shows "reg_inv (fst (check_and_insert r peer nonce now))"
proof (cases "hm_get (peers (state r)) peer")
  case None
  let ?s = "make_room (limits r) now (state r)"
  let ?p = "PeerNonces_insert nonce now (nonces_per_peer (limits r)) PeerNonces_default"
  from assms have lim: "0 < max_peers (limits r)" "0 < nonces_per_peer (limits r)"
    by (simp_all add: reg_inv_limits)
  have s: "rs_inv (limits r) ?s \<and> length (peers ?s) < max_peers (limits r)
      \<and> hm_keys (peers ?s) \<subseteq> hm_keys (peers (state r))"
    using assms lim by (intro make_room_inv) (simp_all add: reg_inv_def)
  have "peer \<notin> hm_keys (peers ?s)" using s None by (auto simp: hm_keys_dom)
  moreover have "pn_inv (nonces_per_peer (limits r)) ?p"
    using PeerNonces_insert_spec [OF PeerNonces_default_inv [OF lim(2)], of nonce now]
    by (simp add: PeerNonces_default_def)
  ultimately have "rs_inv (limits r)
      \<lparr>peers = hm_insert peer ?p (peers ?s), peer_order = peer_order ?s @ [peer]\<rparr>"
    using s by (intro rs_inv_insert) auto
  with assms None show ?thesis
    by (simp add: check_and_insert_def reg_inv_def Let_def)
next
  case (Some p)
  have "pn_inv (nonces_per_peer (limits r)) (fst (PeerNonces_check_and_insert (limits r) nonce now p))"
    using bucket.step_inv [of "limits r" p nonce now] assms Some by (simp add: reg_inv_def rs_inv_def)
  then have "rs_inv (limits r)
      \<lparr>peers = hm_insert peer (fst (PeerNonces_check_and_insert (limits r) nonce now p))
         (peers (state r)), peer_order = peer_order (state r)\<rparr>"
    using assms Some by (intro rs_inv_insert) (auto simp: reg_inv_def hm_keys_dom)
  with assms Some show ?thesis
    by (simp add: check_and_insert_def reg_inv_def case_prod_beta peers_update)
qed

section \<open>No replay through the registry\<close>

text \<open>\<open>guarded m r peer nonce t\<close>: the nonce is recorded with time \<open>t\<close>, and neither it nor its
  peer can be evicted by the next \<open>m\<close> calls.\<close>

definition guarded :: "nat \<Rightarrow> PeerReplayRegistry \<Rightarrow> string \<Rightarrow> string \<Rightarrow> instant \<Rightarrow> bool" where
  "guarded m r peer nonce t \<longleftrightarrow>
     (case hm_get (peers (state r)) peer of
        None \<Rightarrow> False
      | Some b \<Rightarrow> hm_get (pn_seen b) nonce = Some t
          \<and> length (after nonce (pn_order b)) + m < nonces_per_peer (limits r)
          \<and> length (after peer (peer_order (state r))) + m < max_peers (limits r))"

lemma guardedE:
  assumes "guarded m r peer nonce t"
  obtains b where "hm_get (peers (state r)) peer = Some b" "hm_get (pn_seen b) nonce = Some t"
    "length (after nonce (pn_order b)) + m < nonces_per_peer (limits r)"
    "length (after peer (peer_order (state r))) + m < max_peers (limits r)"
  using assms by (auto simp: guarded_def split: option.splits)

lemma PeerNonces_prune_keeps:
  assumes "pn_inv limit b" and "hm_get (pn_seen b) n = Some t" and "now - t < ret"
  shows "hm_get (pn_seen (PeerNonces_prune_expired now ret b)) n = Some t
    \<and> after n (pn_order (PeerNonces_prune_expired now ret b)) = after n (pn_order b)"
proof -
  let ?b = "PeerNonces_prune_expired now ret b"
  from PeerNonces_prune_expired_spec [OF assms(1), of now ret] obtain d where
    d: "pn_order ?b = drop d (pn_order b)" "n \<in> set (drop d (pn_order b))"
    "hm_get (pn_seen ?b) n = hm_get (pn_seen b) n"
    using assms(2,3) by (metis (no_types, lifting))
  with assms show ?thesis by (simp add: after_drop pn_inv_def)
qed

lemma prune_expired_peers_keeps:
  assumes "rs_inv l s" and "hm_get (peers s) peer = Some b"
    and "hm_get (pn_seen b) n = Some t" and "now - t < retention l"
  shows "hm_get (peers (prune_expired_peers l now s)) peer =
      Some (PeerNonces_prune_expired now (retention l) b)
    \<and> length (after peer (peer_order (prune_expired_peers l now s)))
      \<le> length (after peer (peer_order s))"
proof -
  let ?pruned = "hm_map (\<lambda>_. PeerNonces_prune_expired now (retention l)) (peers s)"
  let ?kept = "hm_retain (\<lambda>_ p. pn_seen p \<noteq> []) ?pruned"
  have "pn_inv (nonces_per_peer l) b" using assms by (simp add: rs_inv_def)
  with assms have "pn_seen (PeerNonces_prune_expired now (retention l) b) \<noteq> []"
    using PeerNonces_prune_keeps by fastforce
  with assms have "hm_get ?kept peer = Some (PeerNonces_prune_expired now (retention l) b)"
    by (simp add: rs_inv_def hm_get_retain hm_get_map)
  moreover from this have "hm_contains ?kept peer" by (simp add: hm_contains_def)
  ultimately show ?thesis
    by (simp add: prune_expired_peers_def length_after_filter Let_def)
qed

lemma make_room_keeps:
  assumes "rs_inv l s" and "hm_get (peers s) peer = Some b"
    and "hm_get (pn_seen b) n = Some t" and "now - t < retention l"
    and "Suc (length (after peer (peer_order s))) < max_peers l"
  shows "\<exists>b'. hm_get (peers (make_room l now s)) peer = Some b'
    \<and> hm_get (pn_seen b') n = Some t \<and> after n (pn_order b') = after n (pn_order b)
    \<and> peer \<in> set (peer_order (make_room l now s))
    \<and> length (after peer (peer_order (make_room l now s))) \<le> length (after peer (peer_order s))"
proof -
  define s1 where "s1 = (if max_peers l \<le> length (peers s) then prune_expired_peers l now s else s)"
  have s1: "rs_inv l s1" using assms by (simp add: s1_def prune_expired_peers_inv)
  have "pn_inv (nonces_per_peer l) b" using assms by (simp add: rs_inv_def)
  note keeps = prune_expired_peers_keeps [OF assms(1-4)] PeerNonces_prune_keeps [OF this assms(3,4)]
  define b' where "b' = (if max_peers l \<le> length (peers s)
    then PeerNonces_prune_expired now (retention l) b else b)"
  have b': "hm_get (peers s1) peer = Some b'" "hm_get (pn_seen b') n = Some t"
    "after n (pn_order b') = after n (pn_order b)"
    "length (after peer (peer_order s1)) \<le> length (after peer (peer_order s))"
    using keeps assms(2,3) by (simp_all add: s1_def b'_def)
  have mem: "peer \<in> set (peer_order s1)" using s1 b' by (auto simp: rs_inv_def hm_keys_dom)
  show ?thesis
  proof (cases "max_peers l \<le> length (peers s1)")
    case False
    with b' mem show ?thesis by (simp add: make_room_def flip: s1_def)
  next
    case True
    from mem obtain x q where q: "peer_order s1 = x # q" by (cases "peer_order s1") auto
    have "length (peer_order s1) = length (peers s1)"
      using s1 by (metis distinct_card hm_length_card rs_inv_def)
    with True q b' assms(5) have "x \<noteq> peer" by (auto dest: length_after_hd)
    with b' q mem True show ?thesis by (simp add: make_room_def flip: s1_def)
  qed
qed

lemma guarded_step:
  assumes "reg_inv r" and "guarded (Suc m) r peer nonce t" and "now - t < retention (limits r)"
  shows "guarded m (fst (check_and_insert r p n now)) peer nonce t"
proof -
  from assms(2) obtain b where b: "hm_get (peers (state r)) peer = Some b"
    "hm_get (pn_seen b) nonce = Some t"
    "length (after nonce (pn_order b)) + Suc m < nonces_per_peer (limits r)"
    "length (after peer (peer_order (state r))) + Suc m < max_peers (limits r)"
    by (rule guardedE)
  have inv: "rs_inv (limits r) (state r)" "pn_inv (nonces_per_peer (limits r)) b"
    using assms(1) b(1) by (auto simp: reg_inv_def rs_inv_def)
  have same: "guarded m r peer nonce t" using b by (simp add: guarded_def)
  show ?thesis
  proof (cases "hm_get (peers (state r)) p")
    case (Some c)
    have "hm_get (pn_seen (fst (PeerNonces_check_and_insert (limits r) n now b))) nonce = Some t
        \<and> length (after nonce (pn_order (fst (PeerNonces_check_and_insert (limits r) n now b))))
          \<le> Suc (length (after nonce (pn_order b)))"
      using inv b assms(3) by (intro bucket_step_survive) auto
    then show ?thesis
      using same b Some by (auto simp: check_and_insert_def guarded_def case_prod_beta)
  next
    case None
    with b have "p \<noteq> peer" by auto
    moreover from make_room_keeps [OF inv(1) b(1,2) assms(3)] b(4)
    obtain b' where "hm_get (peers (make_room (limits r) now (state r))) peer = Some b'"
      "hm_get (pn_seen b') nonce = Some t" "after nonce (pn_order b') = after nonce (pn_order b)"
      "peer \<in> set (peer_order (make_room (limits r) now (state r)))"
      "length (after peer (peer_order (make_room (limits r) now (state r))))
         \<le> length (after peer (peer_order (state r)))" by auto
    ultimately show ?thesis
      using same b None by (auto simp: check_and_insert_def guarded_def Let_def after_snoc)
  qed
qed

lemma limits_check_and_insert [simp]: "limits (fst (check_and_insert r p n t)) = limits r"
  by (auto simp: check_and_insert_def Let_def case_prod_beta split: option.splits)

definition run_registry ::
  "(string \<times> string \<times> instant) list \<Rightarrow> PeerReplayRegistry \<Rightarrow> PeerReplayRegistry" where
  "run_registry ops r = fold (\<lambda>(p, n, t) r. fst (check_and_insert r p n t)) ops r"

lemma run_registry_inv:
  "reg_inv r \<Longrightarrow> reg_inv (run_registry ops r) \<and> limits (run_registry ops r) = limits r"
  unfolding run_registry_def
  by (induction ops arbitrary: r) (auto simp: check_and_insert_reg_inv)

lemma PeerReplayRegistry_new_inv:
  "PeerReplayRegistry_new l = Ok r \<Longrightarrow> reg_inv r \<and> limits r = l"
  by (auto simp: PeerReplayRegistry_new_def ReplayLimits_validate_def reg_inv_def rs_inv_def
      ReplayState_default_def)

lemma run_registry_guarded:
  "reg_inv r \<Longrightarrow> guarded m r peer nonce t \<Longrightarrow> length ops \<le> m \<Longrightarrow>
   \<forall>(p, n, u) \<in> set ops. u - t < retention (limits r) \<Longrightarrow>
   guarded (m - length ops) (run_registry ops r) peer nonce t"
proof (induction ops arbitrary: r m)
  case Nil
  then show ?case by (simp add: run_registry_def)
next
  case (Cons op ops)
  obtain p n u where op: "op = (p, n, u)" by (cases op)
  obtain k where k: "m = Suc k" using Cons.prems(3) by (cases m) auto
  have "guarded k (fst (check_and_insert r p n u)) peer nonce t"
    using Cons.prems op k by (intro guarded_step) auto
  with Cons.IH [of "fst (check_and_insert r p n u)" k] Cons.prems op k show ?case
    by (simp add: run_registry_def check_and_insert_reg_inv)
qed

lemma check_and_insert_accepts:
  assumes "reg_inv r" and "snd (check_and_insert r peer nonce t) = Ok ()"
  shows "\<exists>b. hm_get (peers (state (fst (check_and_insert r peer nonce t)))) peer = Some b
    \<and> hm_get (pn_seen b) nonce = Some t \<and> after nonce (pn_order b) = []"
proof (cases "hm_get (peers (state r)) peer")
  case None
  with assms(2) show ?thesis
    by (auto simp: check_and_insert_def Let_def PeerNonces_insert_def PeerNonces_default_def
        after_def split: if_splits)
next
  case (Some b)
  then have "pn_inv (nonces_per_peer (limits r)) b" using assms by (simp add: reg_inv_def rs_inv_def)
  from bucket_step_accepts(2,3) [OF this, of nonce t] Some assms(2) show ?thesis
    by (auto simp: check_and_insert_def case_prod_beta split: if_splits)
qed

lemma guarded_refuses:
  assumes "reg_inv r" and "guarded m r peer nonce t" and "now - t < retention (limits r)"
    and "peer \<noteq> []" and "nonce \<noteq> []" and "length nonce \<le> max_nonce_bytes (limits r)"
  shows "snd (check_and_insert r peer nonce now) = Err ''envelope replay detected''"
proof -
  from assms(2) obtain b where b: "hm_get (peers (state r)) peer = Some b"
    "hm_get (pn_seen b) nonce = Some t" by (rule guardedE)
  then have "pn_inv (nonces_per_peer (limits r)) b" using assms by (simp add: reg_inv_def rs_inv_def)
  from PeerNonces_prune_keeps [OF this b(2) assms(3)] b assms(4-) show ?thesis
    by (simp add: check_and_insert_def PeerNonces_check_and_insert_def hm_contains_def Let_def)
qed

section \<open>Properties\<close>

text \<open>C10: whatever sequence of calls a registry built by \<open>PeerReplayRegistry::new\<close> serves,
  accepted or refused, it never tracks more than \<open>max_peers\<close> peers or more than
  \<open>nonces_per_peer\<close> nonces of one peer, both at most the compiled-in ceilings, and its queues
  and maps stay in step (\<open>reg_inv\<close>): memory is bounded whatever peers send.\<close>

theorem registry_bounded:
  assumes "PeerReplayRegistry_new l = Ok r"
  shows "reg_inv (run_registry ops r)
    \<and> length (peers (state (run_registry ops r))) \<le> max_peers l \<and> max_peers l \<le> 10000
    \<and> (\<forall>peer b. hm_get (peers (state (run_registry ops r))) peer = Some b \<longrightarrow>
        length (pn_seen b) \<le> nonces_per_peer l \<and> nonces_per_peer l \<le> 1000)"
proof -
  from assms have r: "reg_inv r" "limits r = l" by (simp_all add: PeerReplayRegistry_new_inv)
  then have run: "reg_inv (run_registry ops r)" "limits (run_registry ops r) = l"
    using run_registry_inv by auto
  have "length (pn_seen b) \<le> nonces_per_peer l" if "pn_inv (nonces_per_peer l) b" for b
    using that by (metis distinct_card hm_length_card pn_inv_def)
  with run show ?thesis
    by (auto simp: reg_inv_def rs_inv_def ReplayLimits_validate_def replay_consts)
qed

text \<open>Witness of C10: the default limits, and a replayed nonce among the calls.\<close>

theorem registry_bounded_witness:
  "PeerReplayRegistry_new ReplayLimits_default =
     Ok \<lparr>limits = ReplayLimits_default, state = ReplayState_default\<rparr>
   \<and> length (peers (state (run_registry [(''a'', ''n1'', 3), (''a'', ''n1'', 4), (''b'', ''n2'', 5)]
       \<lparr>limits = ReplayLimits_default, state = ReplayState_default\<rparr>))) \<le> 10000"
proof -
  have new: "PeerReplayRegistry_new ReplayLimits_default =
     Ok \<lparr>limits = ReplayLimits_default, state = ReplayState_default\<rparr>"
    by (simp add: PeerReplayRegistry_new_def ReplayLimits_validate_def ReplayLimits_default_def
        replay_consts)
  with registry_bounded [OF new, of "[(''a'', ''n1'', 3), (''a'', ''n1'', 4), (''b'', ''n2'', 5)]"]
  show ?thesis by (simp add: ReplayLimits_default_def replay_consts)
qed

text \<open>C9: once \<open>check_and_insert\<close> has accepted a nonce of a peer at time \<open>t\<close>, the same nonce of
  that peer is refused with \<open>envelope replay detected\<close> at any time within the retention window,
  through any sequence of calls by any peers in between, as long as that sequence is too short to
  evict it: fewer than \<open>nonces_per_peer\<close> calls, and fewer than \<open>max_peers\<close> counted from the
  peer's place in the queue.\<close>

theorem registry_no_replay:
  assumes "reg_inv r"
    and "check_and_insert r peer nonce t = (r', Ok ())"
    and "\<forall>(p, n, u) \<in> set ops. u - t < retention (limits r)" and "t' - t < retention (limits r)"
    and "length ops < nonces_per_peer (limits r)"
    and "length (after peer (peer_order (state r'))) + length ops < max_peers (limits r)"
  shows "snd (check_and_insert (run_registry ops r') peer nonce t') = Err ''envelope replay detected''"
proof -
  have r': "r' = fst (check_and_insert r peer nonce t)" using assms(2) by simp
  have inv: "reg_inv r'" "limits r' = limits r"
    unfolding r' using assms(1) by (simp_all add: check_and_insert_reg_inv)
  have shape: "peer \<noteq> []" "nonce \<noteq> []" "length nonce \<le> max_nonce_bytes (limits r)"
    using assms(2) by (auto simp: check_and_insert_def split: if_splits)
  have "guarded (length ops) r' peer nonce t"
    using check_and_insert_accepts [OF assms(1), of peer nonce t] assms(2,5,6) inv
    by (auto simp: guarded_def)
  then have "guarded 0 (run_registry ops r') peer nonce t"
    using run_registry_guarded [of r' "length ops" peer nonce t ops] inv assms(3) by simp
  with run_registry_inv [OF inv(1), of ops] inv(2) assms(4) shape show ?thesis
    by (intro guarded_refuses) auto
qed

text \<open>Witness of C9: a registry of one peer, and two calls between the nonce and its replay.\<close>

definition one_peer :: PeerReplayRegistry where
  "one_peer = fst (check_and_insert \<lparr>limits = ReplayLimits_default, state = ReplayState_default\<rparr>
     ''a'' ''n0'' 1)"

lemmas registry_eval = check_and_insert_def PeerNonces_check_and_insert_def
  PeerNonces_prune_expired_def PeerNonces_insert_def make_room_def hm_contains_def hm_insert_def
  ReplayLimits_default_def replay_consts

lemma one_peer_eval: "one_peer = \<lparr>limits = ReplayLimits_default,
    state = \<lparr>peers = [(''a'', \<lparr>pn_seen = [(''n0'', 1)], pn_order = [''n0'']\<rparr>)], peer_order = [''a'']\<rparr>\<rparr>"
  by (simp add: one_peer_def registry_eval ReplayState_default_def PeerNonces_default_def)

lemma one_peer_inv: "reg_inv one_peer \<and> limits one_peer = ReplayLimits_default"
proof -
  have "PeerReplayRegistry_new ReplayLimits_default =
     Ok \<lparr>limits = ReplayLimits_default, state = ReplayState_default\<rparr>"
    by (simp add: PeerReplayRegistry_new_def ReplayLimits_validate_def ReplayLimits_default_def
        replay_consts)
  from PeerReplayRegistry_new_inv [OF this] show ?thesis
    by (simp add: one_peer_def check_and_insert_reg_inv)
qed

theorem registry_no_replay_witness:
  "snd (check_and_insert (run_registry [(''b'', ''n1'', 4), (''a'', ''n2'', 5)]
     (fst (check_and_insert one_peer ''a'' ''n1'' 3))) ''a'' ''n1'' 6) = Err ''envelope replay detected''"
proof (rule registry_no_replay [of one_peer _ _ 3])
  show "check_and_insert one_peer ''a'' ''n1'' 3 =
      (fst (check_and_insert one_peer ''a'' ''n1'' 3), Ok ())"
    by (simp add: one_peer_eval registry_eval)
  show "length (after ''a'' (peer_order (state (fst (check_and_insert one_peer ''a'' ''n1'' 3)))))
      + length [(''b'', ''n1'', 4), (''a'', ''n2'', 5)] < max_peers (limits one_peer)"
    by (simp add: one_peer_eval registry_eval)
qed (simp_all add: one_peer_inv ReplayLimits_default_def replay_consts)

end
