(* ===== verification/Crypto_Lib.thy ===== *)
theory Crypto_Lib
  imports Prelude
begin

text \<open>
  \<open>shared/crypto/src/domain.rs\<close> and \<open>shared/crypto/src/lib.rs\<close>: signature domains, domain-bound
  signatures, and the blob sealed to a recipient's X25519 key. The primitives come from other
  crates (base64, ed25519-dalek, x25519-dalek, blake3, chacha20poly1305): they are the fields of
  the record \<open>crates\<close>, an argument of every definition that uses them. The laws the code relies
  on are the predicates of the section on the primitives. Random bytes are arguments.

  The locale \<open>signed_message\<close> is the contract of podmesh's signed message types; each message
  theory interprets it on its own \<open>verify\<close> and gets authenticity and the sign/verify round trip.
\<close>

section \<open>Primitives\<close>

record crates =
  base64_encode :: "bytes \<Rightarrow> string"
  base64_decode :: "string \<Rightarrow> bytes res"
  ed_public :: "bytes \<Rightarrow> bytes"
  ed_sign :: "bytes \<Rightarrow> bytes \<Rightarrow> bytes"
  ed_from_bytes :: "bytes \<Rightarrow> unit res"
  ed_is_weak :: "bytes \<Rightarrow> bool"
  ed_verify_strict :: "bytes \<Rightarrow> bytes \<Rightarrow> bytes \<Rightarrow> unit res"
  x_public :: "bytes \<Rightarrow> bytes"
  x_diffie_hellman :: "bytes \<Rightarrow> bytes \<Rightarrow> bytes"
  x_was_contributory :: "bytes \<Rightarrow> bool"
  blake3_derive_key :: "string \<Rightarrow> bytes \<Rightarrow> bytes"
  blake3_hex :: "bytes \<Rightarrow> string"
  aead_encrypt :: "bytes \<Rightarrow> bytes \<Rightarrow> bytes \<Rightarrow> bytes \<Rightarrow> bytes res"
  aead_decrypt :: "bytes \<Rightarrow> bytes \<Rightarrow> bytes \<Rightarrow> bytes \<Rightarrow> bytes res"

text \<open>What the documentation of those crates promises. \<open>ed_key\<close>: the key a 32-byte secret yields is
  a valid point of full order and its signatures verify. \<open>signed_by C log\<close> is unforgeability: a
  signature that verifies strictly was made by one of the calls of \<open>sign_domain\<close> in \<open>log\<close>, each
  given by its secret key, domain and message; it is stated on the bytes that were signed.\<close>

definition base64_law :: "crates \<Rightarrow> bool" where
  "base64_law C \<longleftrightarrow> (\<forall>b. base64_decode C (base64_encode C b) = Ok b)"

definition ed_key :: "crates \<Rightarrow> bytes \<Rightarrow> bool" where
  "ed_key C sk \<longleftrightarrow> length sk = 32 \<and> length (ed_public C sk) = 32
     \<and> ed_from_bytes C (ed_public C sk) = Ok () \<and> \<not> ed_is_weak C (ed_public C sk)
     \<and> (\<forall>m. length (ed_sign C sk m) = 64
          \<and> ed_verify_strict C (ed_public C sk) m (ed_sign C sk m) = Ok ())"

definition x_law :: "crates \<Rightarrow> bool" where
  "x_law C \<longleftrightarrow> (\<forall>a. length (x_public C a) = 32)
     \<and> (\<forall>a b. x_diffie_hellman C a (x_public C b) = x_diffie_hellman C b (x_public C a))"

definition aead_law :: "crates \<Rightarrow> bool" where
  "aead_law C \<longleftrightarrow> (\<forall>k n a m. length m < 2 ^ 32 \<longrightarrow> (\<exists>c. aead_encrypt C k n a m = Ok c \<and> length c = length m + 16
     \<and> aead_decrypt C k n a c = Ok m))"

section \<open>Signature domains\<close>

datatype SignatureDomain =
    D_AdmissionRequest | D_Reservation | D_DeploymentGrant | D_DeploymentReceipt
  | D_UpdateRequest | D_UpdateResponse | D_WorkloadCommand | D_WorkloadCommandResponse
  | D_WorkloadListRequest | D_WorkloadListResponse | D_AgentLocationQuery
  | D_SchedulerReconciliationQuery | D_SchedulerReconciliationResponse
  | D_CapacityQuery | D_CapacityOffer | D_EndpointRecord | D_ConnectorIdentity
  | D_ServiceCatalog | D_ReplicaServiceRecord | D_MachineRelayGrant
  | D_AgentAttachmentHello | D_WorkloadEnvelope | D_SidecarRegistration

fun label :: "SignatureDomain \<Rightarrow> string" where
  "label D_AdmissionRequest = ''podmesh/sig/v1/admission-request''"
| "label D_Reservation = ''podmesh/sig/v1/reservation''"
| "label D_DeploymentGrant = ''podmesh/sig/v1/deployment-grant''"
| "label D_DeploymentReceipt = ''podmesh/sig/v1/deployment-receipt''"
| "label D_UpdateRequest = ''podmesh/sig/v1/update-request''"
| "label D_UpdateResponse = ''podmesh/sig/v1/update-response''"
| "label D_WorkloadCommand = ''podmesh/sig/v1/workload-command''"
| "label D_WorkloadCommandResponse = ''podmesh/sig/v1/workload-command-response''"
| "label D_WorkloadListRequest = ''podmesh/sig/v1/workload-list-request''"
| "label D_WorkloadListResponse = ''podmesh/sig/v1/workload-list-response''"
| "label D_AgentLocationQuery = ''podmesh/sig/v1/agent-location-query''"
| "label D_SchedulerReconciliationQuery = ''podmesh/sig/v1/scheduler-reconciliation-query''"
| "label D_SchedulerReconciliationResponse = ''podmesh/sig/v1/scheduler-reconciliation-response''"
| "label D_CapacityQuery = ''podmesh/sig/v1/capacity-query''"
| "label D_CapacityOffer = ''podmesh/sig/v1/capacity-offer''"
| "label D_EndpointRecord = ''podmesh/sig/v1/endpoint-record''"
| "label D_ConnectorIdentity = ''podmesh/sig/v1/connector-identity''"
| "label D_ServiceCatalog = ''podmesh/sig/v1/service-catalog''"
| "label D_ReplicaServiceRecord = ''podmesh/sig/v1/replica-service-record''"
| "label D_MachineRelayGrant = ''podmesh/sig/v1/machine-relay-grant''"
| "label D_AgentAttachmentHello = ''podmesh/sig/v1/agent-attachment-hello''"
| "label D_WorkloadEnvelope = ''podmesh/sig/v1/workload-envelope''"
| "label D_SidecarRegistration = ''podmesh/sig/v1/sidecar-registration''"

definition sig_bind :: "SignatureDomain \<Rightarrow> bytes \<Rightarrow> bytes" where
  "sig_bind d message =
     to_le_bytes16 (word_of_nat (length (label d))) @ str_bytes (label d) @ message"

definition signed_by :: "crates \<Rightarrow> (bytes \<times> SignatureDomain \<times> bytes) set \<Rightarrow> bool" where
  "signed_by C log \<longleftrightarrow> (\<forall>pk m sig. ed_verify_strict C pk m sig = Ok () \<longrightarrow>
     (\<exists>sk d m'. (sk, d, m') \<in> log \<and> pk = ed_public C sk \<and> m = sig_bind d m'))"

section \<open>Signatures\<close>

definition b64_encode :: "crates \<Rightarrow> bytes \<Rightarrow> string" where
  "b64_encode C data = base64_encode C data"

definition b64_decode :: "crates \<Rightarrow> string \<Rightarrow> bytes res" where
  "b64_decode C data =
     map_err (\<lambda>e. ''base64 decode error: '' @ e) (base64_decode C data)"

definition signing_key_from :: "bytes \<Rightarrow> bytes res" where
  "signing_key_from sk =
     ensure (length sk = 32)
       (''Invalid private key size: expected 32, got '' @ nat_str (length sk)) (Ok sk)"

definition verifying_key_from :: "crates \<Rightarrow> bytes \<Rightarrow> bytes res" where
  "verifying_key_from C pk =
     ensure (length pk = 32)
       (''Invalid public key size: expected 32, got '' @ nat_str (length pk)) (
     try_r (map_err (\<lambda>e. ''Invalid public key: '' @ e) (ed_from_bytes C pk)) (\<lambda>_.
     ensure (\<not> ed_is_weak C pk) ''Ed25519 public key is of small order'' (Ok pk)))"

definition sign_domain :: "crates \<Rightarrow> bytes \<Rightarrow> SignatureDomain \<Rightarrow> bytes \<Rightarrow> bytes res" where
  "sign_domain C sk d message =
     try_r (signing_key_from sk) (\<lambda>key. Ok (ed_sign C key (sig_bind d message)))"

definition verify_domain ::
  "crates \<Rightarrow> bytes \<Rightarrow> SignatureDomain \<Rightarrow> bytes \<Rightarrow> bytes \<Rightarrow> unit res" where
  "verify_domain C pk d message sig =
     ensure (length sig = 64)
       (''Invalid signature size: expected 64, got '' @ nat_str (length sig)) (
     try_r (verifying_key_from C pk) (\<lambda>key.
       map_err (\<lambda>e. ''signature verification failed: '' @ e)
         (ed_verify_strict C key (sig_bind d message) sig)))"

definition sign_domain_b64 ::
  "crates \<Rightarrow> bytes \<Rightarrow> bytes \<Rightarrow> SignatureDomain \<Rightarrow> bytes \<Rightarrow> (string \<times> string) res" where
  "sign_domain_b64 C sk pk d message =
     ensure (length pk = 32)
       (''Invalid public key size: expected 32, got '' @ nat_str (length pk)) (
     try_r (sign_domain C sk d message) (\<lambda>sig. Ok (b64_encode C sig, b64_encode C pk)))"

section \<open>Sealed blobs\<close>

text \<open>\<open>[version 1][ephemeral_pub 32][nonce 24][ctlen 4][ciphertext]\<close>. The key is an array of 32
  bytes by type, so \<open>new_from_slice\<close> does not fail.\<close>

definition KEM_KDF_CONTEXT :: string where
  "KEM_KDF_CONTEXT = ''podmesh 2026-01-01 sealed-box v4 xchacha20poly1305 key''"
definition SEALED_BLOB_VERSION :: u8 where "SEALED_BLOB_VERSION = 4"
definition SEALED_HEADER_LEN :: nat where "SEALED_HEADER_LEN = 1 + 32 + 24 + 4"

definition kem_key_bytes :: "bytes \<Rightarrow> string \<Rightarrow> bytes res" where
  "kem_key_bytes b what =
     ensure (length b = 32) (''invalid '' @ what @ '': expected 32 bytes'') (Ok b)"

definition derive_sealed_key :: "crates \<Rightarrow> bytes \<Rightarrow> bytes \<Rightarrow> bytes \<Rightarrow> bytes" where
  "derive_sealed_key C shared eph recipient =
     blake3_derive_key C KEM_KDF_CONTEXT (shared @ eph @ recipient)"

definition encapsulate_to_pubkey :: "crates \<Rightarrow> bytes \<Rightarrow> bytes \<Rightarrow> (bytes \<times> bytes) res" where
  "encapsulate_to_pubkey C eph_secret pk =
     try_r (kem_key_bytes pk ''recipient public key'') (\<lambda>recipient.
       let shared = x_diffie_hellman C eph_secret recipient
       in ensure (x_was_contributory C shared)
            ''recipient X25519 public key is low order and yields a predictable shared secret''
            (Ok (x_public C eph_secret, shared)))"

definition decapsulate_share :: "crates \<Rightarrow> bytes \<Rightarrow> bytes \<Rightarrow> bytes res" where
  "decapsulate_share C sk eph_pub =
     try_r (kem_key_bytes sk ''private key'') (\<lambda>ours.
     try_r (kem_key_bytes eph_pub ''ephemeral public key'') (\<lambda>theirs.
       let shared = x_diffie_hellman C ours theirs
       in ensure (x_was_contributory C shared)
            ''sender X25519 ephemeral key is low order and yields a predictable shared secret''
            (Ok shared)))"

definition encrypt_payload_for_recipient ::
  "crates \<Rightarrow> bytes \<Rightarrow> bytes \<Rightarrow> bytes \<Rightarrow> bytes \<Rightarrow> bytes res" where
  "encrypt_payload_for_recipient C eph_secret nonce_bytes recipient_pub payload =
     try_r (encapsulate_to_pubkey C eph_secret recipient_pub) (\<lambda>(ephemeral_pub, shared).
       let key = derive_sealed_key C shared ephemeral_pub recipient_pub
       in ensure (length payload + 16 < 2 ^ 32) ''payload too large to seal'' (
         let ciphertext_len = word_of_nat (length payload + 16) :: u32;
             header = [SEALED_BLOB_VERSION] @ ephemeral_pub @ nonce_bytes
               @ to_be_bytes32 ciphertext_len
         in try_r (map_err (\<lambda>e. ''XChaCha20-Poly1305 encrypt error: '' @ e)
                (aead_encrypt C key nonce_bytes header payload)) (\<lambda>ciphertext.
            ensure (length ciphertext = unat ciphertext_len)
              ''sealed ciphertext length disagrees with the authenticated header''
              (Ok (header @ ciphertext)))))"

definition decrypt_payload_from_recipient_blob :: "crates \<Rightarrow> bytes \<Rightarrow> bytes \<Rightarrow> bytes res" where
  "decrypt_payload_from_recipient_blob C blob sk =
     ensure (SEALED_HEADER_LEN \<le> length blob) ''sealed blob too short'' (
     ensure (hd blob = SEALED_BLOB_VERSION)
       (''unsupported sealed-blob version: '' @ nat_str (unat (hd blob))) (
     let ephemeral_pub = take 32 (drop 1 blob);
         nonce_bytes = take 24 (drop 33 blob);
         declared_len = from_be_bytes 0 (take 4 (drop 57 blob));
         ciphertext = drop SEALED_HEADER_LEN blob
     in ensure (length ciphertext = declared_len)
          (''sealed blob length '' @ nat_str (length ciphertext)
           @ '' disagrees with declared ciphertext length '' @ nat_str declared_len) (
        try_r (decapsulate_share C sk ephemeral_pub) (\<lambda>shared.
        try_r (kem_key_bytes sk ''private key'') (\<lambda>recipient_secret.
          let key = derive_sealed_key C shared ephemeral_pub (x_public C recipient_secret)
          in map_err (\<lambda>e. ''XChaCha20-Poly1305 decrypt error: '' @ e)
               (aead_decrypt C key nonce_bytes (take SEALED_HEADER_LEN blob) ciphertext))))))"

definition encrypt_payload_with_key ::
  "crates \<Rightarrow> bytes \<Rightarrow> bytes \<Rightarrow> bytes \<Rightarrow> (bytes \<times> bytes) res" where
  "encrypt_payload_with_key C nonce_bytes key payload =
     try_r (map_err (\<lambda>e. ''XChaCha20-Poly1305 encrypt error: '' @ e)
         (aead_encrypt C key nonce_bytes [] payload)) (\<lambda>ciphertext.
       Ok (ciphertext, nonce_bytes))"

definition decrypt_payload_with_key :: "crates \<Rightarrow> bytes \<Rightarrow> bytes \<Rightarrow> bytes \<Rightarrow> bytes res" where
  "decrypt_payload_with_key C key nonce_bytes ciphertext =
     ensure (length nonce_bytes = 24)
       (''invalid nonce length: '' @ nat_str (length nonce_bytes) @ '' (expected 24)'') (
     map_err (\<lambda>e. ''XChaCha20-Poly1305 decrypt error: '' @ e)
       (aead_decrypt C key nonce_bytes [] ciphertext))"

section \<open>Lemmas\<close>

lemma b64_decode_encode [simp]: "base64_law C \<Longrightarrow> b64_decode C (b64_encode C b) = Ok b"
  by (simp add: base64_law_def b64_decode_def b64_encode_def)

definition ALL_DOMAINS :: "SignatureDomain list" where
  "ALL_DOMAINS =
     [D_AdmissionRequest, D_Reservation, D_DeploymentGrant, D_DeploymentReceipt, D_UpdateRequest,
      D_UpdateResponse, D_WorkloadCommand, D_WorkloadCommandResponse, D_WorkloadListRequest,
      D_WorkloadListResponse, D_AgentLocationQuery, D_SchedulerReconciliationQuery,
      D_SchedulerReconciliationResponse, D_CapacityQuery, D_CapacityOffer, D_EndpointRecord,
      D_ConnectorIdentity, D_ServiceCatalog, D_ReplicaServiceRecord, D_MachineRelayGrant,
      D_AgentAttachmentHello, D_WorkloadEnvelope, D_SidecarRegistration]"

lemma ALL_DOMAINS_complete: "d \<in> set ALL_DOMAINS"
  by (cases d) (simp_all add: ALL_DOMAINS_def)

lemma labels_distinct: "distinct (map label ALL_DOMAINS)"
  by code_simp

lemma label_inj: "label d = label d' \<longleftrightarrow> d = d'"
  using labels_distinct ALL_DOMAINS_complete by (auto simp: distinct_map dest: inj_onD)

lemma length_label: "length (label d) < 100"
  by (cases d) simp_all

lemma sig_bind_inj [simp]: "sig_bind d m = sig_bind d' m' \<longleftrightarrow> d = d' \<and> m = m'"
proof
  assume eq: "sig_bind d m = sig_bind d' m'"
  then have "to_le_bytes16 (word_of_nat (length (label d))) =
      to_le_bytes16 (word_of_nat (length (label d')))"
    and rest: "str_bytes (label d) @ m = str_bytes (label d') @ m'"
    by (simp_all add: sig_bind_def to_le_bytes16_def)
  then have "(word_of_nat (length (label d)) :: u16) = word_of_nat (length (label d'))" by simp
  then have "length (label d) = length (label d')"
    using length_label [of d] length_label [of d'] by (simp add: word_unat_eq_iff unat_of_nat)
  with rest have "str_bytes (label d) = str_bytes (label d') \<and> m = m'"
    by (simp add: append_eq_append_conv)
  then show "d = d' \<and> m = m'" by (simp add: label_inj)
qed simp

lemma verify_domain_Ok_iff:
  "verify_domain C pk d m sig = Ok () \<longleftrightarrow>
     length sig = 64 \<and> length pk = 32 \<and> ed_from_bytes C pk = Ok () \<and> \<not> ed_is_weak C pk
     \<and> ed_verify_strict C pk (sig_bind d m) sig = Ok ()"
  by (auto simp: verify_domain_def verifying_key_from_def split: result.splits)

lemma verify_domain_authentic:
  assumes "signed_by C log" and "verify_domain C pk d m sig = Ok ()"
  shows "\<exists>sk. (sk, d, m) \<in> log \<and> pk = ed_public C sk"
  using assms by (fastforce simp: signed_by_def verify_domain_Ok_iff)

lemma sign_verify_domain:
  assumes "ed_key C sk"
  shows "\<exists>sig. sign_domain C sk d m = Ok sig \<and> length sig = 64
    \<and> verify_domain C (ed_public C sk) d m sig = Ok ()"
  using assms by (simp add: ed_key_def sign_domain_def signing_key_from_def verify_domain_Ok_iff)

section \<open>The contract of a signed message\<close>

text \<open>A message type names the key it is verified under (\<open>key\<close>, base64), carries a base64
  signature (\<open>sig\<close>) over its encoding with the signature left out (\<open>canon\<close>), and \<open>verify\<close>
  accepts it when its other fields pass their checks (\<open>wf\<close>) and the signature is good.\<close>

locale signed_message =
  fixes C :: crates
    and domain :: SignatureDomain
    and canon :: "'m \<Rightarrow> bytes res"
    and key :: "'m \<Rightarrow> string"
    and sig :: "'m \<Rightarrow> string"
    and with_sig :: "string \<Rightarrow> 'm \<Rightarrow> 'm"
    and wf :: "'m \<Rightarrow> bool"
    and verify :: "'m \<Rightarrow> unit res"
  assumes verify_iff: "verify m = Ok () \<longleftrightarrow> wf m \<and>
      (\<exists>pk s b. b64_decode C (key m) = Ok pk \<and> length pk = 32 \<and> b64_decode C (sig m) = Ok s
         \<and> length s = 64 \<and> canon m = Ok b \<and> verify_domain C pk domain b s = Ok ())"
    and with_sig_wf: "wf (with_sig s m) = wf m"
    and with_sig_key: "key (with_sig s m) = key m"
    and with_sig_sig: "sig (with_sig s m) = s"
    and with_sig_canon: "canon (with_sig s m) = canon m"
begin

lemma verified_wf: "verify m = Ok () \<Longrightarrow> wf m"
  by (simp add: verify_iff)

text \<open>Signing with the key the message names makes a well-formed message verify.\<close>

lemma sign_then_verify:
  assumes "base64_law C" and "ed_key C sk" and "key m = b64_encode C (ed_public C sk)"
    and "wf m" and "canon m = Ok b"
  shows "\<exists>s. sign_domain C sk domain b = Ok s \<and> verify (with_sig (b64_encode C s) m) = Ok ()"
proof -
  from assms(2) have pk: "length (ed_public C sk) = 32" by (simp add: ed_key_def)
  from sign_verify_domain [OF assms(2), of domain b] obtain s where
    "sign_domain C sk domain b = Ok s" "length s = 64"
    "verify_domain C (ed_public C sk) domain b s = Ok ()" by blast
  with assms pk show ?thesis
    by (simp add: verify_iff with_sig_wf with_sig_key with_sig_sig with_sig_canon)
qed

text \<open>A message that verifies was signed, as a message of this very type and with these very bytes,
  by the holder of the key it names.\<close>

lemma authentic:
  assumes "signed_by C log" and "verify m = Ok ()"
  shows "\<exists>sk b. b64_decode C (key m) = Ok (ed_public C sk) \<and> canon m = Ok b \<and> (sk, domain, b) \<in> log"
  using assms verify_domain_authentic by (fastforce simp: verify_iff)

text \<open>When canonical encodings tell messages apart up to the signature, every field of a message
  that verifies is a field of a message the holder issued.\<close>

lemma authentic_fields:
  assumes "signed_by C log" and "verify m = Ok ()"
    and "\<And>sk b. (sk, domain, b) \<in> log \<Longrightarrow> \<exists>m0. (sk, m0) \<in> issued \<and> canon m0 = Ok b"
    and "\<And>m m' b. canon m = Ok b \<Longrightarrow> canon m' = Ok b \<Longrightarrow> with_sig [] m = with_sig [] m'"
  shows "\<exists>sk m0. (sk, m0) \<in> issued \<and> b64_decode C (key m) = Ok (ed_public C sk)
    \<and> with_sig [] m = with_sig [] m0"
proof -
  from authentic [OF assms(1,2)] obtain sk b where
    "b64_decode C (key m) = Ok (ed_public C sk)" "canon m = Ok b" "(sk, domain, b) \<in> log" by blast
  with assms(3) [of sk b] assms(4) [of m b] show ?thesis by blast
qed

text \<open>A message whose signature does not decode, or that names no decodable key, is refused.\<close>

lemma unsigned_refused: "b64_decode C (sig m) = Err e \<Longrightarrow> \<exists>e'. verify m = Err e'"
  using verify_iff [of m] by (cases "verify m") auto

end

section \<open>Properties\<close>


text \<open>An instance of the primitives, for the witnesses: a signature is checked against the one
  signing call of \<open>toy_log\<close>, the shared secret is the bytewise sum of the two keys, and the
  cipher appends sixteen bytes derived from its key.\<close>

definition toy_add :: "bytes \<Rightarrow> bytes \<Rightarrow> bytes" where
  "toy_add a b = map (\<lambda>i. (if i < length a then a ! i else 0) + (if i < length b then b ! i else 0)) [0..<32]"

definition toy_crates :: "(bytes \<Rightarrow> bytes \<Rightarrow> bytes \<Rightarrow> bool) \<Rightarrow> crates" where
  "toy_crates ok =
     \<lparr>base64_encode = map (\<lambda>b. char_of (unat b)),
      base64_decode = (\<lambda>s. Ok (str_bytes s)),
      ed_public = (\<lambda>sk. sk),
      ed_sign = (\<lambda>sk m. replicate 64 0),
      ed_from_bytes = (\<lambda>_. Ok ()),
      ed_is_weak = (\<lambda>_. False),
      ed_verify_strict = (\<lambda>pk m s. if ok pk m s then Ok () else Err ''bad''),
      x_public = (\<lambda>a. toy_add a []),
      x_diffie_hellman = (\<lambda>a b. toy_add a b),
      x_was_contributory = (\<lambda>_. True),
      blake3_derive_key = (\<lambda>c b. b),
      blake3_hex = (\<lambda>b. replicate 64 CHR ''a''),
      aead_encrypt = (\<lambda>k n a m. Ok (m @ replicate 16 (sum_list k))),
      aead_decrypt = (\<lambda>k n a c. if 16 \<le> length c \<and> drop (length c - 16) c = replicate 16 (sum_list k)
        then Ok (take (length c - 16) c) else Err ''tag mismatch'')\<rparr>"


lemma toy_base64: "base64_law (toy_crates ok)"
proof -
  have "unat b mod 256 = unat b" for b :: u8 using unat_less_pow [of b] by simp
  then have "str_bytes (map (\<lambda>b. char_of (unat b)) bs) = bs" for bs :: bytes
    by (induction bs) (auto simp: str_bytes_def)
  then show ?thesis by (simp add: base64_law_def toy_crates_def)
qed

lemma toy_x_law: "x_law (toy_crates ok)"
  by (auto simp: x_law_def toy_crates_def toy_add_def)

lemma toy_aead_law: "aead_law (toy_crates ok)"
  by (simp add: aead_law_def toy_crates_def)

lemma toy_ed_key: "length sk = 32 \<Longrightarrow> ed_key (toy_crates (\<lambda>_ _ _. True)) sk"
  by (simp add: ed_key_def toy_crates_def)

text \<open>The instance whose signatures are exactly those of a given log of signing calls.\<close>

definition accepting :: "(bytes \<times> SignatureDomain \<times> bytes) list \<Rightarrow> crates" where
  "accepting log = toy_crates (\<lambda>pk m s. list_ex (\<lambda>(sk, d, b). pk = sk \<and> m = sig_bind d b) log)"

definition toy_b64 :: "bytes \<Rightarrow> string" where
  "toy_b64 b = map (\<lambda>b. char_of (unat b)) b"

lemma b64_encode_toy: "b64_encode (toy_crates ok) b = toy_b64 b"
  by (simp add: b64_encode_def toy_crates_def toy_b64_def)

lemma b64_encode_accepting [simp]: "b64_encode (accepting log) b = toy_b64 b"
  by (simp add: accepting_def b64_encode_toy)

lemma length_toy_b64 [simp]: "length (toy_b64 b) = length b"
  by (simp add: toy_b64_def)

lemma accepting_signed: "signed_by (accepting log) (set log)"
  by (auto simp: signed_by_def accepting_def toy_crates_def list_ex_iff split: if_splits)

lemma accepting_verify:
  "(pk, d, b) \<in> set log \<Longrightarrow> length pk = 32 \<Longrightarrow>
   verify_domain (accepting log) pk d b (replicate 64 0) = Ok ()"
  by (auto simp: verify_domain_Ok_iff accepting_def toy_crates_def list_ex_iff)

lemma accepting_b64 [simp]: "b64_decode (accepting log) (toy_b64 b) = Ok b"
  using b64_decode_encode [OF toy_base64] unfolding accepting_def b64_encode_toy by blast

lemma accepting_prims [simp]:
  "ed_public (accepting log) sk = sk" "blake3_hex (accepting log) b = replicate 64 CHR ''a''"
  by (simp_all add: accepting_def toy_crates_def)

text \<open>The shape of a blob that opens.\<close>

lemma decrypt_blob_shape:
  assumes "decrypt_payload_from_recipient_blob C blob sk = Ok p"
  shows "61 \<le> length blob" and "hd blob = SEALED_BLOB_VERSION"
    and "length blob - 61 = from_be_bytes 0 (take 4 (drop 57 blob))"
  using assms unfolding decrypt_payload_from_recipient_blob_def SEALED_HEADER_LEN_def Let_def
    ensure_Ok_iff length_drop by (elim conjE, simp)+

lemma seal_then_open:
  assumes "x_law C" and "aead_law C" and "length sk = 32" and "length nonce = 24"
    and "length payload + 16 < 2 ^ 32"
    and "x_was_contributory C (x_diffie_hellman C eph (x_public C sk))"
  shows "\<exists>blob. encrypt_payload_for_recipient C eph nonce (x_public C sk) payload = Ok blob
    \<and> decrypt_payload_from_recipient_blob C blob sk = Ok payload"
proof -
  let ?e = "x_public C eph" and ?dh = "x_diffie_hellman C eph (x_public C sk)"
  let ?key = "derive_sealed_key C ?dh ?e (x_public C sk)"
  define L :: u32 where L: "L = word_of_nat (length payload + 16)"
  let ?h = "[SEALED_BLOB_VERSION] @ ?e @ nonce @ to_be_bytes32 L"
  have pk: "length (x_public C sk) = 32" "length ?e = 32" using assms(1) by (simp_all add: x_law_def)
  have dh: "x_diffie_hellman C sk ?e = ?dh" using assms(1) by (simp add: x_law_def)
  have len: "unat L = length payload + 16"
    using assms(5) unfolding L by (simp add: unat_of_nat del: of_nat_add)
  obtain ct where ct: "aead_encrypt C ?key nonce ?h payload = Ok ct"
    "length ct = length payload + 16" "aead_decrypt C ?key nonce ?h ct = Ok payload"
    using assms(2,5) unfolding aead_law_def by (metis add_lessD1)
  have enc: "encrypt_payload_for_recipient C eph nonce (x_public C sk) payload = Ok (?h @ ct)"
    using pk assms(5,6) ct len
    by (simp add: encrypt_payload_for_recipient_def encapsulate_to_pubkey_def kem_key_bytes_def
        Let_def flip: L del: of_nat_add)
  have parts: "take 32 (drop 1 (?h @ ct)) = ?e" "take 24 (drop 33 (?h @ ct)) = nonce"
    "take 4 (drop 57 (?h @ ct)) = to_be_bytes32 L"
    "drop SEALED_HEADER_LEN (?h @ ct) = ct" "take SEALED_HEADER_LEN (?h @ ct) = ?h"
    "length ?h = SEALED_HEADER_LEN"
    using pk assms(4) by (simp_all add: SEALED_HEADER_LEN_def)
  have "decrypt_payload_from_recipient_blob C (?h @ ct) sk = Ok payload"
    unfolding decrypt_payload_from_recipient_blob_def Let_def parts(1-5) from_to_be_bytes32 len
    using parts(6) assms(3,6) pk ct dh by (simp add: decapsulate_share_def kem_key_bytes_def)
  with enc show ?thesis by blast
qed

text \<open>Witness of C13.\<close>

lemma toy_blob_opens:
  "\<exists>blob. decrypt_payload_from_recipient_blob (toy_crates (\<lambda>_ _ _. True)) blob (replicate 32 3) = Ok [1, 2, 3]"
  using seal_then_open [OF toy_x_law toy_aead_law, of "replicate 32 3" "replicate 24 9" "[1, 2, 3]"
      "\<lambda>_ _ _. True" "replicate 32 5"] by (auto simp: toy_crates_def)

text \<open>C12: what \<open>encrypt_payload_for_recipient\<close> seals to the public key of a KEM key pair,
  \<open>decrypt_payload_from_recipient_blob\<close> opens with its private key, for every payload that fits
  and whatever the ephemeral key and nonce, given that the key agreement commutes and is
  contributory and that the cipher decrypts what it encrypted under the same associated data.\<close>

theorem sealed_blob_roundtrip:
  assumes "x_law C" and "aead_law C" and "length sk = 32" and "length nonce = 24"
    and "length payload + 16 < 2 ^ 32"
    and "x_was_contributory C (x_diffie_hellman C eph (x_public C sk))"
  shows "\<exists>blob. encrypt_payload_for_recipient C eph nonce (x_public C sk) payload = Ok blob
    \<and> decrypt_payload_from_recipient_blob C blob sk = Ok payload"
  by (rule seal_then_open [OF assms])

theorem sealed_blob_roundtrip_witness:
  "let C = toy_crates (\<lambda>_ _ _. True); sk = replicate 32 3 in
   \<exists>blob. encrypt_payload_for_recipient C (replicate 32 5) (replicate 24 9) (x_public C sk) [1, 2, 3] = Ok blob
     \<and> decrypt_payload_from_recipient_blob C blob sk = Ok [1, 2, 3]"
  unfolding Let_def
  by (rule sealed_blob_roundtrip [OF toy_x_law toy_aead_law]) (simp_all add: toy_crates_def)

text \<open>C13: a sealed blob has one extent: of two blobs that both open, neither is a proper prefix of
  the other, so a relay that truncates a blob or appends to it always causes a refusal, whatever
  the cipher does. The two may open under different private keys.\<close>

theorem sealed_blob_prefix_free:
  assumes "decrypt_payload_from_recipient_blob C blob sk = Ok p"
    and "decrypt_payload_from_recipient_blob C (blob @ ext) sk' = Ok p'"
  shows "ext = []"
proof -
  note shape = decrypt_blob_shape [OF assms(1)] decrypt_blob_shape [OF assms(2)]
  have "take 4 (drop 57 (blob @ ext)) = take 4 (drop 57 blob)" using shape(1) by simp
  then have "length (blob @ ext) - 61 = length blob - 61" unfolding shape(3,6) by (rule arg_cong)
  with shape(1) have "length ext = 0" unfolding length_append by linarith
  then show ?thesis by simp
qed

theorem sealed_blob_prefix_free_witness:
  "let C = toy_crates (\<lambda>_ _ _. True); sk = replicate 32 3 in
   \<exists>blob ext. decrypt_payload_from_recipient_blob C blob sk = Ok [1, 2, 3]
     \<and> decrypt_payload_from_recipient_blob C (blob @ ext) sk = Ok [1, 2, 3] \<and> ext = []"
proof -
  obtain blob where opens:
    "decrypt_payload_from_recipient_blob (toy_crates (\<lambda>_ _ _. True)) blob (replicate 32 3) = Ok [1, 2, 3]"
    using toy_blob_opens by blast
  then have again: "decrypt_payload_from_recipient_blob (toy_crates (\<lambda>_ _ _. True)) (blob @ []) (replicate 32 3)
      = Ok [1, 2, 3]" by simp
  from sealed_blob_prefix_free [OF opens again] opens again show ?thesis
    unfolding Let_def by blast
qed

end
