(* ===== verification/Std_Net.thy ===== *)
theory Std_Net
  imports Prelude
begin

text \<open>
  The part of Rust's standard library the sources use to read network addresses:
  \<open>str::parse::<SocketAddr>()\<close>. A parser takes the characters left and returns what it read with
  the rest, or \<open>None\<close> and consumes nothing (the library's \<open>read_atomically\<close>).
\<close>

datatype SocketAddr =
    V4 (v4_octets: "nat list") (addr_port: nat)
  | V6 (v6_groups: "nat list") (v6_scope: nat) (addr_port: nat)

definition hex_digit :: "char \<Rightarrow> nat option" where
  "hex_digit c =
     (let n = of_char c :: nat in
      if 48 \<le> n \<and> n \<le> 57 then Some (n - 48)
      else if 97 \<le> n \<and> n \<le> 102 then Some (n - 87)
      else if 65 \<le> n \<and> n \<le> 70 then Some (n - 55)
      else None)"

definition to_digit :: "nat \<Rightarrow> char \<Rightarrow> nat option" where
  "to_digit radix c =
     (case hex_digit c of Some d \<Rightarrow> if d < radix then Some d else None | None \<Rightarrow> None)"

text \<open>The digit loop of \<open>read_number\<close>: \<open>None\<close> on overflow of the target type (\<open>limit\<close> is one more
  than its maximum) or when \<open>max_digits\<close> is exceeded.\<close>

fun read_digits ::
  "nat \<Rightarrow> nat option \<Rightarrow> nat \<Rightarrow> nat \<Rightarrow> nat \<Rightarrow> string \<Rightarrow> (nat \<times> nat \<times> string) option" where
  "read_digits radix max_digits limit result count [] = Some (result, count, [])"
| "read_digits radix max_digits limit result count (c # cs) =
     (case to_digit radix c of
        None \<Rightarrow> Some (result, count, c # cs)
      | Some d \<Rightarrow>
          if limit \<le> result * radix + d then None
          else if (case max_digits of Some m \<Rightarrow> m < Suc count | None \<Rightarrow> False) then None
          else read_digits radix max_digits limit (result * radix + d) (Suc count) cs)"

definition read_number ::
  "nat \<Rightarrow> nat option \<Rightarrow> bool \<Rightarrow> nat \<Rightarrow> string \<Rightarrow> (nat \<times> string) option" where
  "read_number radix max_digits allow_zero_prefix limit s =
     (case read_digits radix max_digits limit 0 0 s of
        None \<Rightarrow> None
      | Some (result, count, rest) \<Rightarrow>
          if count = 0 then None
          else if \<not> allow_zero_prefix \<and> s \<noteq> [] \<and> hd s = CHR ''0'' \<and> 1 < count then None
          else Some (result, rest))"

fun read_given_char :: "char \<Rightarrow> string \<Rightarrow> string option" where
  "read_given_char c [] = None"
| "read_given_char c (d # cs) = (if c = d then Some cs else None)"

definition read_separator ::
  "char \<Rightarrow> nat \<Rightarrow> (string \<Rightarrow> ('a \<times> string) option) \<Rightarrow> string \<Rightarrow> ('a \<times> string) option" where
  "read_separator sep index inner s =
     (if 0 < index then
        (case read_given_char sep s of None \<Rightarrow> None | Some rest \<Rightarrow> inner rest)
      else inner s)"

fun read_octets :: "nat list \<Rightarrow> nat list \<Rightarrow> string \<Rightarrow> (nat list \<times> string) option" where
  "read_octets acc [] s = Some (acc, s)"
| "read_octets acc (i # slots) s =
     (case read_separator CHR ''.'' i (read_number 10 (Some 3) False 256) s of
        None \<Rightarrow> None
      | Some (octet, rest) \<Rightarrow> read_octets (acc @ [octet]) slots rest)"

definition read_ipv4_addr :: "string \<Rightarrow> (nat list \<times> string) option" where
  "read_ipv4_addr s = read_octets [] [0, 1, 2, 3] s"

text \<open>\<open>read_groups\<close>: up to \<open>limit\<close> groups of an IPv6 address, with a trailing IPv4 part allowed while
  at least two groups are left. The second component of the result is the IPv4 flag.\<close>

fun read_groups :: "nat \<Rightarrow> nat list \<Rightarrow> nat list \<Rightarrow> string \<Rightarrow> nat list \<times> bool \<times> string" where
  "read_groups limit acc [] s = (acc, False, s)"
| "read_groups limit acc (i # slots) s =
     (case (if i < limit - 1
            then read_separator CHR '':'' i read_ipv4_addr s else None) of
        Some (octets, rest) \<Rightarrow>
          (acc @ [octets ! 0 * 256 + octets ! 1, octets ! 2 * 256 + octets ! 3], True, rest)
      | None \<Rightarrow>
          (case read_separator CHR '':'' i (read_number 16 (Some 4) True 65536) s of
             Some (g, rest) \<Rightarrow> read_groups limit (acc @ [g]) slots rest
           | None \<Rightarrow> (acc, False, s)))"

definition read_ipv6_addr :: "string \<Rightarrow> (nat list \<times> string) option" where
  "read_ipv6_addr s =
     (let (head, head_ipv4, rest) = read_groups 8 [] [0, 1, 2, 3, 4, 5, 6, 7] s in
      if length head = 8 then Some (head, rest)
      else if head_ipv4 then None
      else
        (case read_given_char CHR '':'' rest of
           None \<Rightarrow> None
         | Some rest1 \<Rightarrow>
             (case read_given_char CHR '':'' rest1 of
                None \<Rightarrow> None
              | Some rest2 \<Rightarrow>
                  (let limit = 8 - (length head + 1);
                       (tail, _, rest3) = read_groups limit [] (take limit [0, 1, 2, 3, 4, 5, 6]) rest2
                   in Some (head @ replicate (8 - length head - length tail) 0 @ tail, rest3)))))"

definition read_port :: "string \<Rightarrow> (nat \<times> string) option" where
  "read_port s =
     (case read_given_char CHR '':'' s of
        None \<Rightarrow> None
      | Some rest \<Rightarrow> read_number 10 None True 65536 rest)"

definition read_scope_id :: "string \<Rightarrow> nat \<times> string" where
  "read_scope_id s =
     (case read_given_char CHR ''%'' s of
        None \<Rightarrow> (0, s)
      | Some rest \<Rightarrow>
          (case read_number 10 None True 4294967296 rest of
             None \<Rightarrow> (0, s)
           | Some (scope, rest') \<Rightarrow> (scope, rest')))"

definition read_socket_addr_v4 :: "string \<Rightarrow> (SocketAddr \<times> string) option" where
  "read_socket_addr_v4 s =
     (case read_ipv4_addr s of
        None \<Rightarrow> None
      | Some (ip, rest) \<Rightarrow>
          (case read_port rest of
             None \<Rightarrow> None
           | Some (port, rest') \<Rightarrow> Some (V4 ip port, rest')))"

definition read_socket_addr_v6 :: "string \<Rightarrow> (SocketAddr \<times> string) option" where
  "read_socket_addr_v6 s =
     (case read_given_char CHR ''['' s of
        None \<Rightarrow> None
      | Some rest \<Rightarrow>
          (case read_ipv6_addr rest of
             None \<Rightarrow> None
           | Some (ip, rest1) \<Rightarrow>
               (let (scope, rest2) = read_scope_id rest1 in
                case read_given_char CHR '']'' rest2 of
                  None \<Rightarrow> None
                | Some rest3 \<Rightarrow>
                    (case read_port rest3 of
                       None \<Rightarrow> None
                     | Some (port, rest') \<Rightarrow> Some (V6 ip scope port, rest')))))"

definition parse_socket_addr :: "string \<Rightarrow> SocketAddr option" where
  "parse_socket_addr s =
     (case (case read_socket_addr_v4 s of Some a \<Rightarrow> Some a | None \<Rightarrow> read_socket_addr_v6 s) of
        Some (a, []) \<Rightarrow> Some a
      | _ \<Rightarrow> None)"

definition is_ascii_whitespace :: "char \<Rightarrow> bool" where
  "is_ascii_whitespace c \<longleftrightarrow> (of_char c :: nat) \<in> set [32, 9, 10, 12, 13]"

definition is_ascii_control :: "char \<Rightarrow> bool" where
  "is_ascii_control c \<longleftrightarrow> (of_char c :: nat) < 32 \<or> (of_char c :: nat) = 127"

lemma parse_socket_addr_examples:
  "parse_socket_addr ''192.0.2.10:4000'' = Some (V4 [192, 0, 2, 10] 4000)"
  "parse_socket_addr ''[2001:db8::1]:4000'' = Some (V6 ([8193, 3512] @ replicate 5 0 @ [1]) 0 4000)"
  "parse_socket_addr ''192.0.02.10:1'' = None"
  "parse_socket_addr ''not-a-socket'' = None"
  "parse_socket_addr ''1.2.3.4:65536'' = None"
  by (simp_all add: parse_socket_addr_def read_socket_addr_v4_def read_socket_addr_v6_def
      read_ipv4_addr_def read_ipv6_addr_def read_port_def read_scope_id_def read_separator_def
      read_number_def to_digit_def hex_digit_def Let_def)

end
