(* ===== verification/Endpoint_Record.thy ===== *)
theory Endpoint_Record
  imports Crypto_Lib Std_Net
begin

text \<open>
  \<open>shared/protocol/src/endpoint_record.rs\<close>: the signed record of an iroh endpoint's addresses.
  \<open>postcard::to_allocvec\<close> and \<open>postcard::from_bytes\<close> on this type are the arguments \<open>pc\<close> and
  \<open>pd\<close>. An error is the outermost message the code gives it.
\<close>

definition ENDPOINT_RECORD_VERSION :: u16 where "ENDPOINT_RECORD_VERSION = 1"
definition IROH_ENDPOINT_ID_BYTES :: nat where "IROH_ENDPOINT_ID_BYTES = 32"
definition MAX_ENDPOINT_DIRECT_ADDRESSES :: nat where "MAX_ENDPOINT_DIRECT_ADDRESSES = 8"
definition MAX_ENDPOINT_DIRECT_ADDRESS_LEN :: nat where "MAX_ENDPOINT_DIRECT_ADDRESS_LEN = 128"
definition MAX_ENDPOINT_RELAY_URL_LEN :: nat where "MAX_ENDPOINT_RELAY_URL_LEN = 2048"
definition MAX_ENDPOINT_RECORD_BYTES :: nat where "MAX_ENDPOINT_RECORD_BYTES = 4 * 1024"
definition MAX_ENDPOINT_RECORD_LIFETIME_SECS :: u64 where
  "MAX_ENDPOINT_RECORD_LIFETIME_SECS = 60 * 60"
definition MAX_ENDPOINT_RECORD_CLOCK_SKEW_SECS :: u64 where
  "MAX_ENDPOINT_RECORD_CLOCK_SKEW_SECS = 60"

lemmas endpoint_consts =
  ENDPOINT_RECORD_VERSION_def IROH_ENDPOINT_ID_BYTES_def MAX_ENDPOINT_DIRECT_ADDRESSES_def
  MAX_ENDPOINT_DIRECT_ADDRESS_LEN_def MAX_ENDPOINT_RELAY_URL_LEN_def MAX_ENDPOINT_RECORD_BYTES_def
  MAX_ENDPOINT_RECORD_LIFETIME_SECS_def MAX_ENDPOINT_RECORD_CLOCK_SKEW_SECS_def

record EndpointRecord =
  er_version :: u16
  er_endpoint_id :: bytes
  er_relay_url :: "string option"
  er_direct_addresses :: "string list"
  er_signing_pubkey :: string
  er_issued_at_secs :: u64
  er_expires_at_secs :: u64
  er_signature :: string

definition validate_relay_url :: "string \<Rightarrow> unit res" where
  "validate_relay_url value =
     ensure (value \<noteq> [] \<and> length value \<le> MAX_ENDPOINT_RELAY_URL_LEN)
       ''relay URL length is invalid'' (
     ensure (prefix ''https://'' value \<or> prefix ''http://'' value)
       ''relay URL must use HTTP or HTTPS'' (
     ensure (\<not> list_ex (\<lambda>c. is_ascii_whitespace c \<or> is_ascii_control c) value)
       ''relay URL contains invalid characters'' (Ok ())))"

text \<open>The loop over the addresses, with the set of the ones parsed so far.\<close>

fun direct_addresses_loop :: "SocketAddr list \<Rightarrow> string list \<Rightarrow> unit res" where
  "direct_addresses_loop unique [] = Ok ()"
| "direct_addresses_loop unique (address # rest) =
     ensure (address \<noteq> [] \<and> length address \<le> MAX_ENDPOINT_DIRECT_ADDRESS_LEN)
       ''direct endpoint address length is invalid'' (
     case parse_socket_addr address of
       None \<Rightarrow> Err ''invalid direct endpoint address''
     | Some parsed \<Rightarrow>
         ensure (parsed \<notin> set unique) ''duplicate direct endpoint address''
           (direct_addresses_loop (parsed # unique) rest))"

definition validate_direct_addresses :: "string list \<Rightarrow> unit res" where
  "validate_direct_addresses addresses =
     ensure (length addresses \<le> MAX_ENDPOINT_DIRECT_ADDRESSES)
       ''too many direct endpoint addresses'' (direct_addresses_loop [] addresses)"

definition validate_encoded_size :: "bytes \<Rightarrow> unit res" where
  "validate_encoded_size b =
     ensure (b \<noteq> [] \<and> length b \<le> MAX_ENDPOINT_RECORD_BYTES)
       ''endpoint record encoded size is invalid'' (Ok ())"

definition EndpointRecord_validate_unsigned :: "EndpointRecord \<Rightarrow> u64 \<Rightarrow> unit res" where
  "EndpointRecord_validate_unsigned r now_secs =
     ensure (er_version r = ENDPOINT_RECORD_VERSION) ''unsupported endpoint record version'' (
     ensure (length (er_endpoint_id r) = IROH_ENDPOINT_ID_BYTES)
       ''endpoint ID must contain 32 bytes'' (
     ensure (er_relay_url r \<noteq> None \<or> er_direct_addresses r \<noteq> [])
       ''endpoint record must contain a relay or direct address'' (
     try_r (case er_relay_url r of Some url \<Rightarrow> validate_relay_url url | None \<Rightarrow> Ok ()) (\<lambda>_.
     try_r (validate_direct_addresses (er_direct_addresses r)) (\<lambda>_.
     ensure (er_issued_at_secs r \<le> saturating_add now_secs MAX_ENDPOINT_RECORD_CLOCK_SKEW_SECS)
       ''endpoint record issue time is too far in the future'' (
     ensure (now_secs \<le> er_expires_at_secs r) ''endpoint record expired'' (
     ensure (er_issued_at_secs r \<le> er_expires_at_secs r)
       ''endpoint record expiry precedes issue time'' (
     ensure (saturating_sub (er_expires_at_secs r) (er_issued_at_secs r)
         \<le> MAX_ENDPOINT_RECORD_LIFETIME_SECS)
       ''endpoint record lifetime exceeds limit'' (Ok ())))))))))"

definition EndpointRecord_validate_signature_fields :: "crates \<Rightarrow> EndpointRecord \<Rightarrow> unit res" where
  "EndpointRecord_validate_signature_fields C r =
     try_r (b64_decode C (er_signing_pubkey r)) (\<lambda>signing_public.
     ensure (length signing_public = 32) ''signing public key must decode to 32 bytes'' (
     try_r (b64_decode C (er_signature r)) (\<lambda>signature.
     ensure (length signature = 64) ''signature must decode to 64 bytes'' (Ok ()))))"

definition EndpointRecord_validate :: "crates \<Rightarrow> EndpointRecord \<Rightarrow> u64 \<Rightarrow> unit res" where
  "EndpointRecord_validate C r now_secs =
     try_r (EndpointRecord_validate_unsigned r now_secs) (\<lambda>_.
       EndpointRecord_validate_signature_fields C r)"

definition EndpointRecord_validate_structure :: "crates \<Rightarrow> EndpointRecord \<Rightarrow> unit res" where
  "EndpointRecord_validate_structure C r =
     try_r (EndpointRecord_validate_unsigned r (er_issued_at_secs r)) (\<lambda>_.
       EndpointRecord_validate_signature_fields C r)"

definition EndpointRecord_canonical_bytes ::
  "(EndpointRecord \<Rightarrow> bytes res) \<Rightarrow> EndpointRecord \<Rightarrow> bytes res" where
  "EndpointRecord_canonical_bytes pc r =
     try_r (ctx ''serialize canonical endpoint record'' (pc (r\<lparr>er_signature := []\<rparr>))) (\<lambda>b.
     try_r (validate_encoded_size b) (\<lambda>_. Ok b))"

definition EndpointRecord_verify_signature ::
  "crates \<Rightarrow> (EndpointRecord \<Rightarrow> bytes res) \<Rightarrow> EndpointRecord \<Rightarrow> unit res" where
  "EndpointRecord_verify_signature C pc r =
     try_r (b64_decode C (er_signing_pubkey r)) (\<lambda>signing_public.
     try_r (b64_decode C (er_signature r)) (\<lambda>signature.
     try_r (EndpointRecord_canonical_bytes pc r) (\<lambda>b.
       verify_domain C signing_public D_EndpointRecord b signature)))"

definition EndpointRecord_verify ::
  "crates \<Rightarrow> (EndpointRecord \<Rightarrow> bytes res) \<Rightarrow> EndpointRecord \<Rightarrow> u64 \<Rightarrow> unit res" where
  "EndpointRecord_verify C pc r now_secs =
     try_r (EndpointRecord_validate C r now_secs) (\<lambda>_. EndpointRecord_verify_signature C pc r)"

definition EndpointRecord_verify_structure ::
  "crates \<Rightarrow> (EndpointRecord \<Rightarrow> bytes res) \<Rightarrow> EndpointRecord \<Rightarrow> unit res" where
  "EndpointRecord_verify_structure C pc r =
     try_r (EndpointRecord_validate_structure C r) (\<lambda>_. EndpointRecord_verify_signature C pc r)"

definition EndpointRecord_sign ::
  "crates \<Rightarrow> (EndpointRecord \<Rightarrow> bytes res) \<Rightarrow> EndpointRecord \<Rightarrow> bytes \<Rightarrow> bytes \<Rightarrow> u64
    \<Rightarrow> EndpointRecord res" where
  "EndpointRecord_sign C pc r signing_public signing_private now_secs =
     (let r1 = r\<lparr>er_signing_pubkey := b64_encode C signing_public, er_signature := []\<rparr> in
      try_r (EndpointRecord_validate_unsigned r1 now_secs) (\<lambda>_.
      try_r (EndpointRecord_canonical_bytes pc r1) (\<lambda>b.
      try_r (sign_domain C signing_private D_EndpointRecord b) (\<lambda>sig.
        let r2 = r1\<lparr>er_signature := b64_encode C sig\<rparr> in
        try_r (EndpointRecord_validate C r2 now_secs) (\<lambda>_. Ok r2)))))"

definition EndpointRecord_to_bytes ::
  "crates \<Rightarrow> (EndpointRecord \<Rightarrow> bytes res) \<Rightarrow> EndpointRecord \<Rightarrow> u64 \<Rightarrow> bytes res" where
  "EndpointRecord_to_bytes C pc r now_secs =
     try_r (EndpointRecord_verify C pc r now_secs) (\<lambda>_.
     try_r (ctx ''serialize endpoint record'' (pc r)) (\<lambda>b.
     try_r (validate_encoded_size b) (\<lambda>_. Ok b)))"

definition EndpointRecord_from_bytes ::
  "crates \<Rightarrow> (EndpointRecord \<Rightarrow> bytes res) \<Rightarrow> (bytes \<Rightarrow> EndpointRecord res) \<Rightarrow> bytes \<Rightarrow> u64
    \<Rightarrow> EndpointRecord res" where
  "EndpointRecord_from_bytes C pc pd b now_secs =
     try_r (validate_encoded_size b) (\<lambda>_.
     try_r (ctx ''decode endpoint record'' (pd b)) (\<lambda>r.
     try_r (EndpointRecord_verify C pc r now_secs) (\<lambda>_. Ok r)))"

section \<open>Lemmas\<close>

lemma direct_addresses_loop_Ok:
  "direct_addresses_loop unique as = Ok () \<longleftrightarrow>
     (\<exists>ps. map parse_socket_addr as = map Some ps \<and> distinct ps \<and> set ps \<inter> set unique = {}
       \<and> (\<forall>a \<in> set as. a \<noteq> [] \<and> length a \<le> MAX_ENDPOINT_DIRECT_ADDRESS_LEN))"
proof (induction as arbitrary: unique)
  case (Cons a as)
  show ?case
    by (auto simp: Cons.IH Cons_eq_map_conv split: option.splits)
qed simp

lemma validate_unsigned_signature [simp]:
  "EndpointRecord_validate_unsigned (r\<lparr>er_signature := s\<rparr>) now =
   EndpointRecord_validate_unsigned r now"
  by (simp add: EndpointRecord_validate_unsigned_def)

lemma canonical_bytes_signature [simp]:
  "EndpointRecord_canonical_bytes pc (r\<lparr>er_signature := s\<rparr>) = EndpointRecord_canonical_bytes pc r"
  by (simp add: EndpointRecord_canonical_bytes_def)

lemma unit_Ok_iff: "(\<exists>u :: unit. r = Ok u \<and> P) \<longleftrightarrow> r = Ok () \<and> P"
  by auto

lemma EndpointRecord_signature_iff:
  "EndpointRecord_validate_signature_fields C r = Ok () \<and> EndpointRecord_verify_signature C pc r = Ok ()
   \<longleftrightarrow> (\<exists>pk s b. b64_decode C (er_signing_pubkey r) = Ok pk \<and> length pk = 32
     \<and> b64_decode C (er_signature r) = Ok s \<and> length s = 64
     \<and> EndpointRecord_canonical_bytes pc r = Ok b \<and> verify_domain C pk D_EndpointRecord b s = Ok ())"
  by (auto simp: EndpointRecord_validate_signature_fields_def EndpointRecord_verify_signature_def)

lemma EndpointRecord_verify_iff:
  "EndpointRecord_verify C pc r now = Ok () \<longleftrightarrow>
     EndpointRecord_validate_unsigned r now = Ok ()
     \<and> EndpointRecord_validate_signature_fields C r = Ok ()
     \<and> EndpointRecord_verify_signature C pc r = Ok ()"
  by (auto simp: EndpointRecord_verify_def EndpointRecord_validate_def)

interpretation endpoint: signed_message C D_EndpointRecord "EndpointRecord_canonical_bytes pc"
  er_signing_pubkey er_signature "\<lambda>s r. r\<lparr>er_signature := s\<rparr>"
  "\<lambda>r. EndpointRecord_validate_unsigned r now = Ok ()" "\<lambda>r. EndpointRecord_verify C pc r now"
  for C pc now
  by unfold_locales
    (simp_all add: EndpointRecord_verify_iff EndpointRecord_signature_iff del: ensure_Ok_iff)

lemma validate_unsigned_window:
  "EndpointRecord_validate_unsigned r now = Ok () \<longleftrightarrow>
     EndpointRecord_validate_unsigned r (er_issued_at_secs r) = Ok ()
     \<and> unat (er_issued_at_secs r) \<le> unat now + 60 \<and> now \<le> er_expires_at_secs r"
  using unat_le_max [of "er_issued_at_secs r"]
  by (auto simp: EndpointRecord_validate_unsigned_def saturating_add_le word_le_nat_alt
      unat_saturating_add endpoint_consts)

lemma EndpointRecord_verify_structure_iff:
  "EndpointRecord_verify_structure C pc r = Ok () \<longleftrightarrow>
     EndpointRecord_validate_unsigned r (er_issued_at_secs r) = Ok ()
     \<and> EndpointRecord_validate_signature_fields C r = Ok ()
     \<and> EndpointRecord_verify_signature C pc r = Ok ()"
  by (auto simp: EndpointRecord_verify_structure_def EndpointRecord_validate_structure_def)

section \<open>Properties\<close>

text \<open>C18: an endpoint record verifies at a time exactly when its structure and signature are good
  (\<open>verify_structure\<close>, what an agent checks on records it re-reads after a restart) and the time
  lies in its window: issued at most 60 seconds ahead of the clock, and not expired. Freshness is
  the only thing \<open>verify_structure\<close> leaves out.\<close>

theorem endpoint_verify_iff_structure_and_fresh:
  "EndpointRecord_verify C pc r now = Ok () \<longleftrightarrow>
     EndpointRecord_verify_structure C pc r = Ok ()
     \<and> unat (er_issued_at_secs r) \<le> unat now + 60 \<and> now \<le> er_expires_at_secs r"
  unfolding EndpointRecord_verify_iff EndpointRecord_verify_structure_iff
  using validate_unsigned_window [of r now] by blast

text \<open>C19: a record that \<open>sign\<close> produced for a key pair verifies at the same time under the signer's
  public key, and survives the wire: \<open>from_bytes\<close> of \<open>to_bytes\<close> is the record itself, given that
  postcard decodes what it encoded and the encoding fits the size limit.\<close>

theorem endpoint_sign_wire_roundtrip:
  assumes "base64_law C" and "ed_key C sk"
    and "EndpointRecord_sign C pc r (ed_public C sk) sk now = Ok r'"
    and "pc r' = Ok b" and "pd b = Ok r'" and "b \<noteq> []" and "length b \<le> 4096"
  shows "er_signing_pubkey r' = b64_encode C (ed_public C sk)
    \<and> EndpointRecord_to_bytes C pc r' now = Ok b \<and> EndpointRecord_from_bytes C pc pd b now = Ok r'"
proof -
  let ?r = "r\<lparr>er_signing_pubkey := b64_encode C (ed_public C sk), er_signature := []\<rparr>"
  from assms(3) obtain c s where c: "EndpointRecord_validate_unsigned ?r now = Ok ()"
    "EndpointRecord_canonical_bytes pc ?r = Ok c" "sign_domain C sk D_EndpointRecord c = Ok s"
    "r' = ?r\<lparr>er_signature := b64_encode C s\<rparr>"
    by (auto simp: EndpointRecord_sign_def Let_def)
  from endpoint.sign_then_verify [OF assms(1,2), of ?r now pc c] c
  have "EndpointRecord_verify C pc r' now = Ok ()" by simp
  with assms(4-7) c(4) show ?thesis
    by (simp add: EndpointRecord_to_bytes_def EndpointRecord_from_bytes_def validate_encoded_size_def
        endpoint_consts)
qed

text \<open>Witness of C19: an instance of the primitives, a postcard that encodes the signature only, and
  a decoder that knows the one record.\<close>

definition toy_record :: "string \<Rightarrow> EndpointRecord" where
  "toy_record s = \<lparr>er_version = 1, er_endpoint_id = replicate 32 7, er_relay_url = None,
     er_direct_addresses = [''192.0.2.10:4000''],
     er_signing_pubkey = b64_encode (toy_crates (\<lambda>_ _ _. True)) (replicate 32 3),
     er_issued_at_secs = 1000, er_expires_at_secs = 1300, er_signature = s\<rparr>"

definition toy_pc :: "EndpointRecord \<Rightarrow> bytes res" where
  "toy_pc r = Ok (1 # str_bytes (er_signature r))"

definition toy_signature :: string where
  "toy_signature = b64_encode (toy_crates (\<lambda>_ _ _. True)) (replicate 64 0)"

lemma toy_record_unsigned: "EndpointRecord_validate_unsigned (toy_record s) 1000 = Ok ()"
  by (simp add: EndpointRecord_validate_unsigned_def toy_record_def validate_direct_addresses_def
      endpoint_consts parse_socket_addr_examples(1) saturating_add_def saturating_sub_def)

lemma toy_record_update [simp]: "(toy_record s)\<lparr>er_signature := t\<rparr> = toy_record t"
  by (simp add: toy_record_def)

lemma toy_record_signs:
  "EndpointRecord_sign (toy_crates (\<lambda>_ _ _. True)) toy_pc (toy_record [])
     (ed_public (toy_crates (\<lambda>_ _ _. True)) (replicate 32 3)) (replicate 32 3) 1000 =
   Ok (toy_record toy_signature)"
proof -
  let ?C = "toy_crates (\<lambda>_ _ _. True)"
  have eq: "(toy_record [])\<lparr>er_signing_pubkey := b64_encode ?C (ed_public ?C (replicate 32 3))\<rparr> = toy_record []"
    by (simp add: toy_record_def toy_crates_def)
  have sig: "sign_domain ?C (replicate 32 3) D_EndpointRecord b = Ok (replicate 64 0)" for b
    by (simp add: sign_domain_def signing_key_from_def) (simp add: toy_crates_def)
  have "EndpointRecord_canonical_bytes toy_pc (toy_record []) = Ok [1]"
    by (simp add: EndpointRecord_canonical_bytes_def toy_pc_def toy_record_def str_bytes_def
        validate_encoded_size_def endpoint_consts)
  moreover have "EndpointRecord_validate_signature_fields ?C (toy_record toy_signature) = Ok ()"
    using toy_base64
    by (simp add: EndpointRecord_validate_signature_fields_def toy_record_def toy_signature_def)
  ultimately show ?thesis
    using sig by (simp add: EndpointRecord_sign_def eq Let_def toy_record_unsigned
        EndpointRecord_validate_def flip: toy_signature_def)
qed

theorem endpoint_sign_wire_roundtrip_witness:
  "EndpointRecord_from_bytes (toy_crates (\<lambda>_ _ _. True)) toy_pc (\<lambda>_. Ok (toy_record toy_signature))
     (1 # str_bytes toy_signature) 1000 = Ok (toy_record toy_signature)"
  using endpoint_sign_wire_roundtrip [OF toy_base64 toy_ed_key toy_record_signs,
      of "1 # str_bytes toy_signature" "\<lambda>_. Ok (toy_record toy_signature)"]
  by (simp add: toy_pc_def toy_record_def toy_signature_def b64_encode_def toy_crates_def)

end
