(* ===== verification/Biscuit_Tokens.thy ===== *)
theory Biscuit_Tokens
  imports Crypto_Lib
begin

text \<open>
  \<open>shared/protocol/src/biscuit_keys.rs\<close> and \<open>shared/protocol/src/proxy_grant.rs\<close>: owner-signed
  Biscuits. The biscuit-auth crate is the record \<open>biscuit\<close>, an argument of the definitions. The
  Datalog policy of the code is the list of its body atoms; \<open>biscuit_sound\<close> and
  \<open>biscuit_unforged\<close> are what the crate documents: an allowed policy has an instance of every atom
  among the facts of the token's authority block and the verifier's own facts, and the authority
  block of a token that opens under a root key was built with that key. Adding a fact to a builder
  does not fail for the facts built here.
\<close>

datatype bterm = BStr string | BInt int
datatype aterm = AVar string | ACst string
datatype clause = Atom string "aterm list" | Le aterm aterm

type_synonym fact = "string \<times> bterm list"

fun inst :: "(string \<Rightarrow> bterm) \<Rightarrow> aterm \<Rightarrow> bterm" where
  "inst \<sigma> (AVar x) = \<sigma> x"
| "inst \<sigma> (ACst c) = BStr c"

fun le_term :: "bterm \<Rightarrow> bterm \<Rightarrow> bool" where
  "le_term (BInt x) (BInt y) \<longleftrightarrow> x \<le> y"
| "le_term _ _ \<longleftrightarrow> False"

fun holds :: "fact set \<Rightarrow> (string \<Rightarrow> bterm) \<Rightarrow> clause \<Rightarrow> bool" where
  "holds F \<sigma> (Atom p ts) \<longleftrightarrow> (p, map (inst \<sigma>) ts) \<in> F"
| "holds F \<sigma> (Le a b) \<longleftrightarrow> le_term (inst \<sigma> a) (inst \<sigma> b)"

record 'tok biscuit =
  bk_public :: "bytes \<Rightarrow> bytes res"
  bk_root :: "bytes \<Rightarrow> unit res"
  bk_build :: "bytes \<Rightarrow> fact list \<Rightarrow> 'tok res"
  bk_to_vec :: "'tok \<Rightarrow> bytes res"
  bk_from :: "bytes \<Rightarrow> bytes \<Rightarrow> 'tok res"
  bk_authorize :: "'tok \<Rightarrow> fact list \<Rightarrow> clause list \<Rightarrow> unit res"
  bk_authority :: "'tok \<Rightarrow> fact list"

definition biscuit_sound :: "'tok biscuit \<Rightarrow> bool" where
  "biscuit_sound B \<longleftrightarrow> (\<forall>tok facts policy. bk_authorize B tok facts policy = Ok () \<longrightarrow>
     (\<exists>\<sigma>. \<forall>c \<in> set policy. holds (set (bk_authority B tok) \<union> set facts) \<sigma> c))"

definition biscuit_unforged :: "'tok biscuit \<Rightarrow> (bytes \<times> fact list) set \<Rightarrow> bool" where
  "biscuit_unforged B minted \<longleftrightarrow> (\<forall>enc root tok. bk_from B enc root = Ok tok \<longrightarrow>
     (\<exists>sk. bk_public B sk = Ok root \<and> (sk, bk_authority B tok) \<in> minted))"

section \<open>Keys\<close>

definition MAX_BISCUIT_TOKEN_BYTES :: nat where "MAX_BISCUIT_TOKEN_BYTES = 16 * 1024"
definition MAX_AUTHZ_VALUE_LEN :: nat where "MAX_AUTHZ_VALUE_LEN = 256"

definition div_ceil :: "nat \<Rightarrow> nat \<Rightarrow> nat" where
  "div_ceil a b = (a + b - 1) div b"

definition biscuit_keypair_from_ed25519 :: "'tok biscuit \<Rightarrow> bytes \<Rightarrow> bytes res" where
  "biscuit_keypair_from_ed25519 B sk =
     ctx ''decode Biscuit Ed25519 private key'' (bk_public B sk)"

definition biscuit_public_key_from_ed25519 :: "'tok biscuit \<Rightarrow> bytes \<Rightarrow> bytes res" where
  "biscuit_public_key_from_ed25519 B pk =
     try_r (ctx ''decode Biscuit Ed25519 public key'' (bk_root B pk)) (\<lambda>_. Ok pk)"

definition biscuit_root_from_owner :: "'tok biscuit \<Rightarrow> bytes \<Rightarrow> bytes res" where
  "biscuit_root_from_owner B pk = biscuit_public_key_from_ed25519 B pk"

section \<open>Proxy grants\<close>

definition PROXY_GRANT_ROLE :: string where "PROXY_GRANT_ROLE = ''proxy''"
definition PROXY_GRANT_OPERATION :: string where "PROXY_GRANT_OPERATION = ''proxy_service''"
definition MAX_PROXY_GRANT_LIFETIME_SECS :: u64 where
  "MAX_PROXY_GRANT_LIFETIME_SECS = 90 * 24 * 60 * 60"
definition MAX_PROXY_GRANT_CLOCK_SKEW_SECS :: u64 where "MAX_PROXY_GRANT_CLOCK_SKEW_SECS = 60"
definition MAX_PROXY_GRANT_B64_LEN :: nat where
  "MAX_PROXY_GRANT_B64_LEN = 4 * div_ceil MAX_BISCUIT_TOKEN_BYTES 3"

record ProxyGrantClaims =
  pg_tenant_owner :: string
  pg_proxy_endpoint :: string
  pg_issued_at_secs :: u64
  pg_expires_at_secs :: u64
  pg_token_id :: string

definition validate_value :: "string \<Rightarrow> string \<Rightarrow> unit res" where
  "validate_value value field =
     ensure (value \<noteq> [] \<and> length value \<le> MAX_AUTHZ_VALUE_LEN) (field @ '' length is invalid'') (Ok ())"

definition to_i64 :: "u64 \<Rightarrow> int res" where
  "to_i64 v = ensure (unat v < 2 ^ 63) ''proxy grant timestamp exceeds i64'' (Ok (uint v))"

definition ProxyGrantClaims_validate :: "ProxyGrantClaims \<Rightarrow> u64 \<Rightarrow> unit res" where
  "ProxyGrantClaims_validate c now_secs =
     try_r (validate_value (pg_tenant_owner c) ''proxy grant tenant owner'') (\<lambda>_.
     try_r (validate_value (pg_proxy_endpoint c) ''proxy grant endpoint'') (\<lambda>_.
     try_r (validate_value (pg_token_id c) ''proxy grant token ID'') (\<lambda>_.
     ensure (pg_issued_at_secs c \<le> saturating_add now_secs MAX_PROXY_GRANT_CLOCK_SKEW_SECS)
       ''proxy grant issue time is too far in the future'' (
     ensure (pg_issued_at_secs c \<le> pg_expires_at_secs c)
       ''proxy grant expiry precedes issue time'' (
     ensure (saturating_sub (pg_expires_at_secs c) (pg_issued_at_secs c)
         \<le> MAX_PROXY_GRANT_LIFETIME_SECS)
       ''proxy grant lifetime exceeds 7776000 seconds'' (Ok ()))))))"

definition proxy_grant_facts :: "ProxyGrantClaims \<Rightarrow> int \<Rightarrow> int \<Rightarrow> fact list" where
  "proxy_grant_facts c issued expires =
     [(''tenant_owner'', [BStr (pg_tenant_owner c)]),
      (''subject_peer'', [BStr (pg_proxy_endpoint c)]),
      (''role'', [BStr PROXY_GRANT_ROLE]),
      (''operation'', [BStr PROXY_GRANT_OPERATION]),
      (''issued_at'', [BInt issued]),
      (''expires_at'', [BInt expires]),
      (''token_id'', [BStr (pg_token_id c)])]"

definition mint_proxy_grant ::
  "crates \<Rightarrow> 'tok biscuit \<Rightarrow> bytes \<Rightarrow> bytes \<Rightarrow> ProxyGrantClaims \<Rightarrow> u64 \<Rightarrow> bytes res" where
  "mint_proxy_grant C B owner_private owner_public claims now_secs =
     try_r (ProxyGrantClaims_validate claims now_secs) (\<lambda>_.
     ensure (pg_tenant_owner claims = b64_encode C owner_public)
       ''proxy grant tenant owner does not match the signing key'' (
     try_r (biscuit_keypair_from_ed25519 B owner_private) (\<lambda>_.
     try_r (to_i64 (pg_issued_at_secs claims)) (\<lambda>issued.
     try_r (to_i64 (pg_expires_at_secs claims)) (\<lambda>expires.
     try_r (ctx ''build proxy grant Biscuit''
         (bk_build B owner_private (proxy_grant_facts claims issued expires))) (\<lambda>token.
     try_r (ctx ''serialize proxy grant Biscuit'' (bk_to_vec B token)) (\<lambda>encoded.
     ensure (encoded \<noteq> [] \<and> length encoded \<le> MAX_BISCUIT_TOKEN_BYTES)
       ''proxy grant encoded size is invalid'' (Ok encoded))))))))"

definition PROXY_GRANT_POLICY :: "clause list" where
  "PROXY_GRANT_POLICY =
     [Atom ''tenant_owner'' [AVar ''tenant''], Atom ''request_tenant_owner'' [AVar ''tenant''],
      Atom ''subject_peer'' [AVar ''proxy''], Atom ''request_subject_peer'' [AVar ''proxy''],
      Atom ''role'' [ACst ''proxy''],
      Atom ''operation'' [ACst ''proxy_service''],
      Atom ''issued_at'' [AVar ''issued''], Atom ''expires_at'' [AVar ''expires''],
      Atom ''request_time'' [AVar ''now''], Atom ''latest_issue_time'' [AVar ''latest''],
      Le (AVar ''issued'') (AVar ''latest''), Le (AVar ''now'') (AVar ''expires''),
      Atom ''token_id'' [AVar ''token_id'']]"

definition verify_proxy_grant ::
  "crates \<Rightarrow> 'tok biscuit \<Rightarrow> bytes \<Rightarrow> bytes \<Rightarrow> string \<Rightarrow> string \<Rightarrow> u64 \<Rightarrow> unit res" where
  "verify_proxy_grant C B encoded owner_public expected_tenant_owner expected_proxy_endpoint now_secs =
     ensure (encoded \<noteq> [] \<and> length encoded \<le> MAX_BISCUIT_TOKEN_BYTES)
       ''proxy grant encoded size is invalid'' (
     try_r (validate_value expected_tenant_owner ''proxy grant tenant owner'') (\<lambda>_.
     try_r (validate_value expected_proxy_endpoint ''proxy grant endpoint'') (\<lambda>_.
     ensure (expected_tenant_owner = b64_encode C owner_public)
       ''proxy grant tenant owner does not match the trusted owner key'' (
     try_r (biscuit_root_from_owner B owner_public) (\<lambda>root.
     try_r (ctx ''verify proxy grant Biscuit signature'' (bk_from B encoded root)) (\<lambda>token.
     try_r (to_i64 now_secs) (\<lambda>now.
     try_r (to_i64 (saturating_add now_secs MAX_PROXY_GRANT_CLOCK_SKEW_SECS)) (\<lambda>latest.
     ctx ''proxy grant authorization failed''
       (bk_authorize B token
          [(''request_tenant_owner'', [BStr expected_tenant_owner]),
           (''request_subject_peer'', [BStr expected_proxy_endpoint]),
           (''request_time'', [BInt now]),
           (''latest_issue_time'', [BInt latest])] PROXY_GRANT_POLICY)))))))))"

definition proxy_grant_to_b64 :: "crates \<Rightarrow> bytes \<Rightarrow> string" where
  "proxy_grant_to_b64 C encoded = b64_encode C encoded"

definition proxy_grant_from_b64 :: "crates \<Rightarrow> string \<Rightarrow> bytes res" where
  "proxy_grant_from_b64 C value =
     ensure (value \<noteq> [] \<and> length value \<le> MAX_PROXY_GRANT_B64_LEN)
       ''proxy grant length is invalid'' (b64_decode C value)"

section \<open>Identity tokens\<close>

text \<open>\<open>mint_token\<close> and \<open>verify_token\<close> of \<open>workload_identity.rs\<close>: a role and a list of claims.\<close>

definition MAX_IDENTITY_TOKEN_BYTES :: nat where "MAX_IDENTITY_TOKEN_BYTES = 4096"

definition token_facts :: "string \<Rightarrow> (string \<times> string) list \<Rightarrow> fact list" where
  "token_facts role claims =
     (''role'', [BStr role]) # map (\<lambda>(key, value). (''claim'', [BStr key, BStr value])) claims"

definition mint_token ::
  "crates \<Rightarrow> 'tok biscuit \<Rightarrow> bytes \<Rightarrow> string \<Rightarrow> (string \<times> string) list \<Rightarrow> string res" where
  "mint_token C B private_key role claims =
     try_r (biscuit_keypair_from_ed25519 B private_key) (\<lambda>_.
     try_r (bk_build B private_key (token_facts role claims)) (\<lambda>token.
     try_r (bk_to_vec B token) (\<lambda>b.
     ensure (length b \<le> MAX_IDENTITY_TOKEN_BYTES) ''identity Biscuit exceeds limit''
       (Ok (b64_encode C b)))))"

text \<open>The policy \<open>verify_token\<close> formats: one pair of atoms per claim, sharing the variable
  \<open>$v<index>\<close>.\<close>

definition token_policy :: "string \<Rightarrow> (string \<times> string) list \<Rightarrow> clause list" where
  "token_policy role claims =
     Atom ''role'' [ACst role] #
     concat (map (\<lambda>(index, key, value).
         [Atom ''claim'' [ACst key, AVar (CHR ''v'' # nat_str index)],
          Atom ''expected'' [ACst key, AVar (CHR ''v'' # nat_str index)]])
       (zip [0..<length claims] claims))"

definition verify_token ::
  "crates \<Rightarrow> 'tok biscuit \<Rightarrow> string \<Rightarrow> bytes \<Rightarrow> string \<Rightarrow> (string \<times> string) list \<Rightarrow> u64 option
    \<Rightarrow> unit res" where
  "verify_token C B encoded root role claims now =
     ensure (length encoded \<le> div_ceil MAX_IDENTITY_TOKEN_BYTES 3 * 4)
       ''identity Biscuit encoding exceeds limit'' (
     try_r (b64_decode C encoded) (\<lambda>b.
     ensure (b \<noteq> [] \<and> length b \<le> MAX_IDENTITY_TOKEN_BYTES) ''invalid identity Biscuit size'' (
     try_r (biscuit_root_from_owner B root) (\<lambda>root_key.
     try_r (bk_from B b root_key) (\<lambda>token.
     try_r (case now of
         None \<Rightarrow> Ok []
       | Some t \<Rightarrow> ensure (unat t < 2 ^ 63) ''out of range integral type conversion attempted''
           (Ok [(''time'', [BInt (uint t)])])) (\<lambda>time.
     ctx ''identity Biscuit authorization failed''
       (bk_authorize B token
          (map (\<lambda>(key, value). (''expected'', [BStr key, BStr value])) claims @ time)
          (token_policy role claims))))))))"

section \<open>Workload credentials\<close>

text \<open>\<open>shared/protocol/src/workload_credential.rs\<close>, the legacy bearer credential.\<close>

definition WORKLOAD_CREDENTIAL_ROLE :: string where "WORKLOAD_CREDENTIAL_ROLE = ''workload''"
definition WORKLOAD_CREDENTIAL_OPERATION :: string where
  "WORKLOAD_CREDENTIAL_OPERATION = ''workload_session''"
definition MAX_WORKLOAD_CREDENTIAL_LIFETIME_SECS :: u64 where
  "MAX_WORKLOAD_CREDENTIAL_LIFETIME_SECS = 90 * 24 * 60 * 60"
definition MAX_WORKLOAD_CREDENTIAL_CLOCK_SKEW_SECS :: u64 where
  "MAX_WORKLOAD_CREDENTIAL_CLOCK_SKEW_SECS = 60"
definition MAX_WORKLOAD_CREDENTIAL_B64_LEN :: nat where
  "MAX_WORKLOAD_CREDENTIAL_B64_LEN = 4 * div_ceil MAX_BISCUIT_TOKEN_BYTES 3"

record WorkloadCredentialClaims =
  wc_tenant_owner :: string
  wc_manifest_id :: string
  wc_issued_at_secs :: u64
  wc_expires_at_secs :: u64
  wc_token_id :: string

definition WorkloadCredentialClaims_validate :: "WorkloadCredentialClaims \<Rightarrow> u64 \<Rightarrow> unit res" where
  "WorkloadCredentialClaims_validate c now_secs =
     try_r (validate_value (wc_tenant_owner c) ''workload credential tenant owner'') (\<lambda>_.
     try_r (validate_value (wc_manifest_id c) ''workload credential manifest id'') (\<lambda>_.
     try_r (validate_value (wc_token_id c) ''workload credential token ID'') (\<lambda>_.
     ensure (wc_issued_at_secs c \<le> saturating_add now_secs MAX_WORKLOAD_CREDENTIAL_CLOCK_SKEW_SECS)
       ''workload credential issue time is too far in the future'' (
     ensure (wc_issued_at_secs c \<le> wc_expires_at_secs c)
       ''workload credential expiry precedes issue time'' (
     ensure (saturating_sub (wc_expires_at_secs c) (wc_issued_at_secs c)
         \<le> MAX_WORKLOAD_CREDENTIAL_LIFETIME_SECS)
       ''workload credential lifetime exceeds 7776000 seconds'' (Ok ()))))))"

definition workload_credential_facts :: "WorkloadCredentialClaims \<Rightarrow> int \<Rightarrow> int \<Rightarrow> fact list" where
  "workload_credential_facts c issued expires =
     [(''tenant_owner'', [BStr (wc_tenant_owner c)]),
      (''manifest'', [BStr (wc_manifest_id c)]),
      (''role'', [BStr WORKLOAD_CREDENTIAL_ROLE]),
      (''operation'', [BStr WORKLOAD_CREDENTIAL_OPERATION]),
      (''issued_at'', [BInt issued]),
      (''expires_at'', [BInt expires]),
      (''token_id'', [BStr (wc_token_id c)])]"

definition mint_workload_credential ::
  "crates \<Rightarrow> 'tok biscuit \<Rightarrow> bytes \<Rightarrow> bytes \<Rightarrow> WorkloadCredentialClaims \<Rightarrow> u64 \<Rightarrow> bytes res" where
  "mint_workload_credential C B owner_private owner_public claims now_secs =
     try_r (WorkloadCredentialClaims_validate claims now_secs) (\<lambda>_.
     ensure (wc_tenant_owner claims = b64_encode C owner_public)
       ''workload credential tenant owner does not match the signing key'' (
     try_r (biscuit_keypair_from_ed25519 B owner_private) (\<lambda>_.
     ensure (unat (wc_issued_at_secs claims) < 2 ^ 63 \<and> unat (wc_expires_at_secs claims) < 2 ^ 63)
       ''out of range integral type conversion attempted'' (
     try_r (ctx ''build workload credential Biscuit''
         (bk_build B owner_private (workload_credential_facts claims
            (uint (wc_issued_at_secs claims)) (uint (wc_expires_at_secs claims))))) (\<lambda>token.
     try_r (ctx ''serialize workload credential Biscuit'' (bk_to_vec B token)) (\<lambda>encoded.
     ensure (encoded \<noteq> [] \<and> length encoded \<le> MAX_BISCUIT_TOKEN_BYTES)
       ''workload credential encoded size is invalid'' (Ok encoded)))))))"

definition WORKLOAD_CREDENTIAL_STRUCTURE_POLICY :: "clause list" where
  "WORKLOAD_CREDENTIAL_STRUCTURE_POLICY =
     [Atom ''tenant_owner'' [AVar ''tenant''], Atom ''request_tenant_owner'' [AVar ''tenant''],
      Atom ''manifest'' [AVar ''manifest''], Atom ''request_manifest'' [AVar ''manifest''],
      Atom ''role'' [ACst ''workload''],
      Atom ''operation'' [ACst ''workload_session''],
      Atom ''issued_at'' [AVar ''issued''], Atom ''expires_at'' [AVar ''expires''],
      Atom ''token_id'' [AVar ''token_id'']]"

definition WORKLOAD_CREDENTIAL_POLICY :: "clause list" where
  "WORKLOAD_CREDENTIAL_POLICY =
     [Atom ''tenant_owner'' [AVar ''tenant''], Atom ''request_tenant_owner'' [AVar ''tenant''],
      Atom ''manifest'' [AVar ''manifest''], Atom ''request_manifest'' [AVar ''manifest''],
      Atom ''role'' [ACst ''workload''],
      Atom ''operation'' [ACst ''workload_session''],
      Atom ''issued_at'' [AVar ''issued''], Atom ''expires_at'' [AVar ''expires''],
      Atom ''request_time'' [AVar ''now''],
      Le (AVar ''issued'') (AVar ''now''), Le (AVar ''now'') (AVar ''expires''),
      Atom ''token_id'' [AVar ''token_id'']]"

definition authorize_credential ::
  "crates \<Rightarrow> 'tok biscuit \<Rightarrow> bytes \<Rightarrow> string \<Rightarrow> string \<Rightarrow> u64 option \<Rightarrow> unit res" where
  "authorize_credential C B encoded tenant manifest now_secs =
     ensure (encoded \<noteq> [] \<and> length encoded \<le> MAX_BISCUIT_TOKEN_BYTES)
       ''workload credential encoded size is invalid'' (
     try_r (validate_value tenant ''workload credential tenant owner'') (\<lambda>_.
     try_r (validate_value manifest ''workload credential manifest id'') (\<lambda>_.
     try_r (ctx ''decode claimed tenant owner key'' (b64_decode C tenant)) (\<lambda>owner_public.
     ensure (length owner_public = 32) ''claimed tenant owner key is not an Ed25519 public key'' (
     try_r (biscuit_root_from_owner B owner_public) (\<lambda>root.
     try_r (ctx ''verify workload credential Biscuit signature'' (bk_from B encoded root)) (\<lambda>token.
       let request = [(''request_tenant_owner'', [BStr tenant]), (''request_manifest'', [BStr manifest])] in
       try_r (case now_secs of
           None \<Rightarrow> Ok (request, WORKLOAD_CREDENTIAL_STRUCTURE_POLICY)
         | Some now \<Rightarrow> ensure (unat now < 2 ^ 63)
             ''out of range integral type conversion attempted''
             (Ok (request @ [(''request_time'', [BInt (uint now)])], WORKLOAD_CREDENTIAL_POLICY)))
       (\<lambda>(facts, policy).
       ctx ''workload credential authorization failed'' (bk_authorize B token facts policy)))))))))"

definition verify_workload_credential ::
  "crates \<Rightarrow> 'tok biscuit \<Rightarrow> bytes \<Rightarrow> string \<Rightarrow> string \<Rightarrow> u64 \<Rightarrow> unit res" where
  "verify_workload_credential C B encoded tenant manifest now_secs =
     authorize_credential C B encoded tenant manifest (Some now_secs)"

definition verify_workload_credential_structure ::
  "crates \<Rightarrow> 'tok biscuit \<Rightarrow> bytes \<Rightarrow> string \<Rightarrow> string \<Rightarrow> unit res" where
  "verify_workload_credential_structure C B encoded tenant manifest =
     authorize_credential C B encoded tenant manifest None"

definition workload_credential_to_b64 :: "crates \<Rightarrow> bytes \<Rightarrow> string" where
  "workload_credential_to_b64 C encoded = b64_encode C encoded"

definition workload_credential_from_b64 :: "crates \<Rightarrow> string \<Rightarrow> bytes res" where
  "workload_credential_from_b64 C value =
     ensure (value \<noteq> [] \<and> length value \<le> MAX_WORKLOAD_CREDENTIAL_B64_LEN)
       ''workload credential length is invalid'' (b64_decode C value)"

section \<open>Lemmas\<close>

lemma le_termE: "le_term s t \<Longrightarrow> (\<And>x y. s = BInt x \<Longrightarrow> t = BInt y \<Longrightarrow> x \<le> y \<Longrightarrow> P) \<Longrightarrow> P"
  by (cases s; cases t) auto

lemma to_i64_Ok: "to_i64 v = Ok n \<longleftrightarrow> unat v < 2 ^ 63 \<and> n = uint v"
  by (auto simp: to_i64_def)

text \<open>The fact lists the code's three mint functions hand to the builder.\<close>

definition podmesh_facts :: "fact list set" where
  "podmesh_facts =
     {facts. (\<exists>c i e. facts = proxy_grant_facts c i e) \<or> (\<exists>c i e. facts = workload_credential_facts c i e)
       \<or> (\<exists>role claims. facts = token_facts role claims)}"

lemma token_facts_predicates: "(p, args) \<in> set (token_facts role claims) \<Longrightarrow> p = ''role'' \<or> p = ''claim''"
  by (auto simp: token_facts_def)

lemma podmesh_facts_proxy:
  assumes "facts \<in> podmesh_facts" and "(''operation'', [BStr ''proxy_service'']) \<in> set facts"
  shows "\<exists>c i e. facts = proxy_grant_facts c i e"
proof -
  have "(''operation'', [BStr ''proxy_service'']) \<notin> set (workload_credential_facts c i e)" for c i e
    by (simp add: workload_credential_facts_def WORKLOAD_CREDENTIAL_OPERATION_def)
  moreover have "(''operation'', [BStr ''proxy_service'']) \<notin> set (token_facts role claims)" for role claims
    using token_facts_predicates by fastforce
  ultimately show ?thesis using assms unfolding podmesh_facts_def by blast
qed

lemma bk_from_minted:
  assumes "biscuit_unforged B minted" and "bk_from B encoded root = Ok tok" and "snd ` minted \<subseteq> podmesh_facts"
  shows "\<exists>sk. bk_public B sk = Ok root \<and> (sk, bk_authority B tok) \<in> minted
    \<and> bk_authority B tok \<in> podmesh_facts"
  using assms unfolding biscuit_unforged_def by force

lemma podmesh_facts_claim:
  assumes "facts \<in> podmesh_facts" and "(''claim'', args) \<in> set facts"
  shows "\<exists>role claims. facts = token_facts role claims"
proof -
  have "(''claim'', args) \<notin> set (workload_credential_facts c i e)"
    "(''claim'', args) \<notin> set (proxy_grant_facts c' i e)" for c c' i e
    by (simp_all add: workload_credential_facts_def proxy_grant_facts_def)
  then show ?thesis using assms unfolding podmesh_facts_def by blast
qed

lemma token_policy_atoms:
  assumes "(key, val) \<in> set claims"
  shows "\<exists>x. Atom ''claim'' [ACst key, AVar x] \<in> set (token_policy role claims)
    \<and> Atom ''expected'' [ACst key, AVar x] \<in> set (token_policy role claims)"
proof -
  from assms obtain i where i: "i < length claims" "claims ! i = (key, val)"
    by (metis in_set_conv_nth)
  then have "(i, key, val) \<in> set (zip [0..<length claims] claims)"
    unfolding in_set_zip by (intro exI [of _ i]) simp
  then show ?thesis unfolding token_policy_def by fastforce
qed

lemma verify_token_Ok:
  assumes "verify_token C B encoded root role claims now = Ok ()"
  shows "\<exists>enc tok time. bk_from B enc root = Ok tok \<and> (\<forall>(p, args) \<in> set time. p = ''time'') \<and>
    bk_authorize B tok (map (\<lambda>(key, val). (''expected'', [BStr key, BStr val])) claims @ time)
      (token_policy role claims) = Ok ()"
proof -
  from assms obtain enc tok time where "bk_from B enc root = Ok tok"
    "(case now of None \<Rightarrow> Ok [] | Some t \<Rightarrow> ensure (unat t < 2 ^ 63)
       ''out of range integral type conversion attempted'' (Ok [(''time'', [BInt (uint t)])])) = Ok time"
    "bk_authorize B tok (map (\<lambda>(key, val). (''expected'', [BStr key, BStr val])) claims @ time)
      (token_policy role claims) = Ok ()"
    unfolding verify_token_def biscuit_root_from_owner_def biscuit_public_key_from_ed25519_def
      ensure_Ok_iff try_r_Ok_iff ctx_Ok_iff by blast
  moreover from this(2) have "\<forall>(p, args) \<in> set time. p = ''time''"
    by (auto split: option.splits)
  ultimately show ?thesis by blast
qed

text \<open>An identity token that verifies was minted with the root key as a token of that role, and
  among its claims are the ones that were asked for.\<close>

lemma verify_token_sound:
  assumes "biscuit_sound B" and "biscuit_unforged B minted" and "snd ` minted \<subseteq> podmesh_facts"
    and "verify_token C B encoded root role claims now = Ok ()"
    and "claims \<noteq> []" and "distinct (map fst claims)"
  shows "\<exists>sk cl. bk_public B sk = Ok root \<and> (sk, token_facts role cl) \<in> minted \<and> set claims \<subseteq> set cl"
proof -
  let ?exp = "map (\<lambda>(key, val). (''expected'', [BStr key, BStr val])) claims"
  from verify_token_Ok [OF assms(4)] obtain enc tok time where tok: "bk_from B enc root = Ok tok"
    "\<forall>(p, args) \<in> set time. p = ''time''"
    "bk_authorize B tok (?exp @ time) (token_policy role claims) = Ok ()" by blast
  from bk_from_minted [OF assms(2) tok(1) assms(3)] obtain sk where sk: "bk_public B sk = Ok root"
    "(sk, bk_authority B tok) \<in> minted" "bk_authority B tok \<in> podmesh_facts" by blast
  obtain \<sigma> where \<sigma>: "\<forall>c \<in> set (token_policy role claims).
      holds (set (bk_authority B tok) \<union> set (?exp @ time)) \<sigma> c"
    using assms(1) [unfolded biscuit_sound_def, rule_format, OF tok(3)] by (rule exE)
  have verifier: "p \<in> {''expected'', ''time''}" if "(p, args) \<in> set (?exp @ time)" for p args
    using that tok(2) by auto
  have claim: "\<exists>v. (''claim'', [BStr key, v]) \<in> set (bk_authority B tok)
      \<and> (''expected'', [BStr key, v]) \<in> set (bk_authority B tok) \<union> set (?exp @ time)"
    if "(key, val) \<in> set claims" for key val
  proof -
    from token_policy_atoms [OF that, of role] obtain x where
      "Atom ''claim'' [ACst key, AVar x] \<in> set (token_policy role claims)"
      "Atom ''expected'' [ACst key, AVar x] \<in> set (token_policy role claims)" by blast
    from this [THEN bspec [OF \<sigma>]] have
      "(''claim'', [BStr key, \<sigma> x]) \<in> set (bk_authority B tok) \<union> set (?exp @ time)"
      "(''expected'', [BStr key, \<sigma> x]) \<in> set (bk_authority B tok) \<union> set (?exp @ time)" by simp_all
    with verifier [of "''claim''"] show ?thesis by blast
  qed
  obtain key val where "(key, val) \<in> set claims"
    using assms(5) by (metis list.set_intros(1) neq_Nil_conv surj_pair)
  with claim sk(3) obtain role' cl where cl: "bk_authority B tok = token_facts role' cl"
    using podmesh_facts_claim by blast
  have "holds (set (token_facts role' cl) \<union> set (?exp @ time)) \<sigma> (Atom ''role'' [ACst role])"
    using bspec [OF \<sigma>, of "Atom ''role'' [ACst role]"] cl by (simp add: token_policy_def)
  with verifier [of "''role''"] have "(''role'', [BStr role]) \<in> set (token_facts role' cl)" by auto
  then have role: "role' = role" by (auto simp: token_facts_def)
  have "(key, val) \<in> set cl" if kv: "(key, val) \<in> set claims" for key val
  proof -
    from claim [OF kv] obtain v where v: "(''claim'', [BStr key, v]) \<in> set (token_facts role' cl)"
      "(''expected'', [BStr key, v]) \<in> set (token_facts role' cl) \<union> set (?exp @ time)"
      unfolding cl by blast
    then have "(''expected'', [BStr key, v]) \<in> set ?exp"
      using token_facts_predicates [of "''expected''"] tok(2) by auto
    then obtain w where w: "v = BStr w" "(key, w) \<in> set claims" by auto
    with assms(6) kv have "w = val" by (metis eq_key_imp_eq_value)
    with v(1) w(1) show ?thesis by (auto simp: token_facts_def)
  qed
  then have "set claims \<subseteq> set cl" by auto
  with sk cl role show ?thesis by metis
qed

lemma verify_proxy_grant_Ok:
  assumes "verify_proxy_grant C B encoded owner tenant endpoint now = Ok ()"
  shows "tenant = b64_encode C owner \<and> (\<exists>tok. bk_from B encoded owner = Ok tok \<and>
    bk_authorize B tok
      [(''request_tenant_owner'', [BStr tenant]), (''request_subject_peer'', [BStr endpoint]),
       (''request_time'', [BInt (uint now)]),
       (''latest_issue_time'', [BInt (uint (saturating_add now MAX_PROXY_GRANT_CLOCK_SKEW_SECS))])]
      PROXY_GRANT_POLICY = Ok ())"
  using assms
  unfolding verify_proxy_grant_def biscuit_root_from_owner_def biscuit_public_key_from_ed25519_def
    ensure_Ok_iff try_r_Ok_iff ctx_Ok_iff to_i64_Ok
  by blast

section \<open>Properties\<close>

text \<open>C17: a proxy grant that \<open>verify_proxy_grant\<close> accepts was minted by the holder of the tenant's
  key, as a proxy grant, naming exactly this tenant and exactly the endpoint the connection came
  from, issued no later than 60 seconds past the clock and not expired. Identity tokens and
  workload credentials signed by the same owner key never pass as proxy grants. The owner's key is
  used only through podmesh's own mint functions.\<close>

theorem proxy_grant_sound:
  assumes "biscuit_sound B" and "biscuit_unforged B minted" and "snd ` minted \<subseteq> podmesh_facts"
    and "verify_proxy_grant C B encoded owner tenant endpoint now = Ok ()"
  shows "tenant = b64_encode C owner \<and>
    (\<exists>sk c issued expires. bk_public B sk = Ok owner
      \<and> (sk, proxy_grant_facts c issued expires) \<in> minted
      \<and> pg_tenant_owner c = tenant \<and> pg_proxy_endpoint c = endpoint
      \<and> issued \<le> uint now + 60 \<and> uint now \<le> expires)"
proof -
  let ?late = "saturating_add now MAX_PROXY_GRANT_CLOCK_SKEW_SECS"
  let ?facts = "[(''request_tenant_owner'', [BStr tenant]), (''request_subject_peer'', [BStr endpoint]),
    (''request_time'', [BInt (uint now)]), (''latest_issue_time'', [BInt (uint ?late)])]"
  from verify_proxy_grant_Ok [OF assms(4)] obtain tok where tok: "bk_from B encoded owner = Ok tok"
    "bk_authorize B tok ?facts PROXY_GRANT_POLICY = Ok ()" "tenant = b64_encode C owner" by blast
  from bk_from_minted [OF assms(2) tok(1) assms(3)] obtain sk where sk: "bk_public B sk = Ok owner"
    "(sk, bk_authority B tok) \<in> minted" "bk_authority B tok \<in> podmesh_facts" by blast
  obtain \<sigma> where \<sigma>: "\<forall>c \<in> set PROXY_GRANT_POLICY. holds (set (bk_authority B tok) \<union> set ?facts) \<sigma> c"
    using assms(1) [unfolded biscuit_sound_def, rule_format, OF tok(2)] by (rule exE)
  note atom = bspec [OF \<sigma>]
  have "(''operation'', [BStr ''proxy_service'']) \<in> set (bk_authority B tok)"
    using atom [of "Atom ''operation'' [ACst ''proxy_service'']"] by (simp add: PROXY_GRANT_POLICY_def)
  with sk(3) obtain c i e where c: "bk_authority B tok = proxy_grant_facts c i e"
    using podmesh_facts_proxy by blast
  note eval = PROXY_GRANT_POLICY_def proxy_grant_facts_def
  have "\<sigma> ''tenant'' = BStr (pg_tenant_owner c)" "\<sigma> ''proxy'' = BStr (pg_proxy_endpoint c)"
    "\<sigma> ''issued'' = BInt i" "\<sigma> ''expires'' = BInt e"
    subgoal using atom [of "Atom ''tenant_owner'' [AVar ''tenant'']"] unfolding c by (simp add: eval)
    subgoal using atom [of "Atom ''subject_peer'' [AVar ''proxy'']"] unfolding c by (simp add: eval)
    subgoal using atom [of "Atom ''issued_at'' [AVar ''issued'']"] unfolding c by (simp add: eval)
    subgoal using atom [of "Atom ''expires_at'' [AVar ''expires'']"] unfolding c by (simp add: eval)
    done
  moreover have "\<sigma> ''tenant'' = BStr tenant" "\<sigma> ''proxy'' = BStr endpoint"
    "\<sigma> ''now'' = BInt (uint now)" "\<sigma> ''latest'' = BInt (uint ?late)"
    subgoal using atom [of "Atom ''request_tenant_owner'' [AVar ''tenant'']"] unfolding c by (simp add: eval)
    subgoal using atom [of "Atom ''request_subject_peer'' [AVar ''proxy'']"] unfolding c by (simp add: eval)
    subgoal using atom [of "Atom ''request_time'' [AVar ''now'']"] unfolding c by (simp add: eval)
    subgoal using atom [of "Atom ''latest_issue_time'' [AVar ''latest'']"] unfolding c by (simp add: eval)
    done
  moreover have "le_term (\<sigma> ''issued'') (\<sigma> ''latest'')" "le_term (\<sigma> ''now'') (\<sigma> ''expires'')"
    using atom [of "Le (AVar ''issued'') (AVar ''latest'')"] atom [of "Le (AVar ''now'') (AVar ''expires'')"]
    by (simp_all add: PROXY_GRANT_POLICY_def)
  ultimately have "pg_tenant_owner c = tenant" "pg_proxy_endpoint c = endpoint" "i \<le> uint ?late" "uint now \<le> e"
    by simp_all
  moreover have "unat ?late \<le> unat now + 60"
    by (simp add: unat_saturating_add MAX_PROXY_GRANT_CLOCK_SKEW_SECS_def)
  then have "uint ?late \<le> uint now + 60" unfolding uint_nat by linarith
  ultimately show ?thesis
    using tok(3) sk(1,2) unfolding c
    by (intro conjI exI [of _ sk] exI [of _ c] exI [of _ i] exI [of _ e]) simp_all
qed

text \<open>Witness of C17: a token whose authority block is a grant for the endpoint \<open>ep\<close>, opened by one
  root key, and an authorizer that allows that one request.\<close>

definition toy_owner :: bytes where "toy_owner = replicate 32 3"

definition toy_claims :: ProxyGrantClaims where
  "toy_claims = \<lparr>pg_tenant_owner = b64_encode (toy_crates (\<lambda>_ _ _. True)) toy_owner,
     pg_proxy_endpoint = ''ep'', pg_issued_at_secs = 100, pg_expires_at_secs = 200,
     pg_token_id = ''t''\<rparr>"

definition toy_request :: "fact list" where
  "toy_request = [(''request_tenant_owner'', [BStr (pg_tenant_owner toy_claims)]),
     (''request_subject_peer'', [BStr ''ep'']), (''request_time'', [BInt 150]),
     (''latest_issue_time'', [BInt 210])]"

definition toy_biscuit :: "fact list biscuit" where
  "toy_biscuit =
     \<lparr>bk_public = (\<lambda>sk. Ok sk), bk_root = (\<lambda>_. Ok ()), bk_build = (\<lambda>_ facts. Ok facts),
      bk_to_vec = (\<lambda>_. Ok [1]),
      bk_from = (\<lambda>enc root. if root = toy_owner then Ok (proxy_grant_facts toy_claims 100 200) else Err ''sig''),
      bk_authorize = (\<lambda>tok facts policy.
        if tok = proxy_grant_facts toy_claims 100 200 \<and> facts = toy_request \<and> policy = PROXY_GRANT_POLICY
        then Ok () else Err ''denied''),
      bk_authority = (\<lambda>tok. tok)\<rparr>"

lemma toy_biscuit_sound: "biscuit_sound toy_biscuit"
proof -
  define \<sigma> where "\<sigma> = (\<lambda>x. if x = ''tenant'' then BStr (pg_tenant_owner toy_claims)
    else if x = ''proxy'' then BStr ''ep'' else if x = ''issued'' then BInt 100
    else if x = ''expires'' then BInt 200 else if x = ''now'' then BInt 150
    else if x = ''latest'' then BInt 210 else BStr ''t'')"
  have "\<forall>c \<in> set PROXY_GRANT_POLICY.
      holds (set (proxy_grant_facts toy_claims 100 200) \<union> set toy_request) \<sigma> c"
    by (simp add: PROXY_GRANT_POLICY_def proxy_grant_facts_def toy_request_def \<sigma>_def
        PROXY_GRANT_ROLE_def PROXY_GRANT_OPERATION_def) (simp add: toy_claims_def)
  then show ?thesis
    by (auto simp: biscuit_sound_def toy_biscuit_def split: if_splits)
qed

theorem proxy_grant_sound_witness:
  "verify_proxy_grant (toy_crates (\<lambda>_ _ _. True)) toy_biscuit [1] toy_owner
     (pg_tenant_owner toy_claims) ''ep'' 150 = Ok () \<and>
   (\<exists>sk c issued expires. (sk, proxy_grant_facts c issued expires)
       \<in> {(toy_owner, proxy_grant_facts toy_claims 100 200)}
     \<and> pg_proxy_endpoint c = ''ep'' \<and> issued \<le> uint (150 :: u64) + 60 \<and> uint (150 :: u64) \<le> expires)"
proof -
  let ?C = "toy_crates (\<lambda>_ _ _. True)" and ?minted = "{(toy_owner, proxy_grant_facts toy_claims 100 200)}"
  have unforged: "biscuit_unforged toy_biscuit ?minted"
    by (auto simp: biscuit_unforged_def toy_biscuit_def split: if_splits)
  have "proxy_grant_facts toy_claims 100 200 \<in> podmesh_facts" unfolding podmesh_facts_def by blast
  then have facts: "snd ` ?minted \<subseteq> podmesh_facts" by simp
  have "length (pg_tenant_owner toy_claims) = 32" "pg_tenant_owner toy_claims = b64_encode ?C toy_owner"
    by (simp_all add: toy_claims_def b64_encode_def toy_crates_def toy_owner_def)
  moreover have "saturating_add (150 :: u64) 60 = 210" by (simp add: saturating_add_def)
  ultimately have ok: "verify_proxy_grant ?C toy_biscuit [1] toy_owner (pg_tenant_owner toy_claims) ''ep'' 150 = Ok ()"
    by (auto simp: verify_proxy_grant_def validate_value_def biscuit_root_from_owner_def to_i64_def
        biscuit_public_key_from_ed25519_def toy_biscuit_def toy_request_def MAX_AUTHZ_VALUE_LEN_def
        MAX_BISCUIT_TOKEN_BYTES_def MAX_PROXY_GRANT_CLOCK_SKEW_SECS_def)
  from proxy_grant_sound [OF toy_biscuit_sound unforged facts ok] ok show ?thesis by blast
qed

end
