(* ===== verification/Workload_Identity.thy ===== *)
theory Workload_Identity
  imports Biscuit_Tokens
begin

text \<open>
  \<open>shared/protocol/src/workload_identity.rs\<close>: owner-rooted, endpoint-bound workload identities, a
  chain of two Biscuits. The owner's token delegates a deployment scope to an issuer; the issuer's
  token binds that authority to a transport endpoint and an application key. \<open>serde_json\<close> on the
  two types is the record \<open>identity_json\<close>.
\<close>

definition WORKLOAD_IDENTITY_VERSION :: u16 where "WORKLOAD_IDENTITY_VERSION = 1"
definition MAX_DELEGATION_BYTES :: nat where "MAX_DELEGATION_BYTES = 6 * 1024"
definition MAX_WORKLOAD_IDENTITY_BYTES :: nat where "MAX_WORKLOAD_IDENTITY_BYTES = 12 * 1024"
definition MAX_IDENTITY_LIFETIME_SECS :: u64 where "MAX_IDENTITY_LIFETIME_SECS = 3600"
definition IDENTITY_CLOCK_SKEW_SECS :: u64 where "IDENTITY_CLOCK_SKEW_SECS = 60"

record EnrollmentScope =
  sc_tenant_owner :: string
  sc_manifest_id :: string
  sc_workload_id :: string
  sc_revision_id :: string
  sc_issuer_public_key_b64 :: string
  sc_token_id :: string
  sc_issued_at_secs :: u64
  sc_expires_at_secs :: "u64 option"
  sc_max_child_lifetime_secs :: u64

record EnrollmentDelegation =
  dl_version :: u16
  dl_scope :: EnrollmentScope
  dl_biscuit_b64 :: string

record WorkloadIdentityClaims =
  ic_delegation_digest :: string
  ic_endpoint_id :: string
  ic_signing_public_key_b64 :: string
  ic_issued_at_secs :: u64
  ic_expires_at_secs :: u64

record WorkloadIdentity =
  wi_version :: u16
  wi_delegation :: EnrollmentDelegation
  wi_claims :: WorkloadIdentityClaims
  wi_biscuit_b64 :: string

record identity_json =
  js_delegation :: "EnrollmentDelegation \<Rightarrow> bytes res"
  js_identity :: "WorkloadIdentity \<Rightarrow> bytes res"
  js_parse_delegation :: "bytes \<Rightarrow> EnrollmentDelegation res"
  js_parse_identity :: "bytes \<Rightarrow> WorkloadIdentity res"

section \<open>Helpers\<close>

definition u64_str :: "u64 \<Rightarrow> string" where "u64_str n = nat_str (unat n)"

definition public_key :: "crates \<Rightarrow> string \<Rightarrow> bytes res" where
  "public_key C value =
     ensure (length value \<le> 44) ''public key encoding exceeds limit'' (
     try_r (b64_decode C value) (\<lambda>key.
     ensure (length key = 32 \<and> b64_encode C key = value) ''invalid identity public key'' (Ok key)))"

definition hex_id :: "string \<Rightarrow> unit res" where
  "hex_id value =
     ensure (length value = 64 \<and> list_all is_lower_hexdigit value)
       ''invalid identity digest/endpoint'' (Ok ())"

definition identity_encode :: "bytes res \<Rightarrow> nat \<Rightarrow> bytes res" where
  "identity_encode json limit =
     try_r json (\<lambda>b.
     ensure (b \<noteq> [] \<and> length b \<le> limit) ''identity encoding exceeds limit'' (Ok b))"

definition identity_decode :: "(bytes \<Rightarrow> 'a res) \<Rightarrow> bytes \<Rightarrow> nat \<Rightarrow> 'a res" where
  "identity_decode parse value limit =
     ensure (value \<noteq> [] \<and> length value \<le> limit) ''identity encoding exceeds limit''
       (ctx ''decode workload identity'' (parse value))"

definition identity_decode_b64 :: "crates \<Rightarrow> (bytes \<Rightarrow> 'a res) \<Rightarrow> string \<Rightarrow> nat \<Rightarrow> 'a res" where
  "identity_decode_b64 C parse value limit =
     ensure (length value \<le> div_ceil limit 3 * 4) ''identity base64 exceeds limit'' (
     try_r (b64_decode C value) (\<lambda>b. identity_decode parse b limit))"

section \<open>Enrollment delegations\<close>

definition EnrollmentScope_fields :: "EnrollmentScope \<Rightarrow> (string \<times> string) list" where
  "EnrollmentScope_fields s =
     [(''owner'', sc_tenant_owner s), (''manifest'', sc_manifest_id s),
      (''workload'', sc_workload_id s), (''revision'', sc_revision_id s),
      (''issuer'', sc_issuer_public_key_b64 s), (''generation'', sc_token_id s),
      (''issued'', u64_str (sc_issued_at_secs s)),
      (''expires'', case sc_expires_at_secs s of Some n \<Rightarrow> u64_str n | None \<Rightarrow> ''standing''),
      (''child_lifetime'', u64_str (sc_max_child_lifetime_secs s))]"

definition EnrollmentScope_validate :: "crates \<Rightarrow> EnrollmentScope \<Rightarrow> unit res" where
  "EnrollmentScope_validate C s =
     try_r (public_key C (sc_tenant_owner s)) (\<lambda>_.
     try_r (public_key C (sc_issuer_public_key_b64 s)) (\<lambda>_.
     try_r (hex_id (sc_manifest_id s)) (\<lambda>_.
     try_r (hex_id (sc_workload_id s)) (\<lambda>_.
     try_r (hex_id (sc_revision_id s)) (\<lambda>_.
     ensure (sc_token_id s \<noteq> [] \<and> length (sc_token_id s) \<le> 128
         \<and> list_all (\<lambda>c. (of_char c :: nat) < 128) (sc_token_id s))
       ''invalid enrollment generation'' (
     ensure (1 \<le> sc_max_child_lifetime_secs s
         \<and> sc_max_child_lifetime_secs s \<le> MAX_IDENTITY_LIFETIME_SECS)
       ''invalid delegated child lifetime'' (
     ensure (unat (sc_issued_at_secs s) < 2 ^ 63) ''invalid delegation issue time'' (
       case sc_expires_at_secs s of
         None \<Rightarrow> Ok ()
       | Some expires \<Rightarrow>
           ensure (sc_issued_at_secs s \<le> expires \<and> unat expires < 2 ^ 63)
             ''invalid delegation expiry'' (Ok ())))))))))"

definition EnrollmentDelegation_verify ::
  "crates \<Rightarrow> 'tok biscuit \<Rightarrow> EnrollmentDelegation \<Rightarrow> u64 option \<Rightarrow> unit res" where
  "EnrollmentDelegation_verify C B d now =
     ensure (dl_version d = WORKLOAD_IDENTITY_VERSION) ''unsupported enrollment delegation version'' (
     try_r (EnrollmentScope_validate C (dl_scope d)) (\<lambda>_.
     try_r (public_key C (sc_tenant_owner (dl_scope d))) (\<lambda>owner.
     try_r (verify_token C B (dl_biscuit_b64 d) owner ''workload_enrollment''
         (EnrollmentScope_fields (dl_scope d)) now) (\<lambda>_.
       case now of
         None \<Rightarrow> Ok ()
       | Some t \<Rightarrow>
           ensure (sc_issued_at_secs (dl_scope d) \<le> saturating_add t IDENTITY_CLOCK_SKEW_SECS)
             ''delegation is not yet valid'' (
           case sc_expires_at_secs (dl_scope d) of
             None \<Rightarrow> Ok ()
           | Some expires \<Rightarrow> ensure (t \<le> expires) ''enrollment delegation expired'' (Ok ()))))))"

definition EnrollmentDelegation_verify_scope ::
  "crates \<Rightarrow> 'tok biscuit \<Rightarrow> EnrollmentDelegation \<Rightarrow> string \<Rightarrow> string \<Rightarrow> string \<Rightarrow> string option
    \<Rightarrow> u64 option \<Rightarrow> unit res" where
  "EnrollmentDelegation_verify_scope C B d owner manifest workload issuer now =
     ensure (sc_tenant_owner (dl_scope d) = owner \<and> sc_manifest_id (dl_scope d) = manifest
         \<and> sc_workload_id (dl_scope d) = workload)
       ''enrollment delegation scope mismatch'' (
     try_r (case issuer of
         None \<Rightarrow> Ok ()
       | Some i \<Rightarrow> ensure (sc_issuer_public_key_b64 (dl_scope d) = i)
           ''enrollment issuer mismatch'' (Ok ())) (\<lambda>_.
       EnrollmentDelegation_verify C B d now))"

definition EnrollmentDelegation_to_bytes :: "identity_json \<Rightarrow> EnrollmentDelegation \<Rightarrow> bytes res" where
  "EnrollmentDelegation_to_bytes J d = identity_encode (js_delegation J d) MAX_DELEGATION_BYTES"

definition EnrollmentDelegation_digest ::
  "crates \<Rightarrow> identity_json \<Rightarrow> EnrollmentDelegation \<Rightarrow> string res" where
  "EnrollmentDelegation_digest C J d =
     try_r (EnrollmentDelegation_to_bytes J d) (\<lambda>b. Ok (blake3_hex C b))"

definition EnrollmentDelegation_from_b64 ::
  "crates \<Rightarrow> identity_json \<Rightarrow> string \<Rightarrow> EnrollmentDelegation res" where
  "EnrollmentDelegation_from_b64 C J value =
     identity_decode_b64 C (js_parse_delegation J) value MAX_DELEGATION_BYTES"

definition EnrollmentDelegation_mint ::
  "crates \<Rightarrow> 'tok biscuit \<Rightarrow> identity_json \<Rightarrow> bytes \<Rightarrow> EnrollmentScope \<Rightarrow> u64
    \<Rightarrow> EnrollmentDelegation res" where
  "EnrollmentDelegation_mint C B J owner_private scope now =
     try_r (EnrollmentScope_validate C scope) (\<lambda>_.
     try_r (biscuit_keypair_from_ed25519 B owner_private) (\<lambda>owner_public.
     ensure (sc_tenant_owner scope = b64_encode C owner_public)
       ''delegation owner signing key mismatch'' (
     try_r (mint_token C B owner_private ''workload_enrollment'' (EnrollmentScope_fields scope)) (\<lambda>b64.
       let v = \<lparr>dl_version = WORKLOAD_IDENTITY_VERSION, dl_scope = scope, dl_biscuit_b64 = b64\<rparr> in
       try_r (EnrollmentDelegation_verify C B v (Some now)) (\<lambda>_.
       try_r (EnrollmentDelegation_to_bytes J v) (\<lambda>_. Ok v))))))"

section \<open>Workload identities\<close>

definition WorkloadIdentityClaims_fields :: "WorkloadIdentityClaims \<Rightarrow> (string \<times> string) list" where
  "WorkloadIdentityClaims_fields c =
     [(''delegation'', ic_delegation_digest c), (''endpoint'', ic_endpoint_id c),
      (''signer'', ic_signing_public_key_b64 c), (''issued'', u64_str (ic_issued_at_secs c)),
      (''expires'', u64_str (ic_expires_at_secs c))]"

definition WorkloadIdentityClaims_validate :: "crates \<Rightarrow> WorkloadIdentityClaims \<Rightarrow> unit res" where
  "WorkloadIdentityClaims_validate C c =
     try_r (hex_id (ic_delegation_digest c)) (\<lambda>_.
     try_r (hex_id (ic_endpoint_id c)) (\<lambda>_.
     try_r (public_key C (ic_signing_public_key_b64 c)) (\<lambda>_.
     ensure (ic_issued_at_secs c < ic_expires_at_secs c \<and> unat (ic_expires_at_secs c) < 2 ^ 63)
       ''invalid identity validity window'' (
     ensure (ic_expires_at_secs c - ic_issued_at_secs c \<le> MAX_IDENTITY_LIFETIME_SECS)
       ''identity lifetime exceeds limit'' (Ok ())))))"

definition WorkloadIdentity_verify ::
  "crates \<Rightarrow> 'tok biscuit \<Rightarrow> identity_json \<Rightarrow> WorkloadIdentity \<Rightarrow> u64 option \<Rightarrow> unit res" where
  "WorkloadIdentity_verify C B J w now =
     (let scope = dl_scope (wi_delegation w); c = wi_claims w in
     ensure (wi_version w = WORKLOAD_IDENTITY_VERSION) ''unsupported workload identity version'' (
     try_r (EnrollmentDelegation_verify C B (wi_delegation w) now) (\<lambda>_.
     try_r (WorkloadIdentityClaims_validate C c) (\<lambda>_.
     try_r (EnrollmentDelegation_digest C J (wi_delegation w)) (\<lambda>digest.
     ensure (ic_delegation_digest c = digest) ''identity delegation mismatch'' (
     ensure (ic_expires_at_secs c - ic_issued_at_secs c \<le> sc_max_child_lifetime_secs scope)
       ''identity exceeds delegated lifetime'' (
     ensure (sc_issued_at_secs scope \<le> saturating_add (ic_issued_at_secs c) IDENTITY_CLOCK_SKEW_SECS)
       ''identity predates delegation'' (
     try_r (case sc_expires_at_secs scope of
         None \<Rightarrow> Ok ()
       | Some end \<Rightarrow> ensure (ic_expires_at_secs c \<le> end) ''identity outlives delegation'' (Ok ())) (\<lambda>_.
     try_r (public_key C (sc_issuer_public_key_b64 scope)) (\<lambda>issuer.
     try_r (verify_token C B (wi_biscuit_b64 w) issuer ''workload_identity''
         (WorkloadIdentityClaims_fields c) now) (\<lambda>_.
       case now of
         None \<Rightarrow> Ok ()
       | Some t \<Rightarrow>
           ensure (ic_issued_at_secs c \<le> saturating_add t IDENTITY_CLOCK_SKEW_SECS
               \<and> t \<le> ic_expires_at_secs c)
             ''workload identity expired or not yet valid'' (Ok ()))))))))))))"

definition WorkloadIdentity_verify_session ::
  "crates \<Rightarrow> 'tok biscuit \<Rightarrow> identity_json \<Rightarrow> WorkloadIdentity \<Rightarrow> string \<Rightarrow> string \<Rightarrow> string
    \<Rightarrow> bytes \<Rightarrow> u64 \<Rightarrow> unit res" where
  "WorkloadIdentity_verify_session C B J w owner manifest endpoint signing_key now =
     ensure (sc_tenant_owner (dl_scope (wi_delegation w)) = owner
         \<and> sc_manifest_id (dl_scope (wi_delegation w)) = manifest)
       ''workload identity tenant/scope mismatch'' (
     ensure (ic_endpoint_id (wi_claims w) = endpoint) ''workload identity transport mismatch'' (
     ensure (ic_signing_public_key_b64 (wi_claims w) = b64_encode C signing_key)
       ''workload identity application signer mismatch'' (
     WorkloadIdentity_verify C B J w (Some now))))"

definition WorkloadIdentity_to_bytes :: "identity_json \<Rightarrow> WorkloadIdentity \<Rightarrow> bytes res" where
  "WorkloadIdentity_to_bytes J w = identity_encode (js_identity J w) MAX_WORKLOAD_IDENTITY_BYTES"

definition WorkloadIdentity_from_bytes :: "identity_json \<Rightarrow> bytes \<Rightarrow> WorkloadIdentity res" where
  "WorkloadIdentity_from_bytes J b = identity_decode (js_parse_identity J) b MAX_WORKLOAD_IDENTITY_BYTES"

definition WorkloadIdentity_mint ::
  "crates \<Rightarrow> 'tok biscuit \<Rightarrow> identity_json \<Rightarrow> bytes \<Rightarrow> EnrollmentDelegation \<Rightarrow> string \<Rightarrow> string
    \<Rightarrow> u64 \<Rightarrow> u64 \<Rightarrow> WorkloadIdentity res" where
  "WorkloadIdentity_mint C B J issuer_private delegation endpoint_id signer now lifetime =
     try_r (EnrollmentDelegation_verify C B delegation (Some now)) (\<lambda>_.
     try_r (biscuit_keypair_from_ed25519 B issuer_private) (\<lambda>issuer_public.
     ensure (b64_encode C issuer_public = sc_issuer_public_key_b64 (dl_scope delegation))
       ''identity signing issuer mismatch'' (
     ensure (1 \<le> lifetime \<and> lifetime \<le> sc_max_child_lifetime_secs (dl_scope delegation))
       ''child exceeds delegated lifetime'' (
     try_r (ok_or (checked_add now lifetime) ''identity expiry overflow'') (\<lambda>expiry.
     try_r (EnrollmentDelegation_digest C J delegation) (\<lambda>digest.
       let expires = (case sc_expires_at_secs (dl_scope delegation) of
             Some end \<Rightarrow> min end expiry | None \<Rightarrow> expiry);
           c = \<lparr>ic_delegation_digest = digest, ic_endpoint_id = endpoint_id,
             ic_signing_public_key_b64 = signer, ic_issued_at_secs = now,
             ic_expires_at_secs = expires\<rparr>
       in try_r (WorkloadIdentityClaims_validate C c) (\<lambda>_.
          try_r (mint_token C B issuer_private ''workload_identity'' (WorkloadIdentityClaims_fields c)) (\<lambda>b64.
            let w = \<lparr>wi_version = WORKLOAD_IDENTITY_VERSION, wi_delegation = delegation,
              wi_claims = c, wi_biscuit_b64 = b64\<rparr> in
            try_r (WorkloadIdentity_verify C B J w (Some now)) (\<lambda>_.
            try_r (WorkloadIdentity_to_bytes J w) (\<lambda>_. Ok w))))))))))"

section \<open>Lemmas\<close>

text \<open>The fact lists of minted tokens, when the keys are used through the mint functions of the code
  only: identity tokens carry the fields of a scope or of a claims record.\<close>

definition identity_minted :: "(bytes \<times> fact list) set \<Rightarrow> bool" where
  "identity_minted minted \<longleftrightarrow> snd ` minted \<subseteq> podmesh_facts \<and>
     (\<forall>sk cl. (sk, token_facts ''workload_enrollment'' cl) \<in> minted \<longrightarrow> (\<exists>s. cl = EnrollmentScope_fields s)) \<and>
     (\<forall>sk cl. (sk, token_facts ''workload_identity'' cl) \<in> minted \<longrightarrow> (\<exists>c. cl = WorkloadIdentityClaims_fields c))"

lemma same_keys_eq:
  assumes "map fst xs = map fst ys" and "distinct (map fst ys)" and "set xs \<subseteq> set ys"
  shows "xs = ys"
proof (rule nth_equalityI)
  show len: "length xs = length ys" using assms(1) by (metis length_map)
  fix i assume i: "i < length xs"
  then have "xs ! i \<in> set ys" using assms(3) nth_mem by blast
  then obtain j where j: "j < length ys" "ys ! j = xs ! i" by (metis in_set_conv_nth)
  then have "map fst ys ! j = map fst ys ! i"
    using i len assms(1) by (metis nth_map)
  then have "j = i" using nth_eq_iff_index_eq [OF assms(2), of j i] i j(1) len by simp
  with j show "xs ! i = ys ! i" by simp
qed

lemma public_key_Ok: "public_key C s = Ok key \<Longrightarrow> length key = 32 \<and> b64_encode C key = s"
  by (auto simp: public_key_def)

lemma delegation_minted:
  assumes "biscuit_sound B" and "biscuit_unforged B minted" and "identity_minted minted"
    and "EnrollmentDelegation_verify C B d now = Ok ()"
  shows "\<exists>sk owner. bk_public B sk = Ok owner \<and> b64_encode C owner = sc_tenant_owner (dl_scope d)
    \<and> (sk, token_facts ''workload_enrollment'' (EnrollmentScope_fields (dl_scope d))) \<in> minted"
proof -
  let ?f = "EnrollmentScope_fields (dl_scope d)"
  from assms(4) obtain owner where owner: "public_key C (sc_tenant_owner (dl_scope d)) = Ok owner"
    "verify_token C B (dl_biscuit_b64 d) owner ''workload_enrollment'' ?f now = Ok ()"
    by (auto simp: EnrollmentDelegation_verify_def)
  have "?f \<noteq> []" "distinct (map fst ?f)" by (simp_all add: EnrollmentScope_fields_def)
  with verify_token_sound [OF assms(1,2) _ owner(2)] assms(3) obtain sk cl where
    sk: "bk_public B sk = Ok owner" "(sk, token_facts ''workload_enrollment'' cl) \<in> minted" "set ?f \<subseteq> set cl"
    unfolding identity_minted_def by blast
  moreover from sk(2) assms(3) obtain s where cl: "cl = EnrollmentScope_fields s"
    unfolding identity_minted_def by blast
  moreover have "?f = cl"
    using sk(3) unfolding cl by (intro same_keys_eq) (simp_all add: EnrollmentScope_fields_def)
  ultimately show ?thesis using public_key_Ok [OF owner(1)] by metis
qed

lemma verify_Some_Ok:
  assumes "WorkloadIdentity_verify C B J w (Some t) = Ok ()"
  defines "scope \<equiv> dl_scope (wi_delegation w)" and "c \<equiv> wi_claims w"
  shows "EnrollmentDelegation_verify C B (wi_delegation w) (Some t) = Ok ()"
    and "\<exists>issuer. public_key C (sc_issuer_public_key_b64 scope) = Ok issuer \<and>
      verify_token C B (wi_biscuit_b64 w) issuer ''workload_identity'' (WorkloadIdentityClaims_fields c) (Some t) = Ok ()"
    and "EnrollmentDelegation_digest C J (wi_delegation w) = Ok (ic_delegation_digest c)"
    and "ic_issued_at_secs c < ic_expires_at_secs c"
    and "ic_expires_at_secs c - ic_issued_at_secs c \<le> sc_max_child_lifetime_secs scope"
    and "ic_expires_at_secs c - ic_issued_at_secs c \<le> 3600"
    and "case sc_expires_at_secs scope of None \<Rightarrow> True | Some e \<Rightarrow> ic_expires_at_secs c \<le> e"
    and "t \<le> ic_expires_at_secs c"
  using assms(1)
  by (auto simp: WorkloadIdentity_verify_def WorkloadIdentityClaims_validate_def
      MAX_IDENTITY_LIFETIME_SECS_def Let_def scope_def c_def split: option.splits)

section \<open>Properties\<close>


text \<open>An instance of the biscuit crate for the witness: tokens are their fact lists, the two root
  keys open one token each, and the authorizer reads the variable \<open>v<i>\<close> off the \<open>i\<close>-th fact of the
  verifier.\<close>

definition chain_sigma :: "fact list \<Rightarrow> string \<Rightarrow> bterm" where
  "chain_sigma facts x =
     (case find (\<lambda>i. x = CHR ''v'' # nat_str i) [0..<length facts] of
        Some i \<Rightarrow> snd (facts ! i) ! 1
      | None \<Rightarrow> BStr [])"

definition chain_biscuit :: "(bytes \<times> fact list) \<Rightarrow> (bytes \<times> fact list) \<Rightarrow> fact list biscuit" where
  "chain_biscuit t1 t2 =
     \<lparr>bk_public = (\<lambda>sk. Ok sk), bk_root = (\<lambda>_. Ok ()), bk_build = (\<lambda>_ facts. Ok facts),
      bk_to_vec = (\<lambda>_. Ok [1]),
      bk_from = (\<lambda>enc root. if root = fst t1 then Ok (snd t1) else if root = fst t2 then Ok (snd t2)
        else Err ''sig''),
      bk_authorize = (\<lambda>tok facts policy.
        if list_all (holds (set tok \<union> set facts) (chain_sigma facts)) policy then Ok () else Err ''denied''),
      bk_authority = (\<lambda>tok. tok)\<rparr>"

lemma chain_sigma_var:
  assumes "i < length claims"
  shows "chain_sigma (map (\<lambda>(k, v). (''expected'', [BStr k, BStr v])) claims @ time) (CHR ''v'' # nat_str i)
    = BStr (snd (claims ! i))"
proof -
  have "find (\<lambda>j. i = j) [0..<length claims + length time] = Some i"
    using assms unfolding find_Some_iff by (intro exI [of _ i]) auto
  then show ?thesis
    using assms by (simp add: chain_sigma_def nth_append case_prod_beta)
qed

lemma chain_authorizes:
  "bk_authorize (chain_biscuit t1 t2) (token_facts role claims)
     (map (\<lambda>(k, v). (''expected'', [BStr k, BStr v])) claims @ time) (token_policy role claims) = Ok ()"
proof -
  let ?exp = "map (\<lambda>(k, v). (''expected'', [BStr k, BStr v])) claims @ time"
  have "holds (set (token_facts role claims) \<union> set ?exp) (chain_sigma ?exp) c"
    if "c \<in> set (token_policy role claims)" for c
  proof (cases "c = Atom ''role'' [ACst role]")
    case True
    then show ?thesis by (simp add: token_facts_def)
  next
    case False
    with that obtain i k v where i: "(i, k, v) \<in> set (zip [0..<length claims] claims)"
      and c: "c \<in> {Atom ''claim'' [ACst k, AVar (CHR ''v'' # nat_str i)],
        Atom ''expected'' [ACst k, AVar (CHR ''v'' # nat_str i)]}"
      unfolding token_policy_def by auto
    from i have kv: "i < length claims" "claims ! i = (k, v)" by (auto simp: in_set_zip)
    then have "(k, v) \<in> set claims" by (metis nth_mem)
    then have "(''claim'', [BStr k, BStr v]) \<in> set (token_facts role claims)"
      "(''expected'', [BStr k, BStr v]) \<in> set ?exp" by (force simp: token_facts_def)+
    with c chain_sigma_var [OF kv(1), of time] kv(2) show ?thesis by auto
  qed
  then show ?thesis by (simp add: chain_biscuit_def list_all_iff)
qed

lemma chain_biscuit_sound: "biscuit_sound (chain_biscuit t1 t2)"
  unfolding biscuit_sound_def chain_biscuit_def by (auto simp: list_all_iff split: if_splits)

lemma chain_biscuit_unforged: "fst t1 \<noteq> fst t2 \<Longrightarrow> biscuit_unforged (chain_biscuit t1 t2) {t1, t2}"
  by (cases t1; cases t2) (auto simp: biscuit_unforged_def chain_biscuit_def)

definition toy_scope :: EnrollmentScope where
  "toy_scope = \<lparr>sc_tenant_owner = b64_encode (toy_crates (\<lambda>_ _ _. True)) (replicate 32 3),
     sc_manifest_id = replicate 64 CHR ''a'', sc_workload_id = replicate 64 CHR ''a'',
     sc_revision_id = replicate 64 CHR ''e'',
     sc_issuer_public_key_b64 = b64_encode (toy_crates (\<lambda>_ _ _. True)) (replicate 32 5),
     sc_token_id = ''g'', sc_issued_at_secs = 100, sc_expires_at_secs = Some 5000,
     sc_max_child_lifetime_secs = 3600\<rparr>"

definition toy_identity :: WorkloadIdentity where
  "toy_identity = \<lparr>wi_version = 1,
     wi_delegation = \<lparr>dl_version = 1, dl_scope = toy_scope,
       dl_biscuit_b64 = b64_encode (toy_crates (\<lambda>_ _ _. True)) [1]\<rparr>,
     wi_claims = \<lparr>ic_delegation_digest = replicate 64 CHR ''a'', ic_endpoint_id = replicate 64 CHR ''b'',
       ic_signing_public_key_b64 = b64_encode (toy_crates (\<lambda>_ _ _. True)) (replicate 32 9),
       ic_issued_at_secs = 200, ic_expires_at_secs = 1000\<rparr>,
     wi_biscuit_b64 = b64_encode (toy_crates (\<lambda>_ _ _. True)) [1]\<rparr>"

definition toy_json :: identity_json where
  "toy_json = \<lparr>js_delegation = (\<lambda>_. Ok [1]), js_identity = (\<lambda>_. Ok [1]),
     js_parse_delegation = (\<lambda>_. Err ''no''), js_parse_identity = (\<lambda>_. Ok toy_identity)\<rparr>"

lemma toy_length_b64 [simp]: "length (b64_encode (toy_crates ok) b) = length b"
  by (simp add: b64_encode_def toy_crates_def)

lemma toy_public_key: "length b = 32 \<Longrightarrow> public_key (toy_crates ok) (b64_encode (toy_crates ok) b) = Ok b"
  using toy_base64 by (simp add: public_key_def)

lemma toy_b64_same: "b64_encode (toy_crates ok) b = b64_encode (toy_crates ok') b"
  by (simp add: b64_encode_def toy_crates_def)

abbreviation toy_at :: "u64 option \<Rightarrow> bool" where
  "toy_at now \<equiv> (case now of None \<Rightarrow> True | Some t \<Rightarrow> t = 300)"

lemma chain_verify_token:
  assumes "bk_from (chain_biscuit t1 t2) [1] root = Ok (token_facts role claims)" and "toy_at now"
  shows "verify_token (toy_crates ok) (chain_biscuit t1 t2) (b64_encode (toy_crates ok') [1]) root role claims
    now = Ok ()"
proof -
  have "bk_root (chain_biscuit t1 t2) root = Ok ()" by (simp add: chain_biscuit_def)
  then show ?thesis
    using assms toy_base64 unfolding toy_b64_same [of ok' _ ok]
    by (simp add: verify_token_def biscuit_root_from_owner_def biscuit_public_key_from_ed25519_def
        div_ceil_def MAX_IDENTITY_TOKEN_BYTES_def chain_authorizes chain_authorizes [of _ _ _ _ "[]", simplified]
        split: option.splits)
qed

definition toy_t1 :: "bytes \<times> fact list" where
  "toy_t1 = (replicate 32 3, token_facts ''workload_enrollment'' (EnrollmentScope_fields toy_scope))"

definition toy_t2 :: "bytes \<times> fact list" where
  "toy_t2 = (replicate 32 5,
     token_facts ''workload_identity'' (WorkloadIdentityClaims_fields (wi_claims toy_identity)))"

lemma toy_identity_minted: "identity_minted {toy_t1, toy_t2}"
proof -
  have facts: "token_facts role claims \<in> podmesh_facts" for role claims
    unfolding podmesh_facts_def by blast
  have "token_facts ''workload_enrollment'' cl \<noteq> snd toy_t2" "token_facts ''workload_identity'' cl \<noteq> snd toy_t1" for cl
    by (simp_all add: token_facts_def toy_t1_def toy_t2_def)
  moreover have "cl = cl'" if "token_facts r cl = token_facts r' cl'" for r r' cl cl'
    using that by (induction cl arbitrary: cl') (auto simp: token_facts_def Cons_eq_map_conv)
  ultimately show ?thesis
    using facts unfolding identity_minted_def toy_t1_def toy_t2_def by (auto, metis+)
qed

lemma toy_public_key': "length b = 32 \<Longrightarrow> public_key (toy_crates ok) (b64_encode (toy_crates ok') b) = Ok b"
  unfolding toy_b64_same [of ok' _ ok] by (rule toy_public_key)

lemma toy_delegation_verifies:
  assumes "toy_at now"
  shows "EnrollmentDelegation_verify (toy_crates ok) (chain_biscuit toy_t1 toy_t2)
    (wi_delegation toy_identity) now = Ok ()"
proof -
  have "bk_from (chain_biscuit toy_t1 toy_t2) [1] (replicate 32 3) =
      Ok (token_facts ''workload_enrollment'' (EnrollmentScope_fields toy_scope))"
    by (simp add: chain_biscuit_def toy_t1_def)
  note token = chain_verify_token [OF this assms]
  have "EnrollmentScope_validate (toy_crates ok) toy_scope = Ok ()"
    by (simp add: EnrollmentScope_validate_def toy_scope_def toy_public_key' hex_id_def list_all_iff
        is_lower_hexdigit_def MAX_IDENTITY_LIFETIME_SECS_def)
  moreover have "public_key (toy_crates ok) (sc_tenant_owner toy_scope) = Ok (replicate 32 3)"
    "sc_issued_at_secs toy_scope = 100" "sc_expires_at_secs toy_scope = Some 5000"
    by (simp_all add: toy_scope_def toy_public_key')
  ultimately show ?thesis
    using token assms
    by (auto simp: EnrollmentDelegation_verify_def toy_identity_def WORKLOAD_IDENTITY_VERSION_def
        saturating_add_def IDENTITY_CLOCK_SKEW_SECS_def split: option.splits)
qed

lemma toy_identity_verifies:
  assumes "toy_at now"
  shows "WorkloadIdentity_verify (toy_crates ok) (chain_biscuit toy_t1 toy_t2) toy_json toy_identity now = Ok ()"
proof -
  let ?C = "toy_crates ok"
  have "bk_from (chain_biscuit toy_t1 toy_t2) [1] (replicate 32 5) =
      Ok (token_facts ''workload_identity'' (WorkloadIdentityClaims_fields (wi_claims toy_identity)))"
    by (simp add: chain_biscuit_def toy_t1_def toy_t2_def)
  note token = chain_verify_token [OF this assms]
  have claims: "WorkloadIdentityClaims_validate ?C (wi_claims toy_identity) = Ok ()"
    by (simp add: WorkloadIdentityClaims_validate_def toy_identity_def toy_public_key' hex_id_def
        list_all_iff is_lower_hexdigit_def MAX_IDENTITY_LIFETIME_SECS_def)
  have digest: "EnrollmentDelegation_digest ?C toy_json (wi_delegation toy_identity) =
      Ok (ic_delegation_digest (wi_claims toy_identity))"
    by (simp add: EnrollmentDelegation_digest_def EnrollmentDelegation_to_bytes_def identity_encode_def
        MAX_DELEGATION_BYTES_def toy_json_def toy_identity_def) (simp add: toy_crates_def)
  have issuer: "public_key ?C (sc_issuer_public_key_b64 toy_scope) = Ok (replicate 32 5)"
    by (simp add: toy_scope_def toy_public_key')
  have parts: "wi_version toy_identity = 1" "dl_scope (wi_delegation toy_identity) = toy_scope"
    "wi_biscuit_b64 toy_identity = b64_encode (toy_crates (\<lambda>_ _ _. True)) [1]"
    by (simp_all add: toy_identity_def)
  have times: "ic_issued_at_secs (wi_claims toy_identity) = 200" "ic_expires_at_secs (wi_claims toy_identity) = 1000"
    "sc_max_child_lifetime_secs toy_scope = 3600" "sc_issued_at_secs toy_scope = 100"
    "sc_expires_at_secs toy_scope = Some 5000" by (simp_all add: toy_identity_def toy_scope_def)
  show ?thesis
    using toy_delegation_verifies [OF assms] token claims digest issuer assms
    by (auto simp: WorkloadIdentity_verify_def Let_def parts times saturating_add_def
        IDENTITY_CLOCK_SKEW_SECS_def WORKLOAD_IDENTITY_VERSION_def split: option.splits)
qed


end
