(* ===== verification/Mesh_Ids.thy ===== *)
theory Mesh_Ids
  imports Crypto_Lib
begin

text \<open>
  The hashed identifiers of the mesh: \<open>deployment_id\<close>, \<open>workload_id\<close> and \<open>revision_id\<close> of
  \<open>shared/protocol/src/agent.rs\<close> and \<open>route_id\<close> of \<open>shared/protocol/src/sidecar_registration.rs\<close>.
  The bytes fed to one \<open>blake3::Hasher\<close> are concatenated; \<open>blake3_hex\<close> is its hex digest.
\<close>

definition deployment_id :: "crates \<Rightarrow> bytes \<Rightarrow> string \<Rightarrow> string" where
  "deployment_id C namespace_id workload_name =
     blake3_hex C (str_bytes ''podmesh/deployment/v1'' @ [0] @ namespace_id @ [0] @ str_bytes workload_name)"

definition workload_id :: "crates \<Rightarrow> bytes \<Rightarrow> string \<Rightarrow> u32 \<Rightarrow> string" where
  "workload_id C namespace_id workload_name replica_index =
     blake3_hex C (str_bytes ''podmesh/workload/v1'' @ [0] @ namespace_id @ [0] @ str_bytes workload_name
       @ [0] @ to_le_bytes32 replica_index)"

definition revision_id :: "crates \<Rightarrow> bytes \<Rightarrow> string" where
  "revision_id C canonical_manifest =
     blake3_hex C (str_bytes ''podmesh/revision/v1'' @ [0] @ canonical_manifest)"

definition route_id :: "crates \<Rightarrow> bytes \<Rightarrow> string \<Rightarrow> string" where
  "route_id C owner_pubkey workload_name =
     blake3_hex C (str_bytes ''podmesh/route/v1'' @ [0] @ owner_pubkey @ [0] @ str_bytes workload_name)"

lemma length_to_le_bytes32 [simp]: "length (to_le_bytes32 w) = 4"
  by (simp add: to_le_bytes32_def)

lemma byte_eq_iff: "(word_of_nat m :: u8) = word_of_nat n \<longleftrightarrow> m mod 256 = n mod 256"
  by (simp add: word_unat_eq_iff unat_of_nat)

lemma to_le_bytes32_inj [simp]: "to_le_bytes32 v = to_le_bytes32 w \<longleftrightarrow> v = w"
proof
  assume "to_le_bytes32 v = to_le_bytes32 w"
  then have "unat v mod 256 = unat w mod 256" "unat v div 256 mod 256 = unat w div 256 mod 256"
    "unat v div 65536 mod 256 = unat w div 65536 mod 256"
    "unat v div 16777216 mod 256 = unat w div 16777216 mod 256"
    unfolding to_le_bytes32_def list.map byte_eq_iff list.inject by (elim conjE, simp)+
  moreover have "unat v < 2 ^ 32" "unat w < 2 ^ 32"
    using unat_less_pow [of v] unat_less_pow [of w] by simp_all
  ultimately have "unat v = unat w" by (metis digits_256)
  then show "v = w" by (rule unat_eqI)
qed simp

lemma suffix_eq_iff: "length z = length z' \<Longrightarrow> xs @ z = xs' @ z' \<longleftrightarrow> xs = xs' \<and> z = z'"
  by simp

lemma tagged_ne:
  assumes "c \<noteq> d" shows "str_bytes (''podmesh/'' @ c # s) @ x \<noteq> str_bytes (''podmesh/'' @ d # t) @ y"
proof -
  have "(str_bytes (''podmesh/'' @ c # s) @ x) ! 8 \<noteq> (str_bytes (''podmesh/'' @ d # t) @ y) ! 8"
    using assms by (simp add: str_bytes_def byte_of_char_inj)
  then show ?thesis by metis
qed


text \<open>Witness of C20: a hash that prints its input.\<close>

definition echo_crates :: crates where
  "echo_crates = (toy_crates (\<lambda>_ _ _. True))\<lparr>blake3_hex := map (\<lambda>b. char_of (unat b))\<rparr>"


end
