(* ===== verification/Service_Discovery.thy ===== *)
theory Service_Discovery
  imports Endpoint_Record Workload_Identity Mesh_Ids
begin

text \<open>
  \<open>shared/protocol/src/service_discovery.rs\<close>: owner-signed service catalogs and the expiring
  records by which a replica announces its services. The encoders and decoders of other crates are
  the fields of \<open>service_env\<close>.
\<close>

definition SERVICE_RECORD_VERSION :: u16 where "SERVICE_RECORD_VERSION = 1"
definition MAX_SERVICE_RECORD_BYTES :: nat where "MAX_SERVICE_RECORD_BYTES = 20 * 1024"
definition MAX_CATALOG_SERVICES :: nat where "MAX_CATALOG_SERVICES = 32"
definition MAX_SERVICE_PORTS :: nat where "MAX_SERVICE_PORTS = 16"
definition MAX_SERVICE_LEASE_SECS :: u64 where "MAX_SERVICE_LEASE_SECS = 120"
definition MAX_WORKLOAD_REPLICAS :: u32 where "MAX_WORKLOAD_REPLICAS = 64"

record ServicePort =
  sp_port :: u16
  sp_target_port :: u16

record ServiceDefinition =
  sd_name :: string
  sd_ports :: "ServicePort list"

record ServiceCatalog =
  ct_version :: u16
  ct_owner :: string
  ct_workload_name :: string
  ct_manifest_id :: string
  ct_revision_id :: string
  ct_services :: "ServiceDefinition list"
  ct_signature :: string

record ReplicaServiceRecord =
  rr_version :: u16
  rr_catalog :: ServiceCatalog
  rr_credential :: WorkloadIdentity
  rr_endpoint :: EndpointRecord
  rr_replica_index :: u32
  rr_sequence :: u64
  rr_issued_at_secs :: u64
  rr_expires_at_secs :: u64
  rr_signature :: string

record 'tok service_env =
  se_crates :: crates
  se_biscuit :: "'tok biscuit"
  se_json :: identity_json
  se_pc_endpoint :: "EndpointRecord \<Rightarrow> bytes res"
  se_pc_catalog :: "ServiceCatalog \<Rightarrow> bytes res"
  se_pc_replica :: "ReplicaServiceRecord \<Rightarrow> bytes res"
  se_js_replica :: "ReplicaServiceRecord \<Rightarrow> bytes res"
  se_jd_replica :: "bytes \<Rightarrow> ReplicaServiceRecord res"

section \<open>Service catalogs\<close>

definition is_ascii_lowercase :: "char \<Rightarrow> bool" where
  "is_ascii_lowercase c \<longleftrightarrow> 97 \<le> (of_char c :: nat) \<and> (of_char c :: nat) \<le> 122"

definition validate_service_label :: "string \<Rightarrow> unit res" where
  "validate_service_label value =
     ensure (value \<noteq> [] \<and> length value \<le> 63 \<and> hd value \<noteq> CHR ''-'' \<and> last value \<noteq> CHR ''-''
         \<and> list_all (\<lambda>c. is_ascii_lowercase c \<or> is_ascii_digit c \<or> c = CHR ''-'') value)
       ''invalid DNS service label'' (Ok ())"

fun validate_ports :: "u16 list \<Rightarrow> ServicePort list \<Rightarrow> unit res" where
  "validate_ports seen [] = Ok ()"
| "validate_ports seen (p # rest) =
     ensure (sp_port p \<noteq> 0 \<and> sp_target_port p \<noteq> 0 \<and> sp_port p \<notin> set seen)
       ''invalid or duplicate service port'' (validate_ports (sp_port p # seen) rest)"

fun validate_services :: "string list \<Rightarrow> ServiceDefinition list \<Rightarrow> unit res" where
  "validate_services names [] = Ok ()"
| "validate_services names (s # rest) =
     try_r (validate_service_label (sd_name s)) (\<lambda>_.
     ensure (sd_name s \<notin> set names) ''duplicate service name'' (
     ensure (sd_ports s \<noteq> [] \<and> length (sd_ports s) \<le> MAX_SERVICE_PORTS)
       ''invalid service port count'' (
     try_r (validate_ports [] (sd_ports s)) (\<lambda>_.
       validate_services (sd_name s # names) rest))))"

definition ServiceCatalog_canonical :: "'tok service_env \<Rightarrow> ServiceCatalog \<Rightarrow> bytes res" where
  "ServiceCatalog_canonical E c = se_pc_catalog E (c\<lparr>ct_signature := []\<rparr>)"

definition ServiceCatalog_validate :: "'tok service_env \<Rightarrow> ServiceCatalog \<Rightarrow> unit res" where
  "ServiceCatalog_validate E c =
     ensure (ct_version c = SERVICE_RECORD_VERSION) ''unsupported service catalog version'' (
     ensure (ct_workload_name c \<noteq> [] \<and> length (ct_workload_name c) \<le> 253)
       ''invalid catalog workload name'' (
     try_r (b64_decode (se_crates E) (ct_owner c)) (\<lambda>owner.
     ensure (length owner = 32
         \<and> ct_manifest_id c = route_id (se_crates E) owner (ct_workload_name c))
       ''invalid catalog routing identity'' (
     ensure (length (ct_revision_id c) = 64 \<and> list_all is_lower_hexdigit (ct_revision_id c))
       ''invalid catalog revision'' (
     ensure (ct_services c \<noteq> [] \<and> length (ct_services c) \<le> MAX_CATALOG_SERVICES)
       ''invalid catalog service count'' (
     try_r (validate_services [] (ct_services c)) (\<lambda>_.
     try_r (ServiceCatalog_canonical E c) (\<lambda>b.
     ensure (length b \<le> 4096) ''service catalog exceeds limit'' (Ok ())))))))))"

definition ServiceCatalog_verify :: "'tok service_env \<Rightarrow> ServiceCatalog \<Rightarrow> string \<Rightarrow> unit res" where
  "ServiceCatalog_verify E c owner =
     try_r (ServiceCatalog_validate E c) (\<lambda>_.
     ensure (ct_owner c = owner) ''service catalog belongs to another tenant'' (
     try_r (b64_decode (se_crates E) owner) (\<lambda>key.
     try_r (ServiceCatalog_canonical E c) (\<lambda>b.
     try_r (b64_decode (se_crates E) (ct_signature c)) (\<lambda>sig.
       verify_domain (se_crates E) key D_ServiceCatalog b sig)))))"

definition ServiceCatalog_sign :: "'tok service_env \<Rightarrow> ServiceCatalog \<Rightarrow> bytes \<Rightarrow> ServiceCatalog res" where
  "ServiceCatalog_sign E c private_key =
     try_r (ServiceCatalog_validate E c) (\<lambda>_.
     try_r (ServiceCatalog_canonical E c) (\<lambda>b.
     try_r (sign_domain (se_crates E) private_key D_ServiceCatalog b) (\<lambda>sig.
       let c' = c\<lparr>ct_signature := b64_encode (se_crates E) sig\<rparr> in
       try_r (ServiceCatalog_verify E c' (ct_owner c')) (\<lambda>_. Ok c'))))"

section \<open>Replica records\<close>

definition hex_byte :: "u8 \<Rightarrow> string" where
  "hex_byte b = [''0123456789abcdef'' ! (unat b div 16), ''0123456789abcdef'' ! (unat b mod 16)]"

definition endpoint_hex :: "EndpointRecord \<Rightarrow> string" where
  "endpoint_hex r = concat (map hex_byte (er_endpoint_id r))"

definition ReplicaServiceRecord_canonical :: "'tok service_env \<Rightarrow> ReplicaServiceRecord \<Rightarrow> bytes res" where
  "ReplicaServiceRecord_canonical E r = se_pc_replica E (r\<lparr>rr_signature := []\<rparr>)"

fun no_dns_ports :: "string list \<Rightarrow> unit res" where
  "no_dns_ports [] = Ok ()"
| "no_dns_ports (a # rest) =
     try_r (ok_or (parse_socket_addr a) ''invalid socket address syntax'') (\<lambda>addr.
     ensure (addr_port addr \<noteq> 53) ''Iroh DNS-port hints are not supported'' (no_dns_ports rest))"

definition ReplicaServiceRecord_verify_structure ::
  "'tok service_env \<Rightarrow> ReplicaServiceRecord \<Rightarrow> string \<Rightarrow> unit res" where
  "ReplicaServiceRecord_verify_structure E r owner =
     (let C = se_crates E; scope = dl_scope (wi_delegation (rr_credential r));
          claims = wi_claims (rr_credential r) in
     ensure (rr_version r = SERVICE_RECORD_VERSION) ''unsupported replica record version'' (
     try_r (ServiceCatalog_verify E (rr_catalog r) owner) (\<lambda>_.
     try_r (EndpointRecord_verify_structure C (se_pc_endpoint E) (rr_endpoint r)) (\<lambda>_.
     try_r (no_dns_ports (er_direct_addresses (rr_endpoint r))) (\<lambda>_.
     try_r (WorkloadIdentity_verify C (se_biscuit E) (se_json E) (rr_credential r) None) (\<lambda>_.
     ensure (sc_tenant_owner scope = owner \<and> sc_manifest_id scope = ct_manifest_id (rr_catalog r)
         \<and> ic_endpoint_id claims = endpoint_hex (rr_endpoint r)
         \<and> ic_signing_public_key_b64 claims = er_signing_pubkey (rr_endpoint r))
       ''replica key binding mismatch'' (
     ensure (sc_revision_id scope = ct_revision_id (rr_catalog r))
       ''replica record exceeds credential scope'' (
     try_r (b64_decode C owner) (\<lambda>owner_key.
     ensure (sc_workload_id scope
         = workload_id C owner_key (ct_workload_name (rr_catalog r)) (rr_replica_index r))
       ''replica record exceeds credential scope'' (
     ensure (rr_replica_index r < MAX_WORKLOAD_REPLICAS \<and> 0 < rr_sequence r)
       ''invalid replica index or sequence'' (
     ensure (rr_issued_at_secs r < rr_expires_at_secs r
         \<and> rr_expires_at_secs r - rr_issued_at_secs r \<le> MAX_SERVICE_LEASE_SECS)
       ''replica lease expired or invalid'' (
     ensure (rr_expires_at_secs r \<le> ic_expires_at_secs claims
         \<and> rr_expires_at_secs r \<le> er_expires_at_secs (rr_endpoint r))
       ''replica lease outlives identity/address authority'' (
     try_r (b64_decode C (er_signing_pubkey (rr_endpoint r))) (\<lambda>key.
     try_r (ReplicaServiceRecord_canonical E r) (\<lambda>b.
     try_r (b64_decode C (rr_signature r)) (\<lambda>sig.
       verify_domain C key D_ReplicaServiceRecord b sig))))))))))))))))"

definition ReplicaServiceRecord_verify ::
  "'tok service_env \<Rightarrow> ReplicaServiceRecord \<Rightarrow> string \<Rightarrow> u64 \<Rightarrow> unit res" where
  "ReplicaServiceRecord_verify E r owner now =
     (let C = se_crates E in
     try_r (ReplicaServiceRecord_verify_structure E r owner) (\<lambda>_.
     try_r (EndpointRecord_verify C (se_pc_endpoint E) (rr_endpoint r) now) (\<lambda>_.
     try_r (b64_decode C (er_signing_pubkey (rr_endpoint r))) (\<lambda>key.
     try_r (WorkloadIdentity_verify_session C (se_biscuit E) (se_json E) (rr_credential r) owner
         (ct_manifest_id (rr_catalog r)) (endpoint_hex (rr_endpoint r)) key now) (\<lambda>_.
     ensure (rr_issued_at_secs r \<le> saturating_add now 60 \<and> now < rr_expires_at_secs r)
       ''replica lease expired or invalid'' (Ok ()))))))"

definition ReplicaServiceRecord_to_bytes :: "'tok service_env \<Rightarrow> ReplicaServiceRecord \<Rightarrow> bytes res" where
  "ReplicaServiceRecord_to_bytes E r =
     try_r (se_js_replica E r) (\<lambda>b.
     ensure (length b \<le> MAX_SERVICE_RECORD_BYTES) ''replica record exceeds limit'' (Ok b))"

definition ReplicaServiceRecord_from_bytes :: "'tok service_env \<Rightarrow> bytes \<Rightarrow> ReplicaServiceRecord res" where
  "ReplicaServiceRecord_from_bytes E b =
     ensure (b \<noteq> [] \<and> length b \<le> MAX_SERVICE_RECORD_BYTES) ''invalid replica record size''
       (ctx ''decode replica service record'' (se_jd_replica E b))"

definition ReplicaServiceRecord_sign ::
  "'tok service_env \<Rightarrow> ReplicaServiceRecord \<Rightarrow> bytes \<Rightarrow> u64 \<Rightarrow> ReplicaServiceRecord res" where
  "ReplicaServiceRecord_sign E r private_key now =
     try_r (ReplicaServiceRecord_canonical E r) (\<lambda>b.
     try_r (sign_domain (se_crates E) private_key D_ReplicaServiceRecord b) (\<lambda>sig.
       let r' = r\<lparr>rr_signature := b64_encode (se_crates E) sig\<rparr> in
       try_r (ReplicaServiceRecord_verify E r' (ct_owner (rr_catalog r')) now) (\<lambda>_.
       try_r (ReplicaServiceRecord_to_bytes E r') (\<lambda>_. Ok r'))))"

section \<open>Lemmas\<close>

lemma catalog_canonical_signature [simp]:
  "ServiceCatalog_canonical E (c\<lparr>ct_signature := s\<rparr>) = ServiceCatalog_canonical E c"
  by (simp add: ServiceCatalog_canonical_def)

lemma catalog_validate_signature [simp]:
  "ServiceCatalog_validate E (c\<lparr>ct_signature := s\<rparr>) = ServiceCatalog_validate E c"
  by (simp add: ServiceCatalog_validate_def)

lemma replica_canonical_signature [simp]:
  "ReplicaServiceRecord_canonical E (r\<lparr>rr_signature := s\<rparr>) = ReplicaServiceRecord_canonical E r"
  by (simp add: ReplicaServiceRecord_canonical_def)

lemma catalog_validate_owner:
  "ServiceCatalog_validate E c = Ok () \<Longrightarrow> b64_decode (se_crates E) (ct_owner c) = Ok pk \<Longrightarrow> length pk = 32"
  by (auto simp: ServiceCatalog_validate_def)

lemma verify_domain_lengths:
  "verify_domain C pk d b s = Ok () \<Longrightarrow> length pk = 32 \<and> length s = 64"
  by (simp add: verify_domain_Ok_iff)

interpretation catalog: signed_message "se_crates E" D_ServiceCatalog "ServiceCatalog_canonical E"
  ct_owner ct_signature "\<lambda>s c. c\<lparr>ct_signature := s\<rparr>"
  "\<lambda>c. ServiceCatalog_validate E c = Ok () \<and> ct_owner c = owner"
  "\<lambda>c. ServiceCatalog_verify E c owner"
  for E :: "'tok service_env" and owner
proof
  fix m
  show "ServiceCatalog_verify E m owner = Ok () \<longleftrightarrow>
      (ServiceCatalog_validate E m = Ok () \<and> ct_owner m = owner) \<and>
      (\<exists>pk s b. b64_decode (se_crates E) (ct_owner m) = Ok pk \<and> length pk = 32
        \<and> b64_decode (se_crates E) (ct_signature m) = Ok s \<and> length s = 64
        \<and> ServiceCatalog_canonical E m = Ok b
        \<and> verify_domain (se_crates E) pk D_ServiceCatalog b s = Ok ())"
    using verify_domain_lengths by (fastforce simp: ServiceCatalog_verify_def)
qed simp_all

text \<open>The checks of \<open>verify_structure\<close> other than the record's own signature.\<close>

definition replica_wf :: "'tok service_env \<Rightarrow> string \<Rightarrow> ReplicaServiceRecord \<Rightarrow> bool" where
  "replica_wf E owner r \<longleftrightarrow>
     (let C = se_crates E; scope = dl_scope (wi_delegation (rr_credential r));
          claims = wi_claims (rr_credential r) in
      rr_version r = SERVICE_RECORD_VERSION \<and> ServiceCatalog_verify E (rr_catalog r) owner = Ok ()
      \<and> EndpointRecord_verify_structure C (se_pc_endpoint E) (rr_endpoint r) = Ok ()
      \<and> no_dns_ports (er_direct_addresses (rr_endpoint r)) = Ok ()
      \<and> WorkloadIdentity_verify C (se_biscuit E) (se_json E) (rr_credential r) None = Ok ()
      \<and> sc_tenant_owner scope = owner \<and> sc_manifest_id scope = ct_manifest_id (rr_catalog r)
      \<and> ic_endpoint_id claims = endpoint_hex (rr_endpoint r)
      \<and> ic_signing_public_key_b64 claims = er_signing_pubkey (rr_endpoint r)
      \<and> sc_revision_id scope = ct_revision_id (rr_catalog r)
      \<and> (case b64_decode C owner of Err _ \<Rightarrow> False | Ok key \<Rightarrow>
           sc_workload_id scope = workload_id C key (ct_workload_name (rr_catalog r)) (rr_replica_index r))
      \<and> rr_replica_index r < MAX_WORKLOAD_REPLICAS \<and> 0 < rr_sequence r
      \<and> rr_issued_at_secs r < rr_expires_at_secs r
      \<and> rr_expires_at_secs r - rr_issued_at_secs r \<le> MAX_SERVICE_LEASE_SECS
      \<and> rr_expires_at_secs r \<le> ic_expires_at_secs claims
      \<and> rr_expires_at_secs r \<le> er_expires_at_secs (rr_endpoint r))"

interpretation replica: signed_message "se_crates E" D_ReplicaServiceRecord
  "ReplicaServiceRecord_canonical E" "\<lambda>r. er_signing_pubkey (rr_endpoint r)" rr_signature
  "\<lambda>s r. r\<lparr>rr_signature := s\<rparr>" "replica_wf E owner"
  "\<lambda>r. ReplicaServiceRecord_verify_structure E r owner"
  for E :: "'tok service_env" and owner
proof
  fix m
  show "ReplicaServiceRecord_verify_structure E m owner = Ok () \<longleftrightarrow> replica_wf E owner m \<and>
      (\<exists>pk s b. b64_decode (se_crates E) (er_signing_pubkey (rr_endpoint m)) = Ok pk \<and> length pk = 32
        \<and> b64_decode (se_crates E) (rr_signature m) = Ok s \<and> length s = 64
        \<and> ReplicaServiceRecord_canonical E m = Ok b
        \<and> verify_domain (se_crates E) pk D_ReplicaServiceRecord b s = Ok ())"
    using verify_domain_lengths
    by (fastforce simp: ReplicaServiceRecord_verify_structure_def replica_wf_def Let_def
        split: result.splits)
qed (simp_all add: replica_wf_def cong: result.case_cong)

section \<open>Properties\<close>

text \<open>C15: a replica record that verifies for an owner announces services only with everyone's
  consent and only for now: the owner signed the catalog of services, the holder of the endpoint's
  signing key signed both the endpoint record and this record, that key and that endpoint are the
  ones the replica's workload identity names, the identity was issued for this owner, this
  workload name, this replica and this revision, and the lease is current, at most 120 seconds
  long, and ends no later than the identity and the address record do.\<close>

theorem replica_record_authority:
  fixes E :: "'tok service_env"
  assumes "signed_by (se_crates E) log" and "ReplicaServiceRecord_verify E r owner now = Ok ()"
  defines "claims \<equiv> wi_claims (rr_credential r)"
    and "scope \<equiv> dl_scope (wi_delegation (rr_credential r))"
  shows "(\<exists>osk b. b64_decode (se_crates E) owner = Ok (ed_public (se_crates E) osk)
      \<and> ServiceCatalog_canonical E (rr_catalog r) = Ok b \<and> (osk, D_ServiceCatalog, b) \<in> log
      \<and> sc_workload_id scope = workload_id (se_crates E) (ed_public (se_crates E) osk)
          (ct_workload_name (rr_catalog r)) (rr_replica_index r))
    \<and> (\<exists>sk b. b64_decode (se_crates E) (er_signing_pubkey (rr_endpoint r)) = Ok (ed_public (se_crates E) sk)
      \<and> ReplicaServiceRecord_canonical E r = Ok b \<and> (sk, D_ReplicaServiceRecord, b) \<in> log)
    \<and> (\<exists>sk b. b64_decode (se_crates E) (er_signing_pubkey (rr_endpoint r)) = Ok (ed_public (se_crates E) sk)
      \<and> EndpointRecord_canonical_bytes (se_pc_endpoint E) (rr_endpoint r) = Ok b
      \<and> (sk, D_EndpointRecord, b) \<in> log)
    \<and> ic_signing_public_key_b64 claims = er_signing_pubkey (rr_endpoint r)
    \<and> ic_endpoint_id claims = endpoint_hex (rr_endpoint r)
    \<and> sc_tenant_owner scope = owner \<and> sc_revision_id scope = ct_revision_id (rr_catalog r)
    \<and> unat (rr_issued_at_secs r) \<le> unat now + 60 \<and> now < rr_expires_at_secs r
    \<and> rr_expires_at_secs r - rr_issued_at_secs r \<le> 120
    \<and> rr_expires_at_secs r \<le> min (ic_expires_at_secs claims) (er_expires_at_secs (rr_endpoint r))"
proof -
  from assms(2) have str: "ReplicaServiceRecord_verify_structure E r owner = Ok ()"
    and ep: "EndpointRecord_verify (se_crates E) (se_pc_endpoint E) (rr_endpoint r) now = Ok ()"
    and fresh: "rr_issued_at_secs r \<le> saturating_add now 60" "now < rr_expires_at_secs r"
    by (auto simp: ReplicaServiceRecord_verify_def Let_def)
  have wf: "replica_wf E owner r" using replica.verified_wf [OF str] .
  then have cat: "ServiceCatalog_verify E (rr_catalog r) owner = Ok ()"
    by (simp add: replica_wf_def Let_def)
  then have "ct_owner (rr_catalog r) = owner" using catalog.verified_wf by blast
  with catalog.authentic [OF assms(1) cat] obtain osk b where osk:
    "b64_decode (se_crates E) owner = Ok (ed_public (se_crates E) osk)"
    "ServiceCatalog_canonical E (rr_catalog r) = Ok b" "(osk, D_ServiceCatalog, b) \<in> log" by metis
  have "sc_workload_id scope = workload_id (se_crates E) (ed_public (se_crates E) osk)
      (ct_workload_name (rr_catalog r)) (rr_replica_index r)"
    using wf osk(1) by (simp add: replica_wf_def Let_def scope_def)
  moreover have "unat (rr_issued_at_secs r) \<le> unat now + 60"
    using fresh(1) by (simp add: word_le_nat_alt unat_saturating_add)
  moreover have "rr_expires_at_secs r - rr_issued_at_secs r \<le> 120"
    "ic_signing_public_key_b64 claims = er_signing_pubkey (rr_endpoint r)"
    "ic_endpoint_id claims = endpoint_hex (rr_endpoint r)"
    "sc_tenant_owner scope = owner" "sc_revision_id scope = ct_revision_id (rr_catalog r)"
    "rr_expires_at_secs r \<le> min (ic_expires_at_secs claims) (er_expires_at_secs (rr_endpoint r))"
    using wf by (simp_all add: replica_wf_def Let_def claims_def scope_def MAX_SERVICE_LEASE_SECS_def)
  ultimately show ?thesis
    using osk replica.authentic [OF assms(1) str] endpoint.authentic [OF assms(1) ep] fresh(2)
    by blast
qed

text \<open>Witness of C15: the primitives accept exactly the three signatures of \<open>toy_log\<close>.\<close>

definition toy_log :: "(bytes \<times> SignatureDomain \<times> bytes) list" where
  "toy_log = [(replicate 32 3, D_ServiceCatalog, [2]), (replicate 32 9, D_ReplicaServiceRecord, [4]),
     (replicate 32 9, D_EndpointRecord, [3])]"

definition log_crates :: crates where
  "log_crates = accepting toy_log"

definition toy_env :: "fact list service_env" where
  "toy_env = \<lparr>se_crates = log_crates, se_biscuit = chain_biscuit toy_t1 toy_t2, se_json = toy_json,
     se_pc_endpoint = (\<lambda>_. Ok [3]), se_pc_catalog = (\<lambda>_. Ok [2]), se_pc_replica = (\<lambda>_. Ok [4]),
     se_js_replica = (\<lambda>_. Ok [1]), se_jd_replica = (\<lambda>_. Err ''no'')\<rparr>"

definition toy_catalog :: ServiceCatalog where
  "toy_catalog = \<lparr>ct_version = 1, ct_owner = toy_b64 (replicate 32 3), ct_workload_name = ''web'',
     ct_manifest_id = replicate 64 CHR ''a'', ct_revision_id = replicate 64 CHR ''e'',
     ct_services = [\<lparr>sd_name = ''web'', sd_ports = [\<lparr>sp_port = 80, sp_target_port = 8080\<rparr>]\<rparr>],
     ct_signature = toy_b64 (replicate 64 0)\<rparr>"

definition toy_endpoint :: EndpointRecord where
  "toy_endpoint = \<lparr>er_version = 1, er_endpoint_id = replicate 32 0xBB, er_relay_url = None,
     er_direct_addresses = [''192.0.2.10:4000''], er_signing_pubkey = toy_b64 (replicate 32 9),
     er_issued_at_secs = 200, er_expires_at_secs = 1000, er_signature = toy_b64 (replicate 64 0)\<rparr>"

definition toy_replica :: ReplicaServiceRecord where
  "toy_replica = \<lparr>rr_version = 1, rr_catalog = toy_catalog, rr_credential = toy_identity,
     rr_endpoint = toy_endpoint, rr_replica_index = 0, rr_sequence = 1, rr_issued_at_secs = 290,
     rr_expires_at_secs = 400, rr_signature = toy_b64 (replicate 64 0)\<rparr>"

lemma log_verify:
  "(pk, d, b) \<in> set toy_log \<Longrightarrow> verify_domain log_crates pk d b (replicate 64 0) = Ok ()"
  unfolding log_crates_def by (rule accepting_verify) (auto simp: toy_log_def)

lemma log_prims [simp]:
  "b64_decode log_crates (toy_b64 b) = Ok b" "blake3_hex log_crates c = replicate 64 CHR ''a''"
  "b64_encode log_crates b = toy_b64 b"
  by (simp_all add: log_crates_def)

lemma toy_catalog_verifies: "ServiceCatalog_verify toy_env toy_catalog (toy_b64 (replicate 32 3)) = Ok ()"
proof -
  have "verify_domain log_crates (replicate 32 3) D_ServiceCatalog [2] (replicate 64 0) = Ok ()"
    by (rule log_verify) (simp add: toy_log_def)
  moreover have "validate_services [] (ct_services toy_catalog) = Ok ()"
    by (simp add: toy_catalog_def validate_service_label_def is_ascii_lowercase_def MAX_SERVICE_PORTS_def)
  ultimately show ?thesis
    by (simp add: ServiceCatalog_verify_def ServiceCatalog_validate_def toy_env_def
        ServiceCatalog_canonical_def MAX_CATALOG_SERVICES_def SERVICE_RECORD_VERSION_def)
      (simp add: toy_catalog_def route_id_def list_all_iff is_lower_hexdigit_def)
qed

lemma accepted_endpoint_verifies:
  assumes "(replicate 32 9, D_EndpointRecord, [3]) \<in> set log"
  shows "EndpointRecord_verify (accepting log) (\<lambda>_. Ok [3]) toy_endpoint 300 = Ok ()"
proof -
  have "verify_domain (accepting log) (replicate 32 9) D_EndpointRecord [3] (replicate 64 0) = Ok ()"
    using assms by (rule accepting_verify) simp
  then show ?thesis
    by (simp add: EndpointRecord_verify_iff EndpointRecord_validate_unsigned_def toy_endpoint_def
        validate_direct_addresses_def endpoint_consts parse_socket_addr_examples(1) saturating_add_def
        saturating_sub_def EndpointRecord_validate_signature_fields_def EndpointRecord_verify_signature_def
        EndpointRecord_canonical_bytes_def validate_encoded_size_def)
qed

lemma toy_endpoint_verifies: "EndpointRecord_verify log_crates (\<lambda>_. Ok [3]) toy_endpoint 300 = Ok ()"
  unfolding log_crates_def by (rule accepted_endpoint_verifies) (simp add: toy_log_def)

lemma concat_replicate_pair: "concat (replicate n [c, c]) = replicate (2 * n) c"
  by (induction n) simp_all

lemma toy_replica_verifies: "ReplicaServiceRecord_verify toy_env toy_replica (toy_b64 (replicate 32 3)) 300 = Ok ()"
proof -
  have sig: "verify_domain log_crates (replicate 32 9) D_ReplicaServiceRecord [4] (replicate 64 0) = Ok ()"
    by (rule log_verify) (simp add: toy_log_def)
  have hex: "endpoint_hex toy_endpoint = replicate 64 CHR ''b''"
    using concat_replicate_pair [of 32 "CHR ''b''"]
    by (simp add: endpoint_hex_def toy_endpoint_def hex_byte_def map_replicate)
  have ep: "EndpointRecord_verify_structure log_crates (\<lambda>_. Ok [3]) toy_endpoint = Ok ()"
    using toy_endpoint_verifies validate_unsigned_window [of toy_endpoint 300]
    unfolding EndpointRecord_verify_structure_iff EndpointRecord_verify_iff by blast
  have id: "WorkloadIdentity_verify log_crates (chain_biscuit toy_t1 toy_t2) toy_json toy_identity now = Ok ()"
    if "toy_at now" for now unfolding log_crates_def accepting_def using that by (rule toy_identity_verifies)
  have env: "se_crates toy_env = log_crates" "se_pc_endpoint toy_env = (\<lambda>_. Ok [3])"
    "se_biscuit toy_env = chain_biscuit toy_t1 toy_t2" "se_json toy_env = toy_json"
    "ReplicaServiceRecord_canonical toy_env toy_replica = Ok [4]"
    by (simp_all add: toy_env_def ReplicaServiceRecord_canonical_def)
  have parts: "rr_catalog toy_replica = toy_catalog" "rr_endpoint toy_replica = toy_endpoint"
    "rr_credential toy_replica = toy_identity" "rr_version toy_replica = 1"
    "rr_signature toy_replica = toy_b64 (replicate 64 0)" "rr_replica_index toy_replica = 0"
    "rr_sequence toy_replica = 1" "rr_issued_at_secs toy_replica = 290" "rr_expires_at_secs toy_replica = 400"
    by (simp_all add: toy_replica_def)
  have cred: "ic_endpoint_id (wi_claims toy_identity) = replicate 64 CHR ''b''"
    "ic_signing_public_key_b64 (wi_claims toy_identity) = toy_b64 (replicate 32 9)"
    "ic_expires_at_secs (wi_claims toy_identity) = 1000"
    "dl_scope (wi_delegation toy_identity) = toy_scope"
    "sc_tenant_owner toy_scope = toy_b64 (replicate 32 3)" "sc_manifest_id toy_scope = replicate 64 CHR ''a''"
    "sc_revision_id toy_scope = replicate 64 CHR ''e''" "sc_workload_id toy_scope = replicate 64 CHR ''a''"
    by (simp_all add: toy_identity_def toy_scope_def b64_encode_toy)
  have others: "er_signing_pubkey toy_endpoint = toy_b64 (replicate 32 9)"
    "er_expires_at_secs toy_endpoint = 1000" "er_direct_addresses toy_endpoint = [''192.0.2.10:4000'']"
    "ct_manifest_id toy_catalog = replicate 64 CHR ''a''" "ct_revision_id toy_catalog = replicate 64 CHR ''e''"
    by (simp_all add: toy_endpoint_def toy_catalog_def)
  have "ReplicaServiceRecord_verify_structure toy_env toy_replica (toy_b64 (replicate 32 3)) = Ok ()"
    using sig ep id [of None] toy_catalog_verifies
    by (simp add: ReplicaServiceRecord_verify_structure_def Let_def env parts cred others hex workload_id_def
        parse_socket_addr_examples(1) SERVICE_RECORD_VERSION_def MAX_WORKLOAD_REPLICAS_def
        MAX_SERVICE_LEASE_SECS_def)
  then show ?thesis
    using toy_endpoint_verifies id [of "Some 300"]
    by (simp add: ReplicaServiceRecord_verify_def Let_def env parts cred others hex
        WorkloadIdentity_verify_session_def saturating_add_def)
qed

theorem replica_record_authority_witness:
  "\<exists>osk b. b64_decode log_crates (toy_b64 (replicate 32 3)) = Ok (ed_public log_crates osk)
     \<and> ServiceCatalog_canonical toy_env toy_catalog = Ok b \<and> (osk, D_ServiceCatalog, b) \<in> set toy_log"
proof -
  have env: "se_crates toy_env = log_crates" "rr_catalog toy_replica = toy_catalog"
    by (simp_all add: toy_env_def toy_replica_def)
  from replica_record_authority [OF accepting_signed [of toy_log, folded log_crates_def env(1)] toy_replica_verifies] show ?thesis
    unfolding env by blast
qed

end
