(* ===== verification/Agent_Types.thy ===== *)
theory Agent_Types
  imports Service_Discovery
begin

text \<open>
  The message types of \<open>shared/protocol/src/agent.rs\<close>, the checks they share, and the payload an
  owner seals for an agent. \<open>agent_wire\<close> holds the primitives and postcard's encoders of the
  message types. Each message keeps its source field names behind a two-letter prefix.
\<close>

definition AGENT_PROTOCOL_VERSION :: u16 where "AGENT_PROTOCOL_VERSION = 1"
definition MAX_ENCRYPTED_CAPSULE_BYTES :: nat where "MAX_ENCRYPTED_CAPSULE_BYTES = 16 * 1024 * 1024"
definition MAX_WRAPPED_KEY_BYTES :: nat where "MAX_WRAPPED_KEY_BYTES = 4 * 1024"
definition MAX_MANIFEST_BYTES :: nat where "MAX_MANIFEST_BYTES = 8 * 1024 * 1024"
definition MAX_AGENT_MESSAGE_LIFETIME_SECS :: u64 where "MAX_AGENT_MESSAGE_LIFETIME_SECS = 300"
definition MAX_AGENT_CLOCK_SKEW_SECS :: u64 where "MAX_AGENT_CLOCK_SKEW_SECS = 60"
definition MAX_LISTED_WORKLOADS :: nat where "MAX_LISTED_WORKLOADS = 10000"
definition MAX_WORKLOAD_LIST_REQUEST_BYTES :: nat where "MAX_WORKLOAD_LIST_REQUEST_BYTES = 4 * 1024"
definition MAX_PROXY_ENDPOINTS :: nat where "MAX_PROXY_ENDPOINTS = 32"

lemmas agent_consts =
  AGENT_PROTOCOL_VERSION_def MAX_ENCRYPTED_CAPSULE_BYTES_def MAX_WRAPPED_KEY_BYTES_def
  MAX_MANIFEST_BYTES_def MAX_AGENT_MESSAGE_LIFETIME_SECS_def MAX_AGENT_CLOCK_SKEW_SECS_def
  MAX_LISTED_WORKLOADS_def MAX_WORKLOAD_LIST_REQUEST_BYTES_def MAX_PROXY_ENDPOINTS_def

section \<open>Messages\<close>

record AdmissionRequest =
  aq_version :: u16
  aq_request_id :: string
  aq_namespace_id :: string
  aq_workload_id :: string
  aq_target_node_id :: string
  aq_response_kem_pubkey :: string
  aq_cpu_milli :: u32
  aq_memory_bytes :: u64
  aq_storage_bytes :: u64
  aq_issued_at_secs :: u64
  aq_expires_at_secs :: u64
  aq_nonce :: string
  aq_owner_signature :: string

record Reservation =
  rv_version :: u16
  rv_reservation_id :: string
  rv_request_id :: string
  rv_namespace_id :: string
  rv_workload_id :: string
  rv_agent_node_id :: string
  rv_cpu_milli :: u32
  rv_memory_bytes :: u64
  rv_storage_bytes :: u64
  rv_accepted :: bool
  rv_reason :: string
  rv_expires_at_secs :: u64
  rv_signature :: string

datatype AdmissionRefusal =
  StateRequiresRepair | AlreadyActive | WorkloadLimit | ReservationLimit | InsufficientCapacity
  | PendingCapacityLimit

record EncryptedWorkloadCapsule =
  cp_ciphertext :: bytes
  cp_nonce :: bytes
  cp_wrapped_dek :: bytes

record ExecutionSpec =
  ex_workload_name :: string
  ex_replica_index :: u32
  ex_replica_count :: u32
  ex_manifest :: bytes
  ex_proxy_endpoints :: "EndpointRecord list"
  ex_service_catalog :: "ServiceCatalog option"
  ex_workload_credential_b64 :: string
  ex_workload_relay_auth_token :: string
  ex_workload_relay_ca_certificates :: "bytes list"

record DeploymentGrant =
  dg_version :: u16
  dg_namespace_id :: string
  dg_workload_id :: string
  dg_revision_id :: string
  dg_target_node_id :: string
  dg_response_kem_pubkey :: string
  dg_reservation_id :: string
  dg_capsule :: EncryptedWorkloadCapsule
  dg_issued_at_secs :: u64
  dg_expires_at_secs :: u64
  dg_nonce :: string
  dg_owner_signature :: string

record UpdateRequest =
  uq_version :: u16
  uq_request_id :: string
  uq_namespace_id :: string
  uq_workload_id :: string
  uq_target_node_id :: string
  uq_response_kem_pubkey :: string
  uq_expected_revision_id :: string
  uq_requested_revision_id :: string
  uq_refresh_service_mesh :: bool
  uq_cpu_milli :: u32
  uq_memory_bytes :: u64
  uq_storage_bytes :: u64
  uq_grant :: DeploymentGrant
  uq_issued_at_secs :: u64
  uq_expires_at_secs :: u64
  uq_nonce :: string
  uq_owner_signature :: string

datatype UpdateOutcome = Applied | UpdateAlreadyActive | Conflict | Rejected

record DeploymentReceipt =
  dr_version :: u16
  dr_namespace_id :: string
  dr_workload_id :: string
  dr_revision_id :: string
  dr_agent_node_id :: string
  dr_runtime_id :: string
  dr_accepted_at_secs :: u64
  dr_signature :: string

record UpdateResponse =
  up_version :: u16
  up_request_id :: string
  up_expected_revision_id :: string
  up_requested_revision_id :: string
  up_receipt :: DeploymentReceipt
  up_outcome :: UpdateOutcome
  up_reason :: string
  up_responded_at_secs :: u64
  up_signature :: string

datatype WorkloadOperation =
  Status | Logs | Delete | ConnectorInspect | SeedPeer ReplicaServiceRecord

record WorkloadCommand =
  cm_version :: u16
  cm_request_id :: string
  cm_namespace_id :: string
  cm_workload_id :: string
  cm_target_node_id :: string
  cm_operation :: WorkloadOperation
  cm_log_tail :: "u32 option"
  cm_response_kem_pubkey :: string
  cm_issued_at_secs :: u64
  cm_expires_at_secs :: u64
  cm_nonce :: string
  cm_owner_signature :: string

record WorkloadCommandResponse =
  cr_version :: u16
  cr_request_id :: string
  cr_workload_id :: string
  cr_agent_node_id :: string
  cr_ok :: bool
  cr_payload :: string
  cr_responded_at_secs :: u64
  cr_signature :: string

record WorkloadListRequest =
  lq_version :: u16
  lq_request_id :: string
  lq_namespace_id :: string
  lq_response_kem_pubkey :: string
  lq_issued_at_secs :: u64
  lq_expires_at_secs :: u64
  lq_nonce :: string
  lq_owner_signature :: string

record WorkloadSummary =
  ws_workload_id :: string
  ws_workload_name :: string
  ws_revision_id :: string
  ws_replica_index :: u32
  ws_replica_count :: u32
  ws_state :: string
  ws_deploying_since_secs :: u64
  ws_receipt :: DeploymentReceipt

record WorkloadListResponse =
  lr_version :: u16
  lr_request_id :: string
  lr_agent_node_id :: string
  lr_agent_endpoint :: EndpointRecord
  lr_agent_kem_pubkey :: string
  lr_workloads :: "WorkloadSummary list"
  lr_responded_at_secs :: u64
  lr_signature :: string

record agent_wire =
  aw_crates :: crates
  aw_endpoint :: "EndpointRecord \<Rightarrow> bytes res"
  aw_admission :: "AdmissionRequest \<Rightarrow> bytes res"
  aw_reservation :: "Reservation \<Rightarrow> bytes res"
  aw_grant :: "DeploymentGrant \<Rightarrow> bytes res"
  aw_update :: "UpdateRequest \<Rightarrow> bytes res"
  aw_update_response :: "UpdateResponse \<Rightarrow> bytes res"
  aw_receipt :: "DeploymentReceipt \<Rightarrow> bytes res"
  aw_command :: "WorkloadCommand \<Rightarrow> bytes res"
  aw_command_response :: "WorkloadCommandResponse \<Rightarrow> bytes res"
  aw_list_request :: "WorkloadListRequest \<Rightarrow> bytes res"
  aw_list_response :: "WorkloadListResponse \<Rightarrow> bytes res"
  aw_parse_list_request :: "bytes \<Rightarrow> WorkloadListRequest res"

section \<open>Shared checks\<close>

definition validate_validity_window :: "u64 \<Rightarrow> u64 \<Rightarrow> u64 \<Rightarrow> string \<Rightarrow> unit res" where
  "validate_validity_window issued_at_secs expires_at_secs now_secs what =
     ensure (issued_at_secs \<le> saturating_add now_secs MAX_AGENT_CLOCK_SKEW_SECS)
       (what @ '' was issued too far in the future'') (
     ensure (issued_at_secs < expires_at_secs) (what @ '' expires before it was issued'') (
     ensure (expires_at_secs - issued_at_secs \<le> MAX_AGENT_MESSAGE_LIFETIME_SECS)
       (what @ '' lifetime exceeds 300 seconds'') (
     ensure (now_secs \<le> saturating_add expires_at_secs MAX_AGENT_CLOCK_SKEW_SECS)
       (what @ '' expired'') (Ok ()))))"

definition decode_fixed :: "crates \<Rightarrow> string \<Rightarrow> nat \<Rightarrow> string \<Rightarrow> bytes res" where
  "decode_fixed C value expected field =
     try_r (b64_decode C value) (\<lambda>decoded.
     ensure (length decoded = expected)
       (field @ '' must decode to '' @ nat_str expected @ '' bytes'') (Ok decoded))"

definition validate_hex_id :: "string \<Rightarrow> string \<Rightarrow> unit res" where
  "validate_hex_id value field =
     ensure (length value = 64) (field @ '' must be a full 32-byte hex digest'') (
     ensure (list_all is_ascii_hexdigit value) (field @ '' must be hex'') (Ok ()))"

text \<open>How every \<open>verify\<close> of the file ends: the signature decodes to 64 bytes and is good for the
  canonical bytes under the key decoded before.\<close>

definition check_signature ::
  "crates \<Rightarrow> bytes \<Rightarrow> SignatureDomain \<Rightarrow> bytes res \<Rightarrow> string \<Rightarrow> string \<Rightarrow> unit res" where
  "check_signature C key d canonical sig field =
     try_r (decode_fixed C sig 64 field) (\<lambda>signature.
     try_r canonical (\<lambda>b. verify_domain C key d b signature))"

section \<open>Admission refusals\<close>

definition AdmissionRefusal_ALL :: "AdmissionRefusal list" where
  "AdmissionRefusal_ALL = [StateRequiresRepair, AlreadyActive, WorkloadLimit, ReservationLimit,
     InsufficientCapacity, PendingCapacityLimit]"

fun AdmissionRefusal_as_str :: "AdmissionRefusal \<Rightarrow> string" where
  "AdmissionRefusal_as_str StateRequiresRepair = ''agent workload state requires repair''"
| "AdmissionRefusal_as_str AlreadyActive = ''workload is already active or reserved''"
| "AdmissionRefusal_as_str WorkloadLimit = ''agent workload limit reached''"
| "AdmissionRefusal_as_str ReservationLimit = ''agent reservation limit reached''"
| "AdmissionRefusal_as_str InsufficientCapacity = ''insufficient capacity''"
| "AdmissionRefusal_as_str PendingCapacityLimit =
     ''pending reservation limit reached; retry once admissions settle''"

definition AdmissionRefusal_from_reason :: "string \<Rightarrow> AdmissionRefusal option" where
  "AdmissionRefusal_from_reason reason =
     find (\<lambda>refusal. AdmissionRefusal_as_str refusal = reason) AdmissionRefusal_ALL"

fun AdmissionRefusal_is_capacity :: "AdmissionRefusal \<Rightarrow> bool" where
  "AdmissionRefusal_is_capacity WorkloadLimit = True"
| "AdmissionRefusal_is_capacity ReservationLimit = True"
| "AdmissionRefusal_is_capacity InsufficientCapacity = True"
| "AdmissionRefusal_is_capacity PendingCapacityLimit = True"
| "AdmissionRefusal_is_capacity _ = False"

section \<open>Capsules and execution specs\<close>

definition EncryptedWorkloadCapsule_validate :: "EncryptedWorkloadCapsule \<Rightarrow> unit res" where
  "EncryptedWorkloadCapsule_validate c =
     ensure (cp_ciphertext c \<noteq> [] \<and> length (cp_ciphertext c) \<le> MAX_ENCRYPTED_CAPSULE_BYTES)
       ''invalid capsule ciphertext length'' (
     ensure (length (cp_nonce c) = 24) ''capsule nonce must be 24 bytes'' (
     ensure (cp_wrapped_dek c \<noteq> [] \<and> length (cp_wrapped_dek c) \<le> MAX_WRAPPED_KEY_BYTES)
       ''invalid wrapped DEK length'' (Ok ())))"

fun for_each_r :: "('a \<Rightarrow> unit res) \<Rightarrow> 'a list \<Rightarrow> unit res" where
  "for_each_r f [] = Ok ()"
| "for_each_r f (x # xs) = try_r (f x) (\<lambda>_. for_each_r f xs)"

definition ExecutionSpec_validate :: "agent_wire \<Rightarrow> ExecutionSpec \<Rightarrow> unit res" where
  "ExecutionSpec_validate W x =
     ensure (ex_workload_name x \<noteq> [] \<and> length (ex_workload_name x) \<le> 253) ''invalid workload name'' (
     ensure (1 \<le> ex_replica_count x \<and> ex_replica_count x \<le> MAX_WORKLOAD_REPLICAS)
       ''replica count must be between 1 and 64'' (
     ensure (ex_replica_index x < ex_replica_count x) ''replica index is outside the deployment'' (
     ensure (ex_manifest x \<noteq> [] \<and> length (ex_manifest x) \<le> MAX_MANIFEST_BYTES)
       ''invalid manifest length'' (
     ensure (ex_proxy_endpoints x \<noteq> [] \<and> length (ex_proxy_endpoints x) \<le> MAX_PROXY_ENDPOINTS)
       ''invalid proxy endpoint count'' (
     try_r (for_each_r (EndpointRecord_verify_structure (aw_crates W) (aw_endpoint W))
         (ex_proxy_endpoints x)) (\<lambda>_.
     ensure (ex_workload_credential_b64 x \<noteq> []
         \<and> length (ex_workload_credential_b64 x) \<le> MAX_WORKLOAD_CREDENTIAL_B64_LEN)
       ''invalid workload credential length'' (
     ensure (32 \<le> length (ex_workload_relay_auth_token x)
         \<and> length (ex_workload_relay_auth_token x) \<le> 4 * 1024)
       ''invalid workload relay auth token length'' (
     ensure (length (ex_workload_relay_ca_certificates x) \<le> 8)
       ''too many workload relay CA certificates'' (
     for_each_r (\<lambda>certificate.
       ensure (certificate \<noteq> [] \<and> length certificate \<le> 64 * 1024)
         ''invalid workload relay CA certificate size'' (Ok ()))
       (ex_workload_relay_ca_certificates x))))))))))"

section \<open>Lemmas\<close>

lemma for_each_r_Ok [simp]: "for_each_r f xs = Ok () \<longleftrightarrow> (\<forall>x \<in> set xs. f x = Ok ())"
  by (induction xs) auto

lemma decode_fixed_Ok [simp]:
  "decode_fixed C v n field = Ok d \<longleftrightarrow> b64_decode C v = Ok d \<and> length d = n"
  by (auto simp: decode_fixed_def)

lemma check_signature_Ok:
  "check_signature C key d canonical sig field = Ok () \<longleftrightarrow>
     (\<exists>s b. b64_decode C sig = Ok s \<and> length s = 64 \<and> canonical = Ok b \<and> verify_domain C key d b s = Ok ())"
  by (auto simp: check_signature_def)

text \<open>The validity window read on the number line: open from 60 seconds before the issue time to 60
  seconds past the expiry, at most five minutes between the two.\<close>

lemma validity_window_Ok:
  "validate_validity_window issued expires now what = Ok () \<longleftrightarrow>
     unat issued \<le> unat now + 60 \<and> unat issued < unat expires
     \<and> unat expires \<le> unat issued + 300 \<and> unat now \<le> unat expires + 60"
proof -
  have "unat (expires - issued) = unat expires - unat issued" if "issued < expires"
    using that by (simp add: unat_sub word_less_nat_alt word_le_nat_alt)
  then show ?thesis
    using unat_le_max [of issued] unat_le_max [of now]
    by (auto simp: validate_validity_window_def word_le_nat_alt word_less_nat_alt unat_saturating_add
        agent_consts)
qed

end
