(* ===== verification/Agent_Requests.thy ===== *)
theory Agent_Requests
  imports Agent_Types
begin

text \<open>
  The owner-signed messages of \<open>shared/protocol/src/agent.rs\<close>: admission requests, deployment
  grants, update requests, workload commands and list requests. Each \<open>verify\<close> is given by the
  checks that precede the signature (its \<open>_fields\<close>, which returns the decoded owner key) followed
  by the signature check. All five interpret \<open>signed_message\<close>.
\<close>

section \<open>Admission requests\<close>

definition AdmissionRequest_canonical_bytes :: "agent_wire \<Rightarrow> AdmissionRequest \<Rightarrow> bytes res" where
  "AdmissionRequest_canonical_bytes W m = aw_admission W (m\<lparr>aq_owner_signature := []\<rparr>)"

definition AdmissionRequest_sign :: "agent_wire \<Rightarrow> AdmissionRequest \<Rightarrow> bytes \<Rightarrow> AdmissionRequest res" where
  "AdmissionRequest_sign W m owner_private =
     (let m' = m\<lparr>aq_owner_signature := []\<rparr> in
      try_r (AdmissionRequest_canonical_bytes W m') (\<lambda>b.
      try_r (sign_domain (aw_crates W) owner_private D_AdmissionRequest b) (\<lambda>sig.
        Ok (m'\<lparr>aq_owner_signature := b64_encode (aw_crates W) sig\<rparr>))))"

definition AdmissionRequest_fields :: "agent_wire \<Rightarrow> AdmissionRequest \<Rightarrow> u64 \<Rightarrow> bytes res" where
  "AdmissionRequest_fields W m now_secs =
     ensure (aq_version m = AGENT_PROTOCOL_VERSION)
       ''unsupported admission version'' (
     try_r (decode_fixed (aw_crates W) (aq_namespace_id m) 32 ''namespace_id'') (\<lambda>owner.
     try_r (decode_fixed (aw_crates W) (aq_target_node_id m) 32 ''target_node_id'') (\<lambda>_.
     try_r (decode_fixed (aw_crates W) (aq_response_kem_pubkey m) 32 ''response_kem_pubkey'') (\<lambda>_.
     try_r (validate_hex_id (aq_workload_id m) ''workload_id'') (\<lambda>_.
     ensure (aq_request_id m \<noteq> [] \<and> length (aq_request_id m) \<le> 128)
       ''invalid request_id'' (
     ensure (aq_nonce m \<noteq> [] \<and> length (aq_nonce m) \<le> 128)
       ''invalid nonce'' (
     try_r (validate_validity_window (aq_issued_at_secs m) (aq_expires_at_secs m) now_secs
         ''admission request'') (\<lambda>_.
       Ok owner))))))))"

definition AdmissionRequest_verify :: "agent_wire \<Rightarrow> AdmissionRequest \<Rightarrow> u64 \<Rightarrow> unit res" where
  "AdmissionRequest_verify W m now_secs =
     try_r (AdmissionRequest_fields W m now_secs) (\<lambda>owner.
       check_signature (aw_crates W) owner D_AdmissionRequest (AdmissionRequest_canonical_bytes W m)
         (aq_owner_signature m) ''owner_signature'')"

section \<open>Deployment grants\<close>

definition DeploymentGrant_canonical_bytes :: "agent_wire \<Rightarrow> DeploymentGrant \<Rightarrow> bytes res" where
  "DeploymentGrant_canonical_bytes W m = aw_grant W (m\<lparr>dg_owner_signature := []\<rparr>)"

definition DeploymentGrant_sign :: "agent_wire \<Rightarrow> DeploymentGrant \<Rightarrow> bytes \<Rightarrow> DeploymentGrant res" where
  "DeploymentGrant_sign W m owner_private =
     (let m' = m\<lparr>dg_owner_signature := []\<rparr> in
      try_r (DeploymentGrant_canonical_bytes W m') (\<lambda>b.
      try_r (sign_domain (aw_crates W) owner_private D_DeploymentGrant b) (\<lambda>sig.
        Ok (m'\<lparr>dg_owner_signature := b64_encode (aw_crates W) sig\<rparr>))))"

definition DeploymentGrant_fields :: "agent_wire \<Rightarrow> DeploymentGrant \<Rightarrow> u64 \<Rightarrow> bytes res" where
  "DeploymentGrant_fields W m now_secs =
     ensure (dg_version m = AGENT_PROTOCOL_VERSION)
       ''unsupported deployment grant version'' (
     try_r (decode_fixed (aw_crates W) (dg_namespace_id m) 32 ''namespace_id'') (\<lambda>owner.
     try_r (decode_fixed (aw_crates W) (dg_target_node_id m) 32 ''target_node_id'') (\<lambda>_.
     try_r (decode_fixed (aw_crates W) (dg_response_kem_pubkey m) 32 ''response_kem_pubkey'') (\<lambda>_.
     try_r (validate_hex_id (dg_workload_id m) ''workload_id'') (\<lambda>_.
     try_r (validate_hex_id (dg_revision_id m) ''revision_id'') (\<lambda>_.
     try_r (EncryptedWorkloadCapsule_validate (dg_capsule m)) (\<lambda>_.
     try_r (validate_validity_window (dg_issued_at_secs m) (dg_expires_at_secs m) now_secs
         ''deployment grant'') (\<lambda>_.
     ensure (dg_reservation_id m \<noteq> [] \<and> length (dg_reservation_id m) \<le> 128)
       ''invalid reservation_id'' (
     ensure (dg_nonce m \<noteq> [] \<and> length (dg_nonce m) \<le> 128)
       ''invalid nonce'' (
       Ok owner))))))))))"

definition DeploymentGrant_verify :: "agent_wire \<Rightarrow> DeploymentGrant \<Rightarrow> u64 \<Rightarrow> unit res" where
  "DeploymentGrant_verify W m now_secs =
     try_r (DeploymentGrant_fields W m now_secs) (\<lambda>owner.
       check_signature (aw_crates W) owner D_DeploymentGrant (DeploymentGrant_canonical_bytes W m)
         (dg_owner_signature m) ''owner_signature'')"

section \<open>Update requests\<close>

definition UpdateRequest_canonical_bytes :: "agent_wire \<Rightarrow> UpdateRequest \<Rightarrow> bytes res" where
  "UpdateRequest_canonical_bytes W m = aw_update W (m\<lparr>uq_owner_signature := []\<rparr>)"

definition UpdateRequest_sign :: "agent_wire \<Rightarrow> UpdateRequest \<Rightarrow> bytes \<Rightarrow> UpdateRequest res" where
  "UpdateRequest_sign W m owner_private =
     (let m' = m\<lparr>uq_owner_signature := []\<rparr> in
      try_r (UpdateRequest_canonical_bytes W m') (\<lambda>b.
      try_r (sign_domain (aw_crates W) owner_private D_UpdateRequest b) (\<lambda>sig.
        Ok (m'\<lparr>uq_owner_signature := b64_encode (aw_crates W) sig\<rparr>))))"

definition UpdateRequest_fields :: "agent_wire \<Rightarrow> UpdateRequest \<Rightarrow> u64 \<Rightarrow> bytes res" where
  "UpdateRequest_fields W m now_secs =
     ensure (uq_version m = AGENT_PROTOCOL_VERSION)
       ''unsupported update request version'' (
     try_r (decode_fixed (aw_crates W) (uq_namespace_id m) 32 ''namespace_id'') (\<lambda>owner.
     try_r (decode_fixed (aw_crates W) (uq_target_node_id m) 32 ''target_node_id'') (\<lambda>_.
     try_r (decode_fixed (aw_crates W) (uq_response_kem_pubkey m) 32 ''response_kem_pubkey'') (\<lambda>_.
     try_r (validate_hex_id (uq_workload_id m) ''workload_id'') (\<lambda>_.
     try_r (validate_hex_id (uq_expected_revision_id m) ''expected_revision_id'') (\<lambda>_.
     try_r (validate_hex_id (uq_requested_revision_id m) ''requested_revision_id'') (\<lambda>_.
     ensure (uq_request_id m \<noteq> [] \<and> length (uq_request_id m) \<le> 128)
       ''invalid request_id'' (
     ensure (uq_nonce m \<noteq> [] \<and> length (uq_nonce m) \<le> 128)
       ''invalid nonce'' (
     ensure (0 < uq_cpu_milli m \<and> 0 < uq_memory_bytes m \<and> 0 < uq_storage_bytes m)
       ''update resources must be non-zero'' (
     try_r (DeploymentGrant_verify W (uq_grant m) now_secs) (\<lambda>_.
     ensure (dg_namespace_id (uq_grant m) = uq_namespace_id m
         \<and> dg_workload_id (uq_grant m) = uq_workload_id m
         \<and> dg_target_node_id (uq_grant m) = uq_target_node_id m
         \<and> dg_response_kem_pubkey (uq_grant m) = uq_response_kem_pubkey m
         \<and> dg_revision_id (uq_grant m) = uq_requested_revision_id m)
       ''update grant binding mismatch'' (
     try_r (validate_validity_window (uq_issued_at_secs m) (uq_expires_at_secs m) now_secs
         ''update request'') (\<lambda>_.
       Ok owner)))))))))))))"

definition UpdateRequest_verify :: "agent_wire \<Rightarrow> UpdateRequest \<Rightarrow> u64 \<Rightarrow> unit res" where
  "UpdateRequest_verify W m now_secs =
     try_r (UpdateRequest_fields W m now_secs) (\<lambda>owner.
       check_signature (aw_crates W) owner D_UpdateRequest (UpdateRequest_canonical_bytes W m)
         (uq_owner_signature m) ''owner_signature'')"

section \<open>Workload commands\<close>

definition WorkloadCommand_canonical_bytes :: "agent_wire \<Rightarrow> WorkloadCommand \<Rightarrow> bytes res" where
  "WorkloadCommand_canonical_bytes W m = aw_command W (m\<lparr>cm_owner_signature := []\<rparr>)"

definition WorkloadCommand_sign :: "agent_wire \<Rightarrow> WorkloadCommand \<Rightarrow> bytes \<Rightarrow> WorkloadCommand res" where
  "WorkloadCommand_sign W m owner_private =
     (let m' = m\<lparr>cm_owner_signature := []\<rparr> in
      try_r (WorkloadCommand_canonical_bytes W m') (\<lambda>b.
      try_r (sign_domain (aw_crates W) owner_private D_WorkloadCommand b) (\<lambda>sig.
        Ok (m'\<lparr>cm_owner_signature := b64_encode (aw_crates W) sig\<rparr>))))"

definition WorkloadCommand_fields :: "agent_wire \<Rightarrow> WorkloadCommand \<Rightarrow> u64 \<Rightarrow> bytes res" where
  "WorkloadCommand_fields W m now_secs =
     ensure (cm_version m = AGENT_PROTOCOL_VERSION)
       ''unsupported workload command version'' (
     try_r (decode_fixed (aw_crates W) (cm_namespace_id m) 32 ''namespace_id'') (\<lambda>owner.
     try_r (decode_fixed (aw_crates W) (cm_target_node_id m) 32 ''target_node_id'') (\<lambda>_.
     try_r (decode_fixed (aw_crates W) (cm_response_kem_pubkey m) 32 ''response_kem_pubkey'') (\<lambda>_.
     try_r (validate_hex_id (cm_workload_id m) ''workload_id'') (\<lambda>_.
     ensure (cm_request_id m \<noteq> [] \<and> length (cm_request_id m) \<le> 128)
       ''invalid request_id'' (
     ensure (cm_nonce m \<noteq> [] \<and> length (cm_nonce m) \<le> 128)
       ''invalid nonce'' (
     try_r (validate_validity_window (cm_issued_at_secs m) (cm_expires_at_secs m) now_secs
         ''workload command'') (\<lambda>_.
     ensure ((case cm_log_tail m of Some n \<Rightarrow> n | None \<Rightarrow> 0) \<le> 10000)
       ''log tail exceeds limit'' (
       Ok owner)))))))))"

definition WorkloadCommand_verify :: "agent_wire \<Rightarrow> WorkloadCommand \<Rightarrow> u64 \<Rightarrow> unit res" where
  "WorkloadCommand_verify W m now_secs =
     try_r (WorkloadCommand_fields W m now_secs) (\<lambda>owner.
       check_signature (aw_crates W) owner D_WorkloadCommand (WorkloadCommand_canonical_bytes W m)
         (cm_owner_signature m) ''owner_signature'')"

section \<open>List requests\<close>

definition WorkloadListRequest_canonical_bytes :: "agent_wire \<Rightarrow> WorkloadListRequest \<Rightarrow> bytes res" where
  "WorkloadListRequest_canonical_bytes W m = aw_list_request W (m\<lparr>lq_owner_signature := []\<rparr>)"

definition WorkloadListRequest_sign :: "agent_wire \<Rightarrow> WorkloadListRequest \<Rightarrow> bytes \<Rightarrow> WorkloadListRequest res" where
  "WorkloadListRequest_sign W m owner_private =
     (try_r (WorkloadListRequest_canonical_bytes W m) (\<lambda>b.
      try_r (sign_domain (aw_crates W) owner_private D_WorkloadListRequest b) (\<lambda>sig.
        Ok (m\<lparr>lq_owner_signature := b64_encode (aw_crates W) sig\<rparr>))))"

definition WorkloadListRequest_fields :: "agent_wire \<Rightarrow> WorkloadListRequest \<Rightarrow> u64 \<Rightarrow> bytes res" where
  "WorkloadListRequest_fields W m now_secs =
     ensure (lq_version m = AGENT_PROTOCOL_VERSION)
       ''unsupported workload list version'' (
     try_r (decode_fixed (aw_crates W) (lq_namespace_id m) 32 ''namespace_id'') (\<lambda>owner.
     try_r (decode_fixed (aw_crates W) (lq_response_kem_pubkey m) 32 ''response_kem_pubkey'') (\<lambda>_.
     ensure (lq_request_id m \<noteq> [] \<and> length (lq_request_id m) \<le> 128)
       ''invalid request_id'' (
     ensure (lq_nonce m \<noteq> [] \<and> length (lq_nonce m) \<le> 128)
       ''invalid nonce'' (
     try_r (validate_validity_window (lq_issued_at_secs m) (lq_expires_at_secs m) now_secs
         ''workload list request'') (\<lambda>_.
       Ok owner))))))"

definition WorkloadListRequest_verify :: "agent_wire \<Rightarrow> WorkloadListRequest \<Rightarrow> u64 \<Rightarrow> unit res" where
  "WorkloadListRequest_verify W m now_secs =
     try_r (WorkloadListRequest_fields W m now_secs) (\<lambda>owner.
       check_signature (aw_crates W) owner D_WorkloadListRequest (WorkloadListRequest_canonical_bytes W m)
         (lq_owner_signature m) ''owner_signature'')"

definition WorkloadListRequest_to_bytes :: "agent_wire \<Rightarrow> WorkloadListRequest \<Rightarrow> bytes res" where
  "WorkloadListRequest_to_bytes W m = aw_list_request W m"

definition WorkloadListRequest_from_bytes ::
  "agent_wire \<Rightarrow> bytes \<Rightarrow> u64 \<Rightarrow> WorkloadListRequest res" where
  "WorkloadListRequest_from_bytes W b now_secs =
     ensure (length b \<le> MAX_WORKLOAD_LIST_REQUEST_BYTES)
       ''workload list request exceeds 4096 bytes'' (
     try_r (aw_parse_list_request W b) (\<lambda>request.
     try_r (WorkloadListRequest_verify W request now_secs) (\<lambda>_. Ok request)))"

section \<open>The five message types honour the contract\<close>

interpretation admission: signed_message "aw_crates W" D_AdmissionRequest "AdmissionRequest_canonical_bytes W"
  aq_namespace_id aq_owner_signature "\<lambda>s m. m\<lparr>aq_owner_signature := s\<rparr>"
  "\<lambda>m. is_ok (AdmissionRequest_fields W m now)" "\<lambda>m. AdmissionRequest_verify W m now"
  for W now
  by unfold_locales
    (auto simp: AdmissionRequest_verify_def AdmissionRequest_fields_def AdmissionRequest_canonical_bytes_def
      check_signature_Ok is_ok_iff)

interpretation grant: signed_message "aw_crates W" D_DeploymentGrant "DeploymentGrant_canonical_bytes W"
  dg_namespace_id dg_owner_signature "\<lambda>s m. m\<lparr>dg_owner_signature := s\<rparr>"
  "\<lambda>m. is_ok (DeploymentGrant_fields W m now)" "\<lambda>m. DeploymentGrant_verify W m now"
  for W now
  by unfold_locales
    (auto simp: DeploymentGrant_verify_def DeploymentGrant_fields_def DeploymentGrant_canonical_bytes_def
      check_signature_Ok is_ok_iff)

interpretation update: signed_message "aw_crates W" D_UpdateRequest "UpdateRequest_canonical_bytes W"
  uq_namespace_id uq_owner_signature "\<lambda>s m. m\<lparr>uq_owner_signature := s\<rparr>"
  "\<lambda>m. is_ok (UpdateRequest_fields W m now)" "\<lambda>m. UpdateRequest_verify W m now"
  for W now
  by unfold_locales
    (auto simp: UpdateRequest_verify_def UpdateRequest_fields_def UpdateRequest_canonical_bytes_def
      check_signature_Ok is_ok_iff)

interpretation command: signed_message "aw_crates W" D_WorkloadCommand "WorkloadCommand_canonical_bytes W"
  cm_namespace_id cm_owner_signature "\<lambda>s m. m\<lparr>cm_owner_signature := s\<rparr>"
  "\<lambda>m. is_ok (WorkloadCommand_fields W m now)" "\<lambda>m. WorkloadCommand_verify W m now"
  for W now
  by unfold_locales
    (auto simp: WorkloadCommand_verify_def WorkloadCommand_fields_def WorkloadCommand_canonical_bytes_def
      check_signature_Ok is_ok_iff)

interpretation listing: signed_message "aw_crates W" D_WorkloadListRequest "WorkloadListRequest_canonical_bytes W"
  lq_namespace_id lq_owner_signature "\<lambda>s m. m\<lparr>lq_owner_signature := s\<rparr>"
  "\<lambda>m. is_ok (WorkloadListRequest_fields W m now)" "\<lambda>m. WorkloadListRequest_verify W m now"
  for W now
  by unfold_locales
    (auto simp: WorkloadListRequest_verify_def WorkloadListRequest_fields_def WorkloadListRequest_canonical_bytes_def
      check_signature_Ok is_ok_iff)

lemma UpdateRequest_fields_Ok:
  assumes "UpdateRequest_verify W m now = Ok ()"
  shows "DeploymentGrant_verify W (uq_grant m) now = Ok ()"
    and "dg_namespace_id (uq_grant m) = uq_namespace_id m" and "dg_workload_id (uq_grant m) = uq_workload_id m"
    and "dg_target_node_id (uq_grant m) = uq_target_node_id m"
    and "dg_revision_id (uq_grant m) = uq_requested_revision_id m"
    and "validate_validity_window (uq_issued_at_secs m) (uq_expires_at_secs m) now ''update request'' = Ok ()"
    and "0 < uq_cpu_milli m \<and> 0 < uq_memory_bytes m \<and> 0 < uq_storage_bytes m"
  using assms by (auto simp: UpdateRequest_verify_def UpdateRequest_fields_def)

text \<open>What it takes for canonical bytes to pin down a message: postcard decodes what it encodes, and
  the log of signatures made under a domain is the log of messages of that type signed.\<close>

definition signs_only ::
  "(bytes \<times> SignatureDomain \<times> bytes) set \<Rightarrow> SignatureDomain \<Rightarrow> ('m \<Rightarrow> bytes res) \<Rightarrow> (bytes \<times> 'm) set \<Rightarrow> bool" where
  "signs_only log d canon issued \<longleftrightarrow>
     (\<forall>sk b. (sk, d, b) \<in> log \<longrightarrow> (\<exists>m. (sk, m) \<in> issued \<and> canon m = Ok b))"

definition injective_codec :: "('m \<Rightarrow> bytes res) \<Rightarrow> bool" where
  "injective_codec enc \<longleftrightarrow> (\<forall>m m' b. enc m = Ok b \<longrightarrow> enc m' = Ok b \<longrightarrow> m = m')"

section \<open>Properties\<close>

text \<open>C16: an update request an agent accepts was issued, field for field, by the namespace owner it
  names, and so was the deployment grant inside it; both name the same workload, the same target
  agent and the same new revision, ask for non-zero resources, and are inside their validity
  window, at most five minutes long with a minute of clock skew on either side. A relay can change
  no field of either and can pair no owner's grant with another owner's request.\<close>

theorem update_request_authentic:
  assumes "signed_by (aw_crates W) log"
    and "signs_only log D_UpdateRequest (UpdateRequest_canonical_bytes W) updates"
    and "signs_only log D_DeploymentGrant (DeploymentGrant_canonical_bytes W) grants"
    and "injective_codec (aw_update W)" and "injective_codec (aw_grant W)"
    and "UpdateRequest_verify W m now = Ok ()"
  shows "\<exists>sk m0 sk' g0. (sk, m0) \<in> updates \<and> (sk', g0) \<in> grants
      \<and> ed_public (aw_crates W) sk = ed_public (aw_crates W) sk'
      \<and> b64_decode (aw_crates W) (uq_namespace_id m) = Ok (ed_public (aw_crates W) sk)
      \<and> m\<lparr>uq_owner_signature := []\<rparr> = m0\<lparr>uq_owner_signature := []\<rparr>
      \<and> (uq_grant m)\<lparr>dg_owner_signature := []\<rparr> = g0\<lparr>dg_owner_signature := []\<rparr>
      \<and> dg_workload_id g0 = uq_workload_id m0 \<and> dg_target_node_id g0 = uq_target_node_id m0
      \<and> dg_revision_id g0 = uq_requested_revision_id m0
      \<and> unat (uq_expires_at_secs m) \<le> unat (uq_issued_at_secs m) + 300
      \<and> unat now \<le> unat (uq_expires_at_secs m) + 60"
proof -
  note f = UpdateRequest_fields_Ok [OF assms(6)]
  have "\<exists>sk m0. (sk, m0) \<in> updates
      \<and> b64_decode (aw_crates W) (uq_namespace_id m) = Ok (ed_public (aw_crates W) sk)
      \<and> m\<lparr>uq_owner_signature := []\<rparr> = m0\<lparr>uq_owner_signature := []\<rparr>"
    using assms(2,4) unfolding signs_only_def injective_codec_def
    by (intro update.authentic_fields [OF assms(1,6)]) (auto simp: UpdateRequest_canonical_bytes_def)
  then obtain sk m0 where m0: "(sk, m0) \<in> updates"
    "b64_decode (aw_crates W) (uq_namespace_id m) = Ok (ed_public (aw_crates W) sk)"
    "m\<lparr>uq_owner_signature := []\<rparr> = m0\<lparr>uq_owner_signature := []\<rparr>" by blast
  have "\<exists>sk g0. (sk, g0) \<in> grants
      \<and> b64_decode (aw_crates W) (dg_namespace_id (uq_grant m)) = Ok (ed_public (aw_crates W) sk)
      \<and> (uq_grant m)\<lparr>dg_owner_signature := []\<rparr> = g0\<lparr>dg_owner_signature := []\<rparr>"
    using assms(3,5) unfolding signs_only_def injective_codec_def
    by (intro grant.authentic_fields [OF assms(1) f(1)]) (auto simp: DeploymentGrant_canonical_bytes_def)
  then obtain sk' g0 where g0: "(sk', g0) \<in> grants"
    "b64_decode (aw_crates W) (dg_namespace_id (uq_grant m)) = Ok (ed_public (aw_crates W) sk')"
    "(uq_grant m)\<lparr>dg_owner_signature := []\<rparr> = g0\<lparr>dg_owner_signature := []\<rparr>" by blast
  have "dg_workload_id g0 = uq_workload_id m0" "dg_target_node_id g0 = uq_target_node_id m0"
    "dg_revision_id g0 = uq_requested_revision_id m0"
    using f(3-5) arg_cong [OF m0(3), of uq_workload_id] arg_cong [OF g0(3), of dg_workload_id]
      arg_cong [OF m0(3), of uq_target_node_id] arg_cong [OF g0(3), of dg_target_node_id]
      arg_cong [OF m0(3), of uq_requested_revision_id] arg_cong [OF g0(3), of dg_revision_id]
    by simp_all
  moreover have "ed_public (aw_crates W) sk = ed_public (aw_crates W) sk'" using m0(2) g0(2) f(2) by simp
  moreover note f(6) [unfolded validity_window_Ok]
  ultimately show ?thesis using m0 g0 by blast
qed

text \<open>Witness of C16: one update with its grant, signed by the owner key \<open>3\<close>, under encoders that
  know these two messages.\<close>

definition toy_grant :: "string \<Rightarrow> DeploymentGrant" where
  "toy_grant s = \<lparr>dg_version = 1, dg_namespace_id = toy_b64 (replicate 32 3),
     dg_workload_id = replicate 64 CHR ''a'', dg_revision_id = replicate 64 CHR ''b'',
     dg_target_node_id = toy_b64 (replicate 32 4), dg_response_kem_pubkey = toy_b64 (replicate 32 8),
     dg_reservation_id = ''r'',
     dg_capsule = \<lparr>cp_ciphertext = [1], cp_nonce = replicate 24 2, cp_wrapped_dek = [3]\<rparr>,
     dg_issued_at_secs = 1000, dg_expires_at_secs = 1030, dg_nonce = ''inner'', dg_owner_signature = s\<rparr>"

definition toy_update :: "string \<Rightarrow> UpdateRequest" where
  "toy_update s = \<lparr>uq_version = 1, uq_request_id = ''u'', uq_namespace_id = toy_b64 (replicate 32 3),
     uq_workload_id = replicate 64 CHR ''a'', uq_target_node_id = toy_b64 (replicate 32 4),
     uq_response_kem_pubkey = toy_b64 (replicate 32 8), uq_expected_revision_id = replicate 64 CHR ''c'',
     uq_requested_revision_id = replicate 64 CHR ''b'', uq_refresh_service_mesh = False,
     uq_cpu_milli = 100, uq_memory_bytes = 1024, uq_storage_bytes = 2048,
     uq_grant = toy_grant (toy_b64 (replicate 64 0)), uq_issued_at_secs = 1000,
     uq_expires_at_secs = 1030, uq_nonce = ''outer'', uq_owner_signature = s\<rparr>"

definition req_log :: "(bytes \<times> SignatureDomain \<times> bytes) list" where
  "req_log = [(replicate 32 3, D_UpdateRequest, [5]), (replicate 32 3, D_DeploymentGrant, [6])]"

definition req_wire :: agent_wire where
  "req_wire = \<lparr>aw_crates = accepting req_log, aw_endpoint = (\<lambda>_. Err []), aw_admission = (\<lambda>_. Err []),
     aw_reservation = (\<lambda>_. Err []), aw_grant = (\<lambda>m. if m = toy_grant [] then Ok [6] else Err []),
     aw_update = (\<lambda>m. if m = toy_update [] then Ok [5] else Err []),
     aw_update_response = (\<lambda>_. Err []), aw_receipt = (\<lambda>_. Err []), aw_command = (\<lambda>_. Err []),
     aw_command_response = (\<lambda>_. Err []), aw_list_request = (\<lambda>_. Err []),
     aw_list_response = (\<lambda>_. Err []), aw_parse_list_request = (\<lambda>_. Err [])\<rparr>"

lemma toy_messages [simp]:
  "(toy_grant s)\<lparr>dg_owner_signature := t\<rparr> = toy_grant t" "(toy_update s)\<lparr>uq_owner_signature := t\<rparr> = toy_update t"
  by (simp_all add: toy_grant_def toy_update_def)

lemma req_canonical [simp]:
  "DeploymentGrant_canonical_bytes req_wire (toy_grant s) = Ok [6]"
  "UpdateRequest_canonical_bytes req_wire (toy_update s) = Ok [5]" "aw_crates req_wire = accepting req_log"
  by (simp_all add: DeploymentGrant_canonical_bytes_def UpdateRequest_canonical_bytes_def req_wire_def)

lemma toy_grant_verifies: "DeploymentGrant_verify req_wire (toy_grant (toy_b64 (replicate 64 0))) 1010 = Ok ()"
proof -
  have "verify_domain (accepting req_log) (replicate 32 3) D_DeploymentGrant [6] (replicate 64 0) = Ok ()"
    by (rule accepting_verify) (simp_all add: req_log_def)
  then show ?thesis
    by (simp add: DeploymentGrant_verify_def check_signature_Ok DeploymentGrant_fields_def validity_window_Ok)
      (simp add: toy_grant_def validate_hex_id_def EncryptedWorkloadCapsule_validate_def agent_consts
        list_all_iff is_ascii_hexdigit_def)
qed

lemma toy_update_verifies: "UpdateRequest_verify req_wire (toy_update (toy_b64 (replicate 64 0))) 1010 = Ok ()"
proof -
  have "verify_domain (accepting req_log) (replicate 32 3) D_UpdateRequest [5] (replicate 64 0) = Ok ()"
    by (rule accepting_verify) (simp_all add: req_log_def)
  moreover have "uq_grant (toy_update s) = toy_grant (toy_b64 (replicate 64 0))" for s
    by (simp add: toy_update_def)
  ultimately show ?thesis
    using toy_grant_verifies
    by (simp add: UpdateRequest_verify_def check_signature_Ok UpdateRequest_fields_def validity_window_Ok)
      (simp add: toy_update_def toy_grant_def validate_hex_id_def agent_consts list_all_iff
        is_ascii_hexdigit_def)
qed


theorem update_request_authentic_witness:
  "\<exists>(sk :: bytes) m0 (g0 :: DeploymentGrant). (sk, m0) \<in> {(replicate 32 3, toy_update [])}
     \<and> (toy_update (toy_b64 (replicate 64 0)))\<lparr>uq_owner_signature := []\<rparr> = m0\<lparr>uq_owner_signature := []\<rparr>
     \<and> dg_target_node_id g0 = uq_target_node_id m0"
proof -
  let ?updates = "{(replicate 32 3, toy_update [])}" and ?grants = "{(replicate 32 3, toy_grant [])}"
  have signs: "signs_only (set req_log) D_UpdateRequest (UpdateRequest_canonical_bytes req_wire) ?updates"
    "signs_only (set req_log) D_DeploymentGrant (DeploymentGrant_canonical_bytes req_wire) ?grants"
    by (simp_all add: signs_only_def req_log_def)
  have codecs: "injective_codec (aw_update req_wire)" "injective_codec (aw_grant req_wire)"
    by (simp_all add: injective_codec_def req_wire_def)
  have signed: "signed_by (aw_crates req_wire) (set req_log)" by (simp add: accepting_signed)
  from update_request_authentic [OF signed signs codecs toy_update_verifies]
  show ?thesis by (elim exE conjE) (intro exI conjI, assumption+)
qed

end
