(* ===== verification/Agent_Responses.thy ===== *)
theory Agent_Responses
  imports Agent_Requests
begin

text \<open>
  The agent-signed messages of \<open>shared/protocol/src/agent.rs\<close>: reservations, deployment receipts,
  update responses, command responses and workload lists. The signing key is the one named in
  \<open>agent_node_id\<close>, for an update response the one of the receipt inside it. As for the requests,
  each \<open>verify\<close> is its \<open>_fields\<close> followed by the signature check, and all five interpret
  \<open>signed_message\<close>.
\<close>

section \<open>Reservations\<close>

definition Reservation_canonical_bytes :: "agent_wire \<Rightarrow> Reservation \<Rightarrow> bytes res" where
  "Reservation_canonical_bytes W m = aw_reservation W (m\<lparr>rv_signature := []\<rparr>)"

definition Reservation_sign :: "agent_wire \<Rightarrow> Reservation \<Rightarrow> bytes \<Rightarrow> bytes \<Rightarrow> Reservation res" where
  "Reservation_sign W m signing_public signing_private =
     (let m' = m\<lparr>rv_agent_node_id := b64_encode (aw_crates W) signing_public, rv_signature := []\<rparr> in
      try_r (Reservation_canonical_bytes W m') (\<lambda>b.
      try_r (sign_domain (aw_crates W) signing_private D_Reservation b) (\<lambda>sig.
        Ok (m'\<lparr>rv_signature := b64_encode (aw_crates W) sig\<rparr>))))"

definition Reservation_fields :: "agent_wire \<Rightarrow> Reservation \<Rightarrow> u64 \<Rightarrow> bytes res" where
  "Reservation_fields W m now_secs =
     ensure (rv_version m = AGENT_PROTOCOL_VERSION) ''unsupported reservation version'' (
     try_r (decode_fixed (aw_crates W) (rv_agent_node_id m) 32 ''agent_node_id'') (\<lambda>agent.
     try_r (decode_fixed (aw_crates W) (rv_namespace_id m) 32 ''namespace_id'') (\<lambda>_.
     try_r (validate_hex_id (rv_workload_id m) ''workload_id'') (\<lambda>_.
     ensure (now_secs \<le> rv_expires_at_secs m) ''reservation expired'' (
     ensure (length (rv_reason m) \<le> 1024) ''reservation reason too long'' (
       Ok agent))))))"

definition Reservation_verify :: "agent_wire \<Rightarrow> Reservation \<Rightarrow> u64 \<Rightarrow> unit res" where
  "Reservation_verify W m now_secs =
     try_r (Reservation_fields W m now_secs) (\<lambda>agent.
       check_signature (aw_crates W) agent D_Reservation (Reservation_canonical_bytes W m)
         (rv_signature m) ''signature'')"

section \<open>Deployment receipts\<close>

definition DeploymentReceipt_canonical_bytes :: "agent_wire \<Rightarrow> DeploymentReceipt \<Rightarrow> bytes res" where
  "DeploymentReceipt_canonical_bytes W m = aw_receipt W (m\<lparr>dr_signature := []\<rparr>)"

definition DeploymentReceipt_sign ::
  "agent_wire \<Rightarrow> DeploymentReceipt \<Rightarrow> bytes \<Rightarrow> bytes \<Rightarrow> DeploymentReceipt res" where
  "DeploymentReceipt_sign W m signing_public signing_private =
     (let m' = m\<lparr>dr_agent_node_id := b64_encode (aw_crates W) signing_public, dr_signature := []\<rparr> in
      try_r (DeploymentReceipt_canonical_bytes W m') (\<lambda>b.
      try_r (sign_domain (aw_crates W) signing_private D_DeploymentReceipt b) (\<lambda>sig.
        Ok (m'\<lparr>dr_signature := b64_encode (aw_crates W) sig\<rparr>))))"

definition DeploymentReceipt_fields :: "agent_wire \<Rightarrow> DeploymentReceipt \<Rightarrow> bytes res" where
  "DeploymentReceipt_fields W m =
     try_r (decode_fixed (aw_crates W) (dr_agent_node_id m) 32 ''agent_node_id'') (\<lambda>agent.
     try_r (decode_fixed (aw_crates W) (dr_namespace_id m) 32 ''namespace_id'') (\<lambda>_.
     try_r (validate_hex_id (dr_workload_id m) ''workload_id'') (\<lambda>_.
     try_r (validate_hex_id (dr_revision_id m) ''revision_id'') (\<lambda>_.
     ensure (dr_version m = AGENT_PROTOCOL_VERSION) ''unsupported deployment receipt version'' (
       Ok agent)))))"

definition DeploymentReceipt_verify :: "agent_wire \<Rightarrow> DeploymentReceipt \<Rightarrow> unit res" where
  "DeploymentReceipt_verify W m =
     try_r (DeploymentReceipt_fields W m) (\<lambda>agent.
       check_signature (aw_crates W) agent D_DeploymentReceipt (DeploymentReceipt_canonical_bytes W m)
         (dr_signature m) ''signature'')"

section \<open>Update responses\<close>

definition UpdateResponse_canonical_bytes :: "agent_wire \<Rightarrow> UpdateResponse \<Rightarrow> bytes res" where
  "UpdateResponse_canonical_bytes W m = aw_update_response W (m\<lparr>up_signature := []\<rparr>)"

definition UpdateResponse_sign ::
  "agent_wire \<Rightarrow> UpdateResponse \<Rightarrow> bytes \<Rightarrow> bytes \<Rightarrow> UpdateResponse res" where
  "UpdateResponse_sign W m signing_public signing_private =
     ensure (dr_agent_node_id (up_receipt m) = b64_encode (aw_crates W) signing_public)
       ''update response receipt signer mismatch'' (
     let m' = m\<lparr>up_signature := []\<rparr> in
     try_r (UpdateResponse_canonical_bytes W m') (\<lambda>b.
     try_r (sign_domain (aw_crates W) signing_private D_UpdateResponse b) (\<lambda>sig.
       Ok (m'\<lparr>up_signature := b64_encode (aw_crates W) sig\<rparr>))))"

definition UpdateResponse_fields :: "agent_wire \<Rightarrow> UpdateResponse \<Rightarrow> u64 \<Rightarrow> unit res" where
  "UpdateResponse_fields W m now_secs =
     ensure (up_version m = AGENT_PROTOCOL_VERSION) ''unsupported update response version'' (
     try_r (validate_hex_id (up_expected_revision_id m) ''expected_revision_id'') (\<lambda>_.
     try_r (validate_hex_id (up_requested_revision_id m) ''requested_revision_id'') (\<lambda>_.
     try_r (DeploymentReceipt_verify W (up_receipt m)) (\<lambda>_.
     ensure (up_request_id m \<noteq> [] \<and> length (up_request_id m) \<le> 128) ''invalid request_id'' (
     ensure (length (up_reason m) \<le> 1024) ''update response field length is invalid'' (
     ensure (up_responded_at_secs m \<le> saturating_add now_secs MAX_AGENT_CLOCK_SKEW_SECS)
       ''update response was issued too far in the future'' (Ok ())))))))"

definition UpdateResponse_verify :: "agent_wire \<Rightarrow> UpdateResponse \<Rightarrow> u64 \<Rightarrow> unit res" where
  "UpdateResponse_verify W m now_secs =
     try_r (UpdateResponse_fields W m now_secs) (\<lambda>_.
     try_r (decode_fixed (aw_crates W) (up_signature m) 64 ''signature'') (\<lambda>signature.
     try_r (b64_decode (aw_crates W) (dr_agent_node_id (up_receipt m))) (\<lambda>agent.
     try_r (UpdateResponse_canonical_bytes W m) (\<lambda>b.
       verify_domain (aw_crates W) agent D_UpdateResponse b signature))))"

section \<open>Command responses\<close>

definition WorkloadCommandResponse_canonical_bytes ::
  "agent_wire \<Rightarrow> WorkloadCommandResponse \<Rightarrow> bytes res" where
  "WorkloadCommandResponse_canonical_bytes W m = aw_command_response W (m\<lparr>cr_signature := []\<rparr>)"

definition WorkloadCommandResponse_sign ::
  "agent_wire \<Rightarrow> WorkloadCommandResponse \<Rightarrow> bytes \<Rightarrow> bytes \<Rightarrow> WorkloadCommandResponse res" where
  "WorkloadCommandResponse_sign W m signing_public signing_private =
     (let m' = m\<lparr>cr_agent_node_id := b64_encode (aw_crates W) signing_public, cr_signature := []\<rparr> in
      try_r (WorkloadCommandResponse_canonical_bytes W m') (\<lambda>b.
      try_r (sign_domain (aw_crates W) signing_private D_WorkloadCommandResponse b) (\<lambda>sig.
        Ok (m'\<lparr>cr_signature := b64_encode (aw_crates W) sig\<rparr>))))"

definition WorkloadCommandResponse_fields :: "agent_wire \<Rightarrow> WorkloadCommandResponse \<Rightarrow> bytes res" where
  "WorkloadCommandResponse_fields W m =
     ensure (cr_version m = AGENT_PROTOCOL_VERSION) ''unsupported workload response version'' (
     try_r (decode_fixed (aw_crates W) (cr_agent_node_id m) 32 ''agent_node_id'') (\<lambda>agent.
     try_r (validate_hex_id (cr_workload_id m) ''workload_id'') (\<lambda>_.
     ensure (length (cr_payload m) \<le> 1024 * 1024) ''workload response payload too large'' (
       Ok agent))))"

definition WorkloadCommandResponse_verify :: "agent_wire \<Rightarrow> WorkloadCommandResponse \<Rightarrow> unit res" where
  "WorkloadCommandResponse_verify W m =
     try_r (WorkloadCommandResponse_fields W m) (\<lambda>agent.
       check_signature (aw_crates W) agent D_WorkloadCommandResponse
         (WorkloadCommandResponse_canonical_bytes W m) (cr_signature m) ''signature'')"

section \<open>Workload lists\<close>

definition WorkloadListResponse_canonical_bytes ::
  "agent_wire \<Rightarrow> WorkloadListResponse \<Rightarrow> bytes res" where
  "WorkloadListResponse_canonical_bytes W m = aw_list_response W (m\<lparr>lr_signature := []\<rparr>)"

definition WorkloadListResponse_sign ::
  "agent_wire \<Rightarrow> WorkloadListResponse \<Rightarrow> bytes \<Rightarrow> bytes \<Rightarrow> WorkloadListResponse res" where
  "WorkloadListResponse_sign W m signing_public signing_private =
     (let m' = m\<lparr>lr_agent_node_id := b64_encode (aw_crates W) signing_public\<rparr> in
      try_r (WorkloadListResponse_canonical_bytes W m') (\<lambda>b.
      try_r (sign_domain (aw_crates W) signing_private D_WorkloadListResponse b) (\<lambda>sig.
        Ok (m'\<lparr>lr_signature := b64_encode (aw_crates W) sig\<rparr>))))"

definition verify_summary :: "agent_wire \<Rightarrow> string \<Rightarrow> WorkloadSummary \<Rightarrow> unit res" where
  "verify_summary W agent_node_id w =
     try_r (validate_hex_id (ws_workload_id w) ''workload_id'') (\<lambda>_.
     try_r (validate_hex_id (ws_revision_id w) ''revision_id'') (\<lambda>_.
     ensure (length (ws_state w) \<le> 128 \<and> length (ws_workload_name w) \<le> 253)
       ''workload summary field exceeds its bound'' (
     try_r (DeploymentReceipt_verify W (ws_receipt w)) (\<lambda>_.
     ensure (dr_workload_id (ws_receipt w) = ws_workload_id w
         \<and> dr_revision_id (ws_receipt w) = ws_revision_id w
         \<and> dr_agent_node_id (ws_receipt w) = agent_node_id)
       ''workload summary receipt does not match the reported placement'' (Ok ())))))"

definition WorkloadListResponse_fields :: "agent_wire \<Rightarrow> WorkloadListResponse \<Rightarrow> bytes res" where
  "WorkloadListResponse_fields W m =
     ensure (lr_version m = AGENT_PROTOCOL_VERSION) ''unsupported workload list response version'' (
     try_r (decode_fixed (aw_crates W) (lr_agent_node_id m) 32 ''agent_node_id'') (\<lambda>agent.
     try_r (decode_fixed (aw_crates W) (lr_agent_kem_pubkey m) 32 ''agent_kem_pubkey'') (\<lambda>_.
     try_r (EndpointRecord_verify (aw_crates W) (aw_endpoint W) (lr_agent_endpoint m)
         (lr_responded_at_secs m)) (\<lambda>_.
     ensure (er_signing_pubkey (lr_agent_endpoint m) = lr_agent_node_id m)
       ''workload list endpoint does not belong to the responding agent'' (
     ensure (length (lr_workloads m) \<le> MAX_LISTED_WORKLOADS)
       ''workload list response exceeds 10000 entries'' (
     try_r (for_each_r (verify_summary W (lr_agent_node_id m)) (lr_workloads m)) (\<lambda>_.
       Ok agent)))))))"

definition WorkloadListResponse_verify :: "agent_wire \<Rightarrow> WorkloadListResponse \<Rightarrow> unit res" where
  "WorkloadListResponse_verify W m =
     try_r (WorkloadListResponse_fields W m) (\<lambda>agent.
       check_signature (aw_crates W) agent D_WorkloadListResponse
         (WorkloadListResponse_canonical_bytes W m) (lr_signature m) ''signature'')"

section \<open>The five message types honour the contract\<close>

interpretation reservation: signed_message "aw_crates W" D_Reservation "Reservation_canonical_bytes W"
  rv_agent_node_id rv_signature "\<lambda>s m. m\<lparr>rv_signature := s\<rparr>"
  "\<lambda>m. is_ok (Reservation_fields W m now)" "\<lambda>m. Reservation_verify W m now"
  for W now
  by unfold_locales
    (auto simp: Reservation_verify_def Reservation_fields_def Reservation_canonical_bytes_def
      check_signature_Ok is_ok_iff)

interpretation receipt: signed_message "aw_crates W" D_DeploymentReceipt "DeploymentReceipt_canonical_bytes W"
  dr_agent_node_id dr_signature "\<lambda>s m. m\<lparr>dr_signature := s\<rparr>"
  "\<lambda>m. is_ok (DeploymentReceipt_fields W m)" "DeploymentReceipt_verify W"
  for W
  by unfold_locales
    (auto simp: DeploymentReceipt_verify_def DeploymentReceipt_fields_def DeploymentReceipt_canonical_bytes_def
      check_signature_Ok is_ok_iff)

lemma receipt_key_length:
  assumes "DeploymentReceipt_verify W m = Ok ()" and "b64_decode (aw_crates W) (dr_agent_node_id m) = Ok pk"
  shows "length pk = 32"
  using assms by (auto simp: DeploymentReceipt_verify_def DeploymentReceipt_fields_def)

interpretation update_response: signed_message "aw_crates W" D_UpdateResponse "UpdateResponse_canonical_bytes W"
  "\<lambda>m. dr_agent_node_id (up_receipt m)" up_signature "\<lambda>s m. m\<lparr>up_signature := s\<rparr>"
  "\<lambda>m. is_ok (UpdateResponse_fields W m now)" "\<lambda>m. UpdateResponse_verify W m now"
  for W now
  by unfold_locales
    (auto simp: UpdateResponse_verify_def UpdateResponse_fields_def UpdateResponse_canonical_bytes_def
      is_ok_iff dest: receipt_key_length)

interpretation command_response: signed_message "aw_crates W" D_WorkloadCommandResponse
  "WorkloadCommandResponse_canonical_bytes W" cr_agent_node_id cr_signature "\<lambda>s m. m\<lparr>cr_signature := s\<rparr>"
  "\<lambda>m. is_ok (WorkloadCommandResponse_fields W m)" "WorkloadCommandResponse_verify W"
  for W
  by unfold_locales
    (auto simp: WorkloadCommandResponse_verify_def WorkloadCommandResponse_fields_def
      WorkloadCommandResponse_canonical_bytes_def check_signature_Ok is_ok_iff)

interpretation list_response: signed_message "aw_crates W" D_WorkloadListResponse
  "WorkloadListResponse_canonical_bytes W" lr_agent_node_id lr_signature "\<lambda>s m. m\<lparr>lr_signature := s\<rparr>"
  "\<lambda>m. is_ok (WorkloadListResponse_fields W m)" "WorkloadListResponse_verify W"
  for W
  by unfold_locales
    (auto simp: WorkloadListResponse_verify_def WorkloadListResponse_fields_def
      WorkloadListResponse_canonical_bytes_def check_signature_Ok is_ok_iff)

section \<open>Properties\<close>

text \<open>C21: every placement a verified workload list reports is one the answering agent signed for:
  for each entry there is a deployment receipt, issued by the holder of the agent key named in the
  list, that agrees with the stored receipt in every field and names exactly the entry's workload
  and revision. The endpoint to reach the agent under is signed by the same key. A scheduler that
  relays the list can neither invent a placement nor move a receipt to another agent.\<close>

theorem workload_list_placements_signed:
  assumes "signed_by (aw_crates W) log"
    and "signs_only log D_DeploymentReceipt (DeploymentReceipt_canonical_bytes W) receipts"
    and "injective_codec (aw_receipt W)"
    and "WorkloadListResponse_verify W m = Ok ()" and "w \<in> set (lr_workloads m)"
  shows "\<exists>sk r0. (sk, r0) \<in> receipts
      \<and> b64_decode (aw_crates W) (lr_agent_node_id m) = Ok (ed_public (aw_crates W) sk)
      \<and> (ws_receipt w)\<lparr>dr_signature := []\<rparr> = r0\<lparr>dr_signature := []\<rparr>
      \<and> dr_workload_id r0 = ws_workload_id w \<and> dr_revision_id r0 = ws_revision_id w
      \<and> er_signing_pubkey (lr_agent_endpoint m) = dr_agent_node_id r0"
proof -
  have entry: "verify_summary W (lr_agent_node_id m) w = Ok ()"
    and endpoint: "er_signing_pubkey (lr_agent_endpoint m) = lr_agent_node_id m"
    using assms(4,5) by (auto simp: WorkloadListResponse_verify_def WorkloadListResponse_fields_def)
  then have receipt: "DeploymentReceipt_verify W (ws_receipt w) = Ok ()"
    and same: "dr_workload_id (ws_receipt w) = ws_workload_id w"
      "dr_revision_id (ws_receipt w) = ws_revision_id w"
      "dr_agent_node_id (ws_receipt w) = lr_agent_node_id m"
    by (auto simp: verify_summary_def)
  have "\<exists>sk r0. (sk, r0) \<in> receipts
      \<and> b64_decode (aw_crates W) (dr_agent_node_id (ws_receipt w)) = Ok (ed_public (aw_crates W) sk)
      \<and> (ws_receipt w)\<lparr>dr_signature := []\<rparr> = r0\<lparr>dr_signature := []\<rparr>"
    using assms(2,3) unfolding signs_only_def injective_codec_def
    by (intro receipt.authentic_fields [OF assms(1) receipt]) (auto simp: DeploymentReceipt_canonical_bytes_def)
  then obtain sk r0 where r0: "(sk, r0) \<in> receipts"
    "b64_decode (aw_crates W) (dr_agent_node_id (ws_receipt w)) = Ok (ed_public (aw_crates W) sk)"
    "(ws_receipt w)\<lparr>dr_signature := []\<rparr> = r0\<lparr>dr_signature := []\<rparr>" by blast
  have "dr_workload_id r0 = dr_workload_id (ws_receipt w)" "dr_revision_id r0 = dr_revision_id (ws_receipt w)"
    "dr_agent_node_id r0 = dr_agent_node_id (ws_receipt w)"
    using arg_cong [OF r0(3), of dr_workload_id] arg_cong [OF r0(3), of dr_revision_id]
      arg_cong [OF r0(3), of dr_agent_node_id] by simp_all
  with r0 same endpoint show ?thesis by (intro exI [of _ sk] exI [of _ r0]) simp
qed

text \<open>Witness of C21: one agent, key \<open>9\<close>, that lists one workload.\<close>

definition toy_receipt :: "string \<Rightarrow> DeploymentReceipt" where
  "toy_receipt s = \<lparr>dr_version = 1, dr_namespace_id = toy_b64 (replicate 32 3),
     dr_workload_id = replicate 64 CHR ''a'', dr_revision_id = replicate 64 CHR ''b'',
     dr_agent_node_id = toy_b64 (replicate 32 9), dr_runtime_id = ''run'', dr_accepted_at_secs = 200,
     dr_signature = s\<rparr>"

definition toy_summary :: WorkloadSummary where
  "toy_summary = \<lparr>ws_workload_id = replicate 64 CHR ''a'', ws_workload_name = ''web'',
     ws_revision_id = replicate 64 CHR ''b'', ws_replica_index = 0, ws_replica_count = 1,
     ws_state = ''running'', ws_deploying_since_secs = 0,
     ws_receipt = toy_receipt (toy_b64 (replicate 64 0))\<rparr>"

definition toy_list :: WorkloadListResponse where
  "toy_list = \<lparr>lr_version = 1, lr_request_id = ''l'', lr_agent_node_id = toy_b64 (replicate 32 9),
     lr_agent_endpoint = toy_endpoint, lr_agent_kem_pubkey = toy_b64 (replicate 32 8),
     lr_workloads = [toy_summary], lr_responded_at_secs = 300, lr_signature = toy_b64 (replicate 64 0)\<rparr>"

definition resp_log :: "(bytes \<times> SignatureDomain \<times> bytes) list" where
  "resp_log = [(replicate 32 9, D_EndpointRecord, [3]), (replicate 32 9, D_DeploymentReceipt, [6]),
     (replicate 32 9, D_WorkloadListResponse, [7])]"

definition resp_wire :: agent_wire where
  "resp_wire = req_wire\<lparr>aw_crates := accepting resp_log, aw_endpoint := (\<lambda>_. Ok [3]),
     aw_receipt := (\<lambda>m. if m = toy_receipt [] then Ok [6] else Err []), aw_list_response := (\<lambda>_. Ok [7])\<rparr>"

lemma resp_wire_simps [simp]:
  "aw_crates resp_wire = accepting resp_log" "aw_endpoint resp_wire = (\<lambda>_. Ok [3])"
  "DeploymentReceipt_canonical_bytes resp_wire (toy_receipt s) = Ok [6]"
  "WorkloadListResponse_canonical_bytes resp_wire m = Ok [7]"
  by (simp_all add: resp_wire_def DeploymentReceipt_canonical_bytes_def
      WorkloadListResponse_canonical_bytes_def toy_receipt_def)

lemma resp_verify: "(pk, d, b) \<in> set resp_log \<Longrightarrow> verify_domain (accepting resp_log) pk d b (replicate 64 0) = Ok ()"
  by (rule accepting_verify) (auto simp: resp_log_def)

lemma toy_hex_ids [simp]:
  "validate_hex_id (replicate 64 CHR ''a'') f = Ok ()" "validate_hex_id (replicate 64 CHR ''b'') f = Ok ()"
  by (simp_all add: validate_hex_id_def list_all_iff is_ascii_hexdigit_def)

lemma toy_receipt_verifies: "DeploymentReceipt_verify resp_wire (toy_receipt (toy_b64 (replicate 64 0))) = Ok ()"
  using resp_verify [of "replicate 32 9" D_DeploymentReceipt "[6]"]
  by (simp add: DeploymentReceipt_verify_def DeploymentReceipt_fields_def check_signature_Ok resp_log_def)
    (simp add: toy_receipt_def agent_consts)

lemma toy_list_verifies: "WorkloadListResponse_verify resp_wire toy_list = Ok ()"
proof -
  have entry: "verify_summary resp_wire (toy_b64 (replicate 32 9)) toy_summary = Ok ()"
    using toy_receipt_verifies by (simp add: verify_summary_def toy_summary_def) (simp add: toy_receipt_def)
  have "EndpointRecord_verify (accepting resp_log) (\<lambda>_. Ok [3]) toy_endpoint 300 = Ok ()"
    by (rule accepted_endpoint_verifies) (simp add: resp_log_def)
  moreover have "er_signing_pubkey toy_endpoint = toy_b64 (replicate 32 9)" by (simp add: toy_endpoint_def)
  ultimately show ?thesis
    using resp_verify [of "replicate 32 9" D_WorkloadListResponse "[7]"] entry
    by (simp add: WorkloadListResponse_verify_def WorkloadListResponse_fields_def check_signature_Ok
        toy_list_def agent_consts resp_log_def)
qed

theorem workload_list_placements_signed_witness:
  "\<exists>(sk :: bytes) (r0 :: DeploymentReceipt). (sk, r0) \<in> {(replicate 32 9, toy_receipt [])}
     \<and> (ws_receipt toy_summary)\<lparr>dr_signature := []\<rparr> = r0\<lparr>dr_signature := []\<rparr>
     \<and> dr_workload_id r0 = ws_workload_id toy_summary"
proof -
  let ?receipts = "{(replicate 32 9, toy_receipt [])}"
  have signs: "signs_only (set resp_log) D_DeploymentReceipt (DeploymentReceipt_canonical_bytes resp_wire) ?receipts"
    by (simp add: signs_only_def resp_log_def)
  have codec: "injective_codec (aw_receipt resp_wire)"
    by (simp add: injective_codec_def resp_wire_def)
  have signed: "signed_by (aw_crates resp_wire) (set resp_log)" by (simp add: accepting_signed)
  have listed: "toy_summary \<in> set (lr_workloads toy_list)" by (simp add: toy_list_def)
  from workload_list_placements_signed [OF signed signs codec toy_list_verifies listed]
  show ?thesis by (elim exE conjE) (intro exI conjI, assumption+)
qed

end
