(* ===== verification/Agent_Accounting.thy ===== *)
theory Agent_Accounting
  imports Agent_Responses
begin

text \<open>
  What an agent holds and how it counts it: stored workloads (\<open>podmesh-agent/src/store.rs\<close>), the
  in-memory \<open>WorkloadState\<close> and \<open>ResourceUsage\<close> of \<open>podmesh-agent/src/service.rs\<close>, and the
  admission decision. The code adds up with saturating 64-bit arithmetic in hash map order. The
  lemmas read every total as a natural number per resource, independent of the order, and exact
  whenever it is within the configured capacity.
\<close>

section \<open>Stored workloads\<close>

definition STORED_WORKLOAD_VERSION :: u16 where "STORED_WORKLOAD_VERSION = 1"

text \<open>\<open>Updating\<close> carries \<open>previous_grant\<close>, \<open>previous_runtime_id\<close> and \<open>request\<close>;
  \<open>CleanupPending\<close> its \<open>uncertain\<close> flag.\<close>

datatype StoredWorkloadPhase =
  Active | Updating DeploymentGrant string UpdateRequest | Creating | CleanupPending bool

record StoredWorkload =
  sw_version :: u16
  sw_phase :: StoredWorkloadPhase
  sw_grant :: DeploymentGrant
  sw_runtime_id :: string
  sw_deleting :: bool
  sw_cpu_milli :: u32
  sw_memory_bytes :: u64
  sw_storage_bytes :: u64
  sw_workload_name :: string
  sw_replica_index :: u32
  sw_replica_count :: u32

fun is_updating :: "StoredWorkloadPhase \<Rightarrow> bool" where
  "is_updating (Updating _ _ _) = True"
| "is_updating _ = False"

definition needs_cleanup :: "StoredWorkload \<Rightarrow> bool" where
  "needs_cleanup w \<longleftrightarrow>
     (case sw_phase w of Creating \<Rightarrow> True | CleanupPending _ \<Rightarrow> True | _ \<Rightarrow> False)
     \<or> (sw_phase w = Active \<and> sw_runtime_id w = [])"

section \<open>Resource usage\<close>

record ResourceUsage =
  ru_cpu_milli :: u64
  ru_memory_bytes :: u64
  ru_storage_bytes :: u64

definition ResourceUsage_default :: ResourceUsage where
  "ResourceUsage_default = \<lparr>ru_cpu_milli = 0, ru_memory_bytes = 0, ru_storage_bytes = 0\<rparr>"

definition ResourceUsage_add :: "ResourceUsage \<Rightarrow> u32 \<Rightarrow> u64 \<Rightarrow> u64 \<Rightarrow> ResourceUsage" where
  "ResourceUsage_add u cpu_milli memory_bytes storage_bytes =
     \<lparr>ru_cpu_milli = saturating_add (ru_cpu_milli u) (ucast cpu_milli),
      ru_memory_bytes = saturating_add (ru_memory_bytes u) memory_bytes,
      ru_storage_bytes = saturating_add (ru_storage_bytes u) storage_bytes\<rparr>"

definition ResourceUsage_plus :: "ResourceUsage \<Rightarrow> u32 \<Rightarrow> u64 \<Rightarrow> u64 \<Rightarrow> ResourceUsage" where
  "ResourceUsage_plus u cpu_milli memory_bytes storage_bytes =
     ResourceUsage_add
       \<lparr>ru_cpu_milli = ru_cpu_milli u, ru_memory_bytes = ru_memory_bytes u,
        ru_storage_bytes = ru_storage_bytes u\<rparr> cpu_milli memory_bytes storage_bytes"

definition fits_within :: "ResourceUsage \<Rightarrow> u64 \<Rightarrow> u64 \<Rightarrow> u64 \<Rightarrow> bool" where
  "fits_within u cpu_milli memory_bytes storage_bytes \<longleftrightarrow>
     ru_cpu_milli u \<le> cpu_milli \<and> ru_memory_bytes u \<le> memory_bytes \<and> ru_storage_bytes u \<le> storage_bytes"

section \<open>The workload state\<close>

record WorkloadState =
  st_active :: "(string, StoredWorkload) hmap"
  st_reservations :: "(string, Reservation) hmap"
  st_quarantined :: "string set"

definition WorkloadState_default :: WorkloadState where
  "WorkloadState_default = \<lparr>st_active = [], st_reservations = [], st_quarantined = {}\<rparr>"

definition add_workload :: "StoredWorkload \<Rightarrow> ResourceUsage \<Rightarrow> ResourceUsage" where
  "add_workload w u = ResourceUsage_add u (sw_cpu_milli w) (sw_memory_bytes w) (sw_storage_bytes w)"

definition add_reservation :: "Reservation \<Rightarrow> ResourceUsage \<Rightarrow> ResourceUsage" where
  "add_reservation v u = ResourceUsage_add u (rv_cpu_milli v) (rv_memory_bytes v) (rv_storage_bytes v)"

definition active_usage :: "WorkloadState \<Rightarrow> ResourceUsage" where
  "active_usage st = fold add_workload (hm_values (st_active st)) ResourceUsage_default"

definition reserved_usage :: "WorkloadState \<Rightarrow> ResourceUsage" where
  "reserved_usage st = fold add_reservation (hm_values (st_reservations st)) ResourceUsage_default"

definition usage :: "WorkloadState \<Rightarrow> ResourceUsage" where
  "usage st =
     (let reserved = reserved_usage st in
      ResourceUsage_plus (active_usage st)
        (case try_from (ru_cpu_milli reserved) of Some cpu \<Rightarrow> cpu | None \<Rightarrow> - 1)
        (ru_memory_bytes reserved) (ru_storage_bytes reserved))"

definition usage_without :: "WorkloadState \<Rightarrow> string \<Rightarrow> ResourceUsage" where
  "usage_without st wid =
     fold (\<lambda>(ident, w) u. if ident \<noteq> wid then add_workload w u else u) (st_active st) (reserved_usage st)"

definition reservations_for :: "WorkloadState \<Rightarrow> string \<Rightarrow> nat" where
  "reservations_for st namespace_id =
     length (filter (\<lambda>v. rv_namespace_id v = namespace_id) (hm_values (st_reservations st)))"

definition contains_workload :: "WorkloadState \<Rightarrow> string \<Rightarrow> bool" where
  "contains_workload st wid \<longleftrightarrow>
     hm_contains (st_active st) wid \<or> wid \<in> st_quarantined st
     \<or> list_ex (\<lambda>v. rv_workload_id v = wid) (hm_values (st_reservations st))"

section \<open>Limits\<close>

definition RESERVATION_TTL_SECS :: u64 where "RESERVATION_TTL_SECS = 30"
definition MAX_RESERVATIONS_PER_NAMESPACE :: nat where "MAX_RESERVATIONS_PER_NAMESPACE = 16"
definition MAX_RESERVATIONS :: nat where "MAX_RESERVATIONS = 1024"
definition MAX_CONFIGURED_WORKLOADS :: nat where "MAX_CONFIGURED_WORKLOADS = 10000"

text \<open>The fields of \<open>podmesh-agent/src/config.rs\<close> that the service reads.\<close>

record Config =
  cf_capacity_cpu_milli :: u32
  cf_capacity_memory_bytes :: u64
  cf_capacity_storage_bytes :: u64
  cf_max_workloads :: nat
  cf_max_reserved_capacity_percent :: u32
  cf_advertise_addresses :: "string list"

definition scale :: "u128 \<Rightarrow> u64 \<Rightarrow> u64" where
  "scale share capacity =
     (case try_from ((ucast capacity :: u128) * share div 100) of Some n \<Rightarrow> n | None \<Rightarrow> - 1)"

definition reserved_capacity_ceiling :: "Config \<Rightarrow> ResourceUsage" where
  "reserved_capacity_ceiling cf =
     (let share = ucast (min (cf_max_reserved_capacity_percent cf) 100) in
      \<lparr>ru_cpu_milli = scale share (ucast (cf_capacity_cpu_milli cf)),
       ru_memory_bytes = scale share (cf_capacity_memory_bytes cf),
       ru_storage_bytes = scale share (cf_capacity_storage_bytes cf)\<rparr>)"

section \<open>The admission decision\<close>

text \<open>The six tests of \<open>admit\<close>, in the order its reason is chosen. Expired reservations have been
  dropped before.\<close>

definition drop_expired_reservations :: "u64 \<Rightarrow> WorkloadState \<Rightarrow> WorkloadState" where
  "drop_expired_reservations now st =
     st\<lparr>st_reservations := hm_retain (\<lambda>_ v. now \<le> rv_expires_at_secs v) (st_reservations st)\<rparr>"

definition count_available :: "Config \<Rightarrow> WorkloadState \<Rightarrow> bool" where
  "count_available cf st \<longleftrightarrow>
     length (st_active st) + length (st_reservations st) + card (st_quarantined st) < cf_max_workloads cf"

definition reservation_available :: "WorkloadState \<Rightarrow> string \<Rightarrow> bool" where
  "reservation_available st namespace_id \<longleftrightarrow>
     length (st_reservations st) < MAX_RESERVATIONS
     \<and> reservations_for st namespace_id < MAX_RESERVATIONS_PER_NAMESPACE"

definition capacity_ok :: "Config \<Rightarrow> WorkloadState \<Rightarrow> AdmissionRequest \<Rightarrow> bool" where
  "capacity_ok cf st r \<longleftrightarrow>
     fits_within (ResourceUsage_plus (usage st) (aq_cpu_milli r) (aq_memory_bytes r) (aq_storage_bytes r))
       (ucast (cf_capacity_cpu_milli cf)) (cf_capacity_memory_bytes cf) (cf_capacity_storage_bytes cf)"

definition reservation_capacity_ok :: "Config \<Rightarrow> WorkloadState \<Rightarrow> AdmissionRequest \<Rightarrow> bool" where
  "reservation_capacity_ok cf st r \<longleftrightarrow>
     (let c = reserved_capacity_ceiling cf in
      fits_within (ResourceUsage_plus (reserved_usage st) (aq_cpu_milli r) (aq_memory_bytes r) (aq_storage_bytes r))
        (ru_cpu_milli c) (ru_memory_bytes c) (ru_storage_bytes c))"

definition admission_refusal :: "Config \<Rightarrow> WorkloadState \<Rightarrow> AdmissionRequest \<Rightarrow> AdmissionRefusal option" where
  "admission_refusal cf st r =
     (if st_quarantined st \<noteq> {} then Some StateRequiresRepair
      else if contains_workload st (aq_workload_id r) then Some AlreadyActive
      else if \<not> count_available cf st then Some WorkloadLimit
      else if \<not> reservation_available st (aq_namespace_id r) then Some ReservationLimit
      else if \<not> capacity_ok cf st r then Some InsufficientCapacity
      else if \<not> reservation_capacity_ok cf st r then Some PendingCapacityLimit
      else None)"

section \<open>Totals as numbers\<close>

datatype resource = Cpu | Memory | Storage

fun ru_amount :: "ResourceUsage \<Rightarrow> resource \<Rightarrow> nat" where
  "ru_amount u Cpu = unat (ru_cpu_milli u)"
| "ru_amount u Memory = unat (ru_memory_bytes u)"
| "ru_amount u Storage = unat (ru_storage_bytes u)"

fun sw_amount :: "resource \<Rightarrow> StoredWorkload \<Rightarrow> nat" where
  "sw_amount Cpu w = unat (sw_cpu_milli w)"
| "sw_amount Memory w = unat (sw_memory_bytes w)"
| "sw_amount Storage w = unat (sw_storage_bytes w)"

fun rv_amount :: "resource \<Rightarrow> Reservation \<Rightarrow> nat" where
  "rv_amount Cpu v = unat (rv_cpu_milli v)"
| "rv_amount Memory v = unat (rv_memory_bytes v)"
| "rv_amount Storage v = unat (rv_storage_bytes v)"

fun aq_amount :: "resource \<Rightarrow> AdmissionRequest \<Rightarrow> nat" where
  "aq_amount Cpu r = unat (aq_cpu_milli r)"
| "aq_amount Memory r = unat (aq_memory_bytes r)"
| "aq_amount Storage r = unat (aq_storage_bytes r)"

fun capacity :: "Config \<Rightarrow> resource \<Rightarrow> nat" where
  "capacity cf Cpu = unat (cf_capacity_cpu_milli cf)"
| "capacity cf Memory = unat (cf_capacity_memory_bytes cf)"
| "capacity cf Storage = unat (cf_capacity_storage_bytes cf)"

definition pending_ceiling :: "Config \<Rightarrow> resource \<Rightarrow> nat" where
  "pending_ceiling cf r = capacity cf r * min (unat (cf_max_reserved_capacity_percent cf)) 100 div 100"

definition active_total :: "WorkloadState \<Rightarrow> resource \<Rightarrow> nat" where
  "active_total st r = sum_list (map (sw_amount r) (hm_values (st_active st)))"

definition reserved_total :: "WorkloadState \<Rightarrow> resource \<Rightarrow> nat" where
  "reserved_total st r = sum_list (map (rv_amount r) (hm_values (st_reservations st)))"

lemma unat_ucast_up: "LENGTH('a::len) \<le> LENGTH('b::len) \<Longrightarrow> unat (ucast (x :: 'a word) :: 'b word) = unat x"
  by (simp add: unsigned_ucast_eq take_bit_nat_eq_self order_less_le_trans [OF unat_less_pow])

lemma ru_amount_default [simp]: "ru_amount ResourceUsage_default r = 0"
  by (cases r) (simp_all add: ResourceUsage_default_def)

fun res_args :: "resource \<Rightarrow> u32 \<Rightarrow> u64 \<Rightarrow> u64 \<Rightarrow> nat" where
  "res_args Cpu c m s = unat c"
| "res_args Memory c m s = unat m"
| "res_args Storage c m s = unat s"

lemma ru_amount_add: "ru_amount (ResourceUsage_add u c m s) r = min (ru_amount u r + res_args r c m s) (2 ^ 64 - 1)"
  by (cases r) (simp_all add: ResourceUsage_add_def unat_saturating_add unat_ucast_up)

lemma ResourceUsage_plus_is_add: "ResourceUsage_plus u c m s = ResourceUsage_add u c m s"
  by (simp add: ResourceUsage_plus_def ResourceUsage_add_def)

lemma ru_amount_le: "ru_amount u r \<le> 2 ^ 64 - 1"
  using unat_le_max [of "ru_cpu_milli u"] unat_le_max [of "ru_memory_bytes u"] unat_le_max [of "ru_storage_bytes u"]
  by (cases r) simp_all

lemma fits_within_iff:
  "fits_within u (ucast (cf_capacity_cpu_milli cf)) (cf_capacity_memory_bytes cf) (cf_capacity_storage_bytes cf)
     \<longleftrightarrow> (\<forall>r. ru_amount u r \<le> capacity cf r)"
proof
  assume fits: "fits_within u (ucast (cf_capacity_cpu_milli cf)) (cf_capacity_memory_bytes cf) (cf_capacity_storage_bytes cf)"
  show "\<forall>r. ru_amount u r \<le> capacity cf r"
  proof
    fix r show "ru_amount u r \<le> capacity cf r"
      using fits by (cases r) (simp_all add: fits_within_def word_le_nat_alt unat_ucast_up)
  qed
next
  assume "\<forall>r. ru_amount u r \<le> capacity cf r"
  from this [THEN spec, of Cpu] this [THEN spec, of Memory] this [THEN spec, of Storage]
  show "fits_within u (ucast (cf_capacity_cpu_milli cf)) (cf_capacity_memory_bytes cf) (cf_capacity_storage_bytes cf)"
    by (simp add: fits_within_def word_le_nat_alt unat_ucast_up)
qed

lemma fold_add_amount:
  assumes "\<And>x u. ru_amount (f x u) r = min (ru_amount u r + g x) (2 ^ 64 - 1)"
  shows "ru_amount (fold f xs u) r = min (ru_amount u r + sum_list (map g xs)) (2 ^ 64 - 1)"
proof (induction xs arbitrary: u)
  case Nil
  then show ?case using ru_amount_le [of u r] by simp
next
  case (Cons x xs)
  then show ?case by (simp add: assms min_def)
qed

lemma add_workload_amount: "ru_amount (add_workload w u) r = min (ru_amount u r + sw_amount r w) (2 ^ 64 - 1)"
  unfolding add_workload_def ru_amount_add by (cases r) simp_all

lemma add_reservation_amount: "ru_amount (add_reservation v u) r = min (ru_amount u r + rv_amount r v) (2 ^ 64 - 1)"
  unfolding add_reservation_def ru_amount_add by (cases r) simp_all

lemma active_usage_amount: "ru_amount (active_usage st) r = min (active_total st r) (2 ^ 64 - 1)"
  unfolding active_usage_def active_total_def fold_add_amount [OF add_workload_amount]
  unfolding ru_amount_default by simp

lemma reserved_usage_amount: "ru_amount (reserved_usage st) r = min (reserved_total st r) (2 ^ 64 - 1)"
  unfolding reserved_usage_def reserved_total_def fold_add_amount [OF add_reservation_amount]
  unfolding ru_amount_default by simp

text \<open>The cast of the reserved CPU to 32 bits in \<open>usage\<close> loses nothing as long as pending
  reservations stay below \<open>2 ^ 32\<close>, which the ceiling on them guarantees.\<close>

lemma usage_amount:
  assumes "reserved_total st Cpu < 2 ^ 32"
  shows "ru_amount (usage st) r = min (active_total st r + reserved_total st r) (2 ^ 64 - 1)"
proof -
  let ?u = "reserved_usage st"
  have cpu: "unat (ru_cpu_milli ?u) = reserved_total st Cpu"
    using reserved_usage_amount [of st Cpu] assms by simp
  then have narrow: "try_from (ru_cpu_milli ?u) = Some (ucast (ru_cpu_milli ?u) :: u32)"
    using assms by (simp add: try_from_def)
  have "unat (ucast (ru_cpu_milli ?u) :: u32) = reserved_total st Cpu"
    using cpu assms by (simp add: unsigned_ucast_eq take_bit_nat_eq_self)
  then have args: "res_args r (ucast (ru_cpu_milli ?u)) (ru_memory_bytes ?u) (ru_storage_bytes ?u)
      = min (reserved_total st r) (2 ^ 64 - 1)"
    using reserved_usage_amount [of st r] assms by (cases r) simp_all
  show ?thesis
    unfolding usage_def Let_def narrow option.case ResourceUsage_plus_is_add ru_amount_add args
      active_usage_amount by simp
qed

lemma scale_amount: "unat s \<le> 100 \<Longrightarrow> unat (scale s c) = unat c * unat s div 100"
  for s :: u128 and c :: u64
proof -
  assume s: "unat s \<le> 100"
  have c: "unat (ucast c :: u128) = unat c" by (simp add: unat_ucast_up)
  have prod: "unat c * unat s \<le> (2 ^ 64 - 1) * 100"
    using unat_le_max [of c] s by (intro mult_mono) simp_all
  then have "unat (ucast c :: u128) * unat s < 2 ^ LENGTH(128)" unfolding c by simp
  then have "unat ((ucast c :: u128) * s) = unat c * unat s"
    unfolding unat_mult_lem [symmetric] by (simp add: c unat_mult_lem [THEN iffD1])
  then have q: "unat ((ucast c :: u128) * s div 100) = unat c * unat s div 100" by (simp add: unat_div)
  from prod have "unat c * unat s div 100 \<le> (2 ^ 64 - 1) * 100 div 100" by (intro div_le_mono)
  then have "unat ((ucast c :: u128) * s div 100) < 2 ^ LENGTH(64)" unfolding q by simp
  then show ?thesis
    unfolding scale_def try_from_def
    by (simp add: unsigned_ucast_eq take_bit_nat_eq_self flip: q)
qed

lemma ceiling_amount: "ru_amount (reserved_capacity_ceiling cf) r = pending_ceiling cf r"
proof -
  let ?p = "min (cf_max_reserved_capacity_percent cf) 100"
  have p: "unat ?p = min (unat (cf_max_reserved_capacity_percent cf)) 100"
    by (simp add: min_def word_le_nat_alt)
  have share: "unat (ucast ?p :: u128) = min (unat (cf_max_reserved_capacity_percent cf)) 100"
    unfolding p [symmetric] by (rule unat_ucast_up) simp
  then have "unat (ucast ?p :: u128) \<le> 100" by simp
  note s = scale_amount [OF this]
  show ?thesis
    by (cases r) (simp_all add: reserved_capacity_ceiling_def Let_def pending_ceiling_def s share unat_ucast_up)
qed

section \<open>Totals after a change\<close>

definition hm_sum :: "('v \<Rightarrow> nat) \<Rightarrow> ('k, 'v) hmap \<Rightarrow> nat" where
  "hm_sum g m = sum_list (map g (hm_values m))"

lemma hm_sum_Nil [simp]: "hm_sum g [] = 0"
  by (simp add: hm_sum_def hm_values_def)

lemma hm_sum_Cons [simp]: "hm_sum g ((k, v) # m) = g v + hm_sum g m"
  by (simp add: hm_sum_def hm_values_def)

lemma hm_remove_absent: "k \<notin> hm_keys m \<Longrightarrow> hm_remove k m = m"
  by (simp add: hm_remove_def hm_keys_def delete_id)

lemma hm_sum_remove:
  assumes "hm_wf m" and "hm_get m k = Some v"
  shows "hm_sum g m = g v + hm_sum g (hm_remove k m)"
  using assms
proof (induction m)
  case (Cons p m)
  obtain j w where p: "p = (j, w)" by (cases p)
  from Cons.prems(1) have m: "hm_wf m" "j \<notin> hm_keys m" by (auto simp: hm_wf_def hm_keys_def p)
  show ?case
  proof (cases "j = k")
    case True
    with Cons.prems(2) p m hm_remove_absent [of k m] show ?thesis
      by (simp add: hm_remove_def delete_simps)
  next
    case False
    with Cons.prems(2) p Cons.IH [OF m(1)] show ?thesis
      by (simp add: hm_remove_def delete_simps)
  qed
qed simp

lemma hm_sum_remove_le: "hm_sum g (hm_remove k m) \<le> hm_sum g m"
proof (induction m)
  case (Cons p m)
  then show ?case by (cases p) (simp add: hm_remove_def delete_simps)
qed (simp add: hm_remove_def)

lemma hm_remove_insert: "hm_remove k (hm_insert k v m) = hm_remove k m"
  by (simp add: hm_remove_def hm_insert_def delete_update_same)

lemma hm_sum_insert: "hm_wf m \<Longrightarrow> hm_sum g (hm_insert k v m) = g v + hm_sum g (hm_remove k m)"
  using hm_sum_remove [of "hm_insert k v m" k v g] by (simp add: hm_remove_insert)

lemma hm_sum_const: "hm_sum (\<lambda>_. Suc 0) m = length m"
  by (induction m) (auto simp: hm_sum_def hm_values_def)

lemma hm_sum_retain_le: "hm_sum g (hm_retain P m) \<le> hm_sum g m"
proof (induction m)
  case (Cons p m)
  then show ?case by (cases p) (simp add: hm_retain_def)
qed (simp add: hm_retain_def)

lemma active_total_sum: "active_total st r = hm_sum (sw_amount r) (st_active st)"
  by (simp add: active_total_def hm_sum_def)

lemma reserved_total_sum: "reserved_total st r = hm_sum (rv_amount r) (st_reservations st)"
  by (simp add: reserved_total_def hm_sum_def)

lemma usage_without_amount:
  "ru_amount (usage_without st wid) r =
     min (reserved_total st r + hm_sum (sw_amount r) (hm_remove wid (st_active st))) (2 ^ 64 - 1)"
proof -
  have "ru_amount (fold (\<lambda>(i, w) u. if i \<noteq> wid then add_workload w u else u) m u) r =
      min (ru_amount u r + hm_sum (sw_amount r) (hm_remove wid m)) (2 ^ 64 - 1)" for m u
  proof (induction m arbitrary: u)
    case Nil
    then show ?case using ru_amount_le [of u r] by (simp add: hm_remove_def)
  next
    case (Cons p m)
    obtain i w where p: "p = (i, w)" by (cases p)
    show ?case
    proof (cases "i = wid")
      case True
      then show ?thesis using Cons [of u] unfolding p by (simp add: hm_remove_def delete_simps)
    next
      case False
      then show ?thesis
        using Cons [of "add_workload w u"] unfolding p
        by (simp add: hm_remove_def delete_simps add_workload_amount min_def)
    qed
  qed
  then show ?thesis by (simp add: usage_without_def reserved_usage_amount)
qed

section \<open>The invariant of the state\<close>

text \<open>A capacity of \<open>u64::MAX\<close> bytes means no limit, because the sums saturate there.\<close>

definition bounded_config :: "Config \<Rightarrow> bool" where
  "bounded_config cf \<longleftrightarrow> (\<forall>r. capacity cf r < 2 ^ 64 - 1)"

definition within_capacity :: "Config \<Rightarrow> WorkloadState \<Rightarrow> bool" where
  "within_capacity cf st \<longleftrightarrow> (\<forall>r. active_total st r + reserved_total st r \<le> capacity cf r)"

definition st_inv :: "Config \<Rightarrow> WorkloadState \<Rightarrow> bool" where
  "st_inv cf st \<longleftrightarrow> hm_wf (st_active st) \<and> hm_wf (st_reservations st) \<and> finite (st_quarantined st)
     \<and> (\<forall>r. reserved_total st r \<le> pending_ceiling cf r)
     \<and> (\<forall>k w. hm_get (st_active st) k = Some w \<longrightarrow> dg_workload_id (sw_grant w) = k)
     \<and> (\<forall>i j v w. hm_get (st_reservations st) i = Some v \<longrightarrow> hm_get (st_reservations st) j = Some w
          \<longrightarrow> rv_workload_id v = rv_workload_id w \<longrightarrow> i = j)
     \<and> (\<forall>i v. hm_get (st_reservations st) i = Some v \<longrightarrow> rv_workload_id v \<notin> hm_keys (st_active st))
     \<and> length (st_active st) + length (st_reservations st) + card (st_quarantined st) \<le> cf_max_workloads cf
     \<and> length (st_reservations st) \<le> MAX_RESERVATIONS
     \<and> (\<forall>n. reservations_for st n \<le> MAX_RESERVATIONS_PER_NAMESPACE)"

lemma st_invI:
  assumes "hm_wf (st_active st)" and "hm_wf (st_reservations st)" and "finite (st_quarantined st)"
    and "\<And>r. reserved_total st r \<le> pending_ceiling cf r"
    and "\<And>k w. hm_get (st_active st) k = Some w \<Longrightarrow> dg_workload_id (sw_grant w) = k"
    and "\<And>i j v w. hm_get (st_reservations st) i = Some v \<Longrightarrow> hm_get (st_reservations st) j = Some w \<Longrightarrow>
      rv_workload_id v = rv_workload_id w \<Longrightarrow> i = j"
    and "\<And>i v. hm_get (st_reservations st) i = Some v \<Longrightarrow> rv_workload_id v \<notin> hm_keys (st_active st)"
    and "length (st_active st) + length (st_reservations st) + card (st_quarantined st) \<le> cf_max_workloads cf"
    and "length (st_reservations st) \<le> MAX_RESERVATIONS"
    and "\<And>n. reservations_for st n \<le> MAX_RESERVATIONS_PER_NAMESPACE"
  shows "st_inv cf st"
  unfolding st_inv_def by (intro conjI allI impI) (fact assms | (rule assms; assumption))+

lemma st_invD:
  assumes "st_inv cf st"
  shows "hm_wf (st_active st)" and "hm_wf (st_reservations st)" and "finite (st_quarantined st)"
    and "reserved_total st r \<le> pending_ceiling cf r"
    and "hm_get (st_active st) k = Some w \<Longrightarrow> dg_workload_id (sw_grant w) = k"
    and "hm_get (st_reservations st) i = Some v \<Longrightarrow> hm_get (st_reservations st) j = Some u \<Longrightarrow>
      rv_workload_id v = rv_workload_id u \<Longrightarrow> i = j"
    and "hm_get (st_reservations st) i = Some v \<Longrightarrow> rv_workload_id v \<notin> hm_keys (st_active st)"
    and "length (st_active st) + length (st_reservations st) + card (st_quarantined st) \<le> cf_max_workloads cf"
    and "length (st_reservations st) \<le> MAX_RESERVATIONS"
    and "reservations_for st n \<le> MAX_RESERVATIONS_PER_NAMESPACE"
proof -
  note inv = assms [unfolded st_inv_def]
  show "hm_wf (st_active st)" using inv by (elim conjE)
  show "hm_wf (st_reservations st)" using inv by (elim conjE)
  show "finite (st_quarantined st)" using inv by (elim conjE)
  show "reserved_total st r \<le> pending_ceiling cf r" using inv by (elim conjE) (elim allE)
  show "hm_get (st_active st) k = Some w \<Longrightarrow> dg_workload_id (sw_grant w) = k"
    using inv by (elim conjE) simp
  show "hm_get (st_reservations st) i = Some v \<Longrightarrow> hm_get (st_reservations st) j = Some u \<Longrightarrow>
      rv_workload_id v = rv_workload_id u \<Longrightarrow> i = j" using inv by (elim conjE) metis
  show "hm_get (st_reservations st) i = Some v \<Longrightarrow> rv_workload_id v \<notin> hm_keys (st_active st)"
    using inv by (elim conjE) metis
  show "length (st_active st) + length (st_reservations st) + card (st_quarantined st) \<le> cf_max_workloads cf"
    using inv by (elim conjE)
  show "length (st_reservations st) \<le> MAX_RESERVATIONS" using inv by (elim conjE)
  show "reservations_for st n \<le> MAX_RESERVATIONS_PER_NAMESPACE" using inv by (elim conjE) (elim allE)
qed

lemma pending_ceiling_le: "pending_ceiling cf r \<le> capacity cf r"
proof -
  have "capacity cf r * min (unat (cf_max_reserved_capacity_percent cf)) 100 div 100 \<le> capacity cf r * 100 div 100"
    by (intro div_le_mono mult_le_mono2) simp
  then show ?thesis by (simp add: pending_ceiling_def)
qed

lemma st_inv_reserved_cpu: "st_inv cf st \<Longrightarrow> reserved_total st Cpu < 2 ^ 32"
proof -
  assume "st_inv cf st"
  then have "reserved_total st Cpu \<le> capacity cf Cpu"
    unfolding st_inv_def using pending_ceiling_le [of cf Cpu] le_trans by blast
  also have "\<dots> < 2 ^ 32" using unat_less_pow [of "cf_capacity_cpu_milli cf"] by simp
  finally show ?thesis .
qed

lemma res_args_request: "res_args r (aq_cpu_milli q) (aq_memory_bytes q) (aq_storage_bytes q) = aq_amount r q"
  by (cases r) simp_all

lemma saturated_fits: "c < M \<Longrightarrow> min (min (t :: nat) M + q) M \<le> c \<longleftrightarrow> t + q \<le> c"
  by (auto simp: min_def)

lemma capacity_ok_iff:
  assumes "st_inv cf st" and "bounded_config cf"
  shows "capacity_ok cf st q \<longleftrightarrow> (\<forall>r. active_total st r + reserved_total st r + aq_amount r q \<le> capacity cf r)"
  unfolding capacity_ok_def fits_within_iff ResourceUsage_plus_is_add ru_amount_add res_args_request
    usage_amount [OF st_inv_reserved_cpu [OF assms(1)]]
  using assms(2) [unfolded bounded_config_def] saturated_fits by presburger

lemma reservation_capacity_ok_iff:
  assumes "bounded_config cf"
  shows "reservation_capacity_ok cf st q \<longleftrightarrow> (\<forall>r. reserved_total st r + aq_amount r q \<le> pending_ceiling cf r)"
proof -
  let ?c = "reserved_capacity_ceiling cf"
  have fits: "fits_within u (ru_cpu_milli ?c) (ru_memory_bytes ?c) (ru_storage_bytes ?c)
      \<longleftrightarrow> (\<forall>r. ru_amount u r \<le> ru_amount ?c r)" (is "?L \<longleftrightarrow> ?R") for u
  proof
    assume ?L
    then show ?R
      by (intro allI, rename_tac r, case_tac r) (simp_all add: fits_within_def word_le_nat_alt)
  next
    assume ?R
    from this [THEN spec, of Cpu] this [THEN spec, of Memory] this [THEN spec, of Storage]
    show ?L by (simp add: fits_within_def word_le_nat_alt)
  qed
  have "pending_ceiling cf r < 2 ^ 64 - 1" for r
    using assms pending_ceiling_le [of cf r] unfolding bounded_config_def by (metis le_less_trans)
  then show ?thesis
    unfolding reservation_capacity_ok_def Let_def fits ResourceUsage_plus_is_add ru_amount_add
      res_args_request reserved_usage_amount ceiling_amount
    using saturated_fits by presburger
qed

lemma reservations_for_sum:
  "reservations_for st n = hm_sum (\<lambda>v. if rv_namespace_id v = n then 1 else 0) (st_reservations st)"
proof -
  have "length (filter (\<lambda>v. rv_namespace_id v = n) vs) =
      sum_list (map (\<lambda>v. if rv_namespace_id v = n then 1 else 0) vs)" for vs
    by (induction vs) simp_all
  then show ?thesis by (simp add: reservations_for_def hm_sum_def)
qed

lemma not_contains_iff:
  assumes "hm_wf (st_reservations st)"
  shows "\<not> contains_workload st wid \<longleftrightarrow> wid \<notin> hm_keys (st_active st) \<and> wid \<notin> st_quarantined st
    \<and> (\<forall>i v. hm_get (st_reservations st) i = Some v \<longrightarrow> rv_workload_id v \<noteq> wid)"
  unfolding contains_workload_def hm_contains_iff list_ex_iff hm_values_def
  by (auto simp: hm_get_in_set [OF assms]) blast

lemma admission_refusal_None_iff:
  assumes "st_inv cf st" and "bounded_config cf"
  shows "admission_refusal cf st q = None \<longleftrightarrow>
    st_quarantined st = {} \<and> \<not> contains_workload st (aq_workload_id q)
    \<and> length (st_active st) + length (st_reservations st) < cf_max_workloads cf
    \<and> length (st_reservations st) < 1024 \<and> reservations_for st (aq_namespace_id q) < 16
    \<and> (\<forall>r. active_total st r + reserved_total st r + aq_amount r q \<le> capacity cf r)
    \<and> (\<forall>r. reserved_total st r + aq_amount r q \<le> pending_ceiling cf r)"
  unfolding admission_refusal_def capacity_ok_iff [OF assms] reservation_capacity_ok_iff [OF assms(2)]
    count_available_def reservation_available_def MAX_RESERVATIONS_def MAX_RESERVATIONS_PER_NAMESPACE_def
  by auto

definition reserves :: "AdmissionRequest \<Rightarrow> Reservation \<Rightarrow> bool" where
  "reserves q v \<longleftrightarrow> rv_namespace_id v = aq_namespace_id q \<and> rv_workload_id v = aq_workload_id q
     \<and> (\<forall>r. rv_amount r v = aq_amount r q)"

lemma st_inv_reserve:
  fixes rid :: string
  assumes "st_inv cf st" and "bounded_config cf" and "admission_refusal cf st q = None" and "reserves q v"
  defines "st' \<equiv> st\<lparr>st_reservations := hm_insert rid v (st_reservations st)\<rparr>"
  shows "st_inv cf st'" and "within_capacity cf st'"
proof -
  note ok = assms(3) [unfolded admission_refusal_None_iff [OF assms(1,2)]]
  note inv = assms(1) [unfolded st_inv_def]
  have wf: "hm_wf (st_reservations st)" using inv by blast
  have ins: "hm_sum g (st_reservations st') \<le> g v + hm_sum g (st_reservations st)" for g
    unfolding st'_def using hm_sum_insert [OF wf, of g rid v] hm_sum_remove_le [of g rid "st_reservations st"]
    by simp
  have res: "reserved_total st' r \<le> aq_amount r q + reserved_total st r" for r
    using ins [of "rv_amount r"] assms(4) unfolding reserved_total_sum reserves_def by simp
  have act: "active_total st' r = active_total st r" for r by (simp add: st'_def active_total_sum)
  have "active_total st' r + reserved_total st' r \<le> capacity cf r" for r
  proof -
    have "active_total st r + reserved_total st r + aq_amount r q \<le> capacity cf r" using ok by blast
    with res [of r] act [of r] show ?thesis by linarith
  qed
  then show "within_capacity cf st'" by (simp add: within_capacity_def)
  have "reserved_total st' r \<le> pending_ceiling cf r" for r
  proof -
    have "reserved_total st r + aq_amount r q \<le> pending_ceiling cf r" using ok by blast
    with res [of r] show ?thesis by linarith
  qed
  moreover have "reservations_for st' n \<le> MAX_RESERVATIONS_PER_NAMESPACE" for n
  proof (cases "n = aq_namespace_id q")
    case True
    have "reservations_for st' n \<le> Suc (reservations_for st n)"
      unfolding reservations_for_sum using ins [of "\<lambda>v. if rv_namespace_id v = n then 1 else 0"]
      by (simp split: if_splits)
    also have "\<dots> \<le> 16" using ok True by simp
    finally show ?thesis by (simp add: MAX_RESERVATIONS_PER_NAMESPACE_def)
  next
    case False
    have "reservations_for st' n \<le> reservations_for st n"
      unfolding reservations_for_sum using ins [of "\<lambda>v. if rv_namespace_id v = n then 1 else 0"] False assms(4)
      by (simp add: reserves_def)
    then show ?thesis using inv le_trans by blast
  qed
  moreover have "length (st_reservations st') \<le> Suc (length (st_reservations st))"
    using wf by (simp add: st'_def hm_length_insert)
  moreover have "rv_workload_id w \<noteq> aq_workload_id q" if "hm_get (st_reservations st) i = Some w" for i w
    using ok that unfolding not_contains_iff [OF wf] by blast
  moreover have "aq_workload_id q \<notin> hm_keys (st_active st)" using ok unfolding not_contains_iff [OF wf] by blast
  ultimately show "st_inv cf st'"
    using inv ok assms(4) unfolding st_inv_def reserves_def
    by (auto simp: st'_def MAX_RESERVATIONS_def split: if_splits) blast
qed

section \<open>What the other transitions keep\<close>

lemma st_inv_fewer_reservations:
  assumes "st_inv cf st" and "hm_wf m" and "length m \<le> length (st_reservations st)"
    and "\<And>i v. hm_get m i = Some v \<Longrightarrow> hm_get (st_reservations st) i = Some v"
    and "\<And>g. hm_sum g m \<le> hm_sum g (st_reservations st)"
  shows "st_inv cf (st\<lparr>st_reservations := m\<rparr>)"
    and "within_capacity cf st \<Longrightarrow> within_capacity cf (st\<lparr>st_reservations := m\<rparr>)"
proof -
  let ?st = "st\<lparr>st_reservations := m\<rparr>"
  note inv = st_invD [OF assms(1)]
  have tot: "reserved_total ?st r \<le> reserved_total st r" for r
    using assms(5) [of "rv_amount r"] by (simp add: reserved_total_sum)
  have ns: "reservations_for ?st n \<le> reservations_for st n" for n
    using assms(5) [of "\<lambda>v. if rv_namespace_id v = n then 1 else 0"] by (simp add: reservations_for_sum)
  show "st_inv cf ?st"
  proof (rule st_invI, goal_cases)
    case (4 r)
    show ?case using tot [of r] inv(4) [of r] by (rule le_trans)
  next
    case (6 i j v w)
    then show ?case using assms(4) inv(6) by simp
  next
    case (7 i v)
    then have "hm_get (st_reservations st) i = Some v" using assms(4) by simp
    from inv(7) [OF this] show ?case by simp
  next
    case 8
    then show ?case using inv(8) assms(3) by simp
  next
    case 9
    then show ?case using inv(9) assms(3) by simp
  next
    case (10 n)
    show ?case using ns [of n] inv(10) [of n] by (rule le_trans)
  qed (use inv(1,3,5) assms(2) in simp_all)
  have "active_total ?st r = active_total st r" for r by (simp add: active_total_sum)
  then show "within_capacity cf ?st" if "within_capacity cf st"
    using that tot unfolding within_capacity_def by (metis add_left_mono le_trans)
qed

lemma st_inv_expire:
  assumes "st_inv cf st"
  shows "st_inv cf (drop_expired_reservations now st)"
    and "within_capacity cf st \<Longrightarrow> within_capacity cf (drop_expired_reservations now st)"
proof -
  let ?m = "hm_retain (\<lambda>_ v. now \<le> rv_expires_at_secs v) (st_reservations st)"
  have wf: "hm_wf (st_reservations st)" using assms by (simp add: st_inv_def)
  have "hm_get ?m i = Some v \<Longrightarrow> hm_get (st_reservations st) i = Some v" for i v
    using wf by (simp add: hm_get_retain split: option.splits if_splits)
  note fewer = st_inv_fewer_reservations [OF assms hm_wf_retain [OF wf] hm_length_retain_le this hm_sum_retain_le]
  show "st_inv cf (drop_expired_reservations now st)"
    unfolding drop_expired_reservations_def by (rule fewer(1))
  show "within_capacity cf (drop_expired_reservations now st)" if "within_capacity cf st"
    unfolding drop_expired_reservations_def by (rule fewer(2) [OF _ that])
qed

lemma st_inv_consume:
  assumes "st_inv cf st"
  shows "st_inv cf (st\<lparr>st_reservations := hm_remove rid (st_reservations st)\<rparr>)"
    and "within_capacity cf st \<Longrightarrow> within_capacity cf (st\<lparr>st_reservations := hm_remove rid (st_reservations st)\<rparr>)"
proof -
  have wf: "hm_wf (st_reservations st)" using assms by (simp add: st_inv_def)
  have "hm_get (hm_remove rid (st_reservations st)) i = Some v \<Longrightarrow> hm_get (st_reservations st) i = Some v" for i v
    by (simp split: if_splits)
  note fewer = st_inv_fewer_reservations [OF assms hm_wf_remove [OF wf] hm_length_remove_le this hm_sum_remove_le]
  show "st_inv cf (st\<lparr>st_reservations := hm_remove rid (st_reservations st)\<rparr>)" by (rule fewer(1))
  show "within_capacity cf (st\<lparr>st_reservations := hm_remove rid (st_reservations st)\<rparr>)"
    if "within_capacity cf st" by (rule fewer(2) [OF _ that])
qed

text \<open>Changes of the active set: what is left of the invariant to check when the reservations stay.\<close>

lemma st_inv_active:
  assumes "st_inv cf st" and "hm_wf m" and "hm_keys m \<subseteq> hm_keys (st_active st)"
    and "\<And>k w. hm_get m k = Some w \<Longrightarrow> dg_workload_id (sw_grant w) = k"
  shows "st_inv cf (st\<lparr>st_active := m\<rparr>)"
proof -
  note inv = st_invD [OF assms(1)]
  have len: "length m \<le> length (st_active st)"
    using assms(2,3) inv(1) by (simp add: hm_length_card card_mono)
  show ?thesis
  proof (rule st_invI, goal_cases)
    case (7 i v)
    then have "hm_get (st_reservations st) i = Some v" by simp
    from inv(7) [OF this] assms(3) show ?case by auto
  next
    case 8
    then show ?case using inv(8) len by simp
  next
    case (10 n)
    then show ?case using inv(10) [of n] by (simp add: reservations_for_def)
  next
    case (4 r)
    then show ?case using inv(4) [of r] by (simp add: reserved_total_def)
  qed (use inv(2,3,6,9) assms(2,4) in simp_all)
qed

lemma st_inv_replace:
  assumes "st_inv cf st" and "hm_get (st_active st) wid = Some w0" and "dg_workload_id (sw_grant w) = wid"
  shows "st_inv cf (st\<lparr>st_active := hm_insert wid w (st_active st)\<rparr>)"
proof (rule st_inv_active [OF assms(1)])
  note inv = st_invD [OF assms(1)]
  show "hm_wf (hm_insert wid w (st_active st))" using inv(1) by simp
  show "hm_keys (hm_insert wid w (st_active st)) \<subseteq> hm_keys (st_active st)"
    using hm_get_Some_key [OF assms(2)] by auto
  show "dg_workload_id (sw_grant v) = k" if "hm_get (hm_insert wid w (st_active st)) k = Some v" for k v
    using that inv(5) assms(3) by (simp split: if_splits)
qed

lemma st_inv_forget:
  assumes "st_inv cf st"
  shows "st_inv cf (st\<lparr>st_active := hm_remove wid (st_active st)\<rparr>)"
proof (rule st_inv_active [OF assms])
  note inv = st_invD [OF assms]
  show "hm_wf (hm_remove wid (st_active st))" using inv(1) by simp
  show "dg_workload_id (sw_grant v) = k" if "hm_get (hm_remove wid (st_active st)) k = Some v" for k v
    using that inv(5) by (simp split: if_splits)
qed auto

lemma active_total_insert:
  "hm_wf (st_active st) \<Longrightarrow> active_total (st\<lparr>st_active := hm_insert wid w (st_active st)\<rparr>) r =
     sw_amount r w + hm_sum (sw_amount r) (hm_remove wid (st_active st))"
  by (simp add: active_total_sum hm_sum_insert)

lemma reserved_total_active [simp]: "reserved_total (st\<lparr>st_active := m\<rparr>) r = reserved_total st r"
  by (simp add: reserved_total_def)

lemma within_capacity_replace:
  assumes "st_inv cf st" and "within_capacity cf st" and "hm_get (st_active st) wid = Some w0"
    and "\<And>r. sw_amount r w \<le> sw_amount r w0"
  shows "within_capacity cf (st\<lparr>st_active := hm_insert wid w (st_active st)\<rparr>)"
  unfolding within_capacity_def
proof
  fix r
  have wf: "hm_wf (st_active st)" using assms(1) by (simp add: st_inv_def)
  have "active_total st r = sw_amount r w0 + hm_sum (sw_amount r) (hm_remove wid (st_active st))"
    unfolding active_total_sum by (rule hm_sum_remove [OF wf assms(3)])
  moreover have "active_total st r + reserved_total st r \<le> capacity cf r"
    using assms(2) by (simp add: within_capacity_def)
  ultimately show "active_total (st\<lparr>st_active := hm_insert wid w (st_active st)\<rparr>) r
      + reserved_total (st\<lparr>st_active := hm_insert wid w (st_active st)\<rparr>) r \<le> capacity cf r"
    using assms(4) [of r] unfolding active_total_insert [OF wf] reserved_total_active by linarith
qed

lemma within_capacity_forget:
  assumes "within_capacity cf st"
  shows "within_capacity cf (st\<lparr>st_active := hm_remove wid (st_active st)\<rparr>)"
  unfolding within_capacity_def
proof
  fix r
  have "active_total st r + reserved_total st r \<le> capacity cf r"
    using assms by (simp add: within_capacity_def)
  then show "active_total (st\<lparr>st_active := hm_remove wid (st_active st)\<rparr>) r
      + reserved_total (st\<lparr>st_active := hm_remove wid (st_active st)\<rparr>) r \<le> capacity cf r"
    using hm_sum_remove_le [of "sw_amount r" wid "st_active st"] by (simp add: active_total_sum)
qed

text \<open>Turning a reservation into a workload moves its amounts from one side to the other.\<close>

lemma st_inv_commit:
  fixes rid :: string
  assumes "st_inv cf st" and "hm_get (st_reservations st) rid = Some v"
    and "dg_workload_id (sw_grant w) = rv_workload_id v" and "\<And>r. sw_amount r w = rv_amount r v"
  defines "st' \<equiv> st\<lparr>st_reservations := hm_remove rid (st_reservations st),
      st_active := hm_insert (rv_workload_id v) w (st_active st)\<rparr>"
  shows "st_inv cf st'" and "within_capacity cf st \<Longrightarrow> within_capacity cf st'"
proof -
  let ?wid = "rv_workload_id v"
  note inv = st_invD [OF assms(1)] and wf = st_invD(1,2) [OF assms(1)]
  note fresh = inv(7) [OF assms(2)]
  have res: "st_reservations st' = hm_remove rid (st_reservations st)" by (simp add: st'_def)
  have act: "st_active st' = hm_insert ?wid w (st_active st)" by (simp add: st'_def)
  have get: "i \<noteq> rid" "hm_get (st_reservations st) i = Some u" if "hm_get (st_reservations st') i = Some u" for i u
    using that unfolding res by (simp_all split: if_splits)
  have le: "hm_sum g (st_reservations st') \<le> hm_sum g (st_reservations st)" for g
    unfolding res by (rule hm_sum_remove_le)
  have len: "length (st_reservations st) = Suc (length (st_reservations st'))"
    using hm_sum_remove [OF wf(2) assms(2), of "\<lambda>_. Suc 0"] by (simp add: hm_sum_const res)
  show "st_inv cf st'"
  proof (rule st_invI, goal_cases)
    case (4 r)
    then show ?case using le [of "rv_amount r"] inv(4) [of r] by (simp add: reserved_total_sum)
  next
    case (5 k x)
    then show ?case using inv(5) assms(3) by (simp add: act split: if_splits)
  next
    case (6 i j u x)
    from inv(6) [OF get(2) [OF 6(1)] get(2) [OF 6(2)] 6(3)] show ?case .
  next
    case (7 i u)
    have "rv_workload_id u \<noteq> ?wid" using inv(6) [OF get(2) [OF 7] assms(2)] get(1) [OF 7] by blast
    with inv(7) [OF get(2) [OF 7]] show ?case by (simp add: act)
  next
    case 8
    then show ?case using inv(8) len fresh wf(1) by (simp add: act hm_length_insert) (simp add: st'_def)
  next
    case (10 n)
    then show ?case
      using le [of "\<lambda>v. if rv_namespace_id v = n then 1 else 0"] inv(10) [of n] by (simp add: reservations_for_sum)
  qed (use wf inv(3,9) len in \<open>simp_all add: act res\<close>, simp add: st'_def)
  have tot: "active_total st' r + reserved_total st' r = active_total st r + reserved_total st r" for r
    using hm_sum_insert [OF wf(1), of "sw_amount r" ?wid w] hm_sum_remove [OF wf(2) assms(2), of "rv_amount r"]
      fresh assms(4) by (simp add: st'_def active_total_sum reserved_total_sum hm_remove_absent)
  show "within_capacity cf st'" if "within_capacity cf st"
    using that by (simp add: within_capacity_def tot)
qed

text \<open>The check of \<open>update\<close> on the usage without the workload itself.\<close>

lemma update_fits_iff:
  assumes "bounded_config cf"
  shows "fits_within (ResourceUsage_plus (usage_without st wid) c m s)
      (ucast (cf_capacity_cpu_milli cf)) (cf_capacity_memory_bytes cf) (cf_capacity_storage_bytes cf)
    \<longleftrightarrow> (\<forall>r. reserved_total st r + hm_sum (sw_amount r) (hm_remove wid (st_active st)) + res_args r c m s \<le> capacity cf r)"
  unfolding fits_within_iff ResourceUsage_plus_is_add ru_amount_add usage_without_amount
  using assms [unfolded bounded_config_def] saturated_fits by presburger

lemma within_capacity_resize:
  assumes "hm_wf (st_active st)"
    and "\<And>r. reserved_total st r + hm_sum (sw_amount r) (hm_remove wid (st_active st)) + sw_amount r w \<le> capacity cf r"
  shows "within_capacity cf (st\<lparr>st_active := hm_insert wid w (st_active st)\<rparr>)"
  unfolding within_capacity_def
proof
  fix r
  show "active_total (st\<lparr>st_active := hm_insert wid w (st_active st)\<rparr>) r
      + reserved_total (st\<lparr>st_active := hm_insert wid w (st_active st)\<rparr>) r \<le> capacity cf r"
    using assms(2) [of r] by (simp add: active_total_insert [OF assms(1)])
qed

section \<open>Properties\<close>

text \<open>C25: the admission decision is exact. For a state that satisfies the invariant, a request is
  refused for none of the six reasons precisely when no record is quarantined, the workload is not
  held yet, a workload slot, a reservation slot and a slot of its namespace are free, the request
  fits next to everything running and pending in CPU, memory and storage, and it fits next to the
  pending reservations under their share of the capacity. Neither the saturating sums, nor the
  32-bit cast of the reserved CPU, nor the integer division of the share rounds a request in or out.\<close>

theorem admission_decision_exact:
  assumes "st_inv cf st" and "bounded_config cf"
  shows "admission_refusal cf st q = None \<longleftrightarrow>
    st_quarantined st = {} \<and> \<not> contains_workload st (aq_workload_id q)
    \<and> length (st_active st) + length (st_reservations st) < cf_max_workloads cf
    \<and> length (st_reservations st) < 1024 \<and> reservations_for st (aq_namespace_id q) < 16
    \<and> (\<forall>r. active_total st r + reserved_total st r + aq_amount r q \<le> capacity cf r)
    \<and> (\<forall>r. reserved_total st r + aq_amount r q
          \<le> capacity cf r * min (unat (cf_max_reserved_capacity_percent cf)) 100 div 100)"
  using admission_refusal_None_iff [OF assms] unfolding pending_ceiling_def .

definition toy_config :: Config where
  "toy_config = \<lparr>cf_capacity_cpu_milli = 4000, cf_capacity_memory_bytes = 1000, cf_capacity_storage_bytes = 1000,
     cf_max_workloads = 10, cf_max_reserved_capacity_percent = 50, cf_advertise_addresses = []\<rparr>"

definition toy_admission :: AdmissionRequest where
  "toy_admission = \<lparr>aq_version = 1, aq_request_id = ''q'', aq_namespace_id = ''ns'', aq_workload_id = ''w'',
     aq_target_node_id = ''n'', aq_response_kem_pubkey = ''k'', aq_cpu_milli = 2000, aq_memory_bytes = 500,
     aq_storage_bytes = 500, aq_issued_at_secs = 0, aq_expires_at_secs = 1, aq_nonce = ''x'',
     aq_owner_signature = []\<rparr>"

lemma toy_config_bounded: "bounded_config toy_config"
proof -
  have "capacity toy_config r < 2 ^ 64 - 1" for r by (cases r) (simp_all add: toy_config_def)
  then show ?thesis by (simp add: bounded_config_def)
qed

lemma default_totals [simp]:
  "active_total WorkloadState_default r = 0" "reserved_total WorkloadState_default r = 0"
  "reservations_for WorkloadState_default n = 0"
  by (simp_all add: active_total_def reserved_total_def reservations_for_def WorkloadState_default_def hm_values_def)

lemma st_inv_default: "st_inv cf WorkloadState_default"
  unfolding st_inv_def default_totals by (simp add: WorkloadState_default_def)

lemma within_capacity_default: "within_capacity cf WorkloadState_default"
  by (simp add: within_capacity_def)

theorem admission_decision_exact_witness:
  "admission_refusal toy_config WorkloadState_default toy_admission = None"
proof -
  have "aq_amount r toy_admission \<le> capacity toy_config r * 50 div 100"
    "aq_amount r toy_admission \<le> capacity toy_config r" for r
    by (cases r; simp add: toy_config_def toy_admission_def)+
  moreover have "\<not> contains_workload WorkloadState_default (aq_workload_id toy_admission)"
    by (simp add: contains_workload_def WorkloadState_default_def hm_contains_def hm_values_def)
  ultimately show ?thesis
    using admission_decision_exact [OF st_inv_default toy_config_bounded, of toy_admission]
    unfolding default_totals by (simp add: WorkloadState_default_def) (simp add: toy_config_def)
qed

end
