(* ===== verification/Agent_Store.thy ===== *)
theory Agent_Store
  imports Agent_Accounting
begin

text \<open>
  The agent's durable state, \<open>podmesh-agent/src/store.rs\<close>. \<open>AgentStore\<close> keeps two tables of sealed
  blobs, workloads and enrollment bindings; redb's transactions are an argument \<open>io\<close>, the result of
  the calls that open, write and commit one, and a transaction that fails leaves the tables as they
  were. \<open>disk\<close> is what the service relies on: records by workload id, a record that does not decode
  being an error. The locale \<open>workload_store\<close> states the contract of the trait \<open>WorkloadStore\<close>;
  \<open>disk\<close> and \<open>AgentStore\<close> both interpret it, and the latter refines the former.
\<close>

section \<open>The contract\<close>

locale workload_store =
  fixes save :: "StoredWorkload \<Rightarrow> 'io \<Rightarrow> 's \<Rightarrow> 's \<times> unit res"
    and remove :: "string \<Rightarrow> 'io \<Rightarrow> 's \<Rightarrow> 's \<times> unit res"
    and view :: "'s \<Rightarrow> string \<Rightarrow> StoredWorkload res option"
    and good :: "'s \<Rightarrow> bool"
    and fine :: "'io \<Rightarrow> bool"
  assumes save_good: "good s \<Longrightarrow> good (fst (save w io s))"
    and remove_good: "good s \<Longrightarrow> good (fst (remove k io s))"
    and save_ok: "good s \<Longrightarrow> fine io \<Longrightarrow> sw_version w = STORED_WORKLOAD_VERSION \<Longrightarrow> snd (save w io s) = Ok () \<Longrightarrow>
      view (fst (save w io s)) = (view s)(dg_workload_id (sw_grant w) \<mapsto> Ok w)"
    and save_err: "snd (save w io s) = Err e \<Longrightarrow> fst (save w io s) = s"
    and remove_ok: "good s \<Longrightarrow> snd (remove k io s) = Ok () \<Longrightarrow> view (fst (remove k io s)) = (view s)(k := None)"
    and remove_err: "snd (remove k io s) = Err e \<Longrightarrow> fst (remove k io s) = s"
begin

lemma save_other:
  assumes "good s" and "fine io" and "sw_version w = STORED_WORKLOAD_VERSION" and "k \<noteq> dg_workload_id (sw_grant w)"
  shows "view (fst (save w io s)) k = view s k"
  using assms save_ok [OF assms(1-3)] save_err [of w io s] by (cases "snd (save w io s)") auto

lemma save_then_load:
  "good s \<Longrightarrow> fine io \<Longrightarrow> sw_version w = STORED_WORKLOAD_VERSION \<Longrightarrow> snd (save w io s) = Ok () \<Longrightarrow>
   view (fst (save w io s)) (dg_workload_id (sw_grant w)) = Some (Ok w)"
  by (simp add: save_ok)

lemma remove_other: "good s \<Longrightarrow> j \<noteq> k \<Longrightarrow> view (fst (remove k io s)) j = view s j"
  using remove_ok [of s k io] remove_err [of k io s] by (cases "snd (remove k io s)") auto

lemma remove_then_gone: "good s \<Longrightarrow> snd (remove k io s) = Ok () \<Longrightarrow> view (fst (remove k io s)) k = None"
  by (simp add: remove_ok)

end

section \<open>The records a service sees\<close>

type_synonym disk = "(string, StoredWorkload res) hmap"

definition disk_save :: "StoredWorkload \<Rightarrow> unit res \<Rightarrow> disk \<Rightarrow> disk \<times> unit res" where
  "disk_save w io d =
     (case io of Ok _ \<Rightarrow> (hm_insert (dg_workload_id (sw_grant w)) (Ok w) d, Ok ()) | Err e \<Rightarrow> (d, Err e))"

definition disk_remove :: "string \<Rightarrow> unit res \<Rightarrow> disk \<Rightarrow> disk \<times> unit res" where
  "disk_remove wid io d = (case io of Ok _ \<Rightarrow> (hm_remove wid d, Ok ()) | Err e \<Rightarrow> (d, Err e))"

interpretation disk: workload_store disk_save disk_remove "\<lambda>d. hm_get d" "\<lambda>_. True" "\<lambda>_. True"
  by unfold_locales (auto simp: disk_save_def disk_remove_def split: result.splits)

section \<open>Sealed tables\<close>

record EnrollmentBinding =
  eb_workload_id :: string
  eb_delegation_digest :: string
  eb_endpoint_id :: string
  eb_signing_public_key_b64 :: string

record AgentStore =
  as_workloads :: "(string, bytes) hmap"
  as_enrollments :: "(string, bytes) hmap"
  as_kem_public :: bytes
  as_kem_private :: bytes

text \<open>\<open>store_wire\<close>: the primitives and postcard for the two record types. \<open>seal\<close> is the randomness
  of one sealing: the ephemeral secret and the nonce.\<close>

record store_wire =
  sr_crates :: crates
  sr_workload :: "StoredWorkload \<Rightarrow> bytes res"
  sr_parse_workload :: "bytes \<Rightarrow> StoredWorkload res"
  sr_binding :: "EnrollmentBinding \<Rightarrow> bytes res"
  sr_parse_binding :: "bytes \<Rightarrow> EnrollmentBinding res"

type_synonym seal = "bytes \<times> bytes"

definition AgentStore_open :: "bytes \<Rightarrow> bytes \<Rightarrow> unit res \<Rightarrow> AgentStore res" where
  "AgentStore_open kem_public kem_private io =
     try_r io (\<lambda>_. Ok \<lparr>as_workloads = [], as_enrollments = [], as_kem_public = kem_public,
       as_kem_private = kem_private\<rparr>)"

definition load_one :: "store_wire \<Rightarrow> bytes \<Rightarrow> string \<Rightarrow> bytes \<Rightarrow> StoredWorkload res" where
  "load_one W kem_private wid blob =
     try_r (ctx (''decrypt local workload state for '' @ wid)
         (decrypt_payload_from_recipient_blob (sr_crates W) blob kem_private)) (\<lambda>plaintext.
     try_r (ctx (''decode local workload state for '' @ wid) (sr_parse_workload W plaintext)) (\<lambda>w.
     ensure (sw_version w = STORED_WORKLOAD_VERSION) ''unsupported stored workload version'' (
     ensure (dg_workload_id (sw_grant w) = wid) ''stored workload key does not match signed grant''
       (Ok w))))"

definition AgentStore_load_all :: "store_wire \<Rightarrow> unit res \<Rightarrow> AgentStore \<Rightarrow> (string \<times> StoredWorkload res) list res" where
  "AgentStore_load_all W io s =
     try_r io (\<lambda>_. Ok (hm_map (load_one W (as_kem_private s)) (as_workloads s)))"

definition AgentStore_save ::
  "store_wire \<Rightarrow> StoredWorkload \<Rightarrow> seal \<times> unit res \<Rightarrow> AgentStore \<Rightarrow> AgentStore \<times> unit res" where
  "AgentStore_save W w = (\<lambda>((eph, nonce), io) s.
     case try_r (sr_workload W w) (\<lambda>plaintext.
          try_r (encrypt_payload_for_recipient (sr_crates W) eph nonce (as_kem_public s) plaintext) (\<lambda>blob.
          try_r io (\<lambda>_. Ok blob))) of
       Ok blob \<Rightarrow> (s\<lparr>as_workloads := hm_insert (dg_workload_id (sw_grant w)) blob (as_workloads s)\<rparr>, Ok ())
     | Err e \<Rightarrow> (s, Err e))"

definition AgentStore_remove :: "string \<Rightarrow> seal \<times> unit res \<Rightarrow> AgentStore \<Rightarrow> AgentStore \<times> unit res" where
  "AgentStore_remove wid = (\<lambda>(_, io) s.
     case io of
       Ok _ \<Rightarrow> (s\<lparr>as_workloads := hm_remove wid (as_workloads s),
                 as_enrollments := hm_remove wid (as_enrollments s)\<rparr>, Ok ())
     | Err e \<Rightarrow> (s, Err e))"

definition AgentStore_load_enrollment ::
  "store_wire \<Rightarrow> string \<Rightarrow> unit res \<Rightarrow> AgentStore \<Rightarrow> EnrollmentBinding option res" where
  "AgentStore_load_enrollment W wid io s =
     try_r io (\<lambda>_.
     case hm_get (as_enrollments s) wid of
       None \<Rightarrow> Ok None
     | Some blob \<Rightarrow>
         ensure (length blob \<le> 4096) ''enrollment state exceeds limit'' (
         try_r (decrypt_payload_from_recipient_blob (sr_crates W) blob (as_kem_private s)) (\<lambda>plaintext.
         try_r (sr_parse_binding W plaintext) (\<lambda>binding.
         ensure (eb_workload_id binding = wid) ''enrollment binding key mismatch'' (Ok (Some binding))))))"

definition AgentStore_save_enrollment ::
  "store_wire \<Rightarrow> EnrollmentBinding \<Rightarrow> seal \<times> unit res \<Rightarrow> AgentStore \<Rightarrow> AgentStore \<times> unit res" where
  "AgentStore_save_enrollment W b = (\<lambda>((eph, nonce), io) s.
     case try_r (sr_binding W b) (\<lambda>plaintext.
          ensure (length plaintext \<le> 1024) ''enrollment binding exceeds limit'' (
          try_r (encrypt_payload_for_recipient (sr_crates W) eph nonce (as_kem_public s) plaintext) (\<lambda>blob.
          try_r io (\<lambda>_. Ok blob)))) of
       Ok blob \<Rightarrow> (s\<lparr>as_enrollments := hm_insert (eb_workload_id b) blob (as_enrollments s)\<rparr>, Ok ())
     | Err e \<Rightarrow> (s, Err e))"

definition AgentStore_remove_enrollment :: "string \<Rightarrow> unit res \<Rightarrow> AgentStore \<Rightarrow> AgentStore \<times> unit res" where
  "AgentStore_remove_enrollment wid io s =
     (case io of
        Ok _ \<Rightarrow> (s\<lparr>as_enrollments := hm_remove wid (as_enrollments s)\<rparr>, Ok ())
      | Err e \<Rightarrow> (s, Err e))"

section \<open>The store honours the contract\<close>

definition codec_law :: "('a \<Rightarrow> bytes res) \<Rightarrow> (bytes \<Rightarrow> 'a res) \<Rightarrow> bool" where
  "codec_law enc dec \<longleftrightarrow> (\<forall>x b. enc x = Ok b \<longrightarrow> dec b = Ok x)"

definition store_view :: "store_wire \<Rightarrow> AgentStore \<Rightarrow> disk" where
  "store_view W s = hm_map (load_one W (as_kem_private s)) (as_workloads s)"

definition store_good :: "store_wire \<Rightarrow> AgentStore \<Rightarrow> bool" where
  "store_good W s \<longleftrightarrow> x_law (sr_crates W) \<and> aead_law (sr_crates W)
     \<and> codec_law (sr_workload W) (sr_parse_workload W) \<and> codec_law (sr_binding W) (sr_parse_binding W)
     \<and> length (as_kem_private s) = 32 \<and> as_kem_public s = x_public (sr_crates W) (as_kem_private s)"

lemma sealed_opens:
  assumes "x_law C" and "aead_law C" and "length sk = 32" and "length nonce = 24"
    and "encrypt_payload_for_recipient C eph nonce (x_public C sk) payload = Ok blob"
  shows "decrypt_payload_from_recipient_blob C blob sk = Ok payload"
proof -
  from assms(5) have "length payload + 16 < 2 ^ 32" "x_was_contributory C (x_diffie_hellman C eph (x_public C sk))"
    by (auto simp: encrypt_payload_for_recipient_def encapsulate_to_pubkey_def kem_key_bytes_def Let_def
        split: prod.splits)
  from seal_then_open [OF assms(1-4) this] assms(5) show ?thesis by auto
qed

lemma view_insert:
  "store_view W (s\<lparr>as_workloads := hm_insert k blob (as_workloads s)\<rparr>) =
     hm_insert k (load_one W (as_kem_private s) k blob) (store_view W s)"
proof -
  have "hm_map f (hm_insert k b m) = hm_insert k (f k b) (hm_map f m)" for f :: "string \<Rightarrow> bytes \<Rightarrow> StoredWorkload res" and b m
    by (induction m) (auto simp: hm_map_def hm_insert_def)
  then show ?thesis by (simp add: store_view_def)
qed

lemma view_remove: "store_view W (s\<lparr>as_workloads := hm_remove k (as_workloads s), as_enrollments := e\<rparr>) = hm_remove k (store_view W s)"
proof -
  have "hm_map f (hm_remove k m) = hm_remove k (hm_map f m)" for f :: "string \<Rightarrow> bytes \<Rightarrow> StoredWorkload res" and m
    by (induction m) (auto simp: hm_map_def hm_remove_def delete_simps)
  then show ?thesis by (simp add: store_view_def)
qed

lemma AgentStore_save_cases:
  obtains (saved) b blob where "AgentStore_save W w ((eph, nonce), io) s =
      (s\<lparr>as_workloads := hm_insert (dg_workload_id (sw_grant w)) blob (as_workloads s)\<rparr>, Ok ())"
      "sr_workload W w = Ok b" "encrypt_payload_for_recipient (sr_crates W) eph nonce (as_kem_public s) b = Ok blob"
      "io = Ok ()"
  | (failed) e where "AgentStore_save W w ((eph, nonce), io) s = (s, Err e)"
  by (cases "try_r (sr_workload W w) (\<lambda>plaintext.
          try_r (encrypt_payload_for_recipient (sr_crates W) eph nonce (as_kem_public s) plaintext) (\<lambda>blob.
          try_r io (\<lambda>_. Ok blob)))") (auto simp: AgentStore_save_def)

lemma load_saved:
  assumes "store_good W s" and "length nonce = 24" and "sw_version w = STORED_WORKLOAD_VERSION"
    and "sr_workload W w = Ok b"
    and "encrypt_payload_for_recipient (sr_crates W) eph nonce (as_kem_public s) b = Ok blob"
  shows "load_one W (as_kem_private s) (dg_workload_id (sw_grant w)) blob = Ok w"
proof -
  have "decrypt_payload_from_recipient_blob (sr_crates W) blob (as_kem_private s) = Ok b"
    using assms(1,2,5) by (intro sealed_opens [of _ _ nonce eph]) (auto simp: store_good_def)
  moreover have "sr_parse_workload W b = Ok w" using assms(1,4) by (auto simp: store_good_def codec_law_def)
  ultimately show ?thesis using assms(3) by (simp add: load_one_def)
qed

interpretation agent_store: workload_store "AgentStore_save W" AgentStore_remove "\<lambda>s. hm_get (store_view W s)"
  "store_good W" "\<lambda>((_, nonce), _). length nonce = 24" for W
proof (unfold_locales, goal_cases)
  case (1 s w io)
  obtain eph nonce r where io: "io = ((eph, nonce), r)" by (metis prod.collapse)
  show ?case using 1 unfolding io
    by (cases rule: AgentStore_save_cases [of W w eph nonce r s]) (simp_all add: store_good_def)
next
  case (2 s k io)
  then show ?case
    by (cases io; cases "snd io") (auto simp: AgentStore_remove_def store_good_def)
next
  case (3 s io w)
  obtain eph nonce r where io: "io = ((eph, nonce), r)" by (metis prod.collapse)
  from 3 have nonce: "length nonce = 24" by (simp add: io)
  show ?case
  proof (cases rule: AgentStore_save_cases [of W w eph nonce r s])
    case (saved b blob)
    show ?thesis
      unfolding io saved(1) fst_conv view_insert load_saved [OF 3(1) nonce 3(3) saved(2,3)] by simp
  next
    case (failed e)
    then show ?thesis using 3(4) by (simp add: io)
  qed
next
  case (4 w io s e)
  obtain eph nonce r where io: "io = ((eph, nonce), r)" by (metis prod.collapse)
  show ?case using 4 unfolding io by (cases rule: AgentStore_save_cases [of W w eph nonce r s]) simp_all
next
  case (5 s k io)
  then show ?case
    by (cases io; cases "snd io") (auto simp: AgentStore_remove_def view_remove)
next
  case (6 k io s e)
  then show ?case by (cases io; cases "snd io") (auto simp: AgentStore_remove_def)
qed

section \<open>Properties\<close>

text \<open>C26: the encrypted store implements the plain map of records the service works with. Under the
  laws of the cipher, the key agreement and postcard, for an agent's own KEM key pair and any
  ephemeral key, nonce and outcome of the transaction: reading all records after a save gives what
  the plain map gives after the same save, and a save that fails, in whatever step, changes nothing;
  likewise for removal, which also drops the enrollment binding of the workload.\<close>

theorem agent_store_refines_disk:
  assumes "store_good W s" and "length nonce = 24" and "sw_version w = STORED_WORKLOAD_VERSION"
  shows "store_view W (fst (AgentStore_save W w ((eph, nonce), io) s)) =
      fst (disk_save w (snd (AgentStore_save W w ((eph, nonce), io) s)) (store_view W s))
    \<and> store_view W (fst (AgentStore_remove wid (seal, io) s)) = fst (disk_remove wid io (store_view W s))
    \<and> AgentStore_load_all W (Ok ()) s = Ok (store_view W s)
    \<and> (snd (AgentStore_remove wid (seal, io) s) = Ok () \<longrightarrow>
        AgentStore_load_enrollment W wid (Ok ()) (fst (AgentStore_remove wid (seal, io) s)) = Ok None)"
proof (intro conjI impI)
  show "store_view W (fst (AgentStore_save W w ((eph, nonce), io) s)) =
      fst (disk_save w (snd (AgentStore_save W w ((eph, nonce), io) s)) (store_view W s))"
  proof (cases rule: AgentStore_save_cases [of W w eph nonce io s])
    case (saved b blob)
    show ?thesis
      unfolding saved(1) fst_conv snd_conv view_insert load_saved [OF assms saved(2,3)]
      by (simp add: disk_save_def)
  qed (simp add: disk_save_def)
  show "store_view W (fst (AgentStore_remove wid (seal, io) s)) = fst (disk_remove wid io (store_view W s))"
    by (cases io) (simp_all add: AgentStore_remove_def disk_remove_def view_remove)
  show "AgentStore_load_enrollment W wid (Ok ()) (fst (AgentStore_remove wid (seal, io) s)) = Ok None"
    if "snd (AgentStore_remove wid (seal, io) s) = Ok ()"
    using that by (cases io) (simp_all add: AgentStore_remove_def AgentStore_load_enrollment_def)
qed (simp add: AgentStore_load_all_def store_view_def)

definition toy_stored :: StoredWorkload where
  "toy_stored = \<lparr>sw_version = 1, sw_phase = Active, sw_grant = toy_grant [], sw_runtime_id = ''pod'',
     sw_deleting = False, sw_cpu_milli = 100, sw_memory_bytes = 200, sw_storage_bytes = 300,
     sw_workload_name = ''web'', sw_replica_index = 0, sw_replica_count = 1\<rparr>"

definition toy_store_wire :: store_wire where
  "toy_store_wire = \<lparr>sr_crates = toy_crates (\<lambda>_ _ _. True),
     sr_workload = (\<lambda>w. if w = toy_stored then Ok [1] else Err ''other''), sr_parse_workload = (\<lambda>_. Ok toy_stored),
     sr_binding = (\<lambda>_. Err ''none''), sr_parse_binding = (\<lambda>_. Err ''none'')\<rparr>"

definition toy_store :: AgentStore where
  "toy_store = \<lparr>as_workloads = [], as_enrollments = [],
     as_kem_public = x_public (toy_crates (\<lambda>_ _ _. True)) (replicate 32 3), as_kem_private = replicate 32 3\<rparr>"

lemma toy_store_good: "store_good toy_store_wire toy_store"
  using toy_x_law toy_aead_law
  by (simp add: store_good_def toy_store_wire_def toy_store_def codec_law_def)

theorem agent_store_refines_disk_witness:
  "store_view toy_store_wire (fst (AgentStore_save toy_store_wire toy_stored
      ((replicate 32 5, replicate 24 9), Ok ()) toy_store)) =
   fst (disk_save toy_stored (snd (AgentStore_save toy_store_wire toy_stored
      ((replicate 32 5, replicate 24 9), Ok ()) toy_store)) (store_view toy_store_wire toy_store))"
proof -
  have "length (replicate 24 9 :: bytes) = 24" "sw_version toy_stored = STORED_WORKLOAD_VERSION"
    by (simp_all add: toy_stored_def STORED_WORKLOAD_VERSION_def)
  then show ?thesis by (rule agent_store_refines_disk [OF toy_store_good, THEN conjunct1])
qed

end
