(* ===== verification/Fifo_Cache.thy ===== *)
theory Fifo_Cache
  imports Replay_Window
begin

text \<open>
  The shape the two replay caches of an agent share: offering a key first prunes what has expired,
  then refuses a key still recorded, and otherwise evicts the oldest entry when full and appends the
  key. A component supplies its own pruning and its own push; \<open>fifo_cache\<close> states what they must
  satisfy, and every fifo cache is a \<open>replay_cache\<close>. The agent's \<open>ReplayCache\<close> prunes from the
  front of its queue only, its \<open>SeenQueries\<close> prunes everywhere; for both the queue that is left
  is a filter of the one before.
\<close>

definition offer ::
  "('t \<Rightarrow> 's \<Rightarrow> 's) \<Rightarrow> ('k \<Rightarrow> 't \<Rightarrow> 's \<Rightarrow> 's) \<Rightarrow> ('s \<Rightarrow> 'k \<Rightarrow> 'e option) \<Rightarrow> 'k \<Rightarrow> 't \<Rightarrow> 's \<Rightarrow> 's \<times> bool" where
  "offer prune push life k t s =
     (let s' = prune t s in if life s' k \<noteq> None then (s', False) else (push k t s', True))"

lemma drop_is_filter: "distinct xs \<Longrightarrow> drop n xs = filter (\<lambda>x. x \<in> set (drop n xs)) xs"
proof (induction xs arbitrary: n)
  case (Cons x xs)
  show ?case
  proof (cases n)
    case (Suc m)
    have "x \<notin> set (drop m xs)" using Cons.prems by (auto dest: in_set_dropD)
    with Suc Cons show ?thesis by simp
  qed simp
qed simp

locale fifo_cache =
  fixes prune :: "'t \<Rightarrow> 's \<Rightarrow> 's"
    and push :: "'k \<Rightarrow> 't \<Rightarrow> 's \<Rightarrow> 's"
    and order :: "'s \<Rightarrow> 'k list"
    and life :: "'s \<Rightarrow> 'k \<Rightarrow> 'e option"
    and live :: "'t \<Rightarrow> 'e \<Rightarrow> bool"
    and inv :: "'s \<Rightarrow> bool"
    and cap :: "'s \<Rightarrow> nat"
  assumes inv_shape: "inv s \<Longrightarrow> distinct (order s) \<and> set (order s) = dom (life s) \<and> length (order s) \<le> cap s"
    and prune_inv: "inv s \<Longrightarrow> inv (prune t s)"
    and prune_cap: "cap (prune t s) = cap s"
    and prune_order: "inv s \<Longrightarrow> \<exists>P. order (prune t s) = filter P (order s)"
    and prune_life: "inv s \<Longrightarrow> life (prune t s) k = (if k \<in> set (order (prune t s)) then life s k else None)"
    and prune_keeps: "inv s \<Longrightarrow> life s k = Some e \<Longrightarrow> live t e \<Longrightarrow> k \<in> set (order (prune t s))"
    and push_inv: "inv s \<Longrightarrow> life s k = None \<Longrightarrow> inv (push k t s)"
    and push_cap: "cap (push k t s) = cap s"
    and push_order: "inv s \<Longrightarrow> life s k = None \<Longrightarrow>
      order (push k t s) = drop (if cap s \<le> length (order s) then 1 else 0) (order s) @ [k]"
    and push_life: "inv s \<Longrightarrow> life s k = None \<Longrightarrow> j \<noteq> k \<Longrightarrow> j \<in> set (order (push k t s)) \<Longrightarrow>
      life (push k t s) j = life s j"
begin

lemma offer_cases:
  obtains (refused) "offer prune push life k t s = (prune t s, False)" "life (prune t s) k \<noteq> None"
  | (accepted) "offer prune push life k t s = (push k t (prune t s), True)" "life (prune t s) k = None"
  by (cases "life (prune t s) k") (auto simp: offer_def Let_def)

lemma kept_by_prune:
  assumes "inv s" and "life s j = Some e" and "live t e"
  shows "j \<in> set (order (prune t s))" and "life (prune t s) j = Some e"
    and "length (after j (order (prune t s))) \<le> length (after j (order s))"
proof -
  show j: "j \<in> set (order (prune t s))" using assms by (rule prune_keeps)
  then show "life (prune t s) j = Some e" using assms by (simp add: prune_life)
  from prune_order [OF assms(1), of t] obtain P where P: "order (prune t s) = filter P (order s)" by blast
  with j have "P j" by simp
  then show "length (after j (order (prune t s))) \<le> length (after j (order s))"
    unfolding P by (rule length_after_filter)
qed

lemma kept_by_push:
  assumes "inv s" and "life s k = None" and "life s j = Some e"
    and "Suc (length (after j (order s))) < cap s"
  shows "life (push k t s) j = Some e"
    and "length (after j (order (push k t s))) \<le> Suc (length (after j (order s)))"
proof -
  let ?n = "if cap s \<le> length (order s) then 1 else 0 :: nat"
  have j: "j \<in> set (order s)" "j \<noteq> k" "distinct (order s)"
    using assms(1-3) inv_shape [OF assms(1)] by auto
  have kept: "j \<in> set (drop ?n (order s))"
  proof (cases "cap s \<le> length (order s)")
    case True
    have "hd (order s) \<noteq> j"
    proof
      assume "hd (order s) = j"
      then have "length (after j (order s)) = length (order s) - 1"
        using j(1) by (metis length_after_hd list.set_cases list.distinct(1))
      with assms(4) True show False by simp
    qed
    with j(1) True show ?thesis by (cases "order s") auto
  qed (use j(1) in simp)
  note order = push_order [OF assms(1,2), of t]
  from kept have "j \<in> set (order (push k t s))" unfolding order by simp
  with assms(1-3) j(2) show "life (push k t s) j = Some e" using push_life by simp
  have "after j (order (push k t s)) = after j (order s) @ [k]"
    unfolding order using kept j(3) by (simp add: after_snoc after_drop)
  then show "length (after j (order (push k t s))) \<le> Suc (length (after j (order s)))" by simp
qed

lemma pushed_last:
  assumes "inv s" and "life s k = None"
  shows "life (push k t s) k \<noteq> None" and "after k (order (push k t s)) = []"
proof -
  have "inv (push k t s)" using assms by (rule push_inv)
  from inv_shape [OF this] push_order [OF assms] have "k \<in> dom (life (push k t s))" by (metis Un_iff insertI1 list.set(2) set_append)
  then show "life (push k t s) k \<noteq> None" by blast
  have "k \<notin> set (order s)" using assms inv_shape by auto
  then show "after k (order (push k t s)) = []"
    unfolding push_order [OF assms] by (intro after_snoc_new) (auto dest: in_set_dropD)
qed

sublocale replay_cache "offer prune push life" order life live inv cap
proof (unfold_locales, goal_cases)
  case (1 s k t)
  then show ?case by (cases rule: offer_cases [of k t s]) (auto simp: prune_inv push_inv)
next
  case (2 k t s)
  show ?case by (cases rule: offer_cases [of k t s]) (auto simp: prune_cap push_cap)
next
  case (5 s k e t)
  then show ?case using kept_by_prune(2) [of s k e t] by (simp add: offer_def Let_def)
next
  case (6 s k t)
  then show ?case
    by (cases rule: offer_cases [of k t s]) (auto simp: pushed_last prune_inv)
next
  case (7 s j e t k)
  note kept = kept_by_prune [OF 7(1-3)]
  from kept(3) 7(4) have room: "Suc (length (after j (order (prune t s)))) < cap (prune t s)"
    by (simp add: prune_cap)
  show ?case
  proof (cases rule: offer_cases [of k t s])
    case refused
    then show ?thesis using kept by simp
  next
    case accepted
    from kept_by_push [OF prune_inv [OF 7(1)] accepted(2) kept(2) room, of t] kept(3)
    show ?thesis unfolding accepted(1) by simp
  qed
qed (use inv_shape in auto)

end

end
