(* ===== verification/Agent_Replay.thy ===== *)
theory Agent_Replay
  imports Fifo_Cache Agent_Types
begin

text \<open>
  The two caches by which an agent recognises a message it has acted on: \<open>ReplayCache\<close> of
  \<open>podmesh-agent/src/service.rs\<close>, which holds the nonces of owner-signed requests, and
  \<open>SeenQueries\<close> of \<open>podmesh-agent/src/machine/seen.rs\<close>, which holds capacity queries by signer and
  id. Both are interpreted as \<open>fifo_cache\<close>. The last section compares the time an entry is kept with
  the time its message stays acceptable.
\<close>

section \<open>The nonces of owner-signed requests\<close>

definition MAX_REPLAY_ENTRIES :: nat where "MAX_REPLAY_ENTRIES = 16384"

record ReplayCache =
  rc_seen :: "(string, u64) hmap"
  rc_order :: "string list"

definition ReplayCache_default :: ReplayCache where
  "ReplayCache_default = \<lparr>rc_seen = [], rc_order = []\<rparr>"

text \<open>The \<open>while let Some(oldest) = self.order.front()\<close> loop of \<open>record\<close>.\<close>

fun drop_expired :: "u64 \<Rightarrow> string list \<Rightarrow> (string, u64) hmap \<Rightarrow> string list \<times> (string, u64) hmap" where
  "drop_expired now [] seen = ([], seen)"
| "drop_expired now (oldest # rest) seen =
     (case hm_get seen oldest of
        Some expiry \<Rightarrow>
          if expiry < now then drop_expired now rest (hm_remove oldest seen) else (oldest # rest, seen)
      | None \<Rightarrow> drop_expired now rest seen)"

definition ReplayCache_prune :: "u64 \<Rightarrow> ReplayCache \<Rightarrow> ReplayCache" where
  "ReplayCache_prune now c =
     (let (order, seen) = drop_expired now (rc_order c) (rc_seen c) in \<lparr>rc_seen = seen, rc_order = order\<rparr>)"

definition ReplayCache_push :: "string \<Rightarrow> u64 \<Rightarrow> ReplayCache \<Rightarrow> ReplayCache" where
  "ReplayCache_push key expires_at_secs c =
     (let c' = (if MAX_REPLAY_ENTRIES \<le> length (rc_order c) then
                  (case rc_order c of
                     [] \<Rightarrow> c
                   | evicted # rest \<Rightarrow> \<lparr>rc_seen = hm_remove evicted (rc_seen c), rc_order = rest\<rparr>)
                else c)
      in \<lparr>rc_seen = hm_insert key expires_at_secs (rc_seen c'), rc_order = rc_order c' @ [key]\<rparr>)"

definition ReplayCache_record :: "string \<Rightarrow> u64 \<Rightarrow> u64 \<Rightarrow> ReplayCache \<Rightarrow> ReplayCache \<times> unit res" where
  "ReplayCache_record key expires_at_secs now_secs c =
     (let c' = ReplayCache_prune now_secs c in
      if hm_contains (rc_seen c') key then (c', Err ''replayed request'')
      else (ReplayCache_push key expires_at_secs c', Ok ()))"

text \<open>The key of \<open>check_replay\<close>, \<open>format!("{operation}:{namespace}:{nonce}")\<close>.\<close>

definition replay_key :: "string \<Rightarrow> string \<Rightarrow> string \<Rightarrow> string" where
  "replay_key operation namespace nonce = operation @ '':'' @ namespace @ '':'' @ nonce"

section \<open>The queries an agent has answered\<close>

record SeenQueries =
  sq_entries :: "(string \<times> string, u64) hmap"
  sq_order :: "(string \<times> string) list"
  sq_capacity :: nat

definition SeenQueries_new :: "nat \<Rightarrow> SeenQueries" where
  "SeenQueries_new capacity = \<lparr>sq_entries = [], sq_order = [], sq_capacity = capacity\<rparr>"

definition SeenQueries_remove_expired :: "u64 \<Rightarrow> SeenQueries \<Rightarrow> SeenQueries" where
  "SeenQueries_remove_expired now_secs s =
     (let entries = hm_retain (\<lambda>_ expiry. now_secs \<le> expiry) (sq_entries s) in
      s\<lparr>sq_entries := entries, sq_order := filter (hm_contains entries) (sq_order s)\<rparr>)"

definition SeenQueries_push :: "string \<times> string \<Rightarrow> u64 \<Rightarrow> SeenQueries \<Rightarrow> SeenQueries" where
  "SeenQueries_push key expires_at_secs s =
     (let s' = (if length (sq_entries s) = sq_capacity s then
                  (case sq_order s of
                     [] \<Rightarrow> s
                   | evicted # rest \<Rightarrow> s\<lparr>sq_entries := hm_remove evicted (sq_entries s), sq_order := rest\<rparr>)
                else s)
      in s'\<lparr>sq_order := sq_order s' @ [key], sq_entries := hm_insert key expires_at_secs (sq_entries s')\<rparr>)"

definition SeenQueries_insert ::
  "string \<Rightarrow> string \<Rightarrow> u64 \<Rightarrow> u64 \<Rightarrow> SeenQueries \<Rightarrow> SeenQueries \<times> bool res" where
  "SeenQueries_insert signer query_id expires_at_secs now_secs s =
     (let s' = SeenQueries_remove_expired now_secs s; key = (signer, query_id) in
      if hm_contains (sq_entries s') key then (s', Ok False)
      else if 0 < sq_capacity s' then (SeenQueries_push key expires_at_secs s', Ok True)
      else (s', Err ''seen-query capacity is zero''))"

section \<open>Both are fifo caches\<close>

definition rc_inv :: "ReplayCache \<Rightarrow> bool" where
  "rc_inv c \<longleftrightarrow> hm_wf (rc_seen c) \<and> distinct (rc_order c) \<and> set (rc_order c) = hm_keys (rc_seen c)
     \<and> length (rc_order c) \<le> MAX_REPLAY_ENTRIES"

definition sq_inv :: "SeenQueries \<Rightarrow> bool" where
  "sq_inv s \<longleftrightarrow> 0 < sq_capacity s \<and> hm_wf (sq_entries s) \<and> distinct (sq_order s)
     \<and> set (sq_order s) = hm_keys (sq_entries s) \<and> length (sq_order s) \<le> sq_capacity s"

lemma drop_expired_spec:
  assumes "distinct q" and "set q = hm_keys m" and "hm_wf m" and "drop_expired now q m = (q', m')"
  shows "\<exists>n. q' = drop n q \<and> hm_wf m' \<and> set q' = hm_keys m'
    \<and> (\<forall>k. hm_get m' k = (if k \<in> set q' then hm_get m k else None))
    \<and> (\<forall>k \<in> set (take n q). \<exists>e. hm_get m k = Some e \<and> e < now)"
  using assms
proof (induction q arbitrary: m)
  case Nil
  then have "m = []" by (cases m) (auto simp: hm_keys_def)
  with Nil show ?case by auto
next
  case (Cons x q)
  then obtain e where e: "hm_get m x = Some e"
    by (metis domD hm_keys_dom list.set_intros(1))
  show ?case
  proof (cases "e < now")
    case False
    with Cons.prems e have "q' = x # q \<and> m' = m" by simp
    with Cons.prems show ?thesis
      by (intro exI [of _ 0]) (auto simp: hm_keys_dom domIff)
  next
    case True
    let ?m = "hm_remove x m"
    have loop: "drop_expired now q ?m = (q', m')" using Cons.prems True e by simp
    have "distinct q" and "set q = hm_keys ?m" and "hm_wf ?m" using Cons.prems by auto
    from Cons.IH [OF this loop] obtain n where n: "q' = drop n q" "hm_wf m'" "set q' = hm_keys m'"
      "\<And>k. hm_get m' k = (if k \<in> set q' then hm_get ?m k else None)"
      "\<And>k. k \<in> set (take n q) \<Longrightarrow> \<exists>e. hm_get ?m k = Some e \<and> e < now"
      by blast
    have "x \<notin> set q'" using Cons.prems n(1) by (auto dest: in_set_dropD)
    then have "hm_get m' k = (if k \<in> set q' then hm_get m k else None)" for k
      using n(4) [of k] by auto
    moreover have "\<exists>e. hm_get m k = Some e \<and> e < now" if "k \<in> set (take (Suc n) (x # q))" for k
      using that n(5) [of k] e True by (auto split: if_splits)
    ultimately show ?thesis using n by (intro exI [of _ "Suc n"]) simp
  qed
qed

lemma ReplayCache_prune_spec:
  assumes "rc_inv c"
  obtains n where "rc_order (ReplayCache_prune now c) = drop n (rc_order c)"
    and "rc_inv (ReplayCache_prune now c)"
    and "\<And>k. hm_get (rc_seen (ReplayCache_prune now c)) k =
      (if k \<in> set (drop n (rc_order c)) then hm_get (rc_seen c) k else None)"
    and "\<And>k e. hm_get (rc_seen c) k = Some e \<Longrightarrow> now \<le> e \<Longrightarrow> k \<in> set (drop n (rc_order c))"
proof -
  obtain q m where qm: "drop_expired now (rc_order c) (rc_seen c) = (q, m)" by (metis surj_pair)
  from assms have inv: "distinct (rc_order c)" "set (rc_order c) = hm_keys (rc_seen c)"
    "hm_wf (rc_seen c)" by (auto simp: rc_inv_def)
  from drop_expired_spec [OF inv qm] obtain n where n: "q = drop n (rc_order c)" "hm_wf m"
    "set q = hm_keys m" "\<And>k. hm_get m k = (if k \<in> set q then hm_get (rc_seen c) k else None)"
    "\<And>k. k \<in> set (take n (rc_order c)) \<Longrightarrow> \<exists>e. hm_get (rc_seen c) k = Some e \<and> e < now" by blast
  have eq: "ReplayCache_prune now c = \<lparr>rc_seen = m, rc_order = q\<rparr>"
    by (simp add: ReplayCache_prune_def qm)
  have "k \<in> set (drop n (rc_order c))" if "hm_get (rc_seen c) k = Some e" "now \<le> e" for k e
  proof -
    have "k \<in> set (rc_order c)" using that inv(2) by (auto simp: hm_keys_dom)
    then have "k \<in> set (take n (rc_order c)) \<or> k \<in> set (drop n (rc_order c))"
      by (metis Un_iff append_take_drop_id set_append)
    with n(5) [of k] that show ?thesis by auto
  qed
  moreover have "rc_inv \<lparr>rc_seen = m, rc_order = q\<rparr>" using assms n by (auto simp: rc_inv_def)
  ultimately show thesis using that [of n] n by (simp add: eq)
qed

interpretation replay: fifo_cache "\<lambda>(now, _). ReplayCache_prune now" "\<lambda>key (_, expires). ReplayCache_push key expires"
  rc_order "\<lambda>c. hm_get (rc_seen c)" "\<lambda>(now, _) expiry. now \<le> expiry" rc_inv "\<lambda>_. MAX_REPLAY_ENTRIES"
proof (unfold_locales, goal_cases)
  case (1 c)
  then show ?case by (auto simp: rc_inv_def hm_keys_dom)
next
  case (2 c t)
  then show ?case by (auto elim: ReplayCache_prune_spec split: prod.split)
next
  case (4 c t)
  then have "distinct (rc_order c)" by (simp add: rc_inv_def)
  moreover from 4 obtain n where "rc_order (ReplayCache_prune (fst t) c) = drop n (rc_order c)"
    by (rule ReplayCache_prune_spec)
  ultimately show ?case using drop_is_filter by (cases t) fastforce
next
  case (5 c t k)
  then show ?case by (cases t) (auto elim: ReplayCache_prune_spec [of c "fst t"])
next
  case (6 c k e t)
  then show ?case by (cases t) (auto elim: ReplayCache_prune_spec [of c "fst t"])
next
  case (7 c k t)
  then show ?case
    by (cases t; cases "rc_order c")
      (auto simp: rc_inv_def ReplayCache_push_def Let_def hm_keys_dom MAX_REPLAY_ENTRIES_def)
next
  case (9 c k t)
  then show ?case
    by (cases t; cases "rc_order c") (auto simp: rc_inv_def ReplayCache_push_def Let_def)
next
  case (10 c k j t)
  then show ?case
    by (cases t; cases "rc_order c") (auto simp: rc_inv_def ReplayCache_push_def Let_def split: if_splits)
qed auto

lemma hm_retain_self: "hm_wf m \<Longrightarrow> hm_get (hm_retain P m) k = Some v \<longleftrightarrow> hm_get m k = Some v \<and> P k v"
  by (auto simp: hm_get_retain split: option.splits if_splits)

lemma sq_inv_length: "sq_inv s \<Longrightarrow> length (sq_entries s) = length (sq_order s)"
  by (metis distinct_card hm_length_card sq_inv_def)

interpretation answered: fifo_cache "\<lambda>(now, _). SeenQueries_remove_expired now"
  "\<lambda>key (_, expires). SeenQueries_push key expires" sq_order "\<lambda>s. hm_get (sq_entries s)"
  "\<lambda>(now, _) expiry. now \<le> expiry" sq_inv sq_capacity
proof (unfold_locales, goal_cases)
  case (1 s)
  then show ?case by (auto simp: sq_inv_def hm_keys_dom)
next
  case (2 s t)
  then show ?case
    by (cases t) (auto simp: sq_inv_def SeenQueries_remove_expired_def Let_def hm_contains_iff
        dest: subsetD [OF hm_keys_retain_subset] intro: le_trans [OF length_filter_le])
next
  case (4 s t)
  then show ?case by (cases t) (auto simp: SeenQueries_remove_expired_def Let_def)
next
  case (5 s t k)
  then show ?case
    by (cases t) (auto simp: sq_inv_def SeenQueries_remove_expired_def Let_def hm_contains_iff hm_keys_dom
        hm_get_retain split: option.splits)
next
  case (6 s k e t)
  then have "k \<in> set (sq_order s)" by (auto simp: sq_inv_def hm_keys_dom)
  with 6 show ?case
    by (cases t) (auto simp: sq_inv_def SeenQueries_remove_expired_def Let_def hm_contains_def hm_get_retain)
next
  case (7 s k t)
  note len = sq_inv_length [OF 7(1)]
  with 7 show ?case
    by (cases t; cases "sq_order s")
      (auto simp: sq_inv_def SeenQueries_push_def Let_def hm_keys_dom)
next
  case (9 s k t)
  note len = sq_inv_length [OF 9(1)]
  with 9 show ?case
    by (cases t; cases "sq_order s") (auto simp: sq_inv_def SeenQueries_push_def Let_def)
next
  case (10 s k j t)
  then show ?case
    by (cases t; cases "sq_order s") (auto simp: sq_inv_def SeenQueries_push_def Let_def split: if_splits)
qed (auto simp: SeenQueries_remove_expired_def SeenQueries_push_def Let_def split: list.splits)

section \<open>Runs of the agent's cache\<close>

text \<open>One call is \<open>(key, expires_at_secs, now_secs)\<close>.\<close>

definition record_all :: "(string \<times> u64 \<times> u64) list \<Rightarrow> ReplayCache \<Rightarrow> ReplayCache" where
  "record_all calls c = fold (\<lambda>(key, expires, now) c. fst (ReplayCache_record key expires now c)) calls c"

lemma record_is_offer:
  "offer (\<lambda>(now, _). ReplayCache_prune now) (\<lambda>key (_, expires). ReplayCache_push key expires)
     (\<lambda>c. hm_get (rc_seen c)) key (now, expires) c =
   (fst (ReplayCache_record key expires now c), is_ok (snd (ReplayCache_record key expires now c)))"
  by (simp add: offer_def ReplayCache_record_def Let_def hm_contains_def)

lemma record_all_is_run:
  "record_all calls c = fold (\<lambda>(k, t) s. fst (offer (\<lambda>(now, _). ReplayCache_prune now)
     (\<lambda>key (_, expires). ReplayCache_push key expires) (\<lambda>c. hm_get (rc_seen c)) k t s))
     (map (\<lambda>(key, expires, now). (key, (now, expires))) calls) c"
  unfolding record_all_def by (induction calls arbitrary: c) (auto simp: record_is_offer)

lemma rc_inv_default: "rc_inv ReplayCache_default"
  by (simp add: rc_inv_def ReplayCache_default_def)

lemma rc_inv_record: "rc_inv c \<Longrightarrow> rc_inv (fst (ReplayCache_record key expires now c))"
  using replay.step_inv [of c key "(now, expires)"] by (simp add: record_is_offer)

lemma rc_inv_record_all: "rc_inv c \<Longrightarrow> rc_inv (record_all calls c)"
  unfolding record_all_is_run by (rule replay.run_inv)

lemma record_stores:
  assumes "rc_inv c" and "snd (ReplayCache_record key expires now c) = Ok ()"
  shows "hm_get (rc_seen (fst (ReplayCache_record key expires now c))) key = Some expires"
  using assms by (auto simp: ReplayCache_record_def ReplayCache_push_def Let_def split: if_splits)

lemma record_unseen_accepted:
  assumes "rc_inv c" and "key \<notin> hm_keys (rc_seen c)"
  shows "snd (ReplayCache_record key expires now c) = Ok ()"
proof -
  from assms(1) obtain n where "\<And>k. hm_get (rc_seen (ReplayCache_prune now c)) k =
      (if k \<in> set (drop n (rc_order c)) then hm_get (rc_seen c) k else None)"
    by (rule ReplayCache_prune_spec) blast
  with assms(2) show ?thesis
    by (simp add: ReplayCache_record_def Let_def hm_contains_def hm_keys_dom domIff)
qed

section \<open>Properties\<close>

text \<open>C22: once the agent has recorded a request, the same request is refused until its expiry time,
  through any further requests too few to fill the cache, whatever their own expiry times and
  however they interleave.\<close>

theorem agent_request_not_replayed:
  assumes "rc_inv c" and "snd (ReplayCache_record key expires now c) = Ok ()"
    and "\<forall>(key', expires', t) \<in> set calls. t \<le> expires" and "length calls < MAX_REPLAY_ENTRIES"
    and "now' \<le> expires"
  shows "snd (ReplayCache_record key expires' now'
      (record_all calls (fst (ReplayCache_record key expires now c)))) = Err ''replayed request''"
proof -
  let ?c = "record_all calls (fst (ReplayCache_record key expires now c))"
  let ?ops = "map (\<lambda>(key, expires, now). (key, (now, expires))) calls"
  have live: "\<forall>(j, u) \<in> set ?ops. (case u of (now, _) \<Rightarrow> (\<le>) now) expires"
    using assms(3) by (auto split: prod.splits)
  have "\<not> is_ok (snd (ReplayCache_record key expires' now' ?c))"
    using replay.no_replay [of c key "(now, expires)" expires ?ops "(now', expires')", OF assms(1) _ _ live]
      assms record_stores [OF assms(1,2)]
    by (simp add: record_is_offer record_all_is_run)
  then show ?thesis by (auto simp: ReplayCache_record_def Let_def split: if_splits)
qed

theorem agent_request_not_replayed_witness:
  "snd (ReplayCache_record ''k'' 1030 1020
     (record_all [(''other'', 1300, 1015)] (fst (ReplayCache_record ''k'' 1030 1010 ReplayCache_default))))
   = Err ''replayed request''"
proof -
  have "snd (ReplayCache_record ''k'' 1030 1010 ReplayCache_default) = Ok ()"
    by (rule record_unseen_accepted [OF rc_inv_default]) (simp add: ReplayCache_default_def)
  from agent_request_not_replayed [OF rc_inv_default this, of "[(''other'', 1300, 1015)]" 1020 1030]
  show ?thesis by (simp add: MAX_REPLAY_ENTRIES_def)
qed

text \<open>C23: the cache never turns a fresh request away and never outgrows its bound: from the empty
  cache, after any history of calls, a key that is not recorded is accepted, at most 16384 keys are
  held, and each of them once. A flood of signed messages cannot lock an owner out.\<close>

theorem replay_cache_never_blocks:
  assumes "key \<notin> hm_keys (rc_seen (record_all calls ReplayCache_default))"
  shows "snd (ReplayCache_record key expires now (record_all calls ReplayCache_default)) = Ok ()
    \<and> length (rc_seen (record_all calls ReplayCache_default)) \<le> 16384
    \<and> hm_wf (rc_seen (record_all calls ReplayCache_default))"
proof -
  let ?c = "record_all calls ReplayCache_default"
  have inv: "rc_inv ?c" by (rule rc_inv_record_all [OF rc_inv_default])
  then have "length (rc_seen ?c) = length (rc_order ?c)"
    by (metis distinct_card hm_length_card rc_inv_def)
  with inv record_unseen_accepted [OF inv assms] show ?thesis
    by (simp add: rc_inv_def MAX_REPLAY_ENTRIES_def)
qed

theorem replay_cache_never_blocks_witness:
  "snd (ReplayCache_record ''new'' 1030 1010 (record_all [(''old'', 1030, 1010)] ReplayCache_default)) = Ok ()"
proof -
  have "''new'' \<notin> hm_keys (rc_seen (record_all [(''old'', 1030, 1010)] ReplayCache_default))"
    by (simp add: record_all_def ReplayCache_record_def ReplayCache_prune_def ReplayCache_push_def
        ReplayCache_default_def hm_contains_def MAX_REPLAY_ENTRIES_def hm_insert_def hm_keys_def)
  from replay_cache_never_blocks [OF this, of 1030 1010] show ?thesis by simp
qed

text \<open>C24: the cache forgets a request before the agent stops accepting it. \<open>validate_validity_window\<close>
  admits a message up to 60 seconds past its expiry, while \<open>record\<close> drops a nonce as soon as its
  expiry has passed. A request recorded by an idle agent is accepted a second time anywhere in that
  minute: both the window check and the replay check let it through.\<close>

theorem replay_gap_after_expiry:
  assumes "validate_validity_window issued expires now what = Ok ()" and "now \<le> expires"
    and "unat expires < unat now'" and "unat now' \<le> unat expires + 60"
  shows "validate_validity_window issued expires now' what = Ok ()
    \<and> snd (ReplayCache_record key expires now ReplayCache_default) = Ok ()
    \<and> snd (ReplayCache_record key expires now' (fst (ReplayCache_record key expires now ReplayCache_default))) = Ok ()"
proof -
  have first: "ReplayCache_record key expires now ReplayCache_default =
      (\<lparr>rc_seen = [(key, expires)], rc_order = [key]\<rparr>, Ok ())"
    by (simp add: ReplayCache_record_def ReplayCache_prune_def ReplayCache_push_def ReplayCache_default_def
        hm_contains_def MAX_REPLAY_ENTRIES_def hm_insert_def)
  have "expires < now'" using assms(3) by (simp add: word_less_nat_alt)
  then have "snd (ReplayCache_record key expires now' \<lparr>rc_seen = [(key, expires)], rc_order = [key]\<rparr>) = Ok ()"
    by (simp add: ReplayCache_record_def ReplayCache_prune_def hm_contains_def)
  moreover have "validate_validity_window issued expires now' what = Ok ()"
    using assms unfolding validity_window_Ok word_le_nat_alt by linarith
  ultimately show ?thesis by (simp add: first)
qed

theorem replay_gap_after_expiry_witness:
  "validate_validity_window 1000 1030 1060 ''deployment grant'' = Ok ()
    \<and> snd (ReplayCache_record ''k'' 1030 1060 (fst (ReplayCache_record ''k'' 1030 1010 ReplayCache_default))) = Ok ()"
proof -
  have "validate_validity_window 1000 1030 1010 ''deployment grant'' = Ok ()"
    by (simp add: validity_window_Ok)
  from replay_gap_after_expiry [OF this, of 1060 "''k''"] show ?thesis by simp
qed

end
