(* ===== verification/Capacity.thy ===== *)
theory Capacity
  imports Agent_Types
begin

text \<open>
  Capacity queries and offers, \<open>shared/protocol/src/capacity.rs\<close>: a scheduler broadcasts what a
  workload needs, agents that can host it answer with what they have left. Each message carries a
  signed endpoint record of its sender, under the same key that signs the message.
  \<open>capacity_wire\<close> holds the primitives and postcard's encoders and decoders of the two types.
\<close>

definition CAPACITY_PROTOCOL_VERSION :: u16 where "CAPACITY_PROTOCOL_VERSION = 1"
definition MAX_CAPACITY_MESSAGE_BYTES :: nat where "MAX_CAPACITY_MESSAGE_BYTES = 16 * 1024"
definition MAX_CAPACITY_QUERY_LIFETIME_SECS :: u64 where "MAX_CAPACITY_QUERY_LIFETIME_SECS = 15"
definition MAX_CAPACITY_OFFER_LIFETIME_SECS :: u64 where "MAX_CAPACITY_OFFER_LIFETIME_SECS = 15"
definition MAX_CAPACITY_CLOCK_SKEW_SECS :: u64 where "MAX_CAPACITY_CLOCK_SKEW_SECS = 5"
definition MAX_CAPACITY_CAPABILITIES :: nat where "MAX_CAPACITY_CAPABILITIES = 32"
definition MAX_CAPACITY_CAPABILITY_LEN :: nat where "MAX_CAPACITY_CAPABILITY_LEN = 64"
definition MAX_CAPACITY_EXCLUDED_ENDPOINTS :: nat where "MAX_CAPACITY_EXCLUDED_ENDPOINTS = 64"
definition MAX_CAPACITY_ID_LEN :: nat where "MAX_CAPACITY_ID_LEN = 128"
definition MAX_CAPACITY_NONCE_LEN :: nat where "MAX_CAPACITY_NONCE_LEN = 128"

lemmas capacity_consts =
  CAPACITY_PROTOCOL_VERSION_def MAX_CAPACITY_MESSAGE_BYTES_def MAX_CAPACITY_QUERY_LIFETIME_SECS_def
  MAX_CAPACITY_OFFER_LIFETIME_SECS_def MAX_CAPACITY_CLOCK_SKEW_SECS_def MAX_CAPACITY_CAPABILITIES_def
  MAX_CAPACITY_CAPABILITY_LEN_def MAX_CAPACITY_EXCLUDED_ENDPOINTS_def MAX_CAPACITY_ID_LEN_def
  MAX_CAPACITY_NONCE_LEN_def

record CapacityQuery =
  cq_version :: u16
  cq_query_id :: string
  cq_nonce :: string
  cq_cpu_milli :: u32
  cq_memory_bytes :: u64
  cq_storage_bytes :: u64
  cq_required_capabilities :: "string list"
  cq_excluded_endpoint_ids :: "bytes list"
  cq_reply_endpoint :: EndpointRecord
  cq_issued_at_secs :: u64
  cq_expires_at_secs :: u64
  cq_signing_pubkey :: string
  cq_signature :: string

record CapacityOffer =
  co_version :: u16
  co_query_id :: string
  co_agent_endpoint :: EndpointRecord
  co_kem_pubkey :: string
  co_available_cpu_milli :: u32
  co_available_memory_bytes :: u64
  co_available_storage_bytes :: u64
  co_capabilities :: "string list"
  co_issued_at_secs :: u64
  co_expires_at_secs :: u64
  co_signing_pubkey :: string
  co_signature :: string

record capacity_wire =
  cw_crates :: crates
  cw_endpoint :: "EndpointRecord \<Rightarrow> bytes res"
  cw_query :: "CapacityQuery \<Rightarrow> bytes res"
  cw_offer :: "CapacityOffer \<Rightarrow> bytes res"
  cw_parse_query :: "bytes \<Rightarrow> CapacityQuery res"
  cw_parse_offer :: "bytes \<Rightarrow> CapacityOffer res"

section \<open>Shared checks\<close>

definition validate_common :: "u16 \<Rightarrow> string \<Rightarrow> u64 \<Rightarrow> u64 \<Rightarrow> u64 \<Rightarrow> u64 \<Rightarrow> unit res" where
  "validate_common version ident issued_at_secs expires_at_secs max_lifetime_secs now_secs =
     ensure (version = CAPACITY_PROTOCOL_VERSION) ''unsupported capacity protocol version'' (
     ensure (ident \<noteq> [] \<and> length ident \<le> MAX_CAPACITY_ID_LEN) ''capacity ID length is invalid'' (
     ensure (issued_at_secs \<le> saturating_add now_secs MAX_CAPACITY_CLOCK_SKEW_SECS)
       ''capacity message issue time is too far in the future'' (
     ensure (now_secs \<le> expires_at_secs) ''capacity message expired'' (
     ensure (issued_at_secs \<le> expires_at_secs) ''capacity expiry precedes issue time'' (
     ensure (saturating_sub expires_at_secs issued_at_secs \<le> max_lifetime_secs)
       ''capacity message lifetime exceeds limit'' (Ok ()))))))"

fun capabilities_loop :: "string list \<Rightarrow> string list \<Rightarrow> unit res" where
  "capabilities_loop unique [] = Ok ()"
| "capabilities_loop unique (capability # rest) =
     ensure (capability \<noteq> [] \<and> length capability \<le> MAX_CAPACITY_CAPABILITY_LEN)
       ''capacity capability length is invalid'' (
     ensure (capability \<notin> set unique) ''duplicate capacity capability''
       (capabilities_loop (capability # unique) rest))"

definition validate_capabilities :: "string list \<Rightarrow> unit res" where
  "validate_capabilities capabilities =
     ensure (length capabilities \<le> MAX_CAPACITY_CAPABILITIES) ''too many capacity capabilities''
       (capabilities_loop [] capabilities)"

fun exclusions_loop :: "bytes list \<Rightarrow> bytes list \<Rightarrow> unit res" where
  "exclusions_loop unique [] = Ok ()"
| "exclusions_loop unique (endpoint_id # rest) =
     ensure (length endpoint_id = IROH_ENDPOINT_ID_BYTES)
       ''excluded endpoint ID must contain 32 bytes'' (
     ensure (endpoint_id \<notin> set unique) ''duplicate excluded endpoint ID''
       (exclusions_loop (endpoint_id # unique) rest))"

definition validate_exclusions :: "bytes list \<Rightarrow> unit res" where
  "validate_exclusions endpoint_ids =
     ensure (length endpoint_ids \<le> MAX_CAPACITY_EXCLUDED_ENDPOINTS) ''too many excluded endpoints''
       (exclusions_loop [] endpoint_ids)"

definition validate_signature_fields :: "crates \<Rightarrow> string \<Rightarrow> string \<Rightarrow> unit res" where
  "validate_signature_fields C signing_pubkey signature =
     try_r (b64_decode C signing_pubkey) (\<lambda>pk.
     ensure (length pk = 32) ''signing key must decode to 32 bytes'' (
     try_r (b64_decode C signature) (\<lambda>sig.
     ensure (length sig = 64) ''signature must decode to 64 bytes'' (Ok ()))))"

definition verify_signature ::
  "crates \<Rightarrow> string \<Rightarrow> string \<Rightarrow> SignatureDomain \<Rightarrow> bytes \<Rightarrow> unit res" where
  "verify_signature C signing_pubkey signature d canonical =
     try_r (b64_decode C signing_pubkey) (\<lambda>public.
     try_r (b64_decode C signature) (\<lambda>sig. verify_domain C public d canonical sig))"

definition validate_message_size :: "bytes \<Rightarrow> unit res" where
  "validate_message_size b =
     ensure (b \<noteq> [] \<and> length b \<le> MAX_CAPACITY_MESSAGE_BYTES)
       ''capacity message encoded size is invalid'' (Ok ())"

definition encode_bounded :: "bytes res \<Rightarrow> string \<Rightarrow> bytes res" where
  "encode_bounded encoded field =
     try_r (ctx (''serialize '' @ field) encoded) (\<lambda>b.
     try_r (validate_message_size b) (\<lambda>_. Ok b))"

section \<open>Queries\<close>

definition CapacityQuery_validate_unsigned :: "capacity_wire \<Rightarrow> CapacityQuery \<Rightarrow> u64 \<Rightarrow> unit res" where
  "CapacityQuery_validate_unsigned W q now_secs =
     try_r (validate_common (cq_version q) (cq_query_id q) (cq_issued_at_secs q) (cq_expires_at_secs q)
         MAX_CAPACITY_QUERY_LIFETIME_SECS now_secs) (\<lambda>_.
     ensure (cq_nonce q \<noteq> [] \<and> length (cq_nonce q) \<le> MAX_CAPACITY_NONCE_LEN)
       ''capacity query nonce length is invalid'' (
     ensure (0 < cq_cpu_milli q \<and> 0 < cq_memory_bytes q \<and> 0 < cq_storage_bytes q)
       ''capacity query resources must be non-zero'' (
     try_r (validate_capabilities (cq_required_capabilities q)) (\<lambda>_.
     try_r (validate_exclusions (cq_excluded_endpoint_ids q)) (\<lambda>_.
     try_r (EndpointRecord_verify (cw_crates W) (cw_endpoint W) (cq_reply_endpoint q) now_secs) (\<lambda>_.
     ensure (er_signing_pubkey (cq_reply_endpoint q) = cq_signing_pubkey q)
       ''capacity query signer is not bound to reply endpoint'' (Ok ())))))))"

definition CapacityQuery_validate :: "capacity_wire \<Rightarrow> CapacityQuery \<Rightarrow> u64 \<Rightarrow> unit res" where
  "CapacityQuery_validate W q now_secs =
     try_r (CapacityQuery_validate_unsigned W q now_secs) (\<lambda>_.
       validate_signature_fields (cw_crates W) (cq_signing_pubkey q) (cq_signature q))"

definition CapacityQuery_canonical_bytes :: "capacity_wire \<Rightarrow> CapacityQuery \<Rightarrow> bytes res" where
  "CapacityQuery_canonical_bytes W q =
     encode_bounded (cw_query W (q\<lparr>cq_signature := []\<rparr>)) ''canonical capacity query''"

definition CapacityQuery_sign ::
  "capacity_wire \<Rightarrow> CapacityQuery \<Rightarrow> bytes \<Rightarrow> bytes \<Rightarrow> u64 \<Rightarrow> CapacityQuery res" where
  "CapacityQuery_sign W q signing_public signing_private now_secs =
     (let q1 = q\<lparr>cq_signing_pubkey := b64_encode (cw_crates W) signing_public, cq_signature := []\<rparr> in
      try_r (CapacityQuery_validate_unsigned W q1 now_secs) (\<lambda>_.
      try_r (CapacityQuery_canonical_bytes W q1) (\<lambda>b.
      try_r (sign_domain (cw_crates W) signing_private D_CapacityQuery b) (\<lambda>sig.
        let q2 = q1\<lparr>cq_signature := b64_encode (cw_crates W) sig\<rparr> in
        try_r (CapacityQuery_validate W q2 now_secs) (\<lambda>_. Ok q2)))))"

definition CapacityQuery_verify :: "capacity_wire \<Rightarrow> CapacityQuery \<Rightarrow> u64 \<Rightarrow> unit res" where
  "CapacityQuery_verify W q now_secs =
     try_r (CapacityQuery_validate W q now_secs) (\<lambda>_.
     try_r (CapacityQuery_canonical_bytes W q) (\<lambda>b.
       verify_signature (cw_crates W) (cq_signing_pubkey q) (cq_signature q) D_CapacityQuery b))"

definition CapacityQuery_to_bytes :: "capacity_wire \<Rightarrow> CapacityQuery \<Rightarrow> u64 \<Rightarrow> bytes res" where
  "CapacityQuery_to_bytes W q now_secs =
     try_r (CapacityQuery_verify W q now_secs) (\<lambda>_. encode_bounded (cw_query W q) ''capacity query'')"

definition CapacityQuery_from_bytes :: "capacity_wire \<Rightarrow> bytes \<Rightarrow> u64 \<Rightarrow> CapacityQuery res" where
  "CapacityQuery_from_bytes W b now_secs =
     try_r (validate_message_size b) (\<lambda>_.
     try_r (ctx ''decode capacity query'' (cw_parse_query W b)) (\<lambda>q.
     try_r (CapacityQuery_verify W q now_secs) (\<lambda>_. Ok q)))"

section \<open>Offers\<close>

definition CapacityOffer_validate_unsigned :: "capacity_wire \<Rightarrow> CapacityOffer \<Rightarrow> u64 \<Rightarrow> unit res" where
  "CapacityOffer_validate_unsigned W f now_secs =
     try_r (validate_common (co_version f) (co_query_id f) (co_issued_at_secs f) (co_expires_at_secs f)
         MAX_CAPACITY_OFFER_LIFETIME_SECS now_secs) (\<lambda>_.
     try_r (EndpointRecord_verify (cw_crates W) (cw_endpoint W) (co_agent_endpoint f) now_secs) (\<lambda>_.
     ensure (er_signing_pubkey (co_agent_endpoint f) = co_signing_pubkey f)
       ''capacity offer signer is not bound to agent endpoint'' (
     try_r (b64_decode (cw_crates W) (co_kem_pubkey f)) (\<lambda>kem_public.
     ensure (length kem_public = 32) ''KEM public key must decode to 32 bytes''
       (validate_capabilities (co_capabilities f))))))"

definition CapacityOffer_validate :: "capacity_wire \<Rightarrow> CapacityOffer \<Rightarrow> u64 \<Rightarrow> unit res" where
  "CapacityOffer_validate W f now_secs =
     try_r (CapacityOffer_validate_unsigned W f now_secs) (\<lambda>_.
       validate_signature_fields (cw_crates W) (co_signing_pubkey f) (co_signature f))"

definition CapacityOffer_canonical_bytes :: "capacity_wire \<Rightarrow> CapacityOffer \<Rightarrow> bytes res" where
  "CapacityOffer_canonical_bytes W f =
     encode_bounded (cw_offer W (f\<lparr>co_signature := []\<rparr>)) ''canonical capacity offer''"

definition CapacityOffer_sign ::
  "capacity_wire \<Rightarrow> CapacityOffer \<Rightarrow> bytes \<Rightarrow> bytes \<Rightarrow> u64 \<Rightarrow> CapacityOffer res" where
  "CapacityOffer_sign W f signing_public signing_private now_secs =
     (let f1 = f\<lparr>co_signing_pubkey := b64_encode (cw_crates W) signing_public, co_signature := []\<rparr> in
      try_r (CapacityOffer_validate_unsigned W f1 now_secs) (\<lambda>_.
      try_r (CapacityOffer_canonical_bytes W f1) (\<lambda>b.
      try_r (sign_domain (cw_crates W) signing_private D_CapacityOffer b) (\<lambda>sig.
        let f2 = f1\<lparr>co_signature := b64_encode (cw_crates W) sig\<rparr> in
        try_r (CapacityOffer_validate W f2 now_secs) (\<lambda>_. Ok f2)))))"

definition CapacityOffer_verify :: "capacity_wire \<Rightarrow> CapacityOffer \<Rightarrow> u64 \<Rightarrow> unit res" where
  "CapacityOffer_verify W f now_secs =
     try_r (CapacityOffer_validate W f now_secs) (\<lambda>_.
     try_r (CapacityOffer_canonical_bytes W f) (\<lambda>b.
       verify_signature (cw_crates W) (co_signing_pubkey f) (co_signature f) D_CapacityOffer b))"

definition CapacityOffer_to_bytes :: "capacity_wire \<Rightarrow> CapacityOffer \<Rightarrow> u64 \<Rightarrow> bytes res" where
  "CapacityOffer_to_bytes W f now_secs =
     try_r (CapacityOffer_verify W f now_secs) (\<lambda>_. encode_bounded (cw_offer W f) ''capacity offer'')"

definition CapacityOffer_from_bytes :: "capacity_wire \<Rightarrow> bytes \<Rightarrow> u64 \<Rightarrow> CapacityOffer res" where
  "CapacityOffer_from_bytes W b now_secs =
     try_r (validate_message_size b) (\<lambda>_.
     try_r (ctx ''decode capacity offer'' (cw_parse_offer W b)) (\<lambda>f.
     try_r (CapacityOffer_verify W f now_secs) (\<lambda>_. Ok f)))"

section \<open>Both honour the contract of signed messages\<close>

interpretation query: signed_message "cw_crates W" D_CapacityQuery "CapacityQuery_canonical_bytes W"
  cq_signing_pubkey cq_signature "\<lambda>s q. q\<lparr>cq_signature := s\<rparr>"
  "\<lambda>q. is_ok (CapacityQuery_validate_unsigned W q now)" "\<lambda>q. CapacityQuery_verify W q now"
  for W now
  by unfold_locales
    (auto simp: CapacityQuery_verify_def CapacityQuery_validate_def validate_signature_fields_def
      verify_signature_def CapacityQuery_canonical_bytes_def CapacityQuery_validate_unsigned_def is_ok_iff)

interpretation offer: signed_message "cw_crates W" D_CapacityOffer "CapacityOffer_canonical_bytes W"
  co_signing_pubkey co_signature "\<lambda>s f. f\<lparr>co_signature := s\<rparr>"
  "\<lambda>f. is_ok (CapacityOffer_validate_unsigned W f now)" "\<lambda>f. CapacityOffer_verify W f now"
  for W now
  by unfold_locales
    (auto simp: CapacityOffer_verify_def CapacityOffer_validate_def validate_signature_fields_def
      verify_signature_def CapacityOffer_canonical_bytes_def CapacityOffer_validate_unsigned_def is_ok_iff)

lemma validate_common_Ok:
  "validate_common v ident issued expires life now = Ok () \<longleftrightarrow>
     v = 1 \<and> ident \<noteq> [] \<and> length ident \<le> 128 \<and> unat issued \<le> unat now + 5
     \<and> unat now \<le> unat expires \<and> unat issued \<le> unat expires \<and> unat expires \<le> unat issued + unat life"
  using unat_le_max [of issued]
  by (auto simp: validate_common_def capacity_consts word_le_nat_alt unat_saturating_add unat_saturating_sub)

lemma CapacityOffer_sign_verifies:
  assumes "base64_law (cw_crates W)" and "ed_key (cw_crates W) sk"
    and "CapacityOffer_sign W f (ed_public (cw_crates W) sk) sk now = Ok f'"
  shows "CapacityOffer_verify W f' now = Ok ()"
proof -
  let ?C = "cw_crates W"
  let ?f = "f\<lparr>co_signing_pubkey := b64_encode ?C (ed_public ?C sk), co_signature := []\<rparr>"
  from assms(3) obtain b sig where parts: "CapacityOffer_validate_unsigned W ?f now = Ok ()"
    "CapacityOffer_canonical_bytes W ?f = Ok b" "sign_domain ?C sk D_CapacityOffer b = Ok sig"
    "f' = ?f\<lparr>co_signature := b64_encode ?C sig\<rparr>"
    by (auto simp: CapacityOffer_sign_def Let_def)
  from offer.sign_then_verify [where m = ?f and b = b and now = now, OF assms(1,2)] parts show ?thesis
    by (auto simp: is_ok_iff)
qed

end
