(* ===== verification/Workload_Connector.thy ===== *)
theory Workload_Connector
  imports Agent_Requests
begin

text \<open>
  The frames between an agent and the connector inside a workload,
  \<open>shared/protocol/src/workload_connector.rs\<close>: requests to inspect, install an identity or seed a
  peer, and the identity report a connector signs with its transport key over the agent's challenge.
  \<open>connector_wire\<close> adds postcard for the report and serde's JSON for the frames to the environment of
  \<open>Service_Discovery\<close>. The length-prefixed stream I/O (\<open>read_frame\<close>, \<open>write_frame\<close>) is not modelled
  beyond its size check.
\<close>

definition CONNECTOR_CONTROL_VERSION :: u16 where "CONNECTOR_CONTROL_VERSION = 2"
definition MAX_CONNECTOR_FRAME_BYTES :: nat where "MAX_CONNECTOR_FRAME_BYTES = 64 * 1024"
definition CONNECTOR_CHALLENGE_BYTES :: nat where "CONNECTOR_CHALLENGE_BYTES = 32"

definition inspection_challenge :: "crates \<Rightarrow> string \<Rightarrow> bytes" where
  "inspection_challenge C nonce =
     blake3_derive_key C ''podmesh/connector/inspection-challenge/v1'' (str_bytes nonce)"

record ConnectorRequest =
  cnq_version :: u16
  cnq_challenge :: bytes
  cnq_install_identity :: "WorkloadIdentity option"
  cnq_seed_peer :: "ReplicaServiceRecord option"

record ConnectorIdentityReport =
  cnr_owner_public_key_b64 :: string
  cnr_workload_name :: string
  cnr_workload_id :: string
  cnr_manifest_id :: string
  cnr_replica_index :: u32
  cnr_replica_count :: u32
  cnr_challenge :: bytes
  cnr_endpoint :: EndpointRecord
  cnr_credential_expires_at_secs :: "u64 option"
  cnr_credential :: "WorkloadIdentity option"
  cnr_service_record :: "ReplicaServiceRecord option"
  cnr_transport_signature :: string

datatype ConnectorError = Unavailable | Unsupported | ConnectorRejected

record ConnectorResponse =
  cns_version :: u16
  cns_identity :: "ConnectorIdentityReport option"
  cns_error :: "ConnectorError option"

record 'tok connector_wire =
  cn_env :: "'tok service_env"
  cn_pc_report :: "ConnectorIdentityReport \<Rightarrow> bytes res"
  cn_js_request :: "ConnectorRequest \<Rightarrow> bytes res"
  cn_jd_request :: "bytes \<Rightarrow> ConnectorRequest res"
  cn_js_response :: "ConnectorResponse \<Rightarrow> bytes res"
  cn_jd_response :: "bytes \<Rightarrow> ConnectorResponse res"

section \<open>Frames\<close>

definition validate_size :: "nat \<Rightarrow> unit res" where
  "validate_size len =
     ensure (0 < len \<and> len \<le> MAX_CONNECTOR_FRAME_BYTES) ''invalid connector frame size'' (Ok ())"

definition connector_encode :: "bytes res \<Rightarrow> bytes res" where
  "connector_encode encoded = try_r encoded (\<lambda>b. try_r (validate_size (length b)) (\<lambda>_. Ok b))"

definition connector_decode :: "(bytes \<Rightarrow> 'a res) \<Rightarrow> bytes \<Rightarrow> 'a res" where
  "connector_decode dec b =
     try_r (validate_size (length b)) (\<lambda>_. ctx ''decode connector frame'' (dec b))"

section \<open>Requests\<close>

definition ConnectorRequest_inspect :: "bytes \<Rightarrow> ConnectorRequest" where
  "ConnectorRequest_inspect challenge =
     \<lparr>cnq_version = CONNECTOR_CONTROL_VERSION, cnq_challenge = challenge, cnq_install_identity = None,
      cnq_seed_peer = None\<rparr>"

definition ConnectorRequest_install :: "bytes \<Rightarrow> WorkloadIdentity \<Rightarrow> ConnectorRequest" where
  "ConnectorRequest_install challenge identity =
     \<lparr>cnq_version = CONNECTOR_CONTROL_VERSION, cnq_challenge = challenge,
      cnq_install_identity = Some identity, cnq_seed_peer = None\<rparr>"

definition ConnectorRequest_seed :: "bytes \<Rightarrow> ReplicaServiceRecord \<Rightarrow> ConnectorRequest" where
  "ConnectorRequest_seed challenge peer =
     \<lparr>cnq_version = CONNECTOR_CONTROL_VERSION, cnq_challenge = challenge, cnq_install_identity = None,
      cnq_seed_peer = Some peer\<rparr>"

definition ConnectorRequest_validate :: "'tok connector_wire \<Rightarrow> ConnectorRequest \<Rightarrow> unit res" where
  "ConnectorRequest_validate W q =
     ensure (\<not> (cnq_install_identity q \<noteq> None \<and> cnq_seed_peer q \<noteq> None))
       ''ambiguous connector mutation'' (
     try_r (case cnq_seed_peer q of
         None \<Rightarrow> Ok ()
       | Some peer \<Rightarrow> try_r (ReplicaServiceRecord_to_bytes (cn_env W) peer) (\<lambda>_. Ok ())) (\<lambda>_.
     ensure (cnq_version q = CONNECTOR_CONTROL_VERSION) ''unsupported connector request version'' (
     case cnq_install_identity q of
       None \<Rightarrow> Ok ()
     | Some identity \<Rightarrow> try_r (WorkloadIdentity_to_bytes (se_json (cn_env W)) identity) (\<lambda>_. Ok ()))))"

definition ConnectorRequest_to_bytes :: "'tok connector_wire \<Rightarrow> ConnectorRequest \<Rightarrow> bytes res" where
  "ConnectorRequest_to_bytes W q =
     try_r (ConnectorRequest_validate W q) (\<lambda>_. connector_encode (cn_js_request W q))"

definition ConnectorRequest_from_bytes :: "'tok connector_wire \<Rightarrow> bytes \<Rightarrow> ConnectorRequest res" where
  "ConnectorRequest_from_bytes W b =
     try_r (connector_decode (cn_jd_request W) b) (\<lambda>q.
     try_r (ConnectorRequest_validate W q) (\<lambda>_. Ok q))"

section \<open>Identity reports\<close>

definition ConnectorIdentityReport_canonical_bytes ::
  "'tok connector_wire \<Rightarrow> ConnectorIdentityReport \<Rightarrow> bytes res" where
  "ConnectorIdentityReport_canonical_bytes W r = cn_pc_report W (r\<lparr>cnr_transport_signature := []\<rparr>)"

definition ConnectorIdentityReport_validate ::
  "'tok connector_wire \<Rightarrow> ConnectorIdentityReport \<Rightarrow> u64 \<Rightarrow> unit res" where
  "ConnectorIdentityReport_validate W r now_secs =
     (let E = cn_env W; C = se_crates E in
     ensure (cnr_workload_name r \<noteq> [] \<and> length (cnr_workload_name r) \<le> 253)
       ''invalid connector workload name'' (
     try_r (b64_decode C (cnr_owner_public_key_b64 r)) (\<lambda>owner.
     ensure (length owner = IROH_ENDPOINT_ID_BYTES) ''invalid connector owner key'' (
     ensure (1 \<le> cnr_replica_count r \<and> cnr_replica_count r \<le> MAX_WORKLOAD_REPLICAS)
       ''invalid connector replica count'' (
     ensure (cnr_replica_index r < cnr_replica_count r) ''invalid connector replica index'' (
     ensure (cnr_manifest_id r = route_id C owner (cnr_workload_name r))
       ''invalid connector routing identity'' (
     ensure (cnr_workload_id r = workload_id C owner (cnr_workload_name r) (cnr_replica_index r))
       ''invalid connector workload identity'' (
     try_r (EndpointRecord_verify C (se_pc_endpoint E) (cnr_endpoint r) now_secs) (\<lambda>_.
     try_r (case cnr_service_record r of
         None \<Rightarrow> Ok ()
       | Some s \<Rightarrow>
           try_r (ReplicaServiceRecord_verify E s (cnr_owner_public_key_b64 r) now_secs) (\<lambda>_.
           ensure (er_endpoint_id (rr_endpoint s) = er_endpoint_id (cnr_endpoint r)
               \<and> er_signing_pubkey (rr_endpoint s) = er_signing_pubkey (cnr_endpoint r)
               \<and> sc_workload_id (dl_scope (wi_delegation (rr_credential s))) = cnr_workload_id r)
             ''connector service record mismatch'' (Ok ()))) (\<lambda>_.
     case cnr_credential r of
       Some credential \<Rightarrow>
         try_r (WorkloadIdentity_verify C (se_biscuit E) (se_json E) credential None) (\<lambda>_.
         ensure (sc_tenant_owner (dl_scope (wi_delegation credential)) = cnr_owner_public_key_b64 r
             \<and> sc_manifest_id (dl_scope (wi_delegation credential)) = cnr_manifest_id r
             \<and> sc_workload_id (dl_scope (wi_delegation credential)) = cnr_workload_id r
             \<and> ic_endpoint_id (wi_claims credential) = endpoint_hex (cnr_endpoint r)
             \<and> ic_signing_public_key_b64 (wi_claims credential) = er_signing_pubkey (cnr_endpoint r))
           ''connector credential binding mismatch'' (
         ensure (cnr_credential_expires_at_secs r = Some (ic_expires_at_secs (wi_claims credential)))
           ''connector credential expiry mismatch'' (Ok ())))
     | None \<Rightarrow>
         ensure (cnr_credential_expires_at_secs r = None)
           ''connector expiry has no credential proof'' (Ok ())))))))))))"

definition ConnectorIdentityReport_verify_signature ::
  "'tok connector_wire \<Rightarrow> ConnectorIdentityReport \<Rightarrow> u64 \<Rightarrow> unit res" where
  "ConnectorIdentityReport_verify_signature W r now_secs =
     try_r (ConnectorIdentityReport_validate W r now_secs) (\<lambda>_.
     try_r (b64_decode (se_crates (cn_env W)) (cnr_transport_signature r)) (\<lambda>signature.
     ensure (length signature = 64) ''invalid connector signature length'' (
     try_r (ConnectorIdentityReport_canonical_bytes W r) (\<lambda>b.
       verify_domain (se_crates (cn_env W)) (er_endpoint_id (cnr_endpoint r)) D_ConnectorIdentity b signature))))"

definition ConnectorIdentityReport_verify ::
  "'tok connector_wire \<Rightarrow> ConnectorIdentityReport \<Rightarrow> string \<Rightarrow> string \<Rightarrow> bytes \<Rightarrow> u64 \<Rightarrow> unit res" where
  "ConnectorIdentityReport_verify W r expected_owner expected_workload_id expected_challenge now_secs =
     ensure (cnr_owner_public_key_b64 r = expected_owner) ''connector owner mismatch'' (
     ensure (cnr_workload_id r = expected_workload_id) ''connector workload mismatch'' (
     ensure (cnr_challenge r = expected_challenge) ''connector challenge mismatch'' (
     ConnectorIdentityReport_verify_signature W r now_secs)))"

definition ConnectorIdentityReport_sign ::
  "'tok connector_wire \<Rightarrow> ConnectorIdentityReport \<Rightarrow> bytes \<Rightarrow> u64 \<Rightarrow> ConnectorIdentityReport res" where
  "ConnectorIdentityReport_sign W r transport_private now_secs =
     try_r (ConnectorIdentityReport_validate W r now_secs) (\<lambda>_.
     try_r (ConnectorIdentityReport_canonical_bytes W r) (\<lambda>b.
     try_r (sign_domain (se_crates (cn_env W)) transport_private D_ConnectorIdentity b) (\<lambda>sig.
       let r' = r\<lparr>cnr_transport_signature := b64_encode (se_crates (cn_env W)) sig\<rparr> in
       try_r (ConnectorIdentityReport_verify_signature W r' now_secs) (\<lambda>_. Ok r'))))"

section \<open>Responses\<close>

definition ConnectorResponse_identity :: "ConnectorIdentityReport \<Rightarrow> ConnectorResponse" where
  "ConnectorResponse_identity r =
     \<lparr>cns_version = CONNECTOR_CONTROL_VERSION, cns_identity = Some r, cns_error = None\<rparr>"

definition ConnectorResponse_error :: "ConnectorError \<Rightarrow> ConnectorResponse" where
  "ConnectorResponse_error e =
     \<lparr>cns_version = CONNECTOR_CONTROL_VERSION, cns_identity = None, cns_error = Some e\<rparr>"

definition ConnectorResponse_validate :: "ConnectorResponse \<Rightarrow> unit res" where
  "ConnectorResponse_validate s =
     ensure (cns_version s = CONNECTOR_CONTROL_VERSION) ''unsupported connector response version'' (
     ensure ((cns_identity s \<noteq> None) \<noteq> (cns_error s \<noteq> None)) ''ambiguous connector response'' (Ok ()))"

definition ConnectorResponse_to_bytes :: "'tok connector_wire \<Rightarrow> ConnectorResponse \<Rightarrow> bytes res" where
  "ConnectorResponse_to_bytes W s =
     try_r (ConnectorResponse_validate s) (\<lambda>_. connector_encode (cn_js_response W s))"

definition ConnectorResponse_from_bytes :: "'tok connector_wire \<Rightarrow> bytes \<Rightarrow> ConnectorResponse res" where
  "ConnectorResponse_from_bytes W b =
     try_r (connector_decode (cn_jd_response W) b) (\<lambda>s.
     try_r (ConnectorResponse_validate s) (\<lambda>_. Ok s))"

section \<open>Lemmas\<close>

lemma report_signature_signed:
  assumes "ConnectorIdentityReport_verify_signature W r now = Ok ()" and "signed_by (se_crates (cn_env W)) log"
  shows "\<exists>sk b. er_endpoint_id (cnr_endpoint r) = ed_public (se_crates (cn_env W)) sk
    \<and> ConnectorIdentityReport_canonical_bytes W r = Ok b \<and> (sk, D_ConnectorIdentity, b) \<in> log"
proof -
  from assms(1) obtain sig b where
    "ConnectorIdentityReport_canonical_bytes W r = Ok b"
    "verify_domain (se_crates (cn_env W)) (er_endpoint_id (cnr_endpoint r)) D_ConnectorIdentity b sig = Ok ()"
    by (auto simp: ConnectorIdentityReport_verify_signature_def)
  with verify_domain_authentic [OF assms(2)] show ?thesis by blast
qed

lemma report_binding:
  assumes "ConnectorIdentityReport_verify_signature W r now = Ok ()"
  shows "\<exists>owner. b64_decode (se_crates (cn_env W)) (cnr_owner_public_key_b64 r) = Ok owner
      \<and> cnr_workload_id r = workload_id (se_crates (cn_env W)) owner (cnr_workload_name r) (cnr_replica_index r)"
    and "EndpointRecord_verify (se_crates (cn_env W)) (se_pc_endpoint (cn_env W)) (cnr_endpoint r) now = Ok ()"
  using assms by (auto simp: ConnectorIdentityReport_verify_signature_def ConnectorIdentityReport_validate_def Let_def)

section \<open>Properties\<close>

text \<open>C27: an identity report an agent accepts for an owner, a workload and a challenge was signed by
  the holder of the transport key it reports, as a report of that very owner, workload, endpoint and
  challenge: a report cannot be replayed for a later challenge, moved to another workload, or
  attached to a transport key its signer does not hold. The workload id is the one the owner's key,
  the workload name and the replica index derive.\<close>

theorem connector_report_fresh:
  assumes "signed_by (se_crates (cn_env W)) log"
    and "signs_only log D_ConnectorIdentity (ConnectorIdentityReport_canonical_bytes W) reports"
    and "injective_codec (cn_pc_report W)"
    and "ConnectorIdentityReport_verify W r owner wid challenge now = Ok ()"
  shows "\<exists>sk r0. (sk, r0) \<in> reports
      \<and> er_endpoint_id (cnr_endpoint r0) = ed_public (se_crates (cn_env W)) sk
      \<and> r\<lparr>cnr_transport_signature := []\<rparr> = r0\<lparr>cnr_transport_signature := []\<rparr>
      \<and> cnr_challenge r0 = challenge \<and> cnr_owner_public_key_b64 r0 = owner
      \<and> (\<exists>key. b64_decode (se_crates (cn_env W)) owner = Ok key
          \<and> wid = workload_id (se_crates (cn_env W)) key (cnr_workload_name r0) (cnr_replica_index r0))"
proof -
  have parts: "cnr_owner_public_key_b64 r = owner" "cnr_workload_id r = wid" "cnr_challenge r = challenge"
    and sig: "ConnectorIdentityReport_verify_signature W r now = Ok ()"
    using assms(4) by (simp_all add: ConnectorIdentityReport_verify_def)
  from report_signature_signed [OF sig assms(1)] obtain sk b where b:
    "er_endpoint_id (cnr_endpoint r) = ed_public (se_crates (cn_env W)) sk"
    "ConnectorIdentityReport_canonical_bytes W r = Ok b" "(sk, D_ConnectorIdentity, b) \<in> log" by blast
  from b(3) assms(2) obtain r0 where r0: "(sk, r0) \<in> reports" "ConnectorIdentityReport_canonical_bytes W r0 = Ok b"
    unfolding signs_only_def by blast
  have eq: "r\<lparr>cnr_transport_signature := []\<rparr> = r0\<lparr>cnr_transport_signature := []\<rparr>"
    using b(2) r0(2) assms(3) unfolding ConnectorIdentityReport_canonical_bytes_def injective_codec_def by blast
  have "cnr_challenge r0 = cnr_challenge r" "cnr_owner_public_key_b64 r0 = cnr_owner_public_key_b64 r"
    "cnr_endpoint r0 = cnr_endpoint r" "cnr_workload_name r0 = cnr_workload_name r"
    "cnr_replica_index r0 = cnr_replica_index r"
    using arg_cong [OF eq, of cnr_challenge] arg_cong [OF eq, of cnr_owner_public_key_b64]
      arg_cong [OF eq, of cnr_endpoint] arg_cong [OF eq, of cnr_workload_name]
      arg_cong [OF eq, of cnr_replica_index] by simp_all
  with eq r0(1) b(1) parts report_binding(1) [OF sig] show ?thesis
    by (intro exI [of _ sk], intro exI [of _ r0]) simp
qed

text \<open>Witness of C27: a connector with transport key \<open>0xBB\<close> that carries no credential yet.\<close>

definition toy_report :: "string \<Rightarrow> ConnectorIdentityReport" where
  "toy_report s = \<lparr>cnr_owner_public_key_b64 = toy_b64 (replicate 32 3), cnr_workload_name = ''web'',
     cnr_workload_id = replicate 64 CHR ''a'', cnr_manifest_id = replicate 64 CHR ''a'',
     cnr_replica_index = 0, cnr_replica_count = 1, cnr_challenge = [1, 2], cnr_endpoint = toy_endpoint,
     cnr_credential_expires_at_secs = None, cnr_credential = None, cnr_service_record = None,
     cnr_transport_signature = s\<rparr>"

definition cn_log :: "(bytes \<times> SignatureDomain \<times> bytes) list" where
  "cn_log = [(replicate 32 9, D_EndpointRecord, [3]), (replicate 32 0xBB, D_ConnectorIdentity, [8])]"

definition cn_wire :: "fact list connector_wire" where
  "cn_wire = \<lparr>cn_env = toy_env\<lparr>se_crates := accepting cn_log\<rparr>,
     cn_pc_report = (\<lambda>r. if r = toy_report [] then Ok [8] else Err []), cn_js_request = (\<lambda>_. Err []),
     cn_jd_request = (\<lambda>_. Err []), cn_js_response = (\<lambda>_. Err []), cn_jd_response = (\<lambda>_. Err [])\<rparr>"

lemma cn_wire_simps [simp]:
  "se_crates (cn_env cn_wire) = accepting cn_log" "se_pc_endpoint (cn_env cn_wire) = (\<lambda>_. Ok [3])"
  "ConnectorIdentityReport_canonical_bytes cn_wire (toy_report s) = Ok [8]"
  by (simp_all add: cn_wire_def toy_env_def ConnectorIdentityReport_canonical_bytes_def toy_report_def)

lemma toy_report_verifies:
  "ConnectorIdentityReport_verify cn_wire (toy_report (toy_b64 (replicate 64 0))) (toy_b64 (replicate 32 3))
     (replicate 64 CHR ''a'') [1, 2] 300 = Ok ()"
proof -
  have "EndpointRecord_verify (accepting cn_log) (\<lambda>_. Ok [3]) toy_endpoint 300 = Ok ()"
    by (rule accepted_endpoint_verifies) (simp add: cn_log_def)
  then have valid: "ConnectorIdentityReport_validate cn_wire (toy_report s) 300 = Ok ()" for s
    by (simp add: ConnectorIdentityReport_validate_def Let_def)
      (simp add: toy_report_def route_id_def workload_id_def IROH_ENDPOINT_ID_BYTES_def MAX_WORKLOAD_REPLICAS_def)
  have "verify_domain (accepting cn_log) (replicate 32 0xBB) D_ConnectorIdentity [8] (replicate 64 0) = Ok ()"
    by (rule accepting_verify) (simp_all add: cn_log_def)
  with valid show ?thesis
    by (simp add: ConnectorIdentityReport_verify_def ConnectorIdentityReport_verify_signature_def)
      (simp add: toy_report_def toy_endpoint_def)
qed

theorem connector_report_fresh_witness:
  "\<exists>(sk :: bytes) (r0 :: ConnectorIdentityReport). (sk, r0) \<in> {(replicate 32 0xBB, toy_report [])}
     \<and> cnr_challenge r0 = [1, 2]"
proof -
  let ?reports = "{(replicate 32 0xBB, toy_report [])}"
  have signs: "signs_only (set cn_log) D_ConnectorIdentity (ConnectorIdentityReport_canonical_bytes cn_wire) ?reports"
    by (simp add: signs_only_def cn_log_def)
  have codec: "injective_codec (cn_pc_report cn_wire)" by (simp add: injective_codec_def cn_wire_def)
  have signed: "signed_by (se_crates (cn_env cn_wire)) (set cn_log)" by (simp add: accepting_signed)
  from connector_report_fresh [OF signed signs codec toy_report_verifies]
  show ?thesis by (elim exE conjE) (intro exI conjI, assumption+)
qed

end
