(* ===== verification/Agent_Service.thy ===== *)
theory Agent_Service
  imports Agent_Store Agent_Replay Capacity Workload_Connector
begin

text \<open>
  The service of an agent, \<open>podmesh-agent/src/service.rs\<close>: what it knows (\<open>agent_env\<close>), what it
  changes (\<open>agent\<close>), and the operations that do not start or stop pods: admission, capacity offers
  and listing, with the helpers the lifecycle operations share.

  A handler is a function from its inputs and the state to the new state and its result. Its inputs
  include what it reads from outside at that call: the clock at each call of \<open>now_secs\<close>, the new
  UUID, the randomness of a sealing, the answers of the runtime and the outcome of each store
  transaction. \<open>op_bind\<close> stands for \<open>let x = call?; rest\<close> of a call that changes the state, so a
  handler that fails half way keeps the changes made so far, as the code does. Metrics and logging
  are not modelled.
\<close>

section \<open>Sequencing\<close>

definition op_bind :: "('s \<Rightarrow> 's \<times> 'a res) \<Rightarrow> ('a \<Rightarrow> 's \<Rightarrow> 's \<times> 'b res) \<Rightarrow> 's \<Rightarrow> 's \<times> 'b res" where
  "op_bind f g s = (case f s of (s', Ok x) \<Rightarrow> g x s' | (s', Err e) \<Rightarrow> (s', Err e))"

definition op_res :: "'a res \<Rightarrow> 's \<Rightarrow> 's \<times> 'a res" where
  "op_res r s = (s, r)"

definition op_ensure :: "bool \<Rightarrow> string \<Rightarrow> ('s \<Rightarrow> 's \<times> 'a res) \<Rightarrow> 's \<Rightarrow> 's \<times> 'a res" where
  "op_ensure c e k s = (if c then k s else (s, Err e))"

section \<open>What an agent knows\<close>

record ManifestResources =
  mr_cpu_milli :: u32
  mr_memory_bytes :: u64
  mr_storage_bytes :: u64

text \<open>\<open>ae_inject\<close> is \<open>sidecar::inject\<close> for a workload id, a namespace and an execution spec,
  \<open>ae_measure\<close> is \<open>validate_and_measure_manifest\<close>; the theories \<open>Sidecar_Inject\<close> and \<open>Manifest_Measure\<close>
  model them, and \<open>Agent_Manifest\<close> puts them in. \<open>ae_target_id\<close> is the runtime's \<open>target_id\<close>,
  \<open>ae_parse_spec\<close> postcard's decoder.\<close>

record 'tok agent_env =
  ae_wire :: agent_wire
  ae_connector :: "'tok connector_wire"
  ae_capacity :: capacity_wire
  ae_config :: Config
  ae_signing_public :: bytes
  ae_signing_private :: bytes
  ae_kem_public :: bytes
  ae_kem_private :: bytes
  ae_parse_spec :: "bytes \<Rightarrow> ExecutionSpec res"
  ae_inject :: "string \<Rightarrow> string \<Rightarrow> ExecutionSpec \<Rightarrow> bytes res"
  ae_measure :: "bytes \<Rightarrow> (bytes \<times> ManifestResources) res"
  ae_target_id :: "string \<Rightarrow> string \<Rightarrow> bytes \<Rightarrow> string res"
  ae_service_mesh_required :: bool

abbreviation ae_crates :: "'tok agent_env \<Rightarrow> crates" where
  "ae_crates E \<equiv> aw_crates (ae_wire E)"

datatype MutationOwner = Lifecycle | Enrollment

record EndpointAddr =
  ea_id :: bytes
  ea_relay_urls :: "string list"
  ea_ip_addrs :: "string list"

record agent =
  ag_state :: WorkloadState
  ag_mutations :: "(string, MutationOwner) hmap"
  ag_replay :: ReplayCache
  ag_disk :: disk
  ag_bindings :: "(string, EnrollmentBinding) hmap"
  ag_endpoint :: "EndpointAddr option"

definition signing_pubkey_b64 :: "'tok agent_env \<Rightarrow> string" where
  "signing_pubkey_b64 E = b64_encode (ae_crates E) (ae_signing_public E)"

section \<open>Helpers of the handlers\<close>

definition check_replay :: "string \<Rightarrow> string \<Rightarrow> string \<Rightarrow> u64 \<Rightarrow> u64 \<Rightarrow> agent \<Rightarrow> agent \<times> unit res" where
  "check_replay operation namespace nonce expires_at now ag =
     (let (c, r) = ReplayCache_record (replay_key operation namespace nonce) expires_at now (ag_replay ag)
      in (ag\<lparr>ag_replay := c\<rparr>, r))"

definition AgentService_encrypt :: "'tok agent_env \<Rightarrow> seal \<Rightarrow> bytes res \<Rightarrow> string \<Rightarrow> bytes res" where
  "AgentService_encrypt E seal encoded recipient =
     try_r (b64_decode (ae_crates E) recipient) (\<lambda>key.
     try_r encoded (\<lambda>plaintext.
       encrypt_payload_for_recipient (ae_crates E) (fst seal) (snd seal) key plaintext))"

definition AgentService_decrypt :: "'tok agent_env \<Rightarrow> (bytes \<Rightarrow> 'a res) \<Rightarrow> bytes \<Rightarrow> 'a res" where
  "AgentService_decrypt E decode body =
     try_r (decrypt_payload_from_recipient_blob (ae_crates E) body (ae_kem_private E)) decode"

definition mutation_with_owner :: "string \<Rightarrow> MutationOwner \<Rightarrow> agent \<Rightarrow> agent \<times> unit res" where
  "mutation_with_owner wid owner ag =
     (if \<not> length (ag_mutations ag) < MAX_CONFIGURED_WORKLOADS then (ag, Err ''workload mutation limit reached'')
      else case hm_get (ag_mutations ag) wid of
        Some Lifecycle \<Rightarrow> (ag, Err ''workload is busy'')
      | Some Enrollment \<Rightarrow> (ag, Err ''workload is busy with endpoint enrollment'')
      | None \<Rightarrow> (ag\<lparr>ag_mutations := hm_insert wid owner (ag_mutations ag)\<rparr>, Ok ()))"

text \<open>\<open>drop(_mutation)\<close>, the destructor of \<open>MutationGuard\<close>.\<close>

definition release_mutation :: "string \<Rightarrow> agent \<Rightarrow> agent" where
  "release_mutation wid ag = ag\<lparr>ag_mutations := hm_remove wid (ag_mutations ag)\<rparr>"

text \<open>\<open>owner_mutation\<close> retries while an enrollment holds the workload; \<open>released\<close> says whether the
  enrollment lets go before the timeout.\<close>

definition owner_mutation :: "string \<Rightarrow> bool \<Rightarrow> agent \<Rightarrow> agent \<times> unit res" where
  "owner_mutation wid released ag =
     (if length (ag_mutations ag) < MAX_CONFIGURED_WORKLOADS \<and> hm_get (ag_mutations ag) wid = Some Enrollment
      then if released then mutation_with_owner wid Lifecycle (release_mutation wid ag)
           else (ag, Err ''timed out waiting for endpoint enrollment to release workload'')
      else mutation_with_owner wid Lifecycle ag)"

definition signed_endpoint_record :: "'tok agent_env \<Rightarrow> EndpointAddr \<Rightarrow> u64 \<Rightarrow> u64 \<Rightarrow> EndpointRecord res" where
  "signed_endpoint_record E a now expires_at =
     EndpointRecord_sign (ae_crates E) (aw_endpoint (ae_wire E))
       \<lparr>er_version = ENDPOINT_RECORD_VERSION, er_endpoint_id = ea_id a,
        er_relay_url = (case ea_relay_urls a of [] \<Rightarrow> None | url # _ \<Rightarrow> Some url),
        er_direct_addresses = take MAX_ENDPOINT_DIRECT_ADDRESSES
          (if cf_advertise_addresses (ae_config E) = [] then ea_ip_addrs a
           else cf_advertise_addresses (ae_config E)),
        er_signing_pubkey = [], er_issued_at_secs = now, er_expires_at_secs = expires_at, er_signature = []\<rparr>
       (ae_signing_public E) (ae_signing_private E) now"

definition decode_execution :: "'tok agent_env \<Rightarrow> DeploymentGrant \<Rightarrow> ExecutionSpec res" where
  "decode_execution E grant =
     (let C = ae_crates E; V = cn_env (ae_connector E) in
     try_r (decrypt_payload_from_recipient_blob C (cp_wrapped_dek (dg_capsule grant)) (ae_kem_private E)) (\<lambda>dek.
     ensure (length dek = 32) ''invalid DEK length'' (
     try_r (decrypt_payload_with_key C dek (cp_nonce (dg_capsule grant)) (cp_ciphertext (dg_capsule grant))) (\<lambda>plaintext.
     try_r (ae_parse_spec E plaintext) (\<lambda>spec.
     try_r (ExecutionSpec_validate (ae_wire E) spec) (\<lambda>_.
     try_r (b64_decode C (dg_namespace_id grant)) (\<lambda>namespace.
     ensure (workload_id C namespace (ex_workload_name spec) (ex_replica_index spec) = dg_workload_id grant)
       ''workload identity mismatch'' (
     ensure (revision_id C (ex_manifest spec) = dg_revision_id grant) ''revision identity mismatch'' (
     try_r (EnrollmentDelegation_from_b64 C (se_json V) (ex_workload_credential_b64 spec)) (\<lambda>delegation.
     try_r (EnrollmentDelegation_verify_scope C (se_biscuit V) delegation (dg_namespace_id grant)
         (route_id C namespace (ex_workload_name spec)) (dg_workload_id grant)
         (Some (signing_pubkey_b64 E)) None) (\<lambda>_.
     ensure (sc_revision_id (dl_scope delegation) = dg_revision_id grant) ''enrollment revision mismatch''
       (Ok spec))))))))))))"

definition runtime_manifest ::
  "'tok agent_env \<Rightarrow> string \<Rightarrow> string \<Rightarrow> ExecutionSpec \<Rightarrow> (bytes \<times> ManifestResources) res" where
  "runtime_manifest E wid namespace_id execution =
     try_r (if ae_service_mesh_required E then ae_inject E wid namespace_id execution
            else Ok (ex_manifest execution)) (\<lambda>manifest. ae_measure E manifest)"

definition exceeds :: "ManifestResources \<Rightarrow> u32 \<Rightarrow> u64 \<Rightarrow> u64 \<Rightarrow> bool" where
  "exceeds m cpu_milli memory_bytes storage_bytes \<longleftrightarrow>
     \<not> (mr_cpu_milli m \<le> cpu_milli \<and> mr_memory_bytes m \<le> memory_bytes \<and> mr_storage_bytes m \<le> storage_bytes)"

definition AgentService_receipt :: "'tok agent_env \<Rightarrow> StoredWorkload \<Rightarrow> u64 \<Rightarrow> DeploymentReceipt res" where
  "AgentService_receipt E stored now =
     DeploymentReceipt_sign (ae_wire E)
       \<lparr>dr_version = AGENT_PROTOCOL_VERSION, dr_namespace_id = dg_namespace_id (sw_grant stored),
        dr_workload_id = dg_workload_id (sw_grant stored), dr_revision_id = dg_revision_id (sw_grant stored),
        dr_agent_node_id = [], dr_runtime_id = sw_runtime_id stored, dr_accepted_at_secs = now,
        dr_signature = []\<rparr> (ae_signing_public E) (ae_signing_private E)"

section \<open>Admission\<close>

record admit_io =
  ai_now :: u64
  ai_replay_now :: u64
  ai_uuid :: string
  ai_seal :: seal

definition unsigned_reservation :: "AdmissionRequest \<Rightarrow> u64 \<Rightarrow> string \<Rightarrow> AdmissionRefusal option \<Rightarrow> Reservation" where
  "unsigned_reservation request now uuid refusal =
     \<lparr>rv_version = AGENT_PROTOCOL_VERSION, rv_reservation_id = uuid, rv_request_id = aq_request_id request,
      rv_namespace_id = aq_namespace_id request, rv_workload_id = aq_workload_id request,
      rv_agent_node_id = [], rv_cpu_milli = aq_cpu_milli request, rv_memory_bytes = aq_memory_bytes request,
      rv_storage_bytes = aq_storage_bytes request, rv_accepted = (refusal = None),
      rv_reason = (case refusal of None \<Rightarrow> [] | Some r \<Rightarrow> AdmissionRefusal_as_str r),
      rv_expires_at_secs = now + RESERVATION_TTL_SECS, rv_signature = []\<rparr>"

definition reserve :: "'tok agent_env \<Rightarrow> admit_io \<Rightarrow> AdmissionRequest \<Rightarrow> agent \<Rightarrow> agent \<times> Reservation res" where
  "reserve E io request ag =
     (let st = drop_expired_reservations (ai_now io) (ag_state ag);
          refusal = admission_refusal (ae_config E) st request
      in case Reservation_sign (ae_wire E) (unsigned_reservation request (ai_now io) (ai_uuid io) refusal)
             (ae_signing_public E) (ae_signing_private E) of
           Err e \<Rightarrow> (ag\<lparr>ag_state := st\<rparr>, Err e)
         | Ok reservation \<Rightarrow>
             (if refusal = None
              then ag\<lparr>ag_state := st\<lparr>st_reservations :=
                hm_insert (rv_reservation_id reservation) reservation (st_reservations st)\<rparr>\<rparr>
              else ag\<lparr>ag_state := st\<rparr>, Ok reservation))"

definition admit :: "'tok agent_env \<Rightarrow> admit_io \<Rightarrow> AdmissionRequest \<Rightarrow> agent \<Rightarrow> agent \<times> bytes res" where
  "admit E io request =
     op_bind (op_res (AdmissionRequest_verify (ae_wire E) request (ai_now io))) (\<lambda>_.
     op_ensure (aq_target_node_id request = signing_pubkey_b64 E) ''admission target mismatch'' (
     op_bind (check_replay ''admission'' (aq_namespace_id request) (aq_nonce request)
         (aq_expires_at_secs request) (ai_replay_now io)) (\<lambda>_.
     op_bind (reserve E io request) (\<lambda>reservation.
     op_res (AgentService_encrypt E (ai_seal io) (aw_reservation (ae_wire E) reservation)
       (aq_response_kem_pubkey request))))))"

section \<open>Capacity offers\<close>

definition available :: "Config \<Rightarrow> WorkloadState \<Rightarrow> ResourceUsage" where
  "available cf st =
     (let u = usage st in
      \<lparr>ru_cpu_milli = saturating_sub (ucast (cf_capacity_cpu_milli cf)) (ru_cpu_milli u),
       ru_memory_bytes = saturating_sub (cf_capacity_memory_bytes cf) (ru_memory_bytes u),
       ru_storage_bytes = saturating_sub (cf_capacity_storage_bytes cf) (ru_storage_bytes u)\<rparr>)"

definition can_satisfy :: "Config \<Rightarrow> WorkloadState \<Rightarrow> CapacityQuery \<Rightarrow> bool" where
  "can_satisfy cf st query \<longleftrightarrow>
     st_quarantined st = {} \<and> length (st_active st) + length (st_reservations st) < cf_max_workloads cf
     \<and> ucast (cq_cpu_milli query) \<le> ru_cpu_milli (available cf st)
     \<and> cq_memory_bytes query \<le> ru_memory_bytes (available cf st)
     \<and> cq_storage_bytes query \<le> ru_storage_bytes (available cf st)"

definition signed_offer ::
  "'tok agent_env \<Rightarrow> CapacityQuery \<Rightarrow> EndpointAddr \<Rightarrow> u64 \<Rightarrow> ResourceUsage \<Rightarrow> CapacityOffer res" where
  "signed_offer E query a now free =
     try_r (signed_endpoint_record E a now (now + MAX_CAPACITY_OFFER_LIFETIME_SECS)) (\<lambda>endpoint.
     CapacityOffer_sign (ae_capacity E)
       \<lparr>co_version = CAPACITY_PROTOCOL_VERSION, co_query_id = cq_query_id query,
        co_agent_endpoint = endpoint, co_kem_pubkey = b64_encode (ae_crates E) (ae_kem_public E),
        co_available_cpu_milli = (case try_from (ru_cpu_milli free) of Some c \<Rightarrow> c
          | None \<Rightarrow> cf_capacity_cpu_milli (ae_config E)),
        co_available_memory_bytes = ru_memory_bytes free, co_available_storage_bytes = ru_storage_bytes free,
        co_capabilities = [''multi-workload''], co_issued_at_secs = now,
        co_expires_at_secs = now + MAX_CAPACITY_OFFER_LIFETIME_SECS, co_signing_pubkey = [],
        co_signature = []\<rparr> (ae_signing_public E) (ae_signing_private E) now)"

definition capacity_offer ::
  "'tok agent_env \<Rightarrow> CapacityQuery \<Rightarrow> EndpointAddr \<Rightarrow> u64 \<Rightarrow> agent \<Rightarrow> agent \<times> CapacityOffer option res" where
  "capacity_offer E query a now =
     op_bind (op_res (CapacityQuery_verify (ae_capacity E) query now)) (\<lambda>_ ag.
     if list_ex (\<lambda>excluded. excluded = ea_id a) (cq_excluded_endpoint_ids query) then (ag, Ok None)
     else if \<not> list_all (\<lambda>required. required \<in> set [''multi-workload'']) (cq_required_capabilities query)
     then (ag, Ok None)
     else
       let st = drop_expired_reservations now (ag_state ag); ag' = ag\<lparr>ag_state := st\<rparr> in
       if \<not> can_satisfy (ae_config E) st query then (ag', Ok None)
       else (ag', try_r (signed_offer E query a now (available (ae_config E) st)) (\<lambda>offer. Ok (Some offer))))"

section \<open>Listing\<close>

definition MAX_AGENT_ATTACHMENT_LIFETIME_SECS :: u64 where "MAX_AGENT_ATTACHMENT_LIFETIME_SECS = 60"

definition listed_state :: "StoredWorkload \<Rightarrow> string" where
  "listed_state stored =
     (if needs_cleanup stored then ''cleanup-required''
      else if sw_deleting stored then ''deleting''
      else if is_updating (sw_phase stored) then ''updating''
      else if sw_runtime_id stored = [] then ''starting''
      else ''deployed'')"

definition summarize :: "'tok agent_env \<Rightarrow> u64 \<Rightarrow> StoredWorkload \<Rightarrow> WorkloadSummary res" where
  "summarize E now stored =
     try_r (AgentService_receipt E stored now) (\<lambda>receipt.
       Ok \<lparr>ws_workload_id = dg_workload_id (sw_grant stored), ws_workload_name = sw_workload_name stored,
           ws_revision_id = dg_revision_id (sw_grant stored), ws_replica_index = sw_replica_index stored,
           ws_replica_count = sw_replica_count stored, ws_state = listed_state stored,
           ws_deploying_since_secs = dg_issued_at_secs (sw_grant stored), ws_receipt = receipt\<rparr>)"

definition list_response ::
  "'tok agent_env \<Rightarrow> u64 \<Rightarrow> WorkloadListRequest \<Rightarrow> agent \<Rightarrow> WorkloadListResponse res" where
  "list_response E now request ag =
     try_r (collect_r (map (summarize E now)
         (filter (\<lambda>stored. dg_namespace_id (sw_grant stored) = lq_namespace_id request)
           (hm_values (st_active (ag_state ag)))))) (\<lambda>workloads.
     try_r (ok_or (ag_endpoint ag) ''agent has no active scheduler attachment record'') (\<lambda>a.
     try_r (signed_endpoint_record E a now (now + MAX_AGENT_ATTACHMENT_LIFETIME_SECS)) (\<lambda>endpoint.
     WorkloadListResponse_sign (ae_wire E)
       \<lparr>lr_version = AGENT_PROTOCOL_VERSION, lr_request_id = lq_request_id request, lr_agent_node_id = [],
        lr_agent_endpoint = endpoint, lr_agent_kem_pubkey = b64_encode (ae_crates E) (ae_kem_public E),
        lr_workloads = workloads, lr_responded_at_secs = now, lr_signature = []\<rparr>
       (ae_signing_public E) (ae_signing_private E))))"

definition list_inner ::
  "'tok agent_env \<Rightarrow> u64 \<Rightarrow> u64 \<Rightarrow> seal \<Rightarrow> WorkloadListRequest \<Rightarrow> agent \<Rightarrow> agent \<times> bytes res" where
  "list_inner E now replay_now seal request =
     op_bind (op_res (WorkloadListRequest_verify (ae_wire E) request now)) (\<lambda>_.
     op_bind (check_replay ''list'' (lq_namespace_id request) (lq_nonce request)
         (lq_expires_at_secs request) replay_now) (\<lambda>_ ag.
     (ag, try_r (list_response E now request ag) (\<lambda>response.
       AgentService_encrypt E seal (aw_list_response (ae_wire E) response) (lq_response_kem_pubkey request)))))"

section \<open>Lemmas\<close>

lemma op_bind_Ok: "op_bind f g s = (s'', Ok y) \<longleftrightarrow> (\<exists>s' x. f s = (s', Ok x) \<and> g x s' = (s'', Ok y))"
  by (cases "f s"; cases "snd (f s)") (auto simp: op_bind_def)

lemma op_res_Ok [simp]: "op_res r s = (s', Ok x) \<longleftrightarrow> s' = s \<and> r = Ok x"
  by (auto simp: op_res_def)

lemma op_ensure_Ok [simp]: "op_ensure c e k s = (s', Ok x) \<longleftrightarrow> c \<and> k s = (s', Ok x)"
  by (simp add: op_ensure_def)

lemma fst_op_bind: "fst (op_bind f g s) = (case snd (f s) of Ok x \<Rightarrow> fst (g x (fst (f s))) | Err _ \<Rightarrow> fst (f s))"
  by (cases "f s"; cases "snd (f s)") (auto simp: op_bind_def)

lemma fst_op_res [simp]: "fst (op_res r s) = s"
  by (simp add: op_res_def)

lemma fst_op_ensure: "fst (op_ensure c e k s) = (if c then fst (k s) else s)"
  by (simp add: op_ensure_def)

lemma check_replay_keeps [simp]:
  "ag_state (fst (check_replay op ns n x t ag)) = ag_state ag"
  "ag_disk (fst (check_replay op ns n x t ag)) = ag_disk ag"
  "ag_mutations (fst (check_replay op ns n x t ag)) = ag_mutations ag"
  "ag_bindings (fst (check_replay op ns n x t ag)) = ag_bindings ag"
  "ag_endpoint (fst (check_replay op ns n x t ag)) = ag_endpoint ag"
  by (simp_all add: check_replay_def split: prod.splits)

text \<open>What admission does to the state, whatever its outcome.\<close>

lemma reserves_unsigned:
  assumes "Reservation_sign W (unsigned_reservation q now uuid f) pk sk = Ok v"
  shows "reserves q v" and "rv_reservation_id v = uuid" and "rv_accepted v = (f = None)"
    and "rv_expires_at_secs v = now + RESERVATION_TTL_SECS"
proof -
  from assms obtain sig where v: "v = (unsigned_reservation q now uuid f)
      \<lparr>rv_agent_node_id := b64_encode (aw_crates W) pk, rv_signature := b64_encode (aw_crates W) sig\<rparr>"
    by (auto simp: Reservation_sign_def Let_def)
  have "rv_amount r v = aq_amount r q" for r by (cases r) (simp_all add: v unsigned_reservation_def)
  then show "reserves q v" by (simp add: reserves_def v unsigned_reservation_def)
  show "rv_reservation_id v = uuid" "rv_accepted v = (f = None)" "rv_expires_at_secs v = now + RESERVATION_TTL_SECS"
    by (simp_all add: v unsigned_reservation_def)
qed

lemma reserve_keeps:
  assumes "st_inv (ae_config E) (ag_state ag)" and "bounded_config (ae_config E)"
  shows "st_inv (ae_config E) (ag_state (fst (reserve E io q ag)))"
    and "within_capacity (ae_config E) (ag_state ag) \<Longrightarrow>
      within_capacity (ae_config E) (ag_state (fst (reserve E io q ag)))"
proof -
  let ?st = "drop_expired_reservations (ai_now io) (ag_state ag)"
  let ?f = "admission_refusal (ae_config E) ?st q"
  let ?r = "Reservation_sign (ae_wire E) (unsigned_reservation q (ai_now io) (ai_uuid io) ?f)
    (ae_signing_public E) (ae_signing_private E)"
  note expired = st_inv_expire [OF assms(1), of "ai_now io"]
  show "st_inv (ae_config E) (ag_state (fst (reserve E io q ag)))"
    using expired(1) st_inv_reserve(1) [OF expired(1) assms(2) _ reserves_unsigned(1)]
    by (cases ?r) (auto simp: reserve_def Let_def)
  show "within_capacity (ae_config E) (ag_state (fst (reserve E io q ag)))"
    if "within_capacity (ae_config E) (ag_state ag)"
    using expired(2) [OF that] st_inv_reserve(2) [OF expired(1) assms(2) _ reserves_unsigned(1)]
    by (cases ?r) (auto simp: reserve_def Let_def)
qed

lemma admit_keeps:
  assumes "st_inv (ae_config E) (ag_state ag)" and "bounded_config (ae_config E)"
  shows "st_inv (ae_config E) (ag_state (fst (admit E io q ag)))"
    and "within_capacity (ae_config E) (ag_state ag) \<Longrightarrow>
      within_capacity (ae_config E) (ag_state (fst (admit E io q ag)))"
  using assms reserve_keeps [of E "fst (check_replay ''admission'' (aq_namespace_id q) (aq_nonce q)
      (aq_expires_at_secs q) (ai_replay_now io) ag)" io q]
  by (auto simp: admit_def fst_op_bind fst_op_ensure split: result.splits)

section \<open>Properties\<close>

fun co_amount :: "resource \<Rightarrow> CapacityOffer \<Rightarrow> nat" where
  "co_amount Cpu f = unat (co_available_cpu_milli f)"
| "co_amount Memory f = unat (co_available_memory_bytes f)"
| "co_amount Storage f = unat (co_available_storage_bytes f)"

fun cq_amount :: "resource \<Rightarrow> CapacityQuery \<Rightarrow> nat" where
  "cq_amount Cpu q = unat (cq_cpu_milli q)"
| "cq_amount Memory q = unat (cq_memory_bytes q)"
| "cq_amount Storage q = unat (cq_storage_bytes q)"

lemma available_amount:
  assumes "st_inv cf st" and "bounded_config cf"
  shows "ru_amount (available cf st) r = capacity cf r - (active_total st r + reserved_total st r)"
proof -
  have "capacity cf r < 2 ^ 64 - 1" using assms(2) by (simp add: bounded_config_def)
  with usage_amount [OF st_inv_reserved_cpu [OF assms(1)], of r] show ?thesis
    by (cases r) (simp_all add: available_def Let_def unat_saturating_sub unat_ucast_up)
qed

lemma can_satisfy_amount: "can_satisfy cf st q \<Longrightarrow> cq_amount r q \<le> ru_amount (available cf st) r"
  by (cases r) (simp_all add: can_satisfy_def word_le_nat_alt unat_ucast_up)

lemma signed_offer_amount:
  assumes "signed_offer E q a now free = Ok f" and "unat (ru_cpu_milli free) < 2 ^ 32"
  shows "co_amount r f = ru_amount free r" and "co_query_id f = cq_query_id q"
proof -
  have "unat (ucast (ru_cpu_milli free) :: u32) = unat (ru_cpu_milli free)"
    using assms(2) by (simp add: unsigned_ucast_eq take_bit_nat_eq_self)
  with assms show "co_amount r f = ru_amount free r"
    by (cases r) (auto simp: signed_offer_def CapacityOffer_sign_def Let_def try_from_def)
  show "co_query_id f = cq_query_id q"
    using assms(1) by (auto simp: signed_offer_def CapacityOffer_sign_def Let_def)
qed

lemma capacity_offer_honest:
  assumes "st_inv (ae_config E) (ag_state ag)" and "bounded_config (ae_config E)"
    and "base64_law (cw_crates (ae_capacity E))" and "ed_key (cw_crates (ae_capacity E)) (ae_signing_private E)"
    and "ae_signing_public E = ed_public (cw_crates (ae_capacity E)) (ae_signing_private E)"
    and "capacity_offer E query a now ag = (ag', Ok (Some f))"
  shows "CapacityQuery_verify (ae_capacity E) query now = Ok ()
    \<and> CapacityOffer_verify (ae_capacity E) f now = Ok () \<and> co_query_id f = cq_query_id query
    \<and> (\<forall>r. co_amount r f = capacity (ae_config E) r - (active_total (ag_state ag') r + reserved_total (ag_state ag') r)
        \<and> cq_amount r query \<le> co_amount r f)"
proof -
  let ?st = "drop_expired_reservations now (ag_state ag)" and ?cf = "ae_config E"
  from assms(6) have verified: "CapacityQuery_verify (ae_capacity E) query now = Ok ()"
    and ag': "ag_state ag' = ?st" and can: "can_satisfy ?cf ?st query"
    and signed: "signed_offer E query a now (available ?cf ?st) = Ok f"
    by (auto simp: capacity_offer_def op_bind_Ok Let_def split: if_splits)
  note amount = available_amount [OF st_inv_expire(1) [OF assms(1)] assms(2), of now]
  have "ru_amount (available ?cf ?st) Cpu \<le> capacity ?cf Cpu" unfolding amount by simp
  also have "\<dots> < 2 ^ 32" using unat_less_pow [of "cf_capacity_cpu_milli ?cf"] by simp
  finally have narrow: "unat (ru_cpu_milli (available ?cf ?st)) < 2 ^ 32" by simp
  have "CapacityOffer_verify (ae_capacity E) f now = Ok ()"
    using signed assms(5) by (auto simp: signed_offer_def intro: CapacityOffer_sign_verifies [OF assms(3,4)])
  moreover have "co_amount r f = capacity ?cf r - (active_total ?st r + reserved_total ?st r)
      \<and> cq_amount r query \<le> co_amount r f" for r
    using can_satisfy_amount [OF can, of r] by (simp add: signed_offer_amount(1) [OF signed narrow] amount)
  ultimately show ?thesis using verified signed_offer_amount(2) [OF signed narrow] unfolding ag' by blast
qed

text \<open>C28: an agent's offer is honest. When it answers a capacity query with an offer, the query was
  valid, the offered CPU, memory and storage are exactly its capacity minus everything running and
  pending at that moment, each covers what the query asks for, the offer names the query, and it
  verifies for whoever receives it within its lifetime.\<close>

theorem capacity_offer_exact:
  assumes "st_inv (ae_config E) (ag_state ag)" and "bounded_config (ae_config E)"
    and "base64_law (cw_crates (ae_capacity E))" and "ed_key (cw_crates (ae_capacity E)) (ae_signing_private E)"
    and "ae_signing_public E = ed_public (cw_crates (ae_capacity E)) (ae_signing_private E)"
    and "capacity_offer E query a now ag = (ag', Ok (Some f))"
  shows "CapacityQuery_verify (ae_capacity E) query now = Ok ()
    \<and> CapacityOffer_verify (ae_capacity E) f now = Ok () \<and> co_query_id f = cq_query_id query
    \<and> (\<forall>r. co_amount r f = capacity (ae_config E) r - (active_total (ag_state ag') r + reserved_total (ag_state ag') r)
        \<and> cq_amount r query \<le> co_amount r f)"
  by (rule capacity_offer_honest [OF assms])

text \<open>C29: an agent offers capacity it can never grant. A request that needs more of some resource than
  the share left to pending reservations is refused in every state, the empty agent included, although
  that agent answers a capacity query for the same amounts with an offer whenever they are within its
  full capacity. The refusal tells the client to retry once admissions settle.\<close>

theorem offered_but_never_admitted:
  assumes "bounded_config cf" and "pending_ceiling cf r < aq_amount r q"
    and "\<forall>r. cq_amount r query = aq_amount r q \<and> aq_amount r q \<le> capacity cf r" and "0 < cf_max_workloads cf"
  shows "can_satisfy cf WorkloadState_default query
    \<and> admission_refusal cf WorkloadState_default q = Some PendingCapacityLimit
    \<and> (\<forall>st. admission_refusal cf st q \<noteq> None)"
proof (intro conjI allI)
  have not_ok: "\<not> reservation_capacity_ok cf st q" for st
    using assms(2) unfolding reservation_capacity_ok_iff [OF assms(1)] by (metis add_leD2 leD)
  then show "admission_refusal cf st q \<noteq> None" for st by (simp add: admission_refusal_def)
  have capacity: "capacity_ok cf WorkloadState_default q"
    unfolding capacity_ok_iff [OF st_inv_default assms(1)] default_totals using assms(3) by simp
  have "\<not> contains_workload WorkloadState_default (aq_workload_id q)" "count_available cf WorkloadState_default"
    "reservation_available WorkloadState_default (aq_namespace_id q)"
    using assms(4) default_totals(3)
    by (simp_all add: contains_workload_def count_available_def reservation_available_def hm_contains_def
        hm_values_def MAX_RESERVATIONS_def MAX_RESERVATIONS_PER_NAMESPACE_def)
      (simp_all add: WorkloadState_default_def)
  with capacity not_ok show "admission_refusal cf WorkloadState_default q = Some PendingCapacityLimit"
    by (simp add: admission_refusal_def) (simp add: WorkloadState_default_def)
  have free: "ru_amount (available cf WorkloadState_default) r = capacity cf r" for r
    unfolding available_amount [OF st_inv_default assms(1)] default_totals by simp
  have "cq_amount r query \<le> ru_amount (available cf WorkloadState_default) r" for r
    unfolding free using assms(3) by simp
  from this [of Cpu] this [of Memory] this [of Storage] assms(4)
  show "can_satisfy cf WorkloadState_default query"
    by (simp add: can_satisfy_def word_le_nat_alt unat_ucast_up) (simp add: WorkloadState_default_def)
qed


section \<open>A concrete agent\<close>

text \<open>An agent whose primitives accept every signature and whose encoders are constant, asked at time
  300 by the scheduler of \<open>toy_endpoint\<close>.\<close>

definition lax :: crates where
  "lax = toy_crates (\<lambda>_ _ _. True)"

lemma lax_simps [simp]:
  "b64_encode lax b = toy_b64 b" "b64_decode lax (toy_b64 b) = Ok b" "ed_public lax sk = sk" "base64_law lax"
  "length sk = 32 \<Longrightarrow> ed_key lax sk" "length sk = 32 \<Longrightarrow> sign_domain lax sk d b = Ok (replicate 64 0)"
  using toy_base64 b64_decode_encode [OF toy_base64, of "\<lambda>_ _ _. True" b]
  by (simp_all add: lax_def b64_encode_toy toy_ed_key sign_domain_def signing_key_from_def)
    (simp_all add: toy_crates_def)

lemma lax_verify [simp]: "length pk = 32 \<Longrightarrow> length sig = 64 \<Longrightarrow> verify_domain lax pk d b sig = Ok ()"
  by (simp add: verify_domain_Ok_iff lax_def) (simp add: toy_crates_def)

definition toy_agent_wire :: agent_wire where
  "toy_agent_wire = req_wire\<lparr>aw_crates := lax, aw_endpoint := (\<lambda>_. Ok [3]), aw_receipt := (\<lambda>_. Ok [6]),
     aw_list_response := (\<lambda>_. Ok [7])\<rparr>"

definition toy_agent_env :: "fact list agent_env" where
  "toy_agent_env = \<lparr>ae_wire = toy_agent_wire, ae_connector = cn_wire,
     ae_capacity = \<lparr>cw_crates = lax, cw_endpoint = (\<lambda>_. Ok [3]), cw_query = (\<lambda>_. Ok [4]), cw_offer = (\<lambda>_. Ok [5]),
       cw_parse_query = (\<lambda>_. Err []), cw_parse_offer = (\<lambda>_. Err [])\<rparr>,
     ae_config = toy_config, ae_signing_public = replicate 32 9, ae_signing_private = replicate 32 9,
     ae_kem_public = replicate 32 8, ae_kem_private = replicate 32 8, ae_parse_spec = (\<lambda>_. Err []),
     ae_inject = (\<lambda>_ _ _. Err []), ae_measure = (\<lambda>_. Err []), ae_target_id = (\<lambda>_ _ _. Ok ''pod''),
     ae_service_mesh_required = False\<rparr>"

definition toy_addr :: EndpointAddr where
  "toy_addr = \<lparr>ea_id = replicate 32 0xAA, ea_relay_urls = [], ea_ip_addrs = [''192.0.2.10:4000'']\<rparr>"

definition toy_agent :: "(string, StoredWorkload) hmap \<Rightarrow> agent" where
  "toy_agent workloads = \<lparr>ag_state = WorkloadState_default\<lparr>st_active := workloads\<rparr>, ag_mutations = [],
     ag_replay = ReplayCache_default, ag_disk = [], ag_bindings = [],
     ag_endpoint = Some toy_addr\<rparr>"


lemma toy_agent_env_simps [simp]:
  "ae_wire toy_agent_env = toy_agent_wire" "aw_crates toy_agent_wire = lax" "aw_endpoint toy_agent_wire = (\<lambda>_. Ok [3])"
  "aw_receipt toy_agent_wire = (\<lambda>_. Ok [6])" "aw_list_response toy_agent_wire = (\<lambda>_. Ok [7])"
  "cw_crates (ae_capacity toy_agent_env) = lax" "cw_endpoint (ae_capacity toy_agent_env) = (\<lambda>_. Ok [3])"
  "cw_query (ae_capacity toy_agent_env) = (\<lambda>_. Ok [4])" "cw_offer (ae_capacity toy_agent_env) = (\<lambda>_. Ok [5])"
  "ae_config toy_agent_env = toy_config" "ae_signing_public toy_agent_env = replicate 32 9"
  "ae_signing_private toy_agent_env = replicate 32 9" "ae_kem_public toy_agent_env = replicate 32 8"
  by (simp_all add: toy_agent_env_def toy_agent_wire_def)

lemma toy_agent_simps [simp]:
  "ag_state (toy_agent ws) = WorkloadState_default\<lparr>st_active := ws\<rparr>" "ag_endpoint (toy_agent ws) = Some toy_addr"
  by (simp_all add: toy_agent_def)

lemma toy_state_simps [simp]:
  "WorkloadState_default\<lparr>st_active := []\<rparr> = WorkloadState_default" "st_active WorkloadState_default = []"
  "drop_expired_reservations t WorkloadState_default = WorkloadState_default"
  by (simp_all add: WorkloadState_default_def drop_expired_reservations_def hm_retain_def)

lemma lax_endpoint:
  assumes "er_signing_pubkey r = toy_b64 (replicate 32 9)" and "er_signature r = toy_b64 (replicate 64 0)"
  shows "EndpointRecord_verify lax (\<lambda>_. Ok [3]) r now = EndpointRecord_validate_unsigned r now"
    and "EndpointRecord_validate lax r now = EndpointRecord_validate_unsigned r now"
  using assms
  by (simp_all add: EndpointRecord_verify_def EndpointRecord_validate_def EndpointRecord_validate_signature_fields_def
      EndpointRecord_verify_signature_def EndpointRecord_canonical_bytes_def validate_encoded_size_def endpoint_consts)
    (cases "EndpointRecord_validate_unsigned r now", simp_all)+

lemma toy_signs_endpoint:
  assumes "now = 300" and "expires = 315 \<or> expires = 360"
  shows "\<exists>e. signed_endpoint_record toy_agent_env toy_addr now expires = Ok e
    \<and> EndpointRecord_verify lax (\<lambda>_. Ok [3]) e now = Ok () \<and> er_signing_pubkey e = toy_b64 (replicate 32 9)"
proof -
  let ?e = "\<lparr>er_version = 1, er_endpoint_id = replicate 32 0xAA, er_relay_url = None,
    er_direct_addresses = [''192.0.2.10:4000''], er_signing_pubkey = toy_b64 (replicate 32 9),
    er_issued_at_secs = now, er_expires_at_secs = expires, er_signature = toy_b64 (replicate 64 0)\<rparr>"
  have valid: "EndpointRecord_validate_unsigned (?e\<lparr>er_signature := s\<rparr>) now = Ok ()" for s
    using assms by (auto simp: EndpointRecord_validate_unsigned_def validate_direct_addresses_def endpoint_consts
        parse_socket_addr_examples(1) saturating_add_def saturating_sub_def)
  have "signed_endpoint_record toy_agent_env toy_addr now expires = Ok ?e"
    using valid [of "[]"] valid [of "toy_b64 (replicate 64 0)"]
    by (simp add: signed_endpoint_record_def EndpointRecord_sign_def Let_def toy_addr_def toy_config_def
        lax_endpoint EndpointRecord_canonical_bytes_def validate_encoded_size_def endpoint_consts)
  moreover have "EndpointRecord_verify lax (\<lambda>_. Ok [3]) ?e now = Ok ()"
    using valid [of "toy_b64 (replicate 64 0)"] by (simp add: lax_endpoint)
  ultimately show ?thesis by (intro exI [of _ ?e]) simp
qed

text \<open>Witness of C28.\<close>

definition toy_query :: CapacityQuery where
  "toy_query = \<lparr>cq_version = 1, cq_query_id = ''q'', cq_nonce = ''n'', cq_cpu_milli = 3000, cq_memory_bytes = 500,
     cq_storage_bytes = 500, cq_required_capabilities = [''multi-workload''], cq_excluded_endpoint_ids = [],
     cq_reply_endpoint = toy_endpoint, cq_issued_at_secs = 295, cq_expires_at_secs = 305,
     cq_signing_pubkey = toy_b64 (replicate 32 9), cq_signature = toy_b64 (replicate 64 0)\<rparr>"

lemma toy_query_verifies: "CapacityQuery_verify (ae_capacity toy_agent_env) toy_query 300 = Ok ()"
proof -
  have "EndpointRecord_verify lax (\<lambda>_. Ok [3]) toy_endpoint 300 = Ok ()"
    by (simp add: lax_endpoint toy_endpoint_def EndpointRecord_validate_unsigned_def validate_direct_addresses_def
        endpoint_consts parse_socket_addr_examples(1) saturating_add_def saturating_sub_def)
  then show ?thesis
    by (simp add: CapacityQuery_verify_def CapacityQuery_validate_def CapacityQuery_validate_unsigned_def toy_query_def
        validate_common_Ok validate_capabilities_def validate_exclusions_def validate_signature_fields_def
        CapacityQuery_canonical_bytes_def encode_bounded_def validate_message_size_def verify_signature_def
        capacity_consts) (simp add: toy_endpoint_def)
qed

lemma toy_offers_to:
  assumes "CapacityQuery_verify (ae_capacity toy_agent_env) (toy_query\<lparr>cq_reply_endpoint := r\<rparr>) 300 = Ok ()"
  shows "\<exists>f. capacity_offer toy_agent_env (toy_query\<lparr>cq_reply_endpoint := r\<rparr>) toy_addr 300 (toy_agent []) = (toy_agent [], Ok (Some f))"
proof -
  let ?q = "toy_query\<lparr>cq_reply_endpoint := r\<rparr>"
  have free: "ru_amount (available toy_config WorkloadState_default) r = capacity toy_config r" for r
    unfolding available_amount [OF st_inv_default toy_config_bounded] default_totals by simp
  have can: "can_satisfy toy_config WorkloadState_default ?q"
    using free [of Cpu] free [of Memory] free [of Storage]
    by (simp add: can_satisfy_def word_le_nat_alt unat_ucast_up toy_config_def toy_query_def)
      (simp add: WorkloadState_default_def)
  obtain e where "signed_endpoint_record toy_agent_env toy_addr 300 315 = Ok e"
    "EndpointRecord_verify lax (\<lambda>_. Ok [3]) e 300 = Ok ()" "er_signing_pubkey e = toy_b64 (replicate 32 9)"
    using toy_signs_endpoint [of 300 315] by auto
  then have "\<exists>f. signed_offer toy_agent_env ?q toy_addr 300 free = Ok f" for free
    by (auto simp: signed_offer_def CapacityOffer_sign_def Let_def CapacityOffer_validate_unsigned_def
        CapacityOffer_validate_def validate_common_Ok validate_capabilities_def validate_signature_fields_def
        CapacityOffer_canonical_bytes_def encode_bounded_def validate_message_size_def capacity_consts toy_query_def)
  with can assms show ?thesis
    by (auto simp: capacity_offer_def op_bind_def op_res_def toy_query_def Let_def)
qed

lemma toy_offers: "\<exists>f. capacity_offer toy_agent_env toy_query toy_addr 300 (toy_agent []) = (toy_agent [], Ok (Some f))"
  using toy_offers_to [of toy_endpoint] toy_query_verifies by (simp add: toy_query_def)

theorem capacity_offer_exact_witness:
  "\<exists>f. capacity_offer toy_agent_env toy_query toy_addr 300 (toy_agent []) = (toy_agent [], Ok (Some f))
     \<and> co_amount Cpu f = 4000 \<and> cq_amount Cpu toy_query \<le> co_amount Cpu f"
proof -
  obtain f where f: "capacity_offer toy_agent_env toy_query toy_addr 300 (toy_agent []) = (toy_agent [], Ok (Some f))"
    using toy_offers by blast
  have env: "st_inv (ae_config toy_agent_env) (ag_state (toy_agent []))" "bounded_config (ae_config toy_agent_env)"
    "base64_law (cw_crates (ae_capacity toy_agent_env))"
    "ed_key (cw_crates (ae_capacity toy_agent_env)) (ae_signing_private toy_agent_env)"
    "ae_signing_public toy_agent_env = ed_public (cw_crates (ae_capacity toy_agent_env)) (ae_signing_private toy_agent_env)"
    by (simp_all add: st_inv_default toy_config_bounded)
  have "co_amount Cpu f = capacity toy_config Cpu - (active_total WorkloadState_default Cpu
      + reserved_total WorkloadState_default Cpu) \<and> cq_amount Cpu toy_query \<le> co_amount Cpu f"
    using capacity_offer_exact [OF env f]
    unfolding toy_agent_env_simps toy_agent_simps toy_state_simps by blast
  with f show ?thesis unfolding default_totals by (intro exI [of _ f]) (simp add: toy_config_def)
qed


text \<open>Witness of C29: 3000 of 4000 millicores, with half of them open to pending reservations.\<close>

theorem offered_but_never_admitted_witness:
  "can_satisfy toy_config WorkloadState_default toy_query
     \<and> admission_refusal toy_config WorkloadState_default (toy_admission\<lparr>aq_cpu_milli := 3000\<rparr>) = Some PendingCapacityLimit
     \<and> (\<forall>st. admission_refusal toy_config st (toy_admission\<lparr>aq_cpu_milli := 3000\<rparr>) \<noteq> None)"
proof (rule offered_but_never_admitted [OF toy_config_bounded, of Cpu])
  have "cq_amount r toy_query = aq_amount r (toy_admission\<lparr>aq_cpu_milli := 3000\<rparr>)
      \<and> aq_amount r (toy_admission\<lparr>aq_cpu_milli := 3000\<rparr>) \<le> capacity toy_config r" for r
    by (cases r) (simp_all add: toy_query_def toy_admission_def toy_config_def)
  then show "\<forall>r. cq_amount r toy_query = aq_amount r (toy_admission\<lparr>aq_cpu_milli := 3000\<rparr>)
      \<and> aq_amount r (toy_admission\<lparr>aq_cpu_milli := 3000\<rparr>) \<le> capacity toy_config r" by blast
qed (simp_all add: toy_config_def toy_admission_def pending_ceiling_def)

text \<open>Witness of C30: two workloads of different owners, one of them listed.\<close>

definition toy_list_request :: WorkloadListRequest where
  "toy_list_request = \<lparr>lq_version = 1, lq_request_id = ''l'', lq_namespace_id = toy_b64 (replicate 32 3),
     lq_response_kem_pubkey = toy_b64 (replicate 32 3), lq_issued_at_secs = 290, lq_expires_at_secs = 310,
     lq_nonce = ''n'', lq_owner_signature = toy_b64 (replicate 64 0)\<rparr>"

definition toy_foreign :: StoredWorkload where
  "toy_foreign = toy_stored\<lparr>sw_grant := (toy_grant [])\<lparr>dg_namespace_id := toy_b64 (replicate 32 4)\<rparr>\<rparr>"

lemma toy_lists:
  "\<exists>response. list_response toy_agent_env 300 toy_list_request
     (toy_agent [(''a'', toy_stored), (''b'', toy_foreign)]) = Ok response"
proof -
  obtain e where "signed_endpoint_record toy_agent_env toy_addr 300 360 = Ok e"
    using toy_signs_endpoint [of 300 360] by auto
  moreover have "\<exists>x. summarize toy_agent_env 300 toy_stored = Ok x"
    by (simp add: summarize_def AgentService_receipt_def DeploymentReceipt_sign_def Let_def
        DeploymentReceipt_canonical_bytes_def)
  ultimately show ?thesis
    by (auto simp: list_response_def hm_values_def toy_foreign_def toy_stored_def toy_grant_def toy_list_request_def
        MAX_AGENT_ATTACHMENT_LIFETIME_SECS_def WorkloadListResponse_sign_def Let_def
        WorkloadListResponse_canonical_bytes_def toy_b64_def)
qed


end
