(* ===== verification/Agent_Deploy.thy ===== *)
theory Agent_Deploy
  imports Agent_Service
begin

text \<open>
  Deployment in \<open>podmesh-agent/src/service.rs\<close>: \<open>deploy_inner\<close>, \<open>failed_deploy\<close> and
  \<open>cleanup_pending\<close>. The handler holds the state lock only in sections (\<open>deploy_commit\<close>,
  \<open>activate\<close>, \<open>mark_failed\<close>, \<open>drop_active\<close>); between them it waits for the container
  runtime, and other handlers run. Each section is a definition of its own, so that the handler is
  their composition here and their interleaving with other handlers can be studied elsewhere. The
  runtime's answers are functions of the call, in the records of inputs.
\<close>

section \<open>The runtime\<close>

text \<open>An error of the runtime either has a known outcome or is \<open>RuntimeOutcomeUnknown\<close>;
  the text is what \<open>to_string\<close> shows.\<close>

datatype runtime_error = RuntimeFailed string | RuntimeOutcomeUnknown string

datatype 'a runtime_call = Answered "('a, runtime_error) result" | TimedOut

fun runtime_message :: "runtime_error \<Rightarrow> string" where
  "runtime_message (RuntimeFailed m) = m"
| "runtime_message (RuntimeOutcomeUnknown m) = m"

fun outcome_unknown :: "runtime_error \<Rightarrow> bool" where
  "outcome_unknown (RuntimeFailed _) = False"
| "outcome_unknown (RuntimeOutcomeUnknown _) = True"

fun runtime_operation :: "string \<Rightarrow> 'a runtime_call \<Rightarrow> ('a, runtime_error) result" where
  "runtime_operation operation (Answered r) = r"
| "runtime_operation operation TimedOut =
     Err (RuntimeOutcomeUnknown (operation @ '' runtime operation timed out''))"

definition runtime_res :: "string \<Rightarrow> 'a runtime_call \<Rightarrow> 'a res" where
  "runtime_res operation call = map_err runtime_message (runtime_operation operation call)"

text \<open>The default \<open>cleanup_failed_deploy\<close> of \<open>WorkloadRuntime\<close>, which Podman inherits.\<close>

definition cleanup_failed_deploy :: "(string \<Rightarrow> unit runtime_call) \<Rightarrow> string \<Rightarrow> bool \<Rightarrow> unit runtime_call" where
  "cleanup_failed_deploy delete runtime_id uncertain =
     (if uncertain
      then Answered (Err (RuntimeFailed ''runtime creation outcome is uncertain; operator repair required''))
      else delete runtime_id)"

section \<open>Sections of the handlers\<close>

definition op_finally :: "('s \<Rightarrow> 's) \<Rightarrow> ('s \<Rightarrow> 's \<times> 'a) \<Rightarrow> 's \<Rightarrow> 's \<times> 'a" where
  "op_finally cleanup f s = (let (s', r) = f s in (cleanup s', r))"

text \<open>A guard taken before \<open>f\<close>: an error drops it, a success hands it on.\<close>

definition op_guard :: "('s \<Rightarrow> 's) \<Rightarrow> ('s \<Rightarrow> 's \<times> 'a res) \<Rightarrow> 's \<Rightarrow> 's \<times> 'a res" where
  "op_guard cleanup f s = (case f s of (s', Ok x) \<Rightarrow> (s', Ok x) | (s', Err e) \<Rightarrow> (cleanup s', Err e))"

definition save_stored :: "StoredWorkload \<Rightarrow> unit res \<Rightarrow> agent \<Rightarrow> agent \<times> unit res" where
  "save_stored w io ag = (let (d, r) = disk_save w io (ag_disk ag) in (ag\<lparr>ag_disk := d\<rparr>, r))"

text \<open>One transaction removes the record and the enrollment binding of a workload.\<close>

definition remove_stored :: "string \<Rightarrow> unit res \<Rightarrow> agent \<Rightarrow> agent \<times> unit res" where
  "remove_stored wid io ag =
     (let (d, r) = disk_remove wid io (ag_disk ag) in
      (ag\<lparr>ag_disk := d, ag_bindings := (if r = Ok () then hm_remove wid (ag_bindings ag) else ag_bindings ag)\<rparr>, r))"

definition put_active :: "StoredWorkload \<Rightarrow> agent \<Rightarrow> agent" where
  "put_active w ag = ag\<lparr>ag_state := (ag_state ag)\<lparr>st_active :=
     hm_insert (dg_workload_id (sw_grant w)) w (st_active (ag_state ag))\<rparr>\<rparr>"

definition drop_active :: "string \<Rightarrow> agent \<Rightarrow> agent" where
  "drop_active wid ag = ag\<lparr>ag_state := (ag_state ag)\<lparr>st_active := hm_remove wid (st_active (ag_state ag))\<rparr>\<rparr>"

definition take_reservation :: "string \<Rightarrow> agent \<Rightarrow> agent \<times> Reservation res" where
  "take_reservation rid ag =
     (case hm_get (st_reservations (ag_state ag)) rid of
        None \<Rightarrow> (ag, Err ''reservation not found'')
      | Some v \<Rightarrow> (ag\<lparr>ag_state := (ag_state ag)\<lparr>st_reservations := hm_remove rid (st_reservations (ag_state ag))\<rparr>\<rparr>, Ok v))"

section \<open>Cleaning up\<close>

record cleanup_io =
  cl_delete :: "string \<Rightarrow> unit runtime_call"
  cl_remove :: "unit res"

definition cleanup_target :: "'tok agent_env \<Rightarrow> StoredWorkload \<Rightarrow> string res" where
  "cleanup_target E stored =
     (if sw_runtime_id stored = []
      then try_r (decode_execution E (sw_grant stored)) (\<lambda>execution.
           try_r (runtime_manifest E (dg_workload_id (sw_grant stored)) (dg_namespace_id (sw_grant stored)) execution)
             (\<lambda>(manifest, _). ae_target_id E (dg_workload_id (sw_grant stored)) (dg_namespace_id (sw_grant stored)) manifest))
      else Ok (sw_runtime_id stored))"

definition cleanup_pending :: "'tok agent_env \<Rightarrow> cleanup_io \<Rightarrow> StoredWorkload \<Rightarrow> agent \<Rightarrow> agent \<times> unit res" where
  "cleanup_pending E io stored =
     op_bind (op_res (cleanup_target E stored)) (\<lambda>target.
     op_bind (op_res (runtime_res ''failed deployment cleanup''
         (cleanup_failed_deploy (cl_delete io) target (sw_phase stored \<noteq> CleanupPending False)))) (\<lambda>_.
     remove_stored (dg_workload_id (sw_grant stored)) (cl_remove io)))"

text \<open>\<open>failed_deploy\<close>: under the lock it records the pending cleanup in memory and on disk, logging a
  failed save; then it cleans up, and forgets the workload only when that succeeded.\<close>

record failed_io =
  fi_save :: "unit res"
  fi_cleanup :: cleanup_io

definition mark_failed :: "unit res \<Rightarrow> StoredWorkload \<Rightarrow> agent \<Rightarrow> agent" where
  "mark_failed io stored ag = fst (save_stored stored io (put_active stored ag))"

definition finish_cleanup :: "'tok agent_env \<Rightarrow> cleanup_io \<Rightarrow> StoredWorkload \<Rightarrow> agent \<Rightarrow> agent" where
  "finish_cleanup E io stored ag =
     (case cleanup_pending E io stored ag of
        (ag', Ok _) \<Rightarrow> drop_active (dg_workload_id (sw_grant stored)) ag'
      | (ag', Err _) \<Rightarrow> ag')"

definition failed_deploy :: "'tok agent_env \<Rightarrow> failed_io \<Rightarrow> StoredWorkload \<Rightarrow> bool \<Rightarrow> agent \<Rightarrow> agent" where
  "failed_deploy E io stored0 uncertain ag =
     (let stored = stored0\<lparr>sw_phase := CleanupPending uncertain\<rparr>
      in finish_cleanup E (fi_cleanup io) stored (mark_failed (fi_save io) stored ag))"

section \<open>Deployment\<close>

record deploy_io =
  di_now :: u64
  di_replay_now :: u64
  di_released :: bool
  di_locked_now :: u64
  di_save :: "unit res"
  di_deploy :: "string \<Rightarrow> string \<Rightarrow> bytes \<Rightarrow> string runtime_call"
  di_save_active :: "unit res"
  di_failed :: failed_io
  di_seal :: seal

text \<open>What happens before the workload is claimed.\<close>

definition deploy_accept :: "'tok agent_env \<Rightarrow> deploy_io \<Rightarrow> DeploymentGrant \<Rightarrow> agent \<Rightarrow> agent \<times> ExecutionSpec res" where
  "deploy_accept E io grant =
     op_bind (op_res (DeploymentGrant_verify (ae_wire E) grant (di_now io))) (\<lambda>_.
     op_ensure (dg_target_node_id grant = signing_pubkey_b64 E) ''deployment target mismatch'' (
     op_bind (check_replay ''deploy'' (dg_namespace_id grant) (dg_nonce grant)
         (dg_expires_at_secs grant) (di_replay_now io)) (\<lambda>_.
     op_bind (op_res (decode_execution E grant)) (\<lambda>execution.
     op_bind (op_res (ae_measure E (ex_manifest execution))) (\<lambda>_.
     op_res (Ok execution))))))"

text \<open>The section under the state lock: the reservation is consumed before anything is compared with it.\<close>

definition planned_workload ::
  "DeploymentGrant \<Rightarrow> string \<Rightarrow> Reservation \<Rightarrow> ExecutionSpec \<Rightarrow> StoredWorkload" where
  "planned_workload grant planned_id reservation execution =
     \<lparr>sw_version = STORED_WORKLOAD_VERSION, sw_phase = Creating, sw_grant = grant, sw_runtime_id = planned_id,
      sw_deleting = False, sw_cpu_milli = rv_cpu_milli reservation, sw_memory_bytes = rv_memory_bytes reservation,
      sw_storage_bytes = rv_storage_bytes reservation, sw_workload_name = ex_workload_name execution,
      sw_replica_index = ex_replica_index execution, sw_replica_count = ex_replica_count execution\<rparr>"

definition deploy_commit ::
  "'tok agent_env \<Rightarrow> u64 \<Rightarrow> unit res \<Rightarrow> DeploymentGrant \<Rightarrow> ExecutionSpec \<Rightarrow> agent \<Rightarrow> agent \<times> (StoredWorkload \<times> bytes) res" where
  "deploy_commit E now io grant execution =
     op_bind (take_reservation (dg_reservation_id grant)) (\<lambda>reservation.
     op_bind (op_res (Reservation_verify (ae_wire E) reservation now)) (\<lambda>_.
     op_ensure (rv_accepted reservation \<and> rv_namespace_id reservation = dg_namespace_id grant
         \<and> rv_workload_id reservation = dg_workload_id grant) ''reservation binding mismatch'' (\<lambda>ag.
     op_ensure (\<not> hm_contains (st_active (ag_state ag)) (dg_workload_id grant)) ''workload is already active'' (
     op_bind (op_res (runtime_manifest E (dg_workload_id grant) (dg_namespace_id grant) execution)) (\<lambda>(manifest, measured).
     op_ensure (\<not> exceeds measured (rv_cpu_milli reservation) (rv_memory_bytes reservation) (rv_storage_bytes reservation))
       ''workload resource limits exceed signed reservation'' (
     op_bind (op_res (ae_target_id E (dg_workload_id grant) (dg_namespace_id grant) manifest)) (\<lambda>planned_id.
     op_ensure (planned_id \<noteq> []) ''runtime target is empty'' (
     let stored = planned_workload grant planned_id reservation execution in
     op_bind (save_stored stored io) (\<lambda>_ ag. (put_active stored ag, Ok (stored, manifest)))))))) ag)))"

text \<open>After the runtime answered: the runtime id, or the error and whether the outcome is uncertain.
  The decision is a section of its own, because \<open>failed_deploy\<close> waits for the runtime again.\<close>

definition deploy_answer ::
  "deploy_io \<Rightarrow> StoredWorkload \<Rightarrow> bytes \<Rightarrow> agent \<Rightarrow> agent \<times> (string, string \<times> bool) result" where
  "deploy_answer io stored manifest ag =
     (let grant = sw_grant stored in
      case runtime_operation ''deploy'' (di_deploy io (dg_workload_id grant) (dg_namespace_id grant) manifest) of
        Err e \<Rightarrow> (ag, Err (runtime_message e, outcome_unknown e))
      | Ok runtime_id \<Rightarrow>
          if runtime_id \<noteq> sw_runtime_id stored
          then (ag, Err (''runtime returned an unexpected workload identity; repair required'', True))
          else
            let active = stored\<lparr>sw_phase := Active\<rparr> in
            case save_stored active (di_save_active io) ag of
              (ag', Err e) \<Rightarrow> (ag', Err (e, False))
            | (ag', Ok _) \<Rightarrow> (put_active active ag', Ok runtime_id))"

definition deploy_finish ::
  "'tok agent_env \<Rightarrow> deploy_io \<Rightarrow> StoredWorkload \<Rightarrow> bytes \<Rightarrow> agent \<Rightarrow> agent \<times> string res" where
  "deploy_finish E io stored manifest ag =
     (case deploy_answer io stored manifest ag of
        (ag', Ok runtime_id) \<Rightarrow> (ag', Ok runtime_id)
      | (ag', Err (e, uncertain)) \<Rightarrow> (failed_deploy E (di_failed io) stored uncertain ag', Err e))"

definition deploy_receipt ::
  "'tok agent_env \<Rightarrow> DeploymentGrant \<Rightarrow> string \<Rightarrow> u64 \<Rightarrow> DeploymentReceipt res" where
  "deploy_receipt E grant runtime_id now =
     DeploymentReceipt_sign (ae_wire E)
       \<lparr>dr_version = AGENT_PROTOCOL_VERSION, dr_namespace_id = dg_namespace_id grant,
        dr_workload_id = dg_workload_id grant, dr_revision_id = dg_revision_id grant, dr_agent_node_id = [],
        dr_runtime_id = runtime_id, dr_accepted_at_secs = now, dr_signature = []\<rparr>
       (ae_signing_public E) (ae_signing_private E)"

text \<open>Up to the first wait for the runtime. The guard is held on success and dropped on every error.\<close>

definition deploy_begin ::
  "'tok agent_env \<Rightarrow> deploy_io \<Rightarrow> DeploymentGrant \<Rightarrow> agent \<Rightarrow> agent \<times> (StoredWorkload \<times> bytes) res" where
  "deploy_begin E io grant =
     op_bind (deploy_accept E io grant) (\<lambda>execution.
     op_bind (owner_mutation (dg_workload_id grant) (di_released io)) (\<lambda>_.
     op_guard (release_mutation (dg_workload_id grant)) (
     op_bind (op_res (DeploymentGrant_verify (ae_wire E) grant (di_locked_now io))) (\<lambda>_.
     deploy_commit E (di_locked_now io) (di_save io) grant execution))))"

definition deploy_inner :: "'tok agent_env \<Rightarrow> deploy_io \<Rightarrow> DeploymentGrant \<Rightarrow> agent \<Rightarrow> agent \<times> bytes res" where
  "deploy_inner E io grant =
     op_bind (deploy_begin E io grant) (\<lambda>(stored, manifest).
     op_finally (release_mutation (dg_workload_id grant)) (
     op_bind (deploy_finish E io stored manifest) (\<lambda>runtime_id.
     op_res (try_r (deploy_receipt E grant runtime_id (di_locked_now io)) (\<lambda>receipt.
       AgentService_encrypt E (di_seal io) (aw_receipt (ae_wire E) receipt) (dg_response_kem_pubkey grant))))))"

end
