(* ===== verification/Agent_Update.thy ===== *)
theory Agent_Update
  imports Agent_Deploy
begin

text \<open>
  Updates in \<open>podmesh-agent/src/service.rs\<close>: \<open>update_inner\<close> is a compare-and-swap on the
  revision of an active workload. The section under the lock (\<open>update_commit\<close>) answers at once or
  moves the record to \<open>Updating\<close>, charged with the new amounts; after the runtime answered,
  \<open>update_finish\<close> makes the new revision active or \<open>update_rollback\<close> redeploys the old one.
\<close>

definition owned :: "string \<Rightarrow> string \<Rightarrow> agent \<Rightarrow> StoredWorkload res" where
  "owned wid namespace ag =
     (case hm_get (st_active (ag_state ag)) wid of
        Some stored \<Rightarrow> if dg_namespace_id (sw_grant stored) = namespace then Ok stored else Err ''workload not found''
      | None \<Rightarrow> Err ''workload not found'')"

definition update_response ::
  "'tok agent_env \<Rightarrow> UpdateRequest \<Rightarrow> StoredWorkload \<Rightarrow> UpdateOutcome \<Rightarrow> string \<Rightarrow> u64 \<Rightarrow> UpdateResponse res" where
  "update_response E request stored outcome reason now =
     try_r (AgentService_receipt E stored now) (\<lambda>receipt.
     UpdateResponse_sign (ae_wire E)
       \<lparr>up_version = AGENT_PROTOCOL_VERSION, up_request_id = uq_request_id request,
        up_expected_revision_id = uq_expected_revision_id request,
        up_requested_revision_id = uq_requested_revision_id request, up_receipt = receipt,
        up_outcome = outcome, up_reason = reason, up_responded_at_secs = now, up_signature = []\<rparr>
       (ae_signing_public E) (ae_signing_private E))"

record update_io =
  ui_now :: u64
  ui_replay_now :: u64
  ui_released :: bool
  ui_locked_now :: u64
  ui_save :: "unit res"
  ui_deploy :: "string \<Rightarrow> string \<Rightarrow> bytes \<Rightarrow> string runtime_call"
  ui_redeploy :: "string \<Rightarrow> string \<Rightarrow> bytes \<Rightarrow> string runtime_call"
  ui_save_rollback :: "unit res"
  ui_save_updated :: "unit res"
  ui_seal :: seal

definition update_accept :: "'tok agent_env \<Rightarrow> update_io \<Rightarrow> UpdateRequest \<Rightarrow> agent \<Rightarrow> agent \<times> ExecutionSpec res" where
  "update_accept E io request =
     op_bind (op_res (UpdateRequest_verify (ae_wire E) request (ui_now io))) (\<lambda>_.
     op_ensure (uq_target_node_id request = signing_pubkey_b64 E) ''update target mismatch'' (
     op_bind (check_replay ''update'' (uq_namespace_id request) (uq_nonce request)
         (uq_expires_at_secs request) (ui_replay_now io)) (\<lambda>_.
     op_res (decode_execution E (uq_grant request)))))"

definition update_manifest :: "'tok agent_env \<Rightarrow> u64 \<Rightarrow> UpdateRequest \<Rightarrow> ExecutionSpec \<Rightarrow> bytes res" where
  "update_manifest E now request execution =
     try_r (UpdateRequest_verify (ae_wire E) request now) (\<lambda>_.
     try_r (ae_measure E (ex_manifest execution)) (\<lambda>_.
     try_r (runtime_manifest E (uq_workload_id request) (uq_namespace_id request) execution) (\<lambda>(manifest, measured).
     ensure (\<not> exceeds measured (uq_cpu_milli request) (uq_memory_bytes request) (uq_storage_bytes request))
       ''updated workload resource limits exceed signed request'' (Ok manifest))))"

definition transitioning :: "StoredWorkload \<Rightarrow> UpdateRequest \<Rightarrow> StoredWorkload" where
  "transitioning active request =
     active\<lparr>sw_cpu_milli := uq_cpu_milli request, sw_memory_bytes := uq_memory_bytes request,
       sw_storage_bytes := uq_storage_bytes request,
       sw_phase := Updating (sw_grant active) (sw_runtime_id active) request\<rparr>"

text \<open>\<open>Inl\<close> is a response that ends the request, \<open>Inr\<close> the workload now in transition.\<close>

definition update_commit ::
  "'tok agent_env \<Rightarrow> u64 \<Rightarrow> unit res \<Rightarrow> UpdateRequest \<Rightarrow> ExecutionSpec \<Rightarrow> agent \<Rightarrow> agent \<times> (UpdateResponse + StoredWorkload) res" where
  "update_commit E now io request execution ag =
     (case owned (uq_workload_id request) (uq_namespace_id request) ag of Err e \<Rightarrow> (ag, Err e) | Ok active \<Rightarrow>
     op_ensure (\<not> sw_deleting active \<and> sw_phase active = Active \<and> sw_runtime_id active \<noteq> [])
       ''workload is not active'' (
     if dg_revision_id (sw_grant active) = uq_requested_revision_id request \<and> \<not> uq_refresh_service_mesh request
     then op_bind (op_res (update_response E request active UpdateAlreadyActive [] now)) (\<lambda>r. op_res (Ok (Inl r)))
     else
     op_ensure (ex_workload_name execution = sw_workload_name active
         \<and> ex_replica_index execution = sw_replica_index active
         \<and> ex_replica_count execution = sw_replica_count active)
       ''update cannot change workload identity or replica count'' (
     if dg_revision_id (sw_grant active) \<noteq> uq_expected_revision_id request \<or> sw_phase active \<noteq> Active
     then op_bind (op_res (update_response E request active Conflict
         ''stored revision does not match expected revision'' now)) (\<lambda>r. op_res (Ok (Inl r)))
     else
     op_ensure (fits_within (ResourceUsage_plus (usage_without (ag_state ag) (uq_workload_id request))
           (uq_cpu_milli request) (uq_memory_bytes request) (uq_storage_bytes request))
         (ucast (cf_capacity_cpu_milli (ae_config E))) (cf_capacity_memory_bytes (ae_config E))
         (cf_capacity_storage_bytes (ae_config E)))
       ''updated workload exceeds agent capacity'' (
     op_bind (save_stored (transitioning active request) io) (\<lambda>_ ag.
       (put_active (transitioning active request) ag, Ok (Inr active)))))) ag)"

text \<open>The \<open>rollback\<close> block: its result is only logged. It ends by recording the old workload again.\<close>

definition rollback_commit :: "unit res \<Rightarrow> StoredWorkload \<Rightarrow> agent \<Rightarrow> agent \<times> unit res" where
  "rollback_commit io active = op_bind (save_stored active io) (\<lambda>_ ag. (put_active active ag, Ok ()))"

definition update_rollback :: "'tok agent_env \<Rightarrow> update_io \<Rightarrow> StoredWorkload \<Rightarrow> agent \<Rightarrow> agent \<times> unit res" where
  "update_rollback E io active =
     (let grant = sw_grant active in
     op_bind (op_res (decode_execution E grant)) (\<lambda>previous.
     op_bind (op_res (runtime_manifest E (dg_workload_id grant) (dg_namespace_id grant) previous)) (\<lambda>(manifest, _).
     op_bind (op_res (runtime_res ''update rollback''
         (ui_redeploy io (dg_workload_id grant) (dg_namespace_id grant) manifest))) (\<lambda>_.
     rollback_commit (ui_save_rollback io) active))))"

definition updated :: "UpdateRequest \<Rightarrow> string \<Rightarrow> ExecutionSpec \<Rightarrow> StoredWorkload" where
  "updated request runtime_id execution =
     \<lparr>sw_version = STORED_WORKLOAD_VERSION, sw_phase = Active, sw_grant = uq_grant request,
      sw_runtime_id = runtime_id, sw_deleting = False, sw_cpu_milli = uq_cpu_milli request,
      sw_memory_bytes = uq_memory_bytes request, sw_storage_bytes = uq_storage_bytes request,
      sw_workload_name = ex_workload_name execution, sw_replica_index = ex_replica_index execution,
      sw_replica_count = ex_replica_count execution\<rparr>"

text \<open>After the runtime answered. The code inserts the updated record under the request's workload id,
  which verification ties to the grant's.\<close>

definition update_answer ::
  "update_io \<Rightarrow> UpdateRequest \<Rightarrow> ExecutionSpec \<Rightarrow> bytes \<Rightarrow> agent \<Rightarrow> agent \<times> (StoredWorkload, string \<times> bool) result" where
  "update_answer io request execution manifest ag =
     (case runtime_operation ''update'' (ui_deploy io (uq_workload_id request) (uq_namespace_id request) manifest) of
        Err e \<Rightarrow> (ag, Err (runtime_message e, True))
      | Ok runtime_id \<Rightarrow>
          (case save_stored (updated request runtime_id execution) (ui_save_updated io) ag of
             (ag', Err e) \<Rightarrow> (ag', Err (e, False))
           | (ag', Ok _) \<Rightarrow>
               (ag'\<lparr>ag_state := (ag_state ag')\<lparr>st_active := hm_insert (uq_workload_id request)
                   (updated request runtime_id execution) (st_active (ag_state ag'))\<rparr>\<rparr>,
                Ok (updated request runtime_id execution))))"

text \<open>An error of the runtime starts the rollback, an error of the last save does not.\<close>

definition update_finish ::
  "'tok agent_env \<Rightarrow> update_io \<Rightarrow> UpdateRequest \<Rightarrow> ExecutionSpec \<Rightarrow> bytes \<Rightarrow> StoredWorkload \<Rightarrow> agent \<Rightarrow> agent \<times> StoredWorkload res" where
  "update_finish E io request execution manifest active ag =
     (case update_answer io request execution manifest ag of
        (ag', Ok stored) \<Rightarrow> (ag', Ok stored)
      | (ag', Err (e, rollback)) \<Rightarrow> (if rollback then fst (update_rollback E io active ag') else ag', Err e))"

definition update_begin ::
  "'tok agent_env \<Rightarrow> update_io \<Rightarrow> UpdateRequest \<Rightarrow> agent
    \<Rightarrow> agent \<times> (ExecutionSpec \<times> bytes \<times> (UpdateResponse + StoredWorkload)) res" where
  "update_begin E io request =
     op_bind (update_accept E io request) (\<lambda>execution.
     op_bind (owner_mutation (uq_workload_id request) (ui_released io)) (\<lambda>_.
     op_guard (release_mutation (uq_workload_id request)) (
     op_bind (op_res (update_manifest E (ui_locked_now io) request execution)) (\<lambda>manifest.
     op_bind (update_commit E (ui_locked_now io) (ui_save io) request execution) (\<lambda>plan.
     op_res (Ok (execution, manifest, plan)))))))"

definition update_inner :: "'tok agent_env \<Rightarrow> update_io \<Rightarrow> UpdateRequest \<Rightarrow> agent \<Rightarrow> agent \<times> bytes res" where
  "update_inner E io request =
     (let answer = (\<lambda>response. AgentService_encrypt E (ui_seal io) (aw_update_response (ae_wire E) response)
        (uq_response_kem_pubkey request)) in
     op_bind (update_begin E io request) (\<lambda>(execution, manifest, plan).
     op_finally (release_mutation (uq_workload_id request)) (
     case plan of
       Inl response \<Rightarrow> op_res (answer response)
     | Inr active \<Rightarrow>
         op_bind (update_finish E io request execution manifest active) (\<lambda>stored.
         op_res (try_r (update_response E request stored Applied [] (ui_locked_now io)) answer)))))"

end
