(* ===== verification/Std_Str.thy ===== *)
theory Std_Str
  imports Std_Net
begin

text \<open>
  The parts of Rust's \<open>str\<close> and \<open>String\<close> the sources use: UTF-8 validation, reading unsigned numbers, and
  splitting.
\<close>

section \<open>UTF-8\<close>

definition cont :: "u8 \<Rightarrow> bool" where
  "cont b \<longleftrightarrow> 0x80 \<le> b \<and> b \<le> 0xBF"

fun utf8 :: "bytes \<Rightarrow> bool" where
  "utf8 [] = True"
| "utf8 (a # r) =
     (if a < 0x80 then utf8 r
      else case r of [] \<Rightarrow> False | b # r2 \<Rightarrow>
        if 0xC2 \<le> a \<and> a \<le> 0xDF then cont b \<and> utf8 r2
        else case r2 of [] \<Rightarrow> False | c # r3 \<Rightarrow>
          if 0xE0 \<le> a \<and> a \<le> 0xEF
          then (if a = 0xE0 then 0xA0 \<le> b else True) \<and> (if a = 0xED then b \<le> 0x9F else True)
               \<and> cont b \<and> cont c \<and> utf8 r3
          else case r3 of [] \<Rightarrow> False | d # r4 \<Rightarrow>
            0xF0 \<le> a \<and> a \<le> 0xF4 \<and> (if a = 0xF0 then 0x90 \<le> b else True) \<and> (if a = 0xF4 then b \<le> 0x8F else True)
            \<and> cont b \<and> cont c \<and> cont d \<and> utf8 r4)"

definition from_utf8 :: "bytes \<Rightarrow> string res" where
  "from_utf8 b = ensure (utf8 b) ''invalid utf-8 sequence'' (Ok (map (\<lambda>x. char_of (unat x)) b))"

section \<open>Numbers and parts\<close>

text \<open>\<open>str::parse\<close> for an unsigned type of \<open>limit\<close> values: an optional sign, then one or more digits.\<close>

definition parse_unsigned :: "nat \<Rightarrow> string \<Rightarrow> nat option" where
  "parse_unsigned limit s =
     (let digits = (case s of c # cs \<Rightarrow> if c = CHR ''+'' then cs else s | [] \<Rightarrow> [])
      in if digits \<noteq> [] \<and> list_all is_ascii_digit digits \<and> str_nat digits < limit then Some (str_nat digits) else None)"

definition strip_suffix :: "string \<Rightarrow> string \<Rightarrow> string option" where
  "strip_suffix ending s =
     (let n = length s - length ending in
      if length ending \<le> length s \<and> drop n s = ending then Some (take n s) else None)"

definition split_once :: "char \<Rightarrow> string \<Rightarrow> (string \<times> string) option" where
  "split_once c s = (if c \<in> set s then Some (takeWhile (\<lambda>x. x \<noteq> c) s, tl (dropWhile (\<lambda>x. x \<noteq> c) s)) else None)"

text \<open>\<open>str::trim\<close>, for the white space of ASCII.\<close>

definition is_whitespace :: "char \<Rightarrow> bool" where
  "is_whitespace c \<longleftrightarrow> (of_char c :: nat) \<in> set [9, 10, 11, 12, 13, 32]"

definition trim :: "string \<Rightarrow> string" where
  "trim s = rev (dropWhile is_whitespace (rev (dropWhile is_whitespace s)))"

fun split_on :: "char \<Rightarrow> string \<Rightarrow> string list" where
  "split_on c [] = [[]]"
| "split_on c (x # xs) = (if x = c then [] # split_on c xs
     else case split_on c xs of [] \<Rightarrow> [[x]] | w # ws \<Rightarrow> (x # w) # ws)"

definition starts_with :: "string \<Rightarrow> string \<Rightarrow> bool" where
  "starts_with s p \<longleftrightarrow> take (length p) s = p"

fun contains_str :: "string \<Rightarrow> string \<Rightarrow> bool" where
  "contains_str [] p \<longleftrightarrow> p = []"
| "contains_str (c # s) p \<longleftrightarrow> starts_with (c # s) p \<or> contains_str s p"

lemma parse_digits:
  assumes "list_all is_ascii_digit s" and "s \<noteq> []"
  shows "parse_unsigned limit s = (if str_nat s < limit then Some (str_nat s) else None)"
proof -
  obtain c cs where s: "s = c # cs" using assms(2) by (cases s) auto
  have "c \<noteq> CHR ''+''" using assms(1) by (auto simp: s is_ascii_digit_def)
  then show ?thesis using assms by (simp add: parse_unsigned_def s)
qed

lemma str_nat_snoc: "str_nat (s @ [c]) = str_nat s * 10 + (of_char c - 48)"
  by (simp add: str_nat_def)

lemma digit_value: "is_ascii_digit c \<Longrightarrow> of_char c - 48 \<le> (9 :: nat)"
  by (auto simp: is_ascii_digit_def)

lemma str_nat_digits: "list_all is_ascii_digit s \<Longrightarrow> str_nat s < 10 ^ length s"
proof (induction s rule: rev_induct)
  case Nil
  then show ?case by (simp add: str_nat_def)
next
  case (snoc c s)
  then have "str_nat s < 10 ^ length s" "of_char c - 48 \<le> (9 :: nat)" using digit_value by auto
  then show ?case by (simp add: str_nat_snoc)
qed

lemma str_nat_zeros: "str_nat (s @ replicate n CHR ''0'') = str_nat s * 10 ^ n"
proof (induction n)
  case (Suc n)
  have "str_nat (s @ replicate (Suc n) CHR ''0'') = str_nat ((s @ replicate n CHR ''0'') @ [CHR ''0''])"
    by (simp add: replicate_append_same)
  then show ?case unfolding str_nat_snoc Suc by simp
qed simp

end
