(* ===== verification/Agent_Command.thy ===== *)
theory Agent_Command
  imports Agent_Update Std_Str
begin

text \<open>
  Lifecycle commands in \<open>podmesh-agent/src/service.rs\<close>: \<open>command\<close> with its operations
  status, logs, connector inspection, peer seeding and deletion. The payload of a response is text;
  \<open>from_utf8\<close> is the validity check of \<open>String::from_utf8\<close>.
\<close>

section \<open>Inputs of a command\<close>

record command_io =
  ci_now :: u64
  ci_replay_now :: u64
  ci_released :: bool
  ci_locked_now :: u64
  ci_cleanup :: cleanup_io
  ci_status :: "string \<Rightarrow> string runtime_call"
  ci_logs :: "string \<Rightarrow> u32 \<Rightarrow> string runtime_call"
  ci_exchange :: "string \<Rightarrow> ConnectorRequest \<Rightarrow> ConnectorResponse runtime_call"
  ci_seed_now :: u64
  ci_report_now :: u64
  ci_save :: "unit res"
  ci_delete :: "string \<Rightarrow> unit runtime_call"
  ci_remove :: "unit res"
  ci_save_back :: "unit res"
  ci_seal :: seal

section \<open>Connector operations\<close>

definition connector_answer ::
  "'tok agent_env \<Rightarrow> u64 \<Rightarrow> WorkloadCommand \<Rightarrow> bytes \<Rightarrow> string \<Rightarrow> ConnectorResponse \<Rightarrow> string res" where
  "connector_answer E now command challenge missing response =
     try_r (ConnectorResponse_validate response) (\<lambda>_.
     try_r (ok_or (cns_identity response) missing) (\<lambda>identity.
     try_r (ConnectorIdentityReport_verify (ae_connector E) identity (cm_namespace_id command)
         (cm_workload_id command) challenge now) (\<lambda>_.
     try_r (ConnectorResponse_to_bytes (ae_connector E) response) from_utf8)))"

definition connector_inspect :: "'tok agent_env \<Rightarrow> command_io \<Rightarrow> WorkloadCommand \<Rightarrow> StoredWorkload \<Rightarrow> string res" where
  "connector_inspect E io command active =
     (let challenge = inspection_challenge (ae_crates E) (cm_nonce command) in
     try_r (runtime_res ''connector inspect''
         (ci_exchange io (sw_runtime_id active) (ConnectorRequest_inspect challenge)))
       (connector_answer E (ci_report_now io) command challenge ''workload connector is unavailable''))"

definition seed_peer ::
  "'tok agent_env \<Rightarrow> command_io \<Rightarrow> WorkloadCommand \<Rightarrow> StoredWorkload \<Rightarrow> ReplicaServiceRecord \<Rightarrow> string res" where
  "seed_peer E io command active peer =
     (let challenge = inspection_challenge (ae_crates E) (cm_nonce command) in
     try_r (ReplicaServiceRecord_verify (cn_env (ae_connector E)) peer (cm_namespace_id command) (ci_seed_now io)) (\<lambda>_.
     try_r (runtime_res ''peer seed delivery''
         (ci_exchange io (sw_runtime_id active) (ConnectorRequest_seed challenge peer)))
       (connector_answer E (ci_report_now io) command challenge ''peer seed delivery was refused'')))"

section \<open>Deletion\<close>

definition set_deleting :: "bool \<Rightarrow> string \<Rightarrow> agent \<Rightarrow> agent" where
  "set_deleting flag wid ag =
     (case hm_get (st_active (ag_state ag)) wid of
        Some current \<Rightarrow> ag\<lparr>ag_state := (ag_state ag)\<lparr>st_active :=
          hm_insert wid (current\<lparr>sw_deleting := flag\<rparr>) (st_active (ag_state ag))\<rparr>\<rparr>
      | None \<Rightarrow> ag)"

text \<open>The mark is set in memory under the lock and then written; a failed write takes it back. The
  outer result is a request that ends without a response, the inner one what the response reports.\<close>

definition delete_mark :: "unit res \<Rightarrow> string \<Rightarrow> agent \<Rightarrow> agent \<times> unit res" where
  "delete_mark io wid ag =
     (case hm_get (st_active (ag_state ag)) wid of
        None \<Rightarrow> (ag, Err ''workload not found'')
      | Some current \<Rightarrow>
          (case save_stored (current\<lparr>sw_deleting := True\<rparr>) io (set_deleting True wid ag) of
             (ag', Ok _) \<Rightarrow> (ag', Ok ())
           | (ag', Err e) \<Rightarrow> (set_deleting False wid ag', Err e)))"

definition runtime_delete :: "command_io \<Rightarrow> StoredWorkload \<Rightarrow> unit res" where
  "runtime_delete io active =
     (if sw_runtime_id active = [] then Ok () else runtime_res ''delete'' (ci_delete io (sw_runtime_id active)))"

definition delete_finish :: "command_io \<Rightarrow> string \<Rightarrow> StoredWorkload \<Rightarrow> agent \<Rightarrow> agent \<times> string res res" where
  "delete_finish io wid active =
     (case runtime_delete io active of
        Ok _ \<Rightarrow> op_bind (remove_stored wid (ci_remove io)) (\<lambda>_ ag. (drop_active wid ag, Ok (Ok ''deleted'')))
      | Err e \<Rightarrow> op_bind (save_stored active (ci_save_back io)) (\<lambda>_ ag.
          (ag\<lparr>ag_state := (ag_state ag)\<lparr>st_active := hm_insert wid active (st_active (ag_state ag))\<rparr>\<rparr>, Ok (Err e))))"

definition delete_cleanup :: "'tok agent_env \<Rightarrow> cleanup_io \<Rightarrow> string \<Rightarrow> StoredWorkload \<Rightarrow> agent \<Rightarrow> agent \<times> string res" where
  "delete_cleanup E io wid active =
     op_bind (cleanup_pending E io active) (\<lambda>_ ag. (drop_active wid ag, Ok ''deleted''))"

section \<open>Commands\<close>

text \<open>The \<open>match\<close> on the operation for all but \<open>Delete\<close>, which changes nothing; its outer
  result is a request that ends without a response.\<close>

definition inspect_operation ::
  "'tok agent_env \<Rightarrow> command_io \<Rightarrow> WorkloadCommand \<Rightarrow> StoredWorkload \<Rightarrow> string res res" where
  "inspect_operation E io command active =
     (if needs_cleanup active then Ok (Err ''workload requires cleanup; creation may be incomplete'')
      else if sw_deleting active then Ok (Err ''workload is deleting'')
      else if is_updating (sw_phase active) then Ok (Err ''workload is updating'')
      else if sw_runtime_id active = [] then Ok (Err ''workload is starting'')
      else case cm_operation command of
        Status \<Rightarrow> Ok (runtime_res ''status'' (ci_status io (sw_runtime_id active)))
      | ConnectorInspect \<Rightarrow> Ok (connector_inspect E io command active)
      | SeedPeer peer \<Rightarrow> try_r (seed_peer E io command active peer) (\<lambda>payload. Ok (Ok payload))
      | Logs \<Rightarrow> Ok (runtime_res ''logs'' (ci_logs io (sw_runtime_id active)
          (case cm_log_tail command of Some n \<Rightarrow> n | None \<Rightarrow> 100)))
      | Delete \<Rightarrow> Ok (Err []))"

text \<open>\<open>Delete\<close> up to its first wait: which of the two ways it goes, and the workload it read.\<close>

datatype delete_plan = CleanUp | Remove | Refuse string

definition delete_begin :: "command_io \<Rightarrow> WorkloadCommand \<Rightarrow> StoredWorkload \<Rightarrow> agent \<Rightarrow> agent \<times> delete_plan res" where
  "delete_begin io command active =
     (if needs_cleanup active then op_res (Ok CleanUp)
      else if is_updating (sw_phase active) then op_res (Ok (Refuse ''workload is updating''))
      else op_bind (delete_mark (ci_save io) (cm_workload_id command)) (\<lambda>_. op_res (Ok Remove)))"

definition delete_end ::
  "'tok agent_env \<Rightarrow> command_io \<Rightarrow> WorkloadCommand \<Rightarrow> StoredWorkload \<Rightarrow> delete_plan \<Rightarrow> agent \<Rightarrow> agent \<times> string res res" where
  "delete_end E io command active plan ag =
     (case plan of
        CleanUp \<Rightarrow> (let (ag', r) = delete_cleanup E (ci_cleanup io) (cm_workload_id command) active ag in (ag', Ok r))
      | Refuse e \<Rightarrow> (ag, Ok (Err e))
      | Remove \<Rightarrow> delete_finish io (cm_workload_id command) active ag)"

definition command_response ::
  "'tok agent_env \<Rightarrow> u64 \<Rightarrow> WorkloadCommand \<Rightarrow> string res \<Rightarrow> WorkloadCommandResponse res" where
  "command_response E now command result =
     WorkloadCommandResponse_sign (ae_wire E)
       \<lparr>cr_version = AGENT_PROTOCOL_VERSION, cr_request_id = cm_request_id command,
        cr_workload_id = cm_workload_id command, cr_agent_node_id = [], cr_ok = is_ok result,
        cr_payload = (case result of Ok payload \<Rightarrow> payload | Err e \<Rightarrow> e), cr_responded_at_secs = now,
        cr_signature = []\<rparr> (ae_signing_public E) (ae_signing_private E)"

definition command_accept :: "'tok agent_env \<Rightarrow> command_io \<Rightarrow> WorkloadCommand \<Rightarrow> agent \<Rightarrow> agent \<times> StoredWorkload res" where
  "command_accept E io command =
     op_bind (op_res (WorkloadCommand_verify (ae_wire E) command (ci_now io))) (\<lambda>_.
     op_ensure (cm_target_node_id command = signing_pubkey_b64 E) ''command target mismatch'' (
     op_bind (check_replay ''command'' (cm_namespace_id command) (cm_nonce command)
         (cm_expires_at_secs command) (ci_replay_now io)) (\<lambda>_ ag.
     (ag, owned (cm_workload_id command) (cm_namespace_id command) ag))))"

text \<open>Taking the guard for \<open>Delete\<close> checks the command and reads the workload again.\<close>

definition delete_claim ::
  "'tok agent_env \<Rightarrow> command_io \<Rightarrow> WorkloadCommand \<Rightarrow> agent \<Rightarrow> agent \<times> (StoredWorkload \<times> delete_plan) res" where
  "delete_claim E io command =
     op_bind (owner_mutation (cm_workload_id command) (ci_released io)) (\<lambda>_.
     op_guard (release_mutation (cm_workload_id command)) (
     op_bind (op_res (WorkloadCommand_verify (ae_wire E) command (ci_locked_now io))) (\<lambda>_.
     op_bind (\<lambda>ag. (ag, owned (cm_workload_id command) (cm_namespace_id command) ag)) (\<lambda>active.
     op_bind (delete_begin io command active) (\<lambda>plan. op_res (Ok (active, plan)))))))"

definition AgentService_command :: "'tok agent_env \<Rightarrow> command_io \<Rightarrow> WorkloadCommand \<Rightarrow> agent \<Rightarrow> agent \<times> bytes res" where
  "AgentService_command E io command =
     (let answer = (\<lambda>result. op_res (try_r (command_response E (ci_now io) command result) (\<lambda>response.
        AgentService_encrypt E (ci_seal io) (aw_command_response (ae_wire E) response)
          (cm_response_kem_pubkey command)))) in
     op_bind (command_accept E io command) (\<lambda>active.
     if cm_operation command = Delete then
       op_bind (delete_claim E io command) (\<lambda>(active, plan).
       op_finally (release_mutation (cm_workload_id command)) (
       op_bind (delete_end E io command active plan) answer))
     else op_bind (op_res (inspect_operation E io command active)) answer))"

end
