(* ===== verification/Agent_Restore.thy ===== *)
theory Agent_Restore
  imports Agent_Command
begin

text \<open>
  Restart and enrollment: \<open>restore_inner\<close> and \<open>restore_one\<close> of
  \<open>podmesh-agent/src/service.rs\<close>, and \<open>podmesh-agent/src/service/enrollment.rs\<close>, which gives a
  running workload the identity its owner delegated. The runtime answers differently for every
  workload and call, so the inputs of a restart are indexed by the workload id.
\<close>

section \<open>Restart\<close>

record restore_io =
  ri_cleanup :: cleanup_io
  ri_delete :: "string \<Rightarrow> unit runtime_call"
  ri_remove :: "unit res"
  ri_deploy :: "string \<Rightarrow> string \<Rightarrow> bytes \<Rightarrow> string runtime_call"
  ri_save :: "unit res"
  ri_status :: "string \<Rightarrow> string runtime_call"
  ri_remove_enrollment :: "unit res"

definition remove_enrollment :: "string \<Rightarrow> unit res \<Rightarrow> agent \<Rightarrow> agent \<times> unit res" where
  "remove_enrollment wid io ag =
     (case io of Ok _ \<Rightarrow> (ag\<lparr>ag_bindings := hm_remove wid (ag_bindings ag)\<rparr>, Ok ()) | Err e \<Rightarrow> (ag, Err e))"

definition resume_update ::
  "'tok agent_env \<Rightarrow> restore_io \<Rightarrow> StoredWorkload \<Rightarrow> UpdateRequest \<Rightarrow> agent \<Rightarrow> agent \<times> StoredWorkload option res" where
  "resume_update E io stored request =
     (let wid = dg_workload_id (sw_grant stored) in
     op_bind (op_res (ctx ''decrypt interrupted update for restart'' (decode_execution E (uq_grant request)))) (\<lambda>execution.
     op_bind (op_res (runtime_manifest E wid (uq_namespace_id request) execution)) (\<lambda>(manifest, measured).
     op_ensure (\<not> exceeds measured (uq_cpu_milli request) (uq_memory_bytes request) (uq_storage_bytes request))
       ''interrupted update exceeds signed resource limits'' (
     op_bind (op_res (runtime_res ''update reconciliation''
         (ri_deploy io wid (uq_namespace_id request) manifest))) (\<lambda>runtime_id.
     let resumed = stored\<lparr>sw_runtime_id := runtime_id, sw_grant := uq_grant request, sw_phase := Active,
           sw_cpu_milli := uq_cpu_milli request, sw_memory_bytes := uq_memory_bytes request,
           sw_storage_bytes := uq_storage_bytes request, sw_workload_name := ex_workload_name execution,
           sw_replica_index := ex_replica_index execution, sw_replica_count := ex_replica_count execution\<rparr> in
     op_bind (save_stored resumed (ri_save io)) (\<lambda>_. op_res (Ok (Some resumed))))))))"

text \<open>A running pod is kept; a missing one is deployed again. When the new runtime id cannot be saved
  the pod is deleted again, and a failure of that is only logged.\<close>

definition redeploy ::
  "'tok agent_env \<Rightarrow> restore_io \<Rightarrow> StoredWorkload \<Rightarrow> agent \<Rightarrow> agent \<times> StoredWorkload option res" where
  "redeploy E io stored =
     (let wid = dg_workload_id (sw_grant stored); namespace = dg_namespace_id (sw_grant stored) in
     op_bind (op_res (ctx ''decrypt persisted workload for restart'' (decode_execution E (sw_grant stored)))) (\<lambda>execution.
     op_bind (op_res (runtime_manifest E wid namespace execution)) (\<lambda>(manifest, measured).
     op_ensure (\<not> exceeds measured (sw_cpu_milli stored) (sw_memory_bytes stored) (sw_storage_bytes stored))
       ''persisted workload resource limits exceed reservation'' (
     op_bind (remove_enrollment wid (ri_remove_enrollment io)) (\<lambda>_.
     op_bind (op_res (runtime_res ''reconciliation deploy'' (ri_deploy io wid namespace manifest))) (\<lambda>runtime_id.
     let restored = stored\<lparr>sw_runtime_id := runtime_id\<rparr> in
     op_bind (save_stored restored (ri_save io)) (\<lambda>_. op_res (Ok (Some restored)))))))))"

definition restore_one ::
  "'tok agent_env \<Rightarrow> restore_io \<Rightarrow> StoredWorkload \<Rightarrow> agent \<Rightarrow> agent \<times> StoredWorkload option res" where
  "restore_one E io stored =
     (if needs_cleanup stored then op_bind (cleanup_pending E (ri_cleanup io) stored) (\<lambda>_. op_res (Ok None))
      else if sw_deleting stored then
        op_bind (op_res (if sw_runtime_id stored = [] then Ok ()
          else runtime_res ''reconciliation delete'' (ri_delete io (sw_runtime_id stored)))) (\<lambda>_.
        op_bind (remove_stored (dg_workload_id (sw_grant stored)) (ri_remove io)) (\<lambda>_. op_res (Ok None)))
      else case sw_phase stored of
        Updating _ _ request \<Rightarrow> resume_update E io stored request
      | _ \<Rightarrow>
          if sw_runtime_id stored \<noteq> []
             \<and> is_ok (runtime_operation ''reconciliation status'' (ri_status io (sw_runtime_id stored)))
          then op_res (Ok (Some stored))
          else redeploy E io stored)"

text \<open>The loop of \<open>restore_inner\<close> over the records read from the store.\<close>

fun restore_loop ::
  "'tok agent_env \<Rightarrow> (string \<Rightarrow> restore_io) \<Rightarrow> (string \<times> StoredWorkload res) list
    \<Rightarrow> (string, StoredWorkload) hmap \<times> string set \<Rightarrow> agent
    \<Rightarrow> agent \<times> (string, StoredWorkload) hmap \<times> string set" where
  "restore_loop E io [] acc ag = (ag, acc)"
| "restore_loop E io ((wid, Err e) # rest) (active, quarantined) ag =
     restore_loop E io rest (active, insert wid quarantined) ag"
| "restore_loop E io ((wid, Ok stored) # rest) (active, quarantined) ag =
     (case restore_one E (io wid) stored ag of
        (ag', Ok (Some restored)) \<Rightarrow> restore_loop E io rest (hm_insert wid restored active, quarantined) ag'
      | (ag', Ok None) \<Rightarrow> restore_loop E io rest (active, quarantined) ag'
      | (ag', Err e) \<Rightarrow> restore_loop E io rest (hm_insert wid stored active, quarantined) ag')"

definition restore_inner ::
  "'tok agent_env \<Rightarrow> unit res \<Rightarrow> (string \<Rightarrow> restore_io) \<Rightarrow> agent \<Rightarrow> agent \<times> unit res" where
  "restore_inner E load io ag =
     (case load of Err e \<Rightarrow> (ag, Err e) | Ok _ \<Rightarrow>
     op_ensure (length (ag_disk ag) \<le> cf_max_workloads (ae_config E))
       ''persisted workload count exceeds configured maximum'' (\<lambda>ag.
     let (ag', active, quarantined) = restore_loop E io (ag_disk ag) ([], {}) ag;
         restored = \<lparr>st_active = active, st_reservations = [], st_quarantined = quarantined\<rparr>
     in op_ensure (fits_within (usage restored) (ucast (cf_capacity_cpu_milli (ae_config E)))
            (cf_capacity_memory_bytes (ae_config E)) (cf_capacity_storage_bytes (ae_config E)))
          ''persisted workloads exceed configured resource capacity''
          (\<lambda>ag. (ag\<lparr>ag_state := restored\<rparr>, Ok ())) ag') ag)"

end
