(* ===== verification/Agent_Enrollment.thy ===== *)
theory Agent_Enrollment
  imports Agent_Restore
begin

text \<open>
  Enrollment, \<open>podmesh-agent/src/service/enrollment.rs\<close>: the agent proves to itself which keys a
  running workload's connector holds, commits that binding, and only then mints an identity under
  the owner's delegation and installs it.
\<close>

definition DEFAULT_IDENTITY_LIFETIME_SECS :: u64 where "DEFAULT_IDENTITY_LIFETIME_SECS = 3600"
definition IDENTITY_RENEWAL_WINDOW_SECS :: u64 where "IDENTITY_RENEWAL_WINDOW_SECS = 300"

record enroll_io =
  ei_scope_now :: u64
  ei_nonce :: string
  ei_inspect :: "string \<Rightarrow> ConnectorRequest \<Rightarrow> ConnectorResponse runtime_call"
  ei_report_now :: u64
  ei_load :: "unit res"
  ei_save :: "unit res"
  ei_now :: u64
  ei_install :: "string \<Rightarrow> ConnectorRequest \<Rightarrow> ConnectorResponse runtime_call"
  ei_installed_now :: u64

text \<open>The delegation of the stored grant, checked against the scope of this workload and issuer.\<close>

definition enroll_delegation :: "'tok agent_env \<Rightarrow> u64 \<Rightarrow> StoredWorkload \<Rightarrow> EnrollmentDelegation res" where
  "enroll_delegation E now stored =
     (let C = ae_crates E; V = cn_env (ae_connector E); grant = sw_grant stored in
     ensure (sw_phase stored = Active \<and> \<not> sw_deleting stored \<and> sw_runtime_id stored \<noteq> [])
       ''workload is not enrollment-ready'' (
     try_r (decode_execution E grant) (\<lambda>execution.
     try_r (EnrollmentDelegation_from_b64 C (se_json V) (ex_workload_credential_b64 execution)) (\<lambda>delegation.
     try_r (b64_decode C (dg_namespace_id grant)) (\<lambda>namespace.
     try_r (EnrollmentDelegation_verify_scope C (se_biscuit V) delegation (dg_namespace_id grant)
         (route_id C namespace (sw_workload_name stored)) (dg_workload_id grant)
         (Some (signing_pubkey_b64 E)) (Some now)) (\<lambda>_.
     Ok delegation))))))"

text \<open>The report of the connector inside the workload, bound to a fresh challenge.\<close>

definition inspected :: "'tok agent_env \<Rightarrow> enroll_io \<Rightarrow> bytes \<Rightarrow> StoredWorkload \<Rightarrow> ConnectorIdentityReport res" where
  "inspected E io challenge stored =
     try_r (runtime_res ''enrollment inspection''
         (ei_inspect io (sw_runtime_id stored) (ConnectorRequest_inspect challenge))) (\<lambda>response.
     try_r (ConnectorResponse_validate response) (\<lambda>_.
     ensure (cns_error response \<noteq> Some Unsupported) ''connector enrollment unsupported'' (
     try_r (ok_or (cns_identity response) ''connector enrollment unavailable'') (\<lambda>report.
     try_r (ConnectorIdentityReport_verify (ae_connector E) report (dg_namespace_id (sw_grant stored))
         (dg_workload_id (sw_grant stored)) challenge (ei_report_now io)) (\<lambda>_.
     Ok report)))))"

definition enroll_binding ::
  "'tok agent_env \<Rightarrow> StoredWorkload \<Rightarrow> EnrollmentDelegation \<Rightarrow> ConnectorIdentityReport \<Rightarrow> EnrollmentBinding res" where
  "enroll_binding E stored delegation report =
     try_r (EnrollmentDelegation_digest (ae_crates E) (se_json (cn_env (ae_connector E))) delegation) (\<lambda>digest.
     Ok \<lparr>eb_workload_id = dg_workload_id (sw_grant stored), eb_delegation_digest = digest,
         eb_endpoint_id = endpoint_hex (cnr_endpoint report),
         eb_signing_public_key_b64 = er_signing_pubkey (cnr_endpoint report)\<rparr>)"

definition save_enrollment :: "EnrollmentBinding \<Rightarrow> unit res \<Rightarrow> agent \<Rightarrow> agent \<times> unit res" where
  "save_enrollment binding io ag =
     (case io of Ok _ \<Rightarrow> (ag\<lparr>ag_bindings := hm_insert (eb_workload_id binding) binding (ag_bindings ag)\<rparr>, Ok ())
      | Err e \<Rightarrow> (ag, Err e))"

text \<open>The binding is committed before the workload gets any authority.\<close>

definition commit_binding :: "enroll_io \<Rightarrow> EnrollmentBinding \<Rightarrow> agent \<Rightarrow> agent \<times> unit res" where
  "commit_binding io binding =
     op_bind (op_res (ei_load io)) (\<lambda>_ ag.
       let existing = hm_get (ag_bindings ag) (eb_workload_id binding) in
       op_ensure (case existing of
           Some e \<Rightarrow> eb_delegation_digest e = eb_delegation_digest binding \<longrightarrow> e = binding | None \<Rightarrow> True)
         ''enrolled workload keys changed; owner generation update required'' (
       if existing \<noteq> Some binding then save_enrollment binding (ei_save io) else op_res (Ok ())) ag)"

definition still_valid :: "EnrollmentDelegation \<Rightarrow> u64 \<Rightarrow> ConnectorIdentityReport \<Rightarrow> WorkloadIdentity option" where
  "still_valid delegation now report =
     (case cnr_credential report of
        Some current \<Rightarrow>
          if wi_delegation current = delegation
             \<and> saturating_add now IDENTITY_RENEWAL_WINDOW_SECS < ic_expires_at_secs (wi_claims current)
          then Some current else None
      | None \<Rightarrow> None)"

definition install_identity ::
  "'tok agent_env \<Rightarrow> enroll_io \<Rightarrow> bytes \<Rightarrow> StoredWorkload \<Rightarrow> WorkloadIdentity \<Rightarrow> unit res" where
  "install_identity E io challenge stored identity =
     try_r (runtime_res ''identity installation''
         (ei_install io (sw_runtime_id stored) (ConnectorRequest_install challenge identity))) (\<lambda>installed.
     try_r (ConnectorResponse_validate installed) (\<lambda>_.
     try_r (ok_or (cns_identity installed) ''identity installation was refused'') (\<lambda>report.
     try_r (ConnectorIdentityReport_verify (ae_connector E) report (dg_namespace_id (sw_grant stored))
         (dg_workload_id (sw_grant stored)) challenge (ei_installed_now io)) (\<lambda>_.
     ensure (cnr_credential report = Some identity) ''identity installation acknowledgement mismatch'' (Ok ())))))"

text \<open>What the enrolled workload receives: nothing new while its identity is fresh, else one minted
  for the keys just bound.\<close>

definition enroll_identity ::
  "'tok agent_env \<Rightarrow> enroll_io \<Rightarrow> bytes \<Rightarrow> StoredWorkload \<Rightarrow> EnrollmentDelegation \<Rightarrow> EnrollmentBinding
    \<Rightarrow> ConnectorIdentityReport \<Rightarrow> unit res" where
  "enroll_identity E io challenge stored delegation binding report =
     (let C = ae_crates E; V = cn_env (ae_connector E) in
     case still_valid delegation (ei_now io) report of
       Some current \<Rightarrow>
         try_r (b64_decode C (eb_signing_public_key_b64 binding)) (\<lambda>key.
         WorkloadIdentity_verify_session C (se_biscuit V) (se_json V) current (dg_namespace_id (sw_grant stored))
           (sc_manifest_id (dl_scope delegation)) (eb_endpoint_id binding) key (ei_now io))
     | None \<Rightarrow>
         try_r (WorkloadIdentity_mint C (se_biscuit V) (se_json V) (ae_signing_private E) delegation
             (eb_endpoint_id binding) (eb_signing_public_key_b64 binding) (ei_now io)
             (min DEFAULT_IDENTITY_LIFETIME_SECS (sc_max_child_lifetime_secs (dl_scope delegation))))
           (install_identity E io challenge stored))"

definition enroll_stored :: "'tok agent_env \<Rightarrow> enroll_io \<Rightarrow> StoredWorkload \<Rightarrow> agent \<Rightarrow> agent \<times> unit res" where
  "enroll_stored E io stored =
     (let challenge = inspection_challenge (ae_crates E) (ei_nonce io) in
     op_bind (op_res (enroll_delegation E (ei_scope_now io) stored)) (\<lambda>delegation.
     op_bind (op_res (inspected E io challenge stored)) (\<lambda>report.
     op_bind (op_res (enroll_binding E stored delegation report)) (\<lambda>binding.
     op_bind (commit_binding io binding) (\<lambda>_.
     op_res (enroll_identity E io challenge stored delegation binding report))))))"

text \<open>One workload of \<open>refresh_enrollments\<close>, under the enrollment guard.\<close>

definition refresh_one :: "'tok agent_env \<Rightarrow> enroll_io \<Rightarrow> string \<Rightarrow> agent \<Rightarrow> agent" where
  "refresh_one E io wid ag =
     (if \<not> ae_service_mesh_required E then ag
      else case mutation_with_owner wid Enrollment ag of
        (ag', Err _) \<Rightarrow> ag'
      | (ag', Ok _) \<Rightarrow>
          release_mutation wid (case hm_get (st_active (ag_state ag')) wid of
            Some stored \<Rightarrow> fst (enroll_stored E io stored ag') | None \<Rightarrow> ag'))"

end
