(* ===== verification/Agent_System.thy ===== *)
theory Agent_System
  imports Agent_Enrollment
begin

text \<open>
  The agent as a whole: all handlers running concurrently, over crashes and restarts. A handler that
  waits for the container runtime is a task of the workload it holds; the steps of the world are the
  sections of the handlers between two waits, in any interleaving. A section that writes the store and
  then the memory is one step: the two never disagree for another handler, and a crash between them
  leaves the same disk as a crash after them, or as one after a failed write.
\<close>

section \<open>What the sections do\<close>

abbreviation mem :: "agent \<Rightarrow> string \<Rightarrow> StoredWorkload option" where
  "mem ag \<equiv> hm_get (st_active (ag_state ag))"

abbreviation dsk :: "agent \<Rightarrow> string \<Rightarrow> StoredWorkload res option" where
  "dsk ag \<equiv> hm_get (ag_disk ag)"

lemma save_stored_cases:
  obtains (saved) "io = Ok ()" "save_stored w io ag = (ag\<lparr>ag_disk := hm_insert (dg_workload_id (sw_grant w)) (Ok w) (ag_disk ag)\<rparr>, Ok ())"
  | (failed) e where "io = Err e" "save_stored w io ag = (ag, Err e)"
  by (cases io) (auto simp: save_stored_def disk_save_def)

lemma remove_stored_cases:
  obtains (removed) "io = Ok ()" "remove_stored wid io ag = (ag\<lparr>ag_disk := hm_remove wid (ag_disk ag),
      ag_bindings := hm_remove wid (ag_bindings ag)\<rparr>, Ok ())"
  | (failed) e where "io = Err e" "remove_stored wid io ag = (ag, Err e)"
  by (cases io) (auto simp: remove_stored_def disk_remove_def)

lemma deploy_commit_Ok:
  assumes "deploy_commit E now io grant ex ag = (ag', Ok (stored, manifest))"
  obtains v where "hm_get (st_reservations (ag_state ag)) (dg_reservation_id grant) = Some v"
    and "rv_workload_id v = dg_workload_id grant" and "\<And>r. sw_amount r stored = rv_amount r v"
    and "sw_grant stored = grant" and "sw_runtime_id stored \<noteq> []" and "sw_phase stored = Creating"
    and "ae_target_id E (dg_workload_id grant) (dg_namespace_id grant) manifest = Ok (sw_runtime_id stored)"
    and "ag' = ag\<lparr>ag_state := (ag_state ag)\<lparr>st_reservations := hm_remove (dg_reservation_id grant) (st_reservations (ag_state ag)),
        st_active := hm_insert (dg_workload_id grant) stored (st_active (ag_state ag))\<rparr>,
      ag_disk := hm_insert (dg_workload_id grant) (Ok stored) (ag_disk ag)\<rparr>"
proof -
  have amount: "sw_amount r (planned_workload grant p v ex) = rv_amount r v" for r p v
    by (cases r) (simp_all add: planned_workload_def)
  show thesis
  proof (rule save_stored_cases [of io stored "ag\<lparr>ag_state := (ag_state ag)\<lparr>st_reservations :=
        hm_remove (dg_reservation_id grant) (st_reservations (ag_state ag))\<rparr>\<rparr>"], goal_cases)
    case 1
    then show ?case
      using assms that amount
      by (auto simp: deploy_commit_def op_bind_Ok take_reservation_def put_active_def Let_def
          planned_workload_def split: option.splits)
  next
    case 2
    then show ?case
      using assms by (auto simp: deploy_commit_def op_bind_Ok take_reservation_def Let_def split: option.splits)
  qed
qed

lemma deploy_commit_Err:
  assumes "deploy_commit E now io grant ex ag = (ag', Err e)"
  shows "ag' = ag \<or> ag' = ag\<lparr>ag_state := (ag_state ag)\<lparr>st_reservations :=
    hm_remove (dg_reservation_id grant) (st_reservations (ag_state ag))\<rparr>\<rparr>"
  using assms
  by (auto simp: deploy_commit_def op_bind_def take_reservation_def op_res_def op_ensure_def Let_def save_stored_def
      disk_save_def split: option.splits result.splits prod.splits if_splits)

text \<open>The workloads a lifecycle operation holds.\<close>

definition lifecycle :: "agent \<Rightarrow> string set" where
  "lifecycle ag = {k. hm_get (ag_mutations ag) k = Some Lifecycle}"

lemma lifecycle_upd [simp]:
  "lifecycle (ag\<lparr>ag_state := st\<rparr>) = lifecycle ag" "lifecycle (ag\<lparr>ag_disk := d\<rparr>) = lifecycle ag"
  "lifecycle (ag\<lparr>ag_replay := c\<rparr>) = lifecycle ag" "lifecycle (ag\<lparr>ag_bindings := b\<rparr>) = lifecycle ag"
  by (simp_all add: lifecycle_def)

lemma release_mutation_keeps [simp]:
  "lifecycle (release_mutation wid ag) = lifecycle ag - {wid}"
  "ag_state (release_mutation wid ag) = ag_state ag" "ag_disk (release_mutation wid ag) = ag_disk ag"
  by (auto simp: lifecycle_def release_mutation_def)

text \<open>A step that touches neither the workloads nor the guards of lifecycle operations.\<close>

definition quiet :: "agent \<Rightarrow> agent \<Rightarrow> bool" where
  "quiet ag ag' \<longleftrightarrow> ag_state ag' = ag_state ag \<and> ag_disk ag' = ag_disk ag \<and> lifecycle ag' = lifecycle ag"

lemma quiet_refl [simp]: "quiet ag ag"
  by (simp add: quiet_def)

lemma quiet_trans: "quiet ag ag' \<Longrightarrow> quiet ag' ag'' \<Longrightarrow> quiet ag ag''"
  by (simp add: quiet_def)

lemma quiet_op_bind:
  assumes "quiet ag (fst (f ag))" and "\<And>x ag'. f ag = (ag', Ok x) \<Longrightarrow> quiet ag' (fst (g x ag'))"
  shows "quiet ag (fst (op_bind f g ag))"
  using assms unfolding op_bind_def
  by (cases "f ag"; cases "snd (f ag)") (auto intro: quiet_trans)

lemma quiet_check_replay [simp]: "quiet ag (fst (check_replay op ns n x t ag))"
  by (auto simp: quiet_def check_replay_def lifecycle_def split: prod.splits)

lemma quiet_op_res [simp]: "quiet ag (fst (op_res r ag))"
  by simp

lemma quiet_op_ensure: "(c \<Longrightarrow> quiet ag (fst (k ag))) \<Longrightarrow> quiet ag (fst (op_ensure c e k ag))"
  by (simp add: op_ensure_def)

lemmas quiet_intros = quiet_op_bind quiet_op_ensure quiet_check_replay quiet_op_res

lemma quiet_deploy_accept: "quiet ag (fst (deploy_accept E io grant ag))"
  unfolding deploy_accept_def by (intro quiet_intros)

lemma quiet_update_accept: "quiet ag (fst (update_accept E io request ag))"
  unfolding update_accept_def by (intro quiet_intros)

lemma quiet_command_accept: "quiet ag (fst (command_accept E io command ag))"
  unfolding command_accept_def by (intro quiet_intros) simp

lemma owner_mutation_Ok:
  assumes "owner_mutation wid released ag = (ag', Ok ())"
  shows "wid \<notin> lifecycle ag" and "lifecycle ag' = insert wid (lifecycle ag)"
    and "ag_state ag' = ag_state ag" and "ag_disk ag' = ag_disk ag"
  using assms
  by (auto simp: owner_mutation_def mutation_with_owner_def lifecycle_def release_mutation_def
      split: if_splits option.splits MutationOwner.splits)

lemma owner_mutation_Err:
  assumes "owner_mutation wid released ag = (ag', Err e)"
  shows "quiet ag ag'"
  using assms
  by (auto simp: owner_mutation_def mutation_with_owner_def lifecycle_def release_mutation_def quiet_def
      split: if_splits option.splits MutationOwner.splits)

section \<open>The world\<close>

text \<open>\<open>wd_pods\<close> are the names of the pods that may be running: a deployment adds the name of its pod
  when it asks the runtime, whatever the runtime answers, and only a deletion the runtime confirmed
  takes one away.\<close>

datatype task =
  Deploying StoredWorkload bytes
| Cleaning StoredWorkload
| Replacing UpdateRequest ExecutionSpec bytes StoredWorkload
| RollingBack UpdateRequest StoredWorkload
| Deleting WorkloadCommand StoredWorkload delete_plan

record world =
  wd_up :: bool
  wd_agent :: agent
  wd_tasks :: "(string, task) hmap"
  wd_pods :: "string set"

definition ok_set :: "'a res \<Rightarrow> 'a set" where
  "ok_set r = (case r of Ok x \<Rightarrow> {x} | Err _ \<Rightarrow> {})"

definition deployed_pod :: "'tok agent_env \<Rightarrow> string \<Rightarrow> string \<Rightarrow> DeploymentGrant \<Rightarrow> string set" where
  "deployed_pod E wid namespace grant =
     ok_set (try_r (decode_execution E grant) (\<lambda>execution.
       try_r (runtime_manifest E wid namespace execution) (\<lambda>(manifest, _). ae_target_id E wid namespace manifest)))"

definition without_pod :: "string \<Rightarrow> unit res \<Rightarrow> string set \<Rightarrow> string set" where
  "without_pod pod r pods = (if r = Ok () then pods - {pod} else pods)"

definition cleanup_pods :: "'tok agent_env \<Rightarrow> cleanup_io \<Rightarrow> StoredWorkload \<Rightarrow> string set \<Rightarrow> string set" where
  "cleanup_pods E io stored pods =
     (case cleanup_target E stored of
        Ok pod \<Rightarrow> without_pod pod (runtime_res ''failed deployment cleanup''
          (cleanup_failed_deploy (cl_delete io) pod (sw_phase stored \<noteq> CleanupPending False))) pods
      | Err _ \<Rightarrow> pods)"

definition delete_pods ::
  "'tok agent_env \<Rightarrow> command_io \<Rightarrow> StoredWorkload \<Rightarrow> delete_plan \<Rightarrow> string set \<Rightarrow> string set" where
  "delete_pods E io active plan pods =
     (case plan of
        CleanUp \<Rightarrow> cleanup_pods E (ci_cleanup io) active pods
      | Refuse _ \<Rightarrow> pods
      | Remove \<Rightarrow> without_pod (sw_runtime_id active) (runtime_delete io active) pods)"

definition restore_pods :: "'tok agent_env \<Rightarrow> restore_io \<Rightarrow> StoredWorkload \<Rightarrow> string set \<Rightarrow> string set" where
  "restore_pods E io stored pods =
     (let wid = dg_workload_id (sw_grant stored) in
      if needs_cleanup stored then cleanup_pods E (ri_cleanup io) stored pods
      else if sw_deleting stored then
        without_pod (sw_runtime_id stored) (runtime_res ''reconciliation delete'' (ri_delete io (sw_runtime_id stored))) pods
      else case sw_phase stored of
        Updating _ _ request \<Rightarrow> pods \<union> deployed_pod E wid (uq_namespace_id request) (uq_grant request)
      | _ \<Rightarrow> pods \<union> deployed_pod E wid (dg_namespace_id (sw_grant stored)) (sw_grant stored))"

fun restart_pods ::
  "'tok agent_env \<Rightarrow> (string \<Rightarrow> restore_io) \<Rightarrow> (string \<times> StoredWorkload res) list \<Rightarrow> string set \<Rightarrow> string set" where
  "restart_pods E io [] pods = pods"
| "restart_pods E io ((wid, Err e) # rest) pods = restart_pods E io rest pods"
| "restart_pods E io ((wid, Ok stored) # rest) pods = restart_pods E io rest (restore_pods E (io wid) stored pods)"

text \<open>A crash loses everything but the store. A restart reconciles the records one by one before the agent
  serves anything, and may be interrupted by another crash.\<close>

definition crashed :: "agent \<Rightarrow> agent" where
  "crashed ag = ag\<lparr>ag_state := WorkloadState_default, ag_mutations := [], ag_replay := ReplayCache_default,
     ag_endpoint := None\<rparr>"

text \<open>Both runtimes return from \<open>deploy\<close> the name \<open>target_id\<close> gives.\<close>

definition returns_target :: "'tok agent_env \<Rightarrow> (string \<Rightarrow> string \<Rightarrow> bytes \<Rightarrow> string runtime_call) \<Rightarrow> bool" where
  "returns_target E deploy \<longleftrightarrow>
     (\<forall>wid ns m t. deploy wid ns m = Answered (Ok t) \<longrightarrow> ae_target_id E wid ns m = Ok t)"

text \<open>\<open>P\<close> restricts the updates of a run.\<close>

inductive step ::
  "'tok agent_env \<Rightarrow> (StoredWorkload \<Rightarrow> UpdateRequest \<Rightarrow> bool) \<Rightarrow> world \<Rightarrow> world \<Rightarrow> bool"
  for E P where
  step_admit: "wd_up w \<Longrightarrow> step E P w (w\<lparr>wd_agent := fst (admit E io q (wd_agent w))\<rparr>)"
| step_offer: "wd_up w \<Longrightarrow> step E P w (w\<lparr>wd_agent := fst (capacity_offer E cq a now (wd_agent w))\<rparr>)"
| step_list: "wd_up w \<Longrightarrow> step E P w (w\<lparr>wd_agent := fst (list_inner E now now' seal lq (wd_agent w))\<rparr>)"
| step_inspect: "wd_up w \<Longrightarrow> cm_operation c \<noteq> Delete \<Longrightarrow>
    step E P w (w\<lparr>wd_agent := fst (AgentService_command E cio c (wd_agent w))\<rparr>)"
| step_enroll: "wd_up w \<Longrightarrow> step E P w (w\<lparr>wd_agent := refresh_one E eio wid (wd_agent w)\<rparr>)"
| deploy_refused: "wd_up w \<Longrightarrow> deploy_begin E dio g (wd_agent w) = (ag, Err e) \<Longrightarrow> step E P w (w\<lparr>wd_agent := ag\<rparr>)"
| deploy_started: "wd_up w \<Longrightarrow> deploy_begin E dio g (wd_agent w) = (ag, Ok (stored, manifest)) \<Longrightarrow>
    step E P w (w\<lparr>wd_agent := ag, wd_tasks := hm_insert (dg_workload_id g) (Deploying stored manifest) (wd_tasks w),
      wd_pods := insert (sw_runtime_id stored) (wd_pods w)\<rparr>)"
| deploy_done: "wd_up w \<Longrightarrow> hm_get (wd_tasks w) wid = Some (Deploying stored manifest) \<Longrightarrow>
    deploy_answer dio stored manifest (wd_agent w) = (ag, Ok rid) \<Longrightarrow>
    step E P w (w\<lparr>wd_agent := release_mutation wid ag, wd_tasks := hm_remove wid (wd_tasks w)\<rparr>)"
| deploy_failed: "wd_up w \<Longrightarrow> hm_get (wd_tasks w) wid = Some (Deploying stored manifest) \<Longrightarrow>
    deploy_answer dio stored manifest (wd_agent w) = (ag, Err (e, uncertain)) \<Longrightarrow>
    step E P w (w\<lparr>wd_agent := mark_failed save (stored\<lparr>sw_phase := CleanupPending uncertain\<rparr>) ag,
      wd_tasks := hm_insert wid (Cleaning (stored\<lparr>sw_phase := CleanupPending uncertain\<rparr>)) (wd_tasks w)\<rparr>)"
| cleanup_done: "wd_up w \<Longrightarrow> hm_get (wd_tasks w) wid = Some (Cleaning stored) \<Longrightarrow>
    step E P w (w\<lparr>wd_agent := release_mutation wid (finish_cleanup E cl stored (wd_agent w)),
      wd_tasks := hm_remove wid (wd_tasks w), wd_pods := cleanup_pods E cl stored (wd_pods w)\<rparr>)"
| update_refused: "wd_up w \<Longrightarrow> update_begin E uio u (wd_agent w) = (ag, Err e) \<Longrightarrow> step E P w (w\<lparr>wd_agent := ag\<rparr>)"
| update_answered: "wd_up w \<Longrightarrow> update_begin E uio u (wd_agent w) = (ag, Ok (ex, manifest, Inl r)) \<Longrightarrow>
    step E P w (w\<lparr>wd_agent := release_mutation (uq_workload_id u) ag\<rparr>)"
| update_started: "wd_up w \<Longrightarrow> update_begin E uio u (wd_agent w) = (ag, Ok (ex, manifest, Inr active)) \<Longrightarrow> P active u \<Longrightarrow>
    step E P w (w\<lparr>wd_agent := ag, wd_tasks := hm_insert (uq_workload_id u) (Replacing u ex manifest active) (wd_tasks w),
      wd_pods := wd_pods w \<union> ok_set (ae_target_id E (uq_workload_id u) (uq_namespace_id u) manifest)\<rparr>)"
| update_done: "wd_up w \<Longrightarrow> hm_get (wd_tasks w) wid = Some (Replacing u ex manifest active) \<Longrightarrow> returns_target E (ui_deploy uio) \<Longrightarrow>
    update_answer uio u ex manifest (wd_agent w) = (ag, Ok stored) \<Longrightarrow>
    step E P w (w\<lparr>wd_agent := release_mutation wid ag, wd_tasks := hm_remove wid (wd_tasks w)\<rparr>)"
| update_unsaved: "wd_up w \<Longrightarrow> hm_get (wd_tasks w) wid = Some (Replacing u ex manifest active) \<Longrightarrow>
    update_answer uio u ex manifest (wd_agent w) = (ag, Err (e, False)) \<Longrightarrow>
    step E P w (w\<lparr>wd_agent := release_mutation wid ag, wd_tasks := hm_remove wid (wd_tasks w)\<rparr>)"
| update_failed: "wd_up w \<Longrightarrow> hm_get (wd_tasks w) wid = Some (Replacing u ex manifest active) \<Longrightarrow>
    update_answer uio u ex manifest (wd_agent w) = (ag, Err (e, True)) \<Longrightarrow>
    step E P w (w\<lparr>wd_agent := ag, wd_tasks := hm_insert wid (RollingBack u active) (wd_tasks w),
      wd_pods := wd_pods w \<union> deployed_pod E (dg_workload_id (sw_grant active)) (dg_namespace_id (sw_grant active)) (sw_grant active)\<rparr>)"
| rollback_done: "wd_up w \<Longrightarrow> hm_get (wd_tasks w) wid = Some (RollingBack u active) \<Longrightarrow>
    step E P w (w\<lparr>wd_agent := release_mutation wid (fst (update_rollback E uio active (wd_agent w))),
      wd_tasks := hm_remove wid (wd_tasks w)\<rparr>)"
| delete_refused: "wd_up w \<Longrightarrow> delete_claim E cio c (wd_agent w) = (ag, Err e) \<Longrightarrow> step E P w (w\<lparr>wd_agent := ag\<rparr>)"
| delete_started: "wd_up w \<Longrightarrow> delete_claim E cio c (wd_agent w) = (ag, Ok (active, plan)) \<Longrightarrow>
    step E P w (w\<lparr>wd_agent := ag, wd_tasks := hm_insert (cm_workload_id c) (Deleting c active plan) (wd_tasks w)\<rparr>)"
| delete_done: "wd_up w \<Longrightarrow> hm_get (wd_tasks w) wid = Some (Deleting c active plan) \<Longrightarrow>
    step E P w (w\<lparr>wd_agent := release_mutation wid (fst (delete_end E cio c active plan (wd_agent w))),
      wd_tasks := hm_remove wid (wd_tasks w), wd_pods := delete_pods E cio active plan (wd_pods w)\<rparr>)"
| crash: "step E P w (w\<lparr>wd_up := False, wd_agent := crashed (wd_agent w), wd_tasks := []\<rparr>)"
| restart_interrupted: "\<not> wd_up w \<Longrightarrow> \<forall>wid. returns_target E (ri_deploy (rio wid)) \<Longrightarrow>
    step E P w (w\<lparr>wd_agent := crashed (fst (restore_loop E rio (take n (ag_disk (wd_agent w))) ([], {}) (wd_agent w))),
      wd_pods := restart_pods E rio (take n (ag_disk (wd_agent w))) (wd_pods w)\<rparr>)"
| restart: "\<not> wd_up w \<Longrightarrow> restore_inner E (Ok ()) rio (wd_agent w) = (ag, Ok ()) \<Longrightarrow>
    \<forall>wid. returns_target E (ri_deploy (rio wid)) \<Longrightarrow>
    step E P w (w\<lparr>wd_up := True, wd_agent := ag, wd_pods := restart_pods E rio (ag_disk (wd_agent w)) (wd_pods w)\<rparr>)"

definition started :: "world \<Rightarrow> bool" where
  "started w \<longleftrightarrow> wd_up w \<and> ag_state (wd_agent w) = WorkloadState_default \<and> ag_mutations (wd_agent w) = []
     \<and> ag_disk (wd_agent w) = [] \<and> wd_tasks w = [] \<and> wd_pods w = {}"

definition reachable :: "'tok agent_env \<Rightarrow> (StoredWorkload \<Rightarrow> UpdateRequest \<Rightarrow> bool) \<Rightarrow> world \<Rightarrow> bool" where
  "reachable E P w \<longleftrightarrow> (\<exists>w0. started w0 \<and> (step E P)\<^sup>*\<^sup>* w0 w)"

section \<open>The invariant\<close>

text \<open>Memory and store may differ in the phase and the deletion mark of a record, never in its grant, its
  pod or its amounts.\<close>

definition twins :: "StoredWorkload \<Rightarrow> StoredWorkload \<Rightarrow> bool" where
  "twins w v \<longleftrightarrow> sw_grant w = sw_grant v \<and> sw_runtime_id w = sw_runtime_id v \<and> (\<forall>r. sw_amount r w = sw_amount r v)"

text \<open>An interrupted update can be resumed: it is charged with the amounts it asked for and keeps the
  workload's identity.\<close>

definition uq_amount :: "resource \<Rightarrow> UpdateRequest \<Rightarrow> nat" where
  "uq_amount r u = res_args r (uq_cpu_milli u) (uq_memory_bytes u) (uq_storage_bytes u)"

definition resumable :: "string \<Rightarrow> StoredWorkload \<Rightarrow> bool" where
  "resumable k v \<longleftrightarrow> (case sw_phase v of
     Updating _ _ u \<Rightarrow> dg_workload_id (uq_grant u) = k \<and> (\<forall>r. sw_amount r v = uq_amount r u) | _ \<Rightarrow> True)"

definition named :: "(string \<Rightarrow> string) \<Rightarrow> string \<Rightarrow> StoredWorkload \<Rightarrow> bool" where
  "named name k v \<longleftrightarrow> sw_runtime_id v = name k \<and> sw_runtime_id v \<noteq> [] \<and> dg_workload_id (sw_grant v) = k
     \<and> resumable k v"

definition recorded :: "(string \<Rightarrow> string) \<Rightarrow> string \<Rightarrow> StoredWorkload option \<Rightarrow> StoredWorkload res option \<Rightarrow> bool" where
  "recorded name k m d \<longleftrightarrow>
     (case m of None \<Rightarrow> d = None | Some w \<Rightarrow> named name k w \<and> (\<exists>v. d = Some (Ok v) \<and> twins w v \<and> named name k v))"

fun holds_task :: "string \<Rightarrow> task \<Rightarrow> StoredWorkload option \<Rightarrow> bool" where
  "holds_task k (Deploying stored manifest) m \<longleftrightarrow> m = Some stored"
| "holds_task k (Cleaning stored) m \<longleftrightarrow> m = Some stored"
| "holds_task k (Replacing u ex manifest active) m \<longleftrightarrow>
     m = Some (transitioning active u) \<and> sw_phase active = Active \<and> uq_workload_id u = k \<and> dg_workload_id (uq_grant u) = k"
| "holds_task k (RollingBack u active) m \<longleftrightarrow> m = Some (transitioning active u) \<and> sw_phase active = Active"
| "holds_task k (Deleting c active plan) m \<longleftrightarrow> cm_workload_id c = k \<and> (\<exists>w. m = Some w \<and> w\<lparr>sw_deleting := False\<rparr> = active\<lparr>sw_deleting := False\<rparr>)"

definition durable :: "(string \<Rightarrow> string) \<Rightarrow> disk \<Rightarrow> string set \<Rightarrow> bool" where
  "durable name d pods \<longleftrightarrow> hm_wf d \<and> (\<forall>k x. hm_get d k = Some x \<longrightarrow> (\<exists>v. x = Ok v \<and> named name k v))
     \<and> pods \<subseteq> name ` hm_keys d"

definition live :: "'tok agent_env \<Rightarrow> (string \<Rightarrow> string) \<Rightarrow> world \<Rightarrow> bool" where
  "live E name w \<longleftrightarrow> st_inv (ae_config E) (ag_state (wd_agent w)) \<and> st_quarantined (ag_state (wd_agent w)) = {}
     \<and> (\<forall>k. recorded name k (mem (wd_agent w) k) (dsk (wd_agent w) k))
     \<and> (\<forall>k t. hm_get (wd_tasks w) k = Some t \<longrightarrow> k \<in> lifecycle (wd_agent w) \<and> holds_task k t (mem (wd_agent w) k))"

definition world_inv :: "'tok agent_env \<Rightarrow> (string \<Rightarrow> string) \<Rightarrow> world \<Rightarrow> bool" where
  "world_inv E name w \<longleftrightarrow> durable name (ag_disk (wd_agent w)) (wd_pods w) \<and> (wd_up w \<longrightarrow> live E name w)"

lemma twins_refl [simp]: "twins w w"
  by (simp add: twins_def)

lemma twins_sym: "twins w v \<Longrightarrow> twins v w"
  by (simp add: twins_def)

lemma twins_trans: "twins w v \<Longrightarrow> twins v u \<Longrightarrow> twins w u"
  by (simp add: twins_def)

lemma sw_amount_phase [simp]:
  "sw_amount r (w\<lparr>sw_phase := p\<rparr>) = sw_amount r w" "sw_amount r (w\<lparr>sw_deleting := b\<rparr>) = sw_amount r w"
  "sw_amount r (w\<lparr>sw_runtime_id := i\<rparr>) = sw_amount r w"
  by (cases r; simp)+

lemma twins_phase [simp]:
  "twins (w\<lparr>sw_phase := p\<rparr>) v = twins w v" "twins w (v\<lparr>sw_phase := p\<rparr>) = twins w v"
  "twins (w\<lparr>sw_deleting := b\<rparr>) v = twins w v" "twins w (v\<lparr>sw_deleting := b\<rparr>) = twins w v"
  by (simp_all add: twins_def)

lemma recorded_None [simp]: "recorded name k None d \<longleftrightarrow> d = None"
  by (simp add: recorded_def)

lemma recorded_Some [simp]:
  "recorded name k (Some w) d \<longleftrightarrow> named name k w \<and> (\<exists>v. d = Some (Ok v) \<and> twins w v \<and> named name k v)"
  by (simp add: recorded_def)

lemma resumable_phase [simp]:
  "resumable k (w\<lparr>sw_deleting := b\<rparr>) = resumable k w" "resumable k (w\<lparr>sw_phase := Active\<rparr>)"
  "resumable k (w\<lparr>sw_phase := CleanupPending c\<rparr>)" "sw_phase w = Active \<Longrightarrow> resumable k w"
  by (simp_all add: resumable_def split: StoredWorkloadPhase.splits)

lemma resumable_planned [simp]: "resumable k (planned_workload g p v ex)" "resumable k (updated u rid ex)"
  by (simp_all add: resumable_def planned_workload_def updated_def)

lemma named_deleting [simp]: "named name k (w\<lparr>sw_deleting := b\<rparr>) = named name k w"
  by (simp add: named_def)

lemma named_phase:
  "named name k w \<Longrightarrow> named name k (w\<lparr>sw_phase := Active\<rparr>)"
  "named name k w \<Longrightarrow> named name k (w\<lparr>sw_phase := CleanupPending c\<rparr>)"
  by (auto simp: named_def)

lemma sw_amount_transitioning [simp]: "sw_amount r (transitioning active u) = uq_amount r u"
  by (cases r) (simp_all add: transitioning_def uq_amount_def)

lemma durable_slice:
  assumes D: "durable name d pods" and wf: "hm_wf d'"
    and off: "\<And>k. k \<noteq> wid \<Longrightarrow> hm_get d' k = hm_get d k"
    and at: "\<And>x. hm_get d' wid = Some x \<Longrightarrow> \<exists>v. x = Ok v \<and> named name wid v"
    and pods: "pods' \<subseteq> insert (name wid) pods" "hm_get d' wid = None \<Longrightarrow> name wid \<notin> pods'"
  shows "durable name d' pods'"
proof -
  have "\<exists>v. x = Ok v \<and> named name k v" if "hm_get d' k = Some x" for k x
    using D at off that unfolding durable_def by (cases "k = wid") auto
  moreover have "t \<in> name ` hm_keys d'" if t: "t \<in> pods'" for t
  proof (cases "t = name wid")
    case True
    then have "wid \<in> hm_keys d'" using pods(2) t by (auto simp: hm_keys_dom)
    then show ?thesis using True by blast
  next
    case False
    then obtain k where k: "k \<in> hm_keys d" "t = name k" using D pods(1) t by (auto simp: durable_def)
    then have "k \<noteq> wid" using False by blast
    from off [OF this] k(1) have "k \<in> hm_keys d'" by (simp add: hm_keys_dom dom_def)
    then show ?thesis using k(2) by blast
  qed
  ultimately show ?thesis using wf unfolding durable_def by blast
qed

lemma world_inv_slice:
  assumes inv: "world_inv E name w" "wd_up w"
    and off: "\<And>k. k \<noteq> wid \<Longrightarrow> mem ag k = mem (wd_agent w) k" "\<And>k. k \<noteq> wid \<Longrightarrow> dsk ag k = dsk (wd_agent w) k"
    and wf: "hm_wf (ag_disk ag)" and st: "st_inv (ae_config E) (ag_state ag)" "st_quarantined (ag_state ag) = {}"
    and rec: "recorded name wid (mem ag wid) (dsk ag wid)"
    and guards: "lifecycle (wd_agent w) - {wid} \<subseteq> lifecycle ag"
    and tasks: "tasks = hm_remove wid (wd_tasks w)
      \<or> (\<exists>t. tasks = hm_insert wid t (wd_tasks w) \<and> wid \<in> lifecycle ag \<and> holds_task wid t (mem ag wid))"
    and pods: "pods \<subseteq> insert (name wid) (wd_pods w)" "mem ag wid = None \<Longrightarrow> name wid \<notin> pods"
  shows "world_inv E name (w\<lparr>wd_agent := ag, wd_tasks := tasks, wd_pods := pods\<rparr>)"
proof -
  have D: "durable name (ag_disk (wd_agent w)) (wd_pods w)" and L: "live E name w"
    using inv by (simp_all add: world_inv_def)
  have "durable name (ag_disk ag) pods"
  proof (rule durable_slice [where wid = wid, OF D wf _ _ pods(1)])
    show "dsk ag k = dsk (wd_agent w) k" if "k \<noteq> wid" for k using off(2) that .
    show "\<exists>v. x = Ok v \<and> named name wid v" if "dsk ag wid = Some x" for x
      using rec that by (cases "mem ag wid") auto
    show "name wid \<notin> pods" if "dsk ag wid = None"
      using rec that pods(2) by (cases "mem ag wid") auto
  qed
  moreover have "recorded name k (mem ag k) (dsk ag k)" for k
    using L rec off unfolding live_def by (cases "k = wid") simp_all
  moreover have "k \<in> lifecycle ag \<and> holds_task k t (mem ag k)" if "hm_get tasks k = Some t" for k t
    using tasks that L off(1) guards unfolding live_def by (cases "k = wid") auto
  ultimately show ?thesis using st by (simp add: world_inv_def live_def)
qed

lemma world_inv_quiet:
  assumes "world_inv E name w" "wd_up w" and "st_active (ag_state ag) = st_active (ag_state (wd_agent w))"
    and "ag_disk ag = ag_disk (wd_agent w)" and "lifecycle ag = lifecycle (wd_agent w)"
    and "st_inv (ae_config E) (ag_state ag)" "st_quarantined (ag_state ag) = st_quarantined (ag_state (wd_agent w))"
  shows "world_inv E name (w\<lparr>wd_agent := ag\<rparr>)"
  using assms by (simp add: world_inv_def durable_def live_def)

section \<open>Every step keeps it\<close>

text \<open>Steps that leave the workloads alone.\<close>

lemma reserve_effect:
  "st_active (ag_state (fst (reserve E io q ag))) = st_active (ag_state ag)"
  "st_quarantined (ag_state (fst (reserve E io q ag))) = st_quarantined (ag_state ag)"
  "ag_disk (fst (reserve E io q ag)) = ag_disk ag" "lifecycle (fst (reserve E io q ag)) = lifecycle ag"
  by (simp_all add: reserve_def Let_def drop_expired_reservations_def split: result.splits)

lemma admit_effect:
  "st_active (ag_state (fst (admit E io q ag))) = st_active (ag_state ag)"
  "st_quarantined (ag_state (fst (admit E io q ag))) = st_quarantined (ag_state ag)"
  "ag_disk (fst (admit E io q ag)) = ag_disk ag" "lifecycle (fst (admit E io q ag)) = lifecycle ag"
  using quiet_check_replay [unfolded quiet_def]
  by (simp_all add: admit_def fst_op_bind fst_op_ensure reserve_effect split: result.splits)

lemma capacity_offer_effect:
  "ag_disk (fst (capacity_offer E q a now ag)) = ag_disk ag"
  "lifecycle (fst (capacity_offer E q a now ag)) = lifecycle ag"
  "ag_state (fst (capacity_offer E q a now ag)) \<in> {ag_state ag, drop_expired_reservations now (ag_state ag)}"
  by (simp_all add: capacity_offer_def op_bind_def op_res_def Let_def split: result.splits)

lemma quiet_list: "quiet ag (fst (list_inner E now now' seal lq ag))"
  unfolding list_inner_def by (intro quiet_intros) simp

lemma quiet_inspect: "cm_operation c \<noteq> Delete \<Longrightarrow> quiet ag (fst (AgentService_command E io c ag))"
  unfolding AgentService_command_def Let_def
  by (rule quiet_op_bind [OF quiet_command_accept]) (auto intro: quiet_intros)

lemma quiet_commit_binding: "quiet ag (fst (commit_binding io b ag))"
  unfolding commit_binding_def
  by (intro quiet_intros) (auto simp: quiet_def save_enrollment_def op_ensure_def Let_def split: result.splits)

lemma quiet_enroll: "quiet ag (fst (enroll_stored E io stored ag))"
  unfolding enroll_stored_def Let_def by (intro quiet_intros quiet_commit_binding)

lemma quiet_refresh: "quiet ag (refresh_one E io wid ag)"
proof (cases "mutation_with_owner wid Enrollment ag")
  case (Pair ag' r)
  show ?thesis
  proof (cases r)
    case (Err e)
    then have "ag' = ag" using Pair by (auto simp: mutation_with_owner_def split: if_splits option.splits MutationOwner.splits)
    then show ?thesis using Pair Err by (simp add: refresh_one_def)
  next
    case (Ok u)
    then have taken: "hm_get (ag_mutations ag) wid = None"
      "ag' = ag\<lparr>ag_mutations := hm_insert wid Enrollment (ag_mutations ag)\<rparr>"
      using Pair by (auto simp: mutation_with_owner_def split: if_splits option.splits MutationOwner.splits)
    then have same: "quiet ag ag'" and free: "wid \<notin> lifecycle ag" by (auto simp: quiet_def lifecycle_def)
    then have "quiet ag ag'' \<Longrightarrow> quiet ag (release_mutation wid ag'')" for ag'' by (simp add: quiet_def)
    moreover have "quiet ag (case mem ag' wid of Some stored \<Rightarrow> fst (enroll_stored E io stored ag') | None \<Rightarrow> ag')"
      using same quiet_trans [OF same quiet_enroll] by (auto split: option.splits)
    ultimately show ?thesis using Pair Ok by (simp add: refresh_one_def)
  qed
qed

text \<open>The steps of a deployment.\<close>

definition stable :: "'tok agent_env \<Rightarrow> (string \<Rightarrow> string) \<Rightarrow> bool" where
  "stable E name \<longleftrightarrow> (\<forall>wid ns m t. ae_target_id E wid ns m = Ok t \<longrightarrow> t = name wid)"

lemma world_invD:
  assumes "world_inv E name w" and "wd_up w"
  shows "durable name (ag_disk (wd_agent w)) (wd_pods w)" and "hm_wf (ag_disk (wd_agent w))"
    and "st_inv (ae_config E) (ag_state (wd_agent w))" and "st_quarantined (ag_state (wd_agent w)) = {}"
    and "recorded name k (mem (wd_agent w) k) (dsk (wd_agent w) k)"
    and "hm_get (wd_tasks w) k = Some t \<Longrightarrow> k \<in> lifecycle (wd_agent w)"
    and "hm_get (wd_tasks w) k = Some t \<Longrightarrow> holds_task k t (mem (wd_agent w) k)"
  using assms by (simp_all add: world_inv_def live_def durable_def)

text \<open>How the three lifecycle operations take hold of a workload.\<close>

definition claims :: "string \<Rightarrow> agent \<Rightarrow> agent \<Rightarrow> bool" where
  "claims wid ag ag' \<longleftrightarrow> wid \<notin> lifecycle ag \<and> lifecycle ag' = insert wid (lifecycle ag)
     \<and> ag_state ag' = ag_state ag \<and> ag_disk ag' = ag_disk ag"

lemma claim_cases:
  assumes run: "op_bind accept (\<lambda>x. op_bind (owner_mutation wid b) (\<lambda>_.
      op_guard (release_mutation wid) (body x))) ag = (ag', r)"
    and quiet: "quiet ag (fst (accept ag))"
  obtains (before) e where "r = Err e" and "quiet ag ag'"
  | (refused) x ag1 ag2 e where "claims wid ag ag1" and "body x ag1 = (ag2, Err e)" and "r = Err e"
      and "ag' = release_mutation wid ag2"
  | (claimed) x ag1 y where "claims wid ag ag1" and "body x ag1 = (ag', Ok y)" and "r = Ok y"
proof -
  obtain ag1 r1 where accept: "accept ag = (ag1, r1)" by fastforce
  obtain ag2 r2 where claim: "owner_mutation wid b ag1 = (ag2, r2)" by fastforce
  have q: "quiet ag ag1" using quiet accept by simp
  show thesis
  proof (cases r1)
    case (Err e)
    with run accept q show ?thesis by (intro before [of e]) (auto simp: op_bind_def)
  next
    case r1: (Ok x)
    show ?thesis
    proof (cases r2)
      case (Err e)
      with run accept r1 claim q owner_mutation_Err [of wid b ag1 ag2 e] show ?thesis
        by (intro before [of e]) (auto simp: op_bind_def intro: quiet_trans)
    next
      case (Ok u)
      then have c: "claims wid ag ag2"
        using owner_mutation_Ok [of wid b ag1 ag2] claim q by (simp add: claims_def quiet_def)
      obtain ag3 r3 where body: "body x ag2 = (ag3, r3)" by fastforce
      have whole: "op_guard (release_mutation wid) (body x) ag2 = (ag', r)"
        using run accept r1 claim Ok by (simp add: op_bind_def)
      show ?thesis
      proof (cases r3)
        case (Ok y)
        with whole body show ?thesis by (intro claimed [OF c, of x y]) (auto simp: op_guard_def)
      next
        case (Err e)
        with whole body show ?thesis by (intro refused [OF c, of x ag3 e]) (auto simp: op_guard_def)
      qed
    qed
  qed
qed

lemma deploy_begin_cases:
  assumes "deploy_begin E io g ag = (ag', r)"
  obtains (refused) e where "r = Err e" and "ag_disk ag' = ag_disk ag" and "lifecycle ag' = lifecycle ag"
      and "ag_state ag' = ag_state ag \<or> ag_state ag' = (ag_state ag)\<lparr>st_reservations :=
        hm_remove (dg_reservation_id g) (st_reservations (ag_state ag))\<rparr>"
  | (started) ag1 now ex stored manifest where "r = Ok (stored, manifest)" and "claims (dg_workload_id g) ag ag1"
      and "deploy_commit E now (di_save io) g ex ag1 = (ag', Ok (stored, manifest))"
proof (rule claim_cases [OF assms [unfolded deploy_begin_def] quiet_deploy_accept], goal_cases)
  case (1 e)
  then show ?case by (intro refused [of e]) (simp_all add: quiet_def)
next
  case (2 ex ag1 ag2 e)
  then have "ag2 = ag1 \<or> (\<exists>e. deploy_commit E (di_locked_now io) (di_save io) g ex ag1 = (ag2, Err e))"
    by (auto simp: op_bind_def op_res_def split: result.splits)
  then have "ag_disk ag2 = ag_disk ag1" "lifecycle ag2 = lifecycle ag1" "ag_state ag2 = ag_state ag1
      \<or> ag_state ag2 = (ag_state ag1)\<lparr>st_reservations := hm_remove (dg_reservation_id g) (st_reservations (ag_state ag1))\<rparr>"
    by (auto dest: deploy_commit_Err)
  with 2 show ?case by (intro refused [of e]) (auto simp: claims_def)
next
  case (3 ex ag1 y)
  then show ?case by (cases y) (auto simp: op_bind_Ok intro: started)
qed

lemma inv_deploy_refused:
  assumes "world_inv E name w" and "wd_up w" and "deploy_begin E io g (wd_agent w) = (ag, Err e)"
  shows "world_inv E name (w\<lparr>wd_agent := ag\<rparr>)"
  using assms(3)
proof (cases rule: deploy_begin_cases)
  case (refused e')
  note st = world_invD(3) [OF assms(1,2)]
  have "st_inv (ae_config E) (ag_state ag)"
    using refused(4) st st_inv_consume(1) [OF st] by auto
  then show ?thesis using refused by (intro world_inv_quiet [OF assms(1,2)]) auto
qed simp

lemma inv_deploy_started:
  assumes "world_inv E name w" and "wd_up w" and "stable E name"
    and "deploy_begin E io g (wd_agent w) = (ag, Ok (stored, manifest))"
  shows "world_inv E name (w\<lparr>wd_agent := ag,
    wd_tasks := hm_insert (dg_workload_id g) (Deploying stored manifest) (wd_tasks w),
    wd_pods := insert (sw_runtime_id stored) (wd_pods w)\<rparr>)"
  using assms(4)
proof (cases rule: deploy_begin_cases)
  case (started ag1 now ex stored' manifest')
  let ?wid = "dg_workload_id g"
  have eq: "stored' = stored" "manifest' = manifest" using started(1) by simp_all
  note c = started(2) [unfolded claims_def]
  from deploy_commit_Ok [OF started(3) [unfolded eq]] obtain v where
    v: "hm_get (st_reservations (ag_state ag1)) (dg_reservation_id g) = Some v" "rv_workload_id v = ?wid"
      "\<And>r. sw_amount r stored = rv_amount r v" "sw_grant stored = g" "sw_runtime_id stored \<noteq> []" "sw_phase stored = Creating"
      "ae_target_id E ?wid (dg_namespace_id g) manifest = Ok (sw_runtime_id stored)"
    and ag: "ag = ag1\<lparr>ag_state := (ag_state ag1)\<lparr>st_reservations := hm_remove (dg_reservation_id g) (st_reservations (ag_state ag1)),
        st_active := hm_insert ?wid stored (st_active (ag_state ag1))\<rparr>,
      ag_disk := hm_insert ?wid (Ok stored) (ag_disk ag1)\<rparr>" by blast
  have name: "sw_runtime_id stored = name ?wid" using assms(3) v(7) by (simp add: stable_def)
  note inv = world_invD [OF assms(1,2)]
  have st: "st_inv (ae_config E) (ag_state ag)"
    using st_inv_commit(1) [OF inv(3), of "dg_reservation_id g" v stored] v c by (simp add: ag)
  show ?thesis
    by (rule world_inv_slice [OF assms(1,2), where wid = ?wid])
      (use c inv st name v in \<open>auto simp: ag named_def resumable_def\<close>)
qed simp

lemma deploy_answer_cases:
  assumes "deploy_answer io stored manifest ag = (ag', r)"
  obtains (settled) "r = Ok (sw_runtime_id stored)"
      and "ag' = put_active (stored\<lparr>sw_phase := Active\<rparr>) (ag\<lparr>ag_disk :=
        hm_insert (dg_workload_id (sw_grant stored)) (Ok (stored\<lparr>sw_phase := Active\<rparr>)) (ag_disk ag)\<rparr>)"
  | (failed) e uncertain where "r = Err (e, uncertain)" and "ag' = ag"
  using assms
  by (auto simp: deploy_answer_def Let_def save_stored_def disk_save_def split: result.splits if_splits prod.splits)

lemma put_active_simps [simp]:
  "ag_state (put_active w ag) = (ag_state ag)\<lparr>st_active := hm_insert (dg_workload_id (sw_grant w)) w (st_active (ag_state ag))\<rparr>"
  "ag_disk (put_active w ag) = ag_disk ag" "lifecycle (put_active w ag) = lifecycle ag"
  by (simp_all add: put_active_def)

lemma drop_active_simps [simp]:
  "ag_state (drop_active wid ag) = (ag_state ag)\<lparr>st_active := hm_remove wid (st_active (ag_state ag))\<rparr>"
  "ag_disk (drop_active wid ag) = ag_disk ag" "lifecycle (drop_active wid ag) = lifecycle ag"
  by (simp_all add: drop_active_def)

lemma task_record:
  assumes "world_inv E name w" and "wd_up w" and "mem (wd_agent w) k = Some x"
  obtains v where "dsk (wd_agent w) k = Some (Ok v)" and "twins x v" and "named name k v" and "named name k x"
  using world_invD(5) [OF assms(1,2), of k] assms(3) by auto

lemma inv_deploy_done:
  assumes inv: "world_inv E name w" "wd_up w" and task: "hm_get (wd_tasks w) wid = Some (Deploying stored manifest)"
    and run: "deploy_answer io stored manifest (wd_agent w) = (ag, Ok rid)"
  shows "world_inv E name (w\<lparr>wd_agent := release_mutation wid ag, wd_tasks := hm_remove wid (wd_tasks w)\<rparr>)"
  using run
proof (cases rule: deploy_answer_cases)
  case settled
  have m: "mem (wd_agent w) wid = Some stored" using world_invD(7) [OF inv task] by simp
  from task_record [OF inv m] obtain v where v: "named name wid stored" by blast
  then have wid: "dg_workload_id (sw_grant stored) = wid" by (simp add: named_def)
  have st: "st_inv (ae_config E) (ag_state ag)"
    using st_inv_replace [OF world_invD(3) [OF inv] m, of "stored\<lparr>sw_phase := Active\<rparr>"] wid by (simp add: settled)
  have "world_inv E name (w\<lparr>wd_agent := release_mutation wid ag, wd_tasks := hm_remove wid (wd_tasks w), wd_pods := wd_pods w\<rparr>)"
    by (rule world_inv_slice [OF inv, where wid = wid])
      (use st wid v world_invD [OF inv] in \<open>auto simp: settled named_def\<close>)
  then show ?thesis by simp
qed simp

lemma inv_deploy_failed:
  assumes inv: "world_inv E name w" "wd_up w" and task: "hm_get (wd_tasks w) wid = Some (Deploying stored manifest)"
    and run: "deploy_answer io stored manifest (wd_agent w) = (ag, Err (e, uncertain))"
  shows "world_inv E name (w\<lparr>wd_agent := mark_failed save (stored\<lparr>sw_phase := CleanupPending uncertain\<rparr>) ag,
    wd_tasks := hm_insert wid (Cleaning (stored\<lparr>sw_phase := CleanupPending uncertain\<rparr>)) (wd_tasks w)\<rparr>)"
  using run
proof (cases rule: deploy_answer_cases)
  case (failed e' u)
  let ?p = "stored\<lparr>sw_phase := CleanupPending uncertain\<rparr>" and ?ag = "wd_agent w"
  have m: "mem ?ag wid = Some stored" using world_invD(7) [OF inv task] by simp
  from task_record [OF inv m] obtain v where v: "dsk ?ag wid = Some (Ok v)" "twins stored v" "named name wid v"
    "named name wid stored" .
  then have wid: "dg_workload_id (sw_grant stored) = wid" by (simp add: named_def)
  have st: "st_inv (ae_config E) (ag_state (put_active ?p ?ag))"
    using st_inv_replace [OF world_invD(3) [OF inv] m, of ?p] wid by simp
  have "world_inv E name (w\<lparr>wd_agent := mark_failed save ?p ?ag, wd_tasks := hm_insert wid (Cleaning ?p) (wd_tasks w),
      wd_pods := wd_pods w\<rparr>)"
  proof (rule save_stored_cases [of save ?p "put_active ?p ?ag"])
    assume "save = Ok ()" "save_stored ?p save (put_active ?p ?ag) = ((put_active ?p ?ag)\<lparr>ag_disk :=
      hm_insert (dg_workload_id (sw_grant ?p)) (Ok ?p) (ag_disk (put_active ?p ?ag))\<rparr>, Ok ())"
    then show ?thesis
      by (intro world_inv_slice [OF inv, where wid = wid])
        (use st wid v world_invD [OF inv] world_invD(6) [OF inv task] in \<open>auto simp: mark_failed_def named_phase\<close>)
  next
    fix e assume "save = Err e" "save_stored ?p save (put_active ?p ?ag) = (put_active ?p ?ag, Err e)"
    then show ?thesis
      by (intro world_inv_slice [OF inv, where wid = wid])
        (use st wid v world_invD [OF inv] world_invD(6) [OF inv task] in \<open>auto simp: mark_failed_def named_phase\<close>)
  qed
  then show ?thesis using failed by simp
qed simp

text \<open>A cleanup removes a record only after the runtime confirmed that the pod is gone.\<close>

lemma cleanup_pending_cases:
  assumes "cleanup_pending E io stored ag = (ag', r)" and "sw_runtime_id stored \<noteq> []"
  obtains (cleaned) "r = Ok ()" and "ag_disk ag' = hm_remove (dg_workload_id (sw_grant stored)) (ag_disk ag)"
      and "ag_state ag' = ag_state ag" and "lifecycle ag' = lifecycle ag"
      and "cleanup_pods E io stored pods = pods - {sw_runtime_id stored}"
  | (kept) e where "r = Err e" and "ag' = ag" and "cleanup_pods E io stored pods \<subseteq> pods"
proof -
  have target: "cleanup_target E stored = Ok (sw_runtime_id stored)" using assms(2) by (simp add: cleanup_target_def)
  let ?r = "runtime_res ''failed deployment cleanup'' (cleanup_failed_deploy (cl_delete io)
    (sw_runtime_id stored) (sw_phase stored \<noteq> CleanupPending False))"
  have pods: "cleanup_pods E io stored pods = without_pod (sw_runtime_id stored) ?r pods"
    by (simp add: cleanup_pods_def target)
  show thesis
  proof (cases ?r)
    case (Err e)
    with assms(1) target have "r = Err e" "ag' = ag"
      by (simp_all add: cleanup_pending_def op_bind_def op_res_def)
    then show ?thesis using pods Err by (intro kept) (simp_all add: without_pod_def)
  next
    case (Ok u)
    show ?thesis
    proof (cases rule: remove_stored_cases [of "cl_remove io" "dg_workload_id (sw_grant stored)" ag])
      case removed
      with assms(1) target Ok show ?thesis
        by (intro cleaned) (auto simp: cleanup_pending_def op_bind_def op_res_def pods without_pod_def)
    next
      case (failed e)
      with assms(1) target Ok show ?thesis
        by (intro kept [of e]) (auto simp: cleanup_pending_def op_bind_def op_res_def pods without_pod_def)
    qed
  qed
qed

text \<open>The two ways a task ends: the workload is gone from memory, store and runtime, or it keeps a record.\<close>

lemma inv_forget:
  assumes inv: "world_inv E name w" "wd_up w" and named: "named name wid x"
    and ag: "ag_state ag = (ag_state (wd_agent w))\<lparr>st_active := hm_remove wid (st_active (ag_state (wd_agent w)))\<rparr>"
      "ag_disk ag = hm_remove wid (ag_disk (wd_agent w))" "lifecycle ag = lifecycle (wd_agent w)"
    and pods: "pods = wd_pods w - {sw_runtime_id x}"
  shows "world_inv E name (w\<lparr>wd_agent := release_mutation wid ag, wd_tasks := hm_remove wid (wd_tasks w), wd_pods := pods\<rparr>)"
  by (rule world_inv_slice [OF inv, where wid = wid])
    (use world_invD [OF inv] st_inv_forget [OF world_invD(3) [OF inv]] named in \<open>auto simp: ag pods named_def\<close>)

lemma inv_retain:
  assumes inv: "world_inv E name w" "wd_up w" and m: "mem (wd_agent w) wid = Some x"
    and y: "named name wid y" "ag_state ag = (ag_state (wd_agent w))\<lparr>st_active := hm_insert wid y (st_active (ag_state (wd_agent w)))\<rparr>"
    and d: "ag_disk ag = hm_insert wid (Ok y) (ag_disk (wd_agent w))"
    and l: "lifecycle ag = lifecycle (wd_agent w)" and pods: "pods \<subseteq> insert (name wid) (wd_pods w)"
  shows "world_inv E name (w\<lparr>wd_agent := release_mutation wid ag, wd_tasks := hm_remove wid (wd_tasks w), wd_pods := pods\<rparr>)"
proof -
  have "st_inv (ae_config E) (ag_state ag)"
    using st_inv_replace [OF world_invD(3) [OF inv] m, of y] y by (simp add: named_def)
  then show ?thesis
    by (intro world_inv_slice [OF inv, where wid = wid]) (use world_invD [OF inv] y d l pods in auto)
qed

lemma inv_unchanged:
  assumes inv: "world_inv E name w" "wd_up w" and m: "mem (wd_agent w) wid = Some x"
    and ag: "ag_state ag = ag_state (wd_agent w)" "ag_disk ag = ag_disk (wd_agent w)" "lifecycle ag = lifecycle (wd_agent w)"
    and pods: "pods \<subseteq> insert (name wid) (wd_pods w)"
  shows "world_inv E name (w\<lparr>wd_agent := release_mutation wid ag, wd_tasks := hm_remove wid (wd_tasks w), wd_pods := pods\<rparr>)"
proof -
  from world_invD(5) [OF inv, of wid] have "recorded name wid (mem ag wid) (dsk ag wid)" by (simp only: ag)
  then show ?thesis
    by (intro world_inv_slice [OF inv, where wid = wid]) (use world_invD(2-4) [OF inv] m ag pods in auto)
qed

lemma inv_cleanup_done:
  assumes inv: "world_inv E name w" "wd_up w" and task: "hm_get (wd_tasks w) wid = Some (Cleaning stored)"
  shows "world_inv E name (w\<lparr>wd_agent := release_mutation wid (finish_cleanup E cl stored (wd_agent w)),
    wd_tasks := hm_remove wid (wd_tasks w), wd_pods := cleanup_pods E cl stored (wd_pods w)\<rparr>)"
proof -
  have m: "mem (wd_agent w) wid = Some stored" using world_invD(7) [OF inv task] by simp
  from task_record [OF inv m] have n: "named name wid stored" by blast
  obtain ag r where run: "cleanup_pending E cl stored (wd_agent w) = (ag, r)" by fastforce
  have "sw_runtime_id stored \<noteq> []" "dg_workload_id (sw_grant stored) = wid" using n unfolding named_def by blast+
  with run show ?thesis
  proof (cases rule: cleanup_pending_cases [where pods = "wd_pods w"])
    case cleaned
    then show ?thesis
      using run \<open>dg_workload_id (sw_grant stored) = wid\<close>
      by (intro inv_forget [OF inv n]) (simp_all add: finish_cleanup_def)
  next
    case (kept e)
    then show ?thesis
      using run by (intro inv_unchanged [OF inv m]) (auto simp: finish_cleanup_def)
  qed
qed

text \<open>The steps of an update.\<close>

lemma update_commit_cases:
  assumes "update_commit E now io u ex ag = (ag', r)"
  obtains (refused) e where "r = Err e" and "ag' = ag"
  | (answered) resp where "r = Ok (Inl resp)" and "ag' = ag"
  | (committed) active where "r = Ok (Inr active)" and "mem ag (uq_workload_id u) = Some active"
      and "ag' = put_active (transitioning active u) (ag\<lparr>ag_disk :=
        hm_insert (dg_workload_id (sw_grant active)) (Ok (transitioning active u)) (ag_disk ag)\<rparr>)"
      and "fits_within (ResourceUsage_plus (usage_without (ag_state ag) (uq_workload_id u))
           (uq_cpu_milli u) (uq_memory_bytes u) (uq_storage_bytes u))
         (ucast (cf_capacity_cpu_milli (ae_config E))) (cf_capacity_memory_bytes (ae_config E))
         (cf_capacity_storage_bytes (ae_config E))"
      and "sw_phase active = Active" and "\<not> sw_deleting active"
proof (cases "owned (uq_workload_id u) (uq_namespace_id u) ag")
  case (Err e)
  with assms show ?thesis by (intro refused [of e]) (simp_all add: update_commit_def)
next
  case (Ok active)
  then have m: "mem ag (uq_workload_id u) = Some active" by (auto simp: owned_def split: option.splits if_splits)
  have id: "sw_grant (transitioning active u) = sw_grant active" by (simp add: transitioning_def)
  note run = assms [unfolded update_commit_def Ok result.case op_ensure_def op_bind_def op_res_def]
  show ?thesis
  proof (cases rule: save_stored_cases [of io "transitioning active u" ag])
    case (failed e)
    show ?thesis
      using run refused answered by (auto simp: failed(2) split: if_splits result.splits)
  next
    case saved
    show ?thesis
      using run refused answered committed [OF _ m] id by (auto simp: saved(2) split: if_splits result.splits)
  qed
qed

lemma update_manifest_ids:
  assumes "update_manifest E now u ex = Ok manifest"
  shows "dg_workload_id (uq_grant u) = uq_workload_id u"
  using assms by (auto simp: update_manifest_def UpdateRequest_verify_def UpdateRequest_fields_def)

lemma update_begin_cases:
  assumes "update_begin E io u ag = (ag', r)"
  obtains (refused) e where "r = Err e" and "quiet ag ag'"
  | (answered) ex manifest resp where "r = Ok (ex, manifest, Inl resp)" and "claims (uq_workload_id u) ag ag'"
  | (started) ag1 now ex manifest active where "r = Ok (ex, manifest, Inr active)" and "claims (uq_workload_id u) ag ag1"
      and "dg_workload_id (uq_grant u) = uq_workload_id u"
      and "update_commit E now (ui_save io) u ex ag1 = (ag', Ok (Inr active))"
proof (rule claim_cases [OF assms [unfolded update_begin_def] quiet_update_accept], goal_cases)
  case (1 e)
  then show ?case by (intro refused [of e])
next
  case (2 ex ag1 ag2 e)
  then have "ag2 = ag1"
    by (auto simp: op_bind_def op_res_def split: result.splits prod.splits elim: update_commit_cases)
  with 2 show ?case by (intro refused [of e]) (auto simp: claims_def quiet_def)
next
  case (3 ex ag1 y)
  then obtain manifest plan where y: "y = (ex, manifest, plan)" "update_manifest E (ui_locked_now io) u ex = Ok manifest"
    "update_commit E (ui_locked_now io) (ui_save io) u ex ag1 = (ag', Ok plan)"
    by (auto simp: op_bind_Ok)
  then show ?case
    using 3 answered started update_manifest_ids [OF y(2)] by (cases plan) (auto elim: update_commit_cases)
qed

lemma named_transitioning:
  "sw_phase active = Active \<Longrightarrow>
     named name k (transitioning active u) \<longleftrightarrow> named name k active \<and> dg_workload_id (uq_grant u) = k"
  using sw_amount_transitioning [of _ active u]
  by (auto simp: named_def resumable_def simp del: sw_amount_transitioning) (auto simp: transitioning_def)

lemma inv_update_started:
  assumes inv: "world_inv E name w" "wd_up w" and stable: "stable E name"
    and run: "update_begin E io u (wd_agent w) = (ag, Ok (ex, manifest, Inr active))"
  shows "world_inv E name (w\<lparr>wd_agent := ag,
    wd_tasks := hm_insert (uq_workload_id u) (Replacing u ex manifest active) (wd_tasks w),
    wd_pods := wd_pods w \<union> ok_set (ae_target_id E (uq_workload_id u) (uq_namespace_id u) manifest)\<rparr>)"
  using run
proof (cases rule: update_begin_cases)
  case (started ag1 now ex' manifest' active')
  let ?wid = "uq_workload_id u" and ?t = "transitioning active u"
  note c = started(2) [unfolded claims_def]
  have "active' = active" using started(1) by simp
  from started(4) [unfolded this] obtain "mem ag1 ?wid = Some active" and ph: "sw_phase active = Active"
    and ag: "ag = put_active ?t (ag1\<lparr>ag_disk := hm_insert (dg_workload_id (sw_grant active)) (Ok ?t) (ag_disk ag1)\<rparr>)"
    by (cases rule: update_commit_cases) auto
  then have m: "mem (wd_agent w) ?wid = Some active" using c by simp
  from task_record [OF inv m] have n: "named name ?wid active" by blast
  then have id: "dg_workload_id (sw_grant active) = ?wid" by (simp add: named_def)
  have grant: "sw_grant ?t = sw_grant active" by (simp add: transitioning_def)
  have st: "st_inv (ae_config E) (ag_state ag)"
    using st_inv_replace [OF world_invD(3) [OF inv] m, of ?t] id grant c by (simp add: ag)
  have pods: "ok_set (ae_target_id E ?wid (uq_namespace_id u) manifest) \<subseteq> {name ?wid}"
    using stable by (auto simp: ok_set_def stable_def split: result.splits)
  show ?thesis
    by (rule world_inv_slice [OF inv, where wid = ?wid])
      (use st id grant n c pods ph started(3) world_invD(2-4) [OF inv] in \<open>auto simp: ag named_transitioning\<close>)
qed auto

lemma inv_update_answered:
  assumes inv: "world_inv E name w" "wd_up w" and run: "update_begin E io u (wd_agent w) = (ag, Ok (ex, manifest, Inl r))"
  shows "world_inv E name (w\<lparr>wd_agent := release_mutation (uq_workload_id u) ag\<rparr>)"
  using run
proof (cases rule: update_begin_cases)
  case (answered ex' manifest' resp)
  then show ?thesis
    using world_invD [OF inv] by (intro world_inv_quiet [OF inv]) (auto simp: claims_def)
qed auto

lemma inv_update_done:
  assumes inv: "world_inv E name w" "wd_up w" and stable: "stable E name" and rt: "returns_target E (ui_deploy io)"
    and task: "hm_get (wd_tasks w) wid = Some (Replacing u ex manifest active)"
    and run: "update_answer io u ex manifest (wd_agent w) = (ag, Ok stored)"
  shows "world_inv E name (w\<lparr>wd_agent := release_mutation wid ag, wd_tasks := hm_remove wid (wd_tasks w)\<rparr>)"
proof -
  have m: "mem (wd_agent w) wid = Some (transitioning active u)" and ids: "uq_workload_id u = wid" "dg_workload_id (uq_grant u) = wid"
    using world_invD(7) [OF inv task] by simp_all
  from run obtain rid where rid: "runtime_operation ''update'' (ui_deploy io wid (uq_namespace_id u) manifest) = Ok rid"
    and save: "ui_save_updated io = Ok ()" and stored: "stored = updated u rid ex"
    and ag: "ag = (wd_agent w)\<lparr>ag_disk := hm_insert wid (Ok stored) (ag_disk (wd_agent w)),
      ag_state := (ag_state (wd_agent w))\<lparr>st_active := hm_insert wid stored (st_active (ag_state (wd_agent w)))\<rparr>\<rparr>"
    using ids by (auto simp: update_answer_def save_stored_def disk_save_def updated_def split: result.splits prod.splits)
  from rid have "ui_deploy io wid (uq_namespace_id u) manifest = Answered (Ok rid)"
    by (cases "ui_deploy io wid (uq_namespace_id u) manifest") auto
  then have "rid = name wid" using rt stable unfolding returns_target_def stable_def by blast
  moreover from task_record [OF inv m] have "name wid \<noteq> []" unfolding named_def by metis
  ultimately have n: "named name wid stored" using ids by (simp add: stored updated_def named_def)
  have "world_inv E name (w\<lparr>wd_agent := release_mutation wid ag, wd_tasks := hm_remove wid (wd_tasks w), wd_pods := wd_pods w\<rparr>)"
    by (rule inv_retain [OF inv m n]) (auto simp: ag)
  then show ?thesis by simp
qed

lemma inv_update_unsaved:
  assumes inv: "world_inv E name w" "wd_up w"
    and task: "hm_get (wd_tasks w) wid = Some (Replacing u ex manifest active)"
    and run: "update_answer io u ex manifest (wd_agent w) = (ag, Err (e, False))"
  shows "world_inv E name (w\<lparr>wd_agent := release_mutation wid ag, wd_tasks := hm_remove wid (wd_tasks w)\<rparr>)"
proof -
  have m: "mem (wd_agent w) wid = Some (transitioning active u)" using world_invD(7) [OF inv task] by simp
  have ag: "ag = wd_agent w"
    using run by (auto simp: update_answer_def save_stored_def disk_save_def split: result.splits prod.splits)
  have "world_inv E name (w\<lparr>wd_agent := release_mutation wid ag, wd_tasks := hm_remove wid (wd_tasks w), wd_pods := wd_pods w\<rparr>)"
    by (rule inv_unchanged [OF inv m]) (auto simp: ag)
  then show ?thesis by simp
qed

lemma deployed_pod_stable: "stable E name \<Longrightarrow> deployed_pod E wid ns g \<subseteq> {name wid}"
  by (auto simp: deployed_pod_def ok_set_def stable_def split: result.splits)

lemma inv_update_failed:
  assumes inv: "world_inv E name w" "wd_up w" and stable: "stable E name"
    and task: "hm_get (wd_tasks w) wid = Some (Replacing u ex manifest active)"
    and run: "update_answer io u ex manifest (wd_agent w) = (ag, Err (e, True))"
  shows "world_inv E name (w\<lparr>wd_agent := ag, wd_tasks := hm_insert wid (RollingBack u active) (wd_tasks w),
    wd_pods := wd_pods w \<union> deployed_pod E (dg_workload_id (sw_grant active)) (dg_namespace_id (sw_grant active)) (sw_grant active)\<rparr>)"
proof -
  have m: "mem (wd_agent w) wid = Some (transitioning active u)" and ph: "sw_phase active = Active"
    using world_invD(7) [OF inv task] by simp_all
  have ag: "ag = wd_agent w"
    using run by (auto simp: update_answer_def save_stored_def disk_save_def split: result.splits prod.splits)
  from task_record [OF inv m] have "dg_workload_id (sw_grant (transitioning active u)) = wid" by (metis named_def)
  then have "dg_workload_id (sw_grant active) = wid" by (simp add: transitioning_def)
  then show ?thesis
    using deployed_pod_stable [OF stable, of wid] world_invD(5) [OF inv, of wid] m
    by (intro world_inv_slice [OF inv, where wid = wid])
      (use world_invD(2-4) [OF inv] world_invD(6) [OF inv task] ph in \<open>auto simp: ag\<close>)
qed

lemma update_rollback_cases:
  assumes "update_rollback E io active ag = (ag', r)"
  obtains (failed) e where "r = Err e" and "ag' = ag"
  | (rolled) "r = Ok ()" and "ag' = put_active active (ag\<lparr>ag_disk :=
      hm_insert (dg_workload_id (sw_grant active)) (Ok active) (ag_disk ag)\<rparr>)"
proof (cases rule: save_stored_cases [of "ui_save_rollback io" active ag])
  case saved
  show ?thesis
    using assms failed rolled
    by (auto simp: update_rollback_def rollback_commit_def op_bind_def op_res_def saved(2) Let_def split: result.splits)
next
  case (failed e)
  show ?thesis
    using assms \<open>\<And>e. r = Err e \<Longrightarrow> ag' = ag \<Longrightarrow> thesis\<close>
    by (auto simp: update_rollback_def rollback_commit_def op_bind_def op_res_def failed(2) Let_def split: result.splits)
qed

lemma inv_rollback_done:
  assumes inv: "world_inv E name w" "wd_up w" and task: "hm_get (wd_tasks w) wid = Some (RollingBack u active)"
  shows "world_inv E name (w\<lparr>wd_agent := release_mutation wid (fst (update_rollback E io active (wd_agent w))),
    wd_tasks := hm_remove wid (wd_tasks w)\<rparr>)"
proof -
  have m: "mem (wd_agent w) wid = Some (transitioning active u)" and ph: "sw_phase active = Active"
    using world_invD(7) [OF inv task] by simp_all
  have "named name wid (transitioning active u)" using task_record [OF inv m] .
  then have n: "named name wid active" using named_transitioning [OF ph] by blast
  then have id: "dg_workload_id (sw_grant active) = wid" by (simp add: named_def)
  obtain ag r where run: "update_rollback E io active (wd_agent w) = (ag, r)" by fastforce
  then have "world_inv E name (w\<lparr>wd_agent := release_mutation wid ag, wd_tasks := hm_remove wid (wd_tasks w),
      wd_pods := wd_pods w\<rparr>)"
  proof (cases rule: update_rollback_cases)
    case (failed e)
    then show ?thesis by (intro inv_unchanged [OF inv m]) auto
  next
    case rolled
    then show ?thesis using id by (intro inv_retain [OF inv m n]) auto
  qed
  then show ?thesis using run by simp
qed

text \<open>The steps of a deletion.\<close>

lemma delete_begin_cases:
  assumes "delete_begin io c active ag = (ag', r)"
  obtains (planned) plan where "r = Ok plan" and "plan \<noteq> Remove" and "ag' = ag"
  | (unmarked) e where "r = Err e" and "mem ag (cm_workload_id c) = None" and "ag' = ag"
  | (unsaved) e current where "r = Err e" and "mem ag (cm_workload_id c) = Some current"
      and "ag_state ag' = (ag_state ag)\<lparr>st_active := hm_insert (cm_workload_id c) (current\<lparr>sw_deleting := False\<rparr>)
        (hm_insert (cm_workload_id c) (current\<lparr>sw_deleting := True\<rparr>) (st_active (ag_state ag)))\<rparr>"
      and "ag_disk ag' = ag_disk ag" and "lifecycle ag' = lifecycle ag"
  | (marked) current where "r = Ok Remove" and "mem ag (cm_workload_id c) = Some current"
      and "ag_state ag' = (ag_state ag)\<lparr>st_active := hm_insert (cm_workload_id c) (current\<lparr>sw_deleting := True\<rparr>)
        (st_active (ag_state ag))\<rparr>"
      and "ag_disk ag' = hm_insert (dg_workload_id (sw_grant current)) (Ok (current\<lparr>sw_deleting := True\<rparr>)) (ag_disk ag)"
      and "lifecycle ag' = lifecycle ag"
proof (cases "needs_cleanup active \<or> is_updating (sw_phase active)")
  case True
  then show ?thesis using assms planned by (auto simp: delete_begin_def op_res_def split: if_splits)
next
  case False
  show ?thesis
  proof (cases "mem ag (cm_workload_id c)")
    case None
    with assms False show ?thesis
      by (intro unmarked) (auto simp: delete_begin_def op_bind_def op_res_def delete_mark_def)
  next
    case (Some current)
    show ?thesis
    proof (cases "ci_save io")
      case (Ok u)
      with assms False Some show ?thesis
        by (intro marked [OF _ Some])
          (auto simp: delete_begin_def op_bind_def op_res_def delete_mark_def set_deleting_def save_stored_def disk_save_def)
    next
      case (Err e)
      with assms False Some show ?thesis
        by (intro unsaved [OF _ Some])
          (auto simp: delete_begin_def op_bind_def op_res_def delete_mark_def set_deleting_def save_stored_def disk_save_def)
    qed
  qed
qed

lemma delete_claim_cases:
  assumes "delete_claim E io c ag = (ag', r)"
  obtains (quiet) e where "r = Err e" and "quiet ag ag'"
  | (refused) ag1 ag2 active e where "r = Err e" and "claims (cm_workload_id c) ag ag1"
      and "mem ag1 (cm_workload_id c) = Some active" and "delete_begin io c active ag1 = (ag2, Err e)"
      and "ag' = release_mutation (cm_workload_id c) ag2"
  | (started) ag1 active plan where "r = Ok (active, plan)" and "claims (cm_workload_id c) ag ag1"
      and "mem ag1 (cm_workload_id c) = Some active" and "delete_begin io c active ag1 = (ag', Ok plan)"
proof -
  have "op_bind (op_res (Ok ())) (\<lambda>_. delete_claim E io c) ag = (ag', r)"
    using assms by (simp add: op_bind_def op_res_def)
  note run = this [unfolded delete_claim_def]
  show thesis
  proof (rule claim_cases [OF run], goal_cases)
    case 1
    show ?case by simp
  next
    case (2 e)
    then show ?case by (rule quiet)
  next
    case (3 x ag1 ag2 e)
    show ?case
    proof (cases "ag2 = ag1")
      case True
      with 3 show ?thesis by (intro quiet [of e]) (auto simp: claims_def quiet_def)
    next
      case False
      with 3 obtain active where "owned (cm_workload_id c) (cm_namespace_id c) ag1 = Ok active"
        "delete_begin io c active ag1 = (ag2, Err e)"
        by (auto simp: op_bind_def op_res_def split: result.splits prod.splits)
      with 3 show ?thesis by (intro refused [of e ag1 active]) (auto simp: owned_def split: option.splits if_splits)
    qed
  next
    case (4 x ag1 y)
    then show ?case
      by (auto simp: op_bind_Ok owned_def split: option.splits if_splits intro: started)
  qed
qed

lemma idle_task:
  assumes "world_inv E name w" and "wd_up w" and "wid \<notin> lifecycle (wd_agent w)"
  shows "hm_remove wid (wd_tasks w) = wd_tasks w"
  using world_invD(6) [OF assms(1,2), of wid] assms(3) by (auto intro!: hm_remove_absent simp: hm_keys_dom)

lemma inv_delete_refused:
  assumes inv: "world_inv E name w" "wd_up w" and run: "delete_claim E io c (wd_agent w) = (ag, Err e)"
  shows "world_inv E name (w\<lparr>wd_agent := ag\<rparr>)"
  using run
proof (cases rule: delete_claim_cases)
  case (quiet e')
  then show ?thesis using world_invD(3,4) [OF inv] by (intro world_inv_quiet [OF inv]) (auto simp: quiet_def)
next
  case (refused ag1 ag2 active e')
  let ?wid = "cm_workload_id c"
  note c = refused(2) [unfolded claims_def]
  have m: "mem (wd_agent w) ?wid = Some active" using refused(3) c by simp
  from task_record [OF inv m] obtain v where v: "dsk (wd_agent w) ?wid = Some (Ok v)" "twins active v"
    "named name ?wid v" "named name ?wid active" .
  then have id: "dg_workload_id (sw_grant active) = ?wid" by (simp add: named_def)
  from refused(4) show ?thesis
  proof (cases rule: delete_begin_cases)
    case (unsaved e'' current)
    have cur: "current = active" using unsaved refused(3) by simp
    have st: "st_inv (ae_config E) (ag_state (release_mutation ?wid ag2))"
      using st_inv_replace [OF st_inv_replace [OF world_invD(3) [OF inv] m, of "active\<lparr>sw_deleting := True\<rparr>"],
        of ?wid "active\<lparr>sw_deleting := True\<rparr>" "active\<lparr>sw_deleting := False\<rparr>"] unsaved(3) id cur c by simp
    have "world_inv E name (w\<lparr>wd_agent := ag, wd_tasks := hm_remove ?wid (wd_tasks w), wd_pods := wd_pods w\<rparr>)"
      unfolding refused(5)
      by (rule world_inv_slice [OF inv, where wid = ?wid])
        (use st world_invD(2,4) [OF inv] unsaved cur c v in auto)
    then show ?thesis using idle_task [OF inv] c by simp
  qed (use refused in auto)
qed simp

lemma inv_delete_started:
  assumes inv: "world_inv E name w" "wd_up w" and run: "delete_claim E io c (wd_agent w) = (ag, Ok (active, plan))"
  shows "world_inv E name (w\<lparr>wd_agent := ag, wd_tasks := hm_insert (cm_workload_id c) (Deleting c active plan) (wd_tasks w)\<rparr>)"
  using run
proof (cases rule: delete_claim_cases)
  case (started ag1 active' plan')
  let ?wid = "cm_workload_id c"
  have eq: "active' = active" "plan' = plan" using started(1) by simp_all
  note c = started(2) [unfolded claims_def]
  have m: "mem (wd_agent w) ?wid = Some active" using started(3) c eq by simp
  from task_record [OF inv m] obtain v where v: "dsk (wd_agent w) ?wid = Some (Ok v)" "twins active v"
    "named name ?wid v" "named name ?wid active" .
  then have id: "dg_workload_id (sw_grant active) = ?wid" by (simp add: named_def)
  have "world_inv E name (w\<lparr>wd_agent := ag, wd_tasks := hm_insert ?wid (Deleting c active plan) (wd_tasks w), wd_pods := wd_pods w\<rparr>)"
    using started(4) [unfolded eq]
  proof (cases rule: delete_begin_cases)
    case (planned plan'')
    then show ?thesis
      by (intro world_inv_slice [OF inv, where wid = ?wid]) (use world_invD(2-4) [OF inv] m c v in auto)
  next
    case (marked current)
    have cur: "current = active" using marked(2) started(3) eq by simp
    have st: "st_inv (ae_config E) (ag_state ag)"
      using st_inv_replace [OF world_invD(3) [OF inv] m, of "active\<lparr>sw_deleting := True\<rparr>"] marked(3) id cur c by simp
    show ?thesis
      by (rule world_inv_slice [OF inv, where wid = ?wid])
        (use st world_invD(2,4) [OF inv] marked cur c v id in \<open>auto simp: named_def\<close>)
  qed (use started in auto)
  then show ?thesis by simp
qed simp_all

lemma delete_finish_cases:
  assumes "delete_finish io wid active ag = (ag', r)"
  obtains (deleted) "runtime_delete io active = Ok ()" and "ag_state ag' = (ag_state ag)\<lparr>st_active := hm_remove wid (st_active (ag_state ag))\<rparr>"
      and "ag_disk ag' = hm_remove wid (ag_disk ag)" and "lifecycle ag' = lifecycle ag"
  | (same) "ag' = ag"
  | (undone) "runtime_delete io active \<noteq> Ok ()"
      and "ag_state ag' = (ag_state ag)\<lparr>st_active := hm_insert wid active (st_active (ag_state ag))\<rparr>"
      and "ag_disk ag' = hm_insert (dg_workload_id (sw_grant active)) (Ok active) (ag_disk ag)" and "lifecycle ag' = lifecycle ag"
proof (cases "runtime_delete io active")
  case (Ok u)
  show ?thesis
  proof (cases rule: remove_stored_cases [of "ci_remove io" wid ag])
    case removed
    with assms Ok show ?thesis by (intro deleted) (auto simp: delete_finish_def op_bind_def)
  next
    case (failed e)
    with assms Ok show ?thesis by (intro same) (auto simp: delete_finish_def op_bind_def)
  qed
next
  case (Err e)
  show ?thesis
  proof (cases rule: save_stored_cases [of "ci_save_back io" active ag])
    case saved
    with assms Err show ?thesis by (intro undone) (auto simp: delete_finish_def op_bind_def)
  next
    case (failed e)
    with assms Err show ?thesis by (intro same) (auto simp: delete_finish_def op_bind_def)
  qed
qed

lemma delete_end_state:
  "fst (delete_end E io c active CleanUp ag) =
     (case cleanup_pending E (ci_cleanup io) active ag of
        (ag', Ok _) \<Rightarrow> drop_active (cm_workload_id c) ag' | (ag', Err _) \<Rightarrow> ag')"
  "fst (delete_end E io c active Remove ag) = fst (delete_finish io (cm_workload_id c) active ag)"
  "fst (delete_end E io c active (Refuse e) ag) = ag"
  by (auto simp: delete_end_def delete_cleanup_def op_bind_def split: prod.splits result.splits)

lemma inv_delete_cleaned:
  assumes inv: "world_inv E name w" "wd_up w" and m: "mem (wd_agent w) wid = Some x" and n: "named name wid active"
    and wid: "cm_workload_id c = wid"
  shows "world_inv E name (w\<lparr>wd_agent := release_mutation wid (fst (delete_end E io c active CleanUp (wd_agent w))),
    wd_tasks := hm_remove wid (wd_tasks w), wd_pods := delete_pods E io active CleanUp (wd_pods w)\<rparr>)"
proof -
  have id: "dg_workload_id (sw_grant active) = wid" and ne: "sw_runtime_id active \<noteq> []"
    using n unfolding named_def by blast+
  obtain ag r where run: "cleanup_pending E (ci_cleanup io) active (wd_agent w) = (ag, r)" by fastforce
  from run ne show ?thesis
  proof (cases rule: cleanup_pending_cases [where pods = "wd_pods w"])
    case cleaned
    show ?thesis
      by (rule inv_forget [OF inv n]) (simp_all add: delete_end_state run cleaned id wid delete_pods_def)
  next
    case (kept e)
    show ?thesis
      by (rule inv_unchanged [OF inv m]) (use kept(3) in \<open>auto simp: delete_end_state run kept(1,2) delete_pods_def\<close>)
  qed
qed

lemma inv_delete_removed:
  assumes inv: "world_inv E name w" "wd_up w" and m: "mem (wd_agent w) wid = Some x" and n: "named name wid active"
    and wid: "cm_workload_id c = wid"
  shows "world_inv E name (w\<lparr>wd_agent := release_mutation wid (fst (delete_end E io c active Remove (wd_agent w))),
    wd_tasks := hm_remove wid (wd_tasks w), wd_pods := delete_pods E io active Remove (wd_pods w)\<rparr>)"
proof -
  have id: "dg_workload_id (sw_grant active) = wid" using n unfolding named_def by blast
  obtain ag r where run: "delete_finish io wid active (wd_agent w) = (ag, r)" by fastforce
  have pods: "delete_pods E io active Remove (wd_pods w) \<subseteq> insert (name wid) (wd_pods w)"
    by (auto simp: delete_pods_def without_pod_def)
  from run show ?thesis
  proof (cases rule: delete_finish_cases)
    case deleted
    show ?thesis
      by (rule inv_forget [OF inv n]) (simp_all add: delete_end_state run wid deleted delete_pods_def without_pod_def)
  next
    case same
    show ?thesis by (rule inv_unchanged [OF inv m _ _ _ pods]) (simp_all add: delete_end_state run wid same)
  next
    case undone
    show ?thesis
      by (rule inv_retain [OF inv m n _ _ _ pods]) (simp_all add: delete_end_state run wid undone id)
  qed
qed

lemma inv_delete_done:
  assumes inv: "world_inv E name w" "wd_up w" and task: "hm_get (wd_tasks w) wid = Some (Deleting c active plan)"
  shows "world_inv E name (w\<lparr>wd_agent := release_mutation wid (fst (delete_end E io c active plan (wd_agent w))),
    wd_tasks := hm_remove wid (wd_tasks w), wd_pods := delete_pods E io active plan (wd_pods w)\<rparr>)"
proof -
  from world_invD(7) [OF inv task] obtain x where wid: "cm_workload_id c = wid"
    and m: "mem (wd_agent w) wid = Some x" and x: "x\<lparr>sw_deleting := False\<rparr> = active\<lparr>sw_deleting := False\<rparr>" by auto
  have "named name wid x" using task_record [OF inv m] .
  then have n: "named name wid active" using arg_cong [OF x, of "named name wid"] by simp
  show ?thesis
  proof (cases plan)
    case CleanUp
    then show ?thesis using inv_delete_cleaned [OF inv m n wid] by simp
  next
    case Remove
    then show ?thesis using inv_delete_removed [OF inv m n wid] by simp
  next
    case (Refuse e)
    show ?thesis
      unfolding Refuse delete_end_state by (rule inv_unchanged [OF inv m]) (auto simp: delete_pods_def)
  qed
qed

text \<open>Restart: what reconciling one record does.\<close>

lemma runtime_res_Ok: "runtime_res op call = Ok x \<longleftrightarrow> call = Answered (Ok x)"
  by (cases call; cases "runtime_operation op call") (auto simp: runtime_res_def)

lemma op_save_cases:
  assumes "op_bind (save_stored x io) (\<lambda>_. op_res (Ok (Some x))) ag = (ag', r)"
  obtains (saved) "r = Ok (Some x)" and "ag_disk ag' = hm_insert (dg_workload_id (sw_grant x)) (Ok x) (ag_disk ag)"
  | (failed) e where "r = Err e" and "ag_disk ag' = ag_disk ag"
  using assms by (cases io) (auto simp: op_bind_def op_res_def save_stored_def disk_save_def)

definition reconciled ::
  "(string \<Rightarrow> string) \<Rightarrow> string \<Rightarrow> StoredWorkload \<Rightarrow> disk \<Rightarrow> disk \<Rightarrow> StoredWorkload option res \<Rightarrow> bool" where
  "reconciled name k stored d d' r \<longleftrightarrow>
     (case r of
        Ok None \<Rightarrow> d' = hm_remove k d
      | Ok (Some x) \<Rightarrow> named name k x \<and> (\<forall>r. sw_amount r x = sw_amount r stored)
          \<and> (d' = d \<and> x = stored \<or> d' = hm_insert k (Ok x) d)
      | Err _ \<Rightarrow> d' = d)"

abbreviation reconciles ::
  "(string \<Rightarrow> string) \<Rightarrow> string \<Rightarrow> StoredWorkload \<Rightarrow> disk \<Rightarrow> agent \<times> StoredWorkload option res \<Rightarrow> bool" where
  "reconciles name k stored d p \<equiv> reconciled name k stored d (ag_disk (fst p)) (snd p)"

lemma reconciles_res:
  assumes "\<And>x. a = Ok x \<Longrightarrow> reconciles name k stored (ag_disk ag) (g x ag)"
  shows "reconciles name k stored (ag_disk ag) (op_bind (op_res a) g ag)"
  using assms by (cases a) (simp_all add: op_bind_def op_res_def reconciled_def)

lemma reconciles_ensure:
  assumes "c \<Longrightarrow> reconciles name k stored (ag_disk ag) (g ag)"
  shows "reconciles name k stored (ag_disk ag) (op_ensure c e g ag)"
  using assms by (simp add: op_ensure_def reconciled_def)

lemma reconciles_prod:
  assumes "\<And>m r. x = (m, r) \<Longrightarrow> reconciles name k stored (ag_disk ag) (g m r ag)"
  shows "reconciles name k stored (ag_disk ag) ((case x of (m, r) \<Rightarrow> g m r) ag)"
  using assms by (cases x) simp

lemma reconciles_save:
  assumes "named name k x" and "\<And>r. sw_amount r x = sw_amount r stored"
  shows "reconciles name k stored (ag_disk ag) (op_bind (save_stored x io) (\<lambda>_. op_res (Ok (Some x))) ag)"
  using assms by (cases io) (auto simp: op_bind_def op_res_def save_stored_def disk_save_def reconciled_def named_def)

lemma reconciles_unenroll:
  assumes "\<And>ag'. ag_disk ag' = ag_disk ag \<Longrightarrow> reconciles name k stored (ag_disk ag') (g ag')"
  shows "reconciles name k stored (ag_disk ag) (op_bind (remove_enrollment wid io) (\<lambda>_. g) ag)"
  using assms [of "ag\<lparr>ag_bindings := hm_remove wid (ag_bindings ag)\<rparr>"]
  by (cases io) (auto simp: op_bind_def remove_enrollment_def reconciled_def)

lemma runtime_target:
  assumes "stable E name" and "returns_target E deploy" and "runtime_res op (deploy k ns m) = Ok rid"
  shows "rid = name k"
  using assms unfolding runtime_res_Ok returns_target_def stable_def by blast

lemma resume_update_reconciles:
  assumes n: "named name k stored" and ph: "sw_phase stored = Updating g i u" and stable: "stable E name"
    and rt: "returns_target E (ri_deploy io)"
  shows "reconciles name k stored (ag_disk ag) (resume_update E io stored u ag)"
proof -
  have k: "dg_workload_id (sw_grant stored) = k" "dg_workload_id (uq_grant u) = k" "name k \<noteq> []"
    and am: "sw_amount r stored = uq_amount r u" for r
    using n ph unfolding named_def resumable_def by auto
  show ?thesis
    unfolding resume_update_def Let_def k(1)
  proof (intro reconciles_res reconciles_prod reconciles_ensure reconciles_save, goal_cases)
    case (1 ex p manifest measured rid)
    then show ?case using runtime_target [OF stable rt] k by (simp add: named_def)
  next
    case (2 ex p manifest measured rid r)
    then show ?case unfolding am by (cases r) (simp_all add: uq_amount_def)
  qed
qed

lemma redeploy_reconciles:
  assumes n: "named name k stored" and stable: "stable E name" and rt: "returns_target E (ri_deploy io)"
  shows "reconciles name k stored (ag_disk ag) (redeploy E io stored ag)"
proof -
  have k: "dg_workload_id (sw_grant stored) = k" and eq: "stored\<lparr>sw_runtime_id := name k\<rparr> = stored"
    using n unfolding named_def by auto
  show ?thesis
    unfolding redeploy_def Let_def k
  proof (intro reconciles_res reconciles_prod reconciles_ensure reconciles_unenroll reconciles_save, goal_cases)
    case (1 ex p manifest measured ag' rid)
    then have "rid = name k" using runtime_target [OF stable rt] by blast
    then show ?case using n eq by simp
  qed simp
qed

lemma restore_one_reconciles:
  assumes n: "named name k stored" and stable: "stable E name" and rt: "returns_target E (ri_deploy io)"
  shows "reconciles name k stored (ag_disk ag) (restore_one E io stored ag)"
proof -
  have k: "dg_workload_id (sw_grant stored) = k" "sw_runtime_id stored \<noteq> []" using n unfolding named_def by auto
  have kept: "reconciles name k stored (ag_disk ag) (op_res (Ok (Some stored)) ag)"
    using n by (simp add: op_res_def reconciled_def)
  have removed: "reconciles name k stored (ag_disk ag) (op_bind (remove_stored k rm) (\<lambda>_. op_res (Ok None)) ag)" for rm
    by (cases rm) (simp_all add: op_bind_def op_res_def remove_stored_def disk_remove_def reconciled_def)
  obtain ag' r where run: "cleanup_pending E (ri_cleanup io) stored ag = (ag', r)" by fastforce
  then have "reconciles name k stored (ag_disk ag) (op_bind (cleanup_pending E (ri_cleanup io) stored) (\<lambda>_. op_res (Ok None)) ag)"
    using k(2) by (cases rule: cleanup_pending_cases) (auto simp: run k(1) op_bind_def op_res_def reconciled_def)
  then show ?thesis
    using resume_update_reconciles [OF n _ stable rt] redeploy_reconciles [OF n stable rt] kept
    by (auto simp: restore_one_def k split: StoredWorkloadPhase.splits intro!: reconciles_res removed)
qed

lemma restore_pods_bound:
  assumes n: "named name k stored" and stable: "stable E name" and rt: "returns_target E (ri_deploy io)"
  shows "restore_pods E io stored pods \<subseteq> insert (name k) pods"
    and "snd (restore_one E io stored ag) = Ok None \<Longrightarrow> restore_pods E io stored pods = pods - {name k}"
proof -
  have k: "dg_workload_id (sw_grant stored) = k" "sw_runtime_id stored \<noteq> []" "sw_runtime_id stored = name k"
    using n unfolding named_def by auto
  obtain ag' r where run: "cleanup_pending E (ri_cleanup io) stored ag = (ag', r)" by fastforce
  have clean: "cleanup_pods E (ri_cleanup io) stored pods \<subseteq> pods
      \<and> (r = Ok () \<longrightarrow> cleanup_pods E (ri_cleanup io) stored pods = pods - {name k})"
    using run k(2) by (cases rule: cleanup_pending_cases [where pods = pods]) (auto simp: k(3))
  show "restore_pods E io stored pods \<subseteq> insert (name k) pods"
    using clean deployed_pod_stable [OF stable, of k]
    by (auto simp: restore_pods_def Let_def k(1) without_pod_def split: StoredWorkloadPhase.splits)
  have some: "snd (restore_one E io stored ag) \<noteq> Ok None" if "\<not> needs_cleanup stored" "\<not> sw_deleting stored"
  proof -
    have "snd (op_bind (save_stored x y) (\<lambda>_. op_res (Ok (Some z))) ag) \<noteq> Ok None" for x y z ag
      by (cases y) (simp_all add: op_bind_def op_res_def save_stored_def disk_save_def)
    then have "snd (resume_update E io stored u ag) \<noteq> Ok None" "snd (redeploy E io stored ag) \<noteq> Ok None" for u ag
      unfolding resume_update_def redeploy_def Let_def
      by (auto simp: op_bind_def op_res_def op_ensure_def remove_enrollment_def split: result.splits prod.splits if_splits)
    then show ?thesis
      using that by (auto simp: restore_one_def op_res_def split: StoredWorkloadPhase.splits)
  qed
  show "restore_pods E io stored pods = pods - {name k}" if none: "snd (restore_one E io stored ag) = Ok None"
  proof (cases "needs_cleanup stored")
    case True
    then have "r = Ok ()" using none run
      by (simp add: restore_one_def op_bind_def split: result.splits)
    then show ?thesis using clean True by (simp add: restore_pods_def Let_def)
  next
    case False
    then have "sw_deleting stored" using some none by blast
    then show ?thesis
      using none False k(2,3)
      by (auto simp: restore_one_def restore_pods_def op_bind_def op_res_def without_pod_def split: result.splits)
  qed
qed

text \<open>The loop, with the records not reconciled yet.\<close>

definition restoring ::
  "(string \<Rightarrow> string) \<Rightarrow> (string \<times> StoredWorkload res) list \<Rightarrow> (string, StoredWorkload) hmap \<Rightarrow> disk \<Rightarrow> string set \<Rightarrow> bool" where
  "restoring name rest active d pods \<longleftrightarrow> durable name d pods \<and> hm_wf active \<and> distinct (map fst rest)
     \<and> (\<forall>(k, x) \<in> set rest. hm_get d k = Some x \<and> hm_get active k = None)
     \<and> (\<forall>k. k \<notin> fst ` set rest \<longrightarrow> recorded name k (hm_get active k) (hm_get d k))"

fun restored :: "string \<Rightarrow> StoredWorkload \<Rightarrow> StoredWorkload option res \<Rightarrow> (string, StoredWorkload) hmap \<Rightarrow> (string, StoredWorkload) hmap" where
  "restored k stored (Ok None) active = active"
| "restored k stored (Ok (Some x)) active = hm_insert k x active"
| "restored k stored (Err _) active = hm_insert k stored active"

lemma restore_loop_step:
  "restore_loop E io ((k, Ok stored) # rest) (active, q) ag =
     restore_loop E io rest (restored k stored (snd (restore_one E (io k) stored ag)) active, q)
       (fst (restore_one E (io k) stored ag))"
  by (simp split: prod.splits result.splits option.splits)

lemma restored_sizes:
  assumes wf: "hm_wf active" and new: "hm_get active k = None" and rec: "reconciled name k stored d d' r"
  shows "hm_sum (sw_amount a) (restored k stored r active) \<le> hm_sum (sw_amount a) active + sw_amount a stored"
    and "length (restored k stored r active) \<le> Suc (length active)" and "hm_wf (restored k stored r active)"
proof -
  have sum: "hm_sum g (hm_insert k x active) = g x + hm_sum g active" for x and g :: "StoredWorkload \<Rightarrow> nat"
    using hm_sum_insert [OF wf, of g k x] new by (simp add: hm_remove_absent hm_keys_dom domIff)
  have len: "length (hm_insert k x active) \<le> Suc (length active)" for x using wf by (simp add: hm_length_insert)
  show "hm_sum (sw_amount a) (restored k stored r active) \<le> hm_sum (sw_amount a) active + sw_amount a stored"
    "length (restored k stored r active) \<le> Suc (length active)" "hm_wf (restored k stored r active)"
    using rec wf len by (auto simp: reconciled_def sum split: result.splits option.splits)
qed

lemma restoring_step:
  assumes R: "restoring name ((k, Ok stored) # rest) active (ag_disk ag) pods"
    and stable: "stable E name" and rt: "returns_target E (ri_deploy io)"
  defines "r \<equiv> snd (restore_one E io stored ag)" and "d' \<equiv> ag_disk (fst (restore_one E io stored ag))"
  shows "reconciled name k stored (ag_disk ag) d' r" and "hm_wf active" and "hm_get active k = None"
    and "restoring name rest (restored k stored r active) d' (restore_pods E io stored pods)"
proof -
  let ?d = "ag_disk ag" and ?a = "restored k stored r active"
  have D: "durable name ?d pods" and wf: "hm_wf active" and dist: "distinct (map fst rest)" "k \<notin> fst ` set rest"
    and at: "hm_get ?d k = Some (Ok stored)" "hm_get active k = None"
    and todo: "\<forall>(j, x) \<in> set rest. hm_get ?d j = Some x \<and> hm_get active j = None"
    and over: "\<And>j. j \<noteq> k \<Longrightarrow> j \<notin> fst ` set rest \<Longrightarrow> recorded name j (hm_get active j) (hm_get ?d j)"
    using R by (auto simp: restoring_def)
  have n: "named name k stored" using D at(1) unfolding durable_def by fastforce
  show rec: "reconciled name k stored ?d d' r"
    unfolding r_def d'_def by (rule restore_one_reconciles [OF n stable rt])
  note cases = rec [unfolded reconciled_def]
  have wf': "hm_wf d'" using cases D by (auto simp: durable_def split: result.splits option.splits)
  have off: "hm_get d' j = hm_get ?d j" "hm_get ?a j = hm_get active j" if "j \<noteq> k" for j
    using cases that by (auto split: result.splits option.splits)
  have here: "recorded name k (hm_get ?a k) (hm_get d' k)"
    using cases n at by (auto split: result.splits option.splits)
  have "durable name d' (restore_pods E io stored pods)"
  proof (rule durable_slice [where wid = k, OF D wf' off(1) _ restore_pods_bound(1) [OF n stable rt]])
    show "\<exists>v. x = Ok v \<and> named name k v" if "hm_get d' k = Some x" for x
      using here that by (cases "hm_get ?a k") auto
    show "name k \<notin> restore_pods E io stored pods" if "hm_get d' k = None"
    proof -
      have "r = Ok None" using cases that at by (auto split: result.splits option.splits)
      then show ?thesis using restore_pods_bound(2) [OF n stable rt] unfolding r_def by blast
    qed
  qed
  moreover have "hm_get d' j = Some x \<and> hm_get ?a j = None" if "(j, x) \<in> set rest" for j x
    using todo that off [of j] dist(2) by force
  moreover have "recorded name j (hm_get ?a j) (hm_get d' j)" if "j \<notin> fst ` set rest" for j
    using over off here that by (cases "j = k") auto
  ultimately show "restoring name rest ?a d' (restore_pods E io stored pods)"
    using dist(1) restored_sizes(3) [OF wf at(2) rec] unfolding restoring_def by blast
qed (use R in \<open>auto simp: restoring_def\<close>)

definition disk_total :: "disk \<Rightarrow> resource \<Rightarrow> nat" where
  "disk_total d r = sum_list (map (\<lambda>(k, x). case x of Ok v \<Rightarrow> sw_amount r v | Err _ \<Rightarrow> 0) d)"

lemma restore_loop_restoring:
  assumes "restoring name (xs @ ys) active (ag_disk ag) pods" and "stable E name"
    and "\<forall>k. returns_target E (ri_deploy (io k))" and "restore_loop E io xs (active, q) ag = (ag', active', q')"
  shows "restoring name ys active' (ag_disk ag') (restart_pods E io xs pods) \<and> q' = q
    \<and> (\<forall>r. hm_sum (sw_amount r) active' \<le> hm_sum (sw_amount r) active + disk_total xs r)
    \<and> length active' \<le> length active + length xs"
  using assms
proof (induction xs arbitrary: active ag pods)
  case Nil
  then show ?case by simp
next
  case (Cons p xs)
  obtain k x where p: "p = (k, x)" by (cases p)
  with Cons.prems(1) have "durable name (ag_disk ag) pods" "hm_get (ag_disk ag) k = Some x"
    by (auto simp: restoring_def)
  then obtain stored where x: "x = Ok stored" unfolding durable_def by blast
  have R: "restoring name ((k, Ok stored) # xs @ ys) active (ag_disk ag) pods" using Cons.prems(1) p x by simp
  have rt: "returns_target E (ri_deploy (io k))" using Cons.prems(3) by blast
  note step = restoring_step [OF R Cons.prems(2) rt]
  note sizes = restored_sizes [OF step(2,3,1)]
  have run: "restore_loop E io xs (restored k stored (snd (restore_one E (io k) stored ag)) active, q)
      (fst (restore_one E (io k) stored ag)) = (ag', active', q')"
    using Cons.prems(4) unfolding p x restore_loop_step .
  have ih: "restoring name ys active' (ag_disk ag') (restart_pods E io xs (restore_pods E (io k) stored pods)) \<and> q' = q
    \<and> (\<forall>r. hm_sum (sw_amount r) active' \<le>
        hm_sum (sw_amount r) (restored k stored (snd (restore_one E (io k) stored ag)) active) + disk_total xs r)
    \<and> length active' \<le> length (restored k stored (snd (restore_one E (io k) stored ag)) active) + length xs"
    by (rule Cons.IH [OF step(4) Cons.prems(2,3) run])
  then have i: "restoring name ys active' (ag_disk ag') (restart_pods E io xs (restore_pods E (io k) stored pods))" "q' = q"
    "\<And>r. hm_sum (sw_amount r) active' \<le>
      hm_sum (sw_amount r) (restored k stored (snd (restore_one E (io k) stored ag)) active) + disk_total xs r"
    "length active' \<le> length (restored k stored (snd (restore_one E (io k) stored ag)) active) + length xs" by blast+
  have "hm_sum (sw_amount r) active' \<le> hm_sum (sw_amount r) active + disk_total (p # xs) r" for r
    using i(3) [of r] sizes(1) [of r] by (simp add: disk_total_def p x)
  moreover have "length active' \<le> length active + length (p # xs)" using i(4) sizes(2) by simp
  moreover have "restart_pods E io (p # xs) pods = restart_pods E io xs (restore_pods E (io k) stored pods)"
    by (simp add: p x)
  ultimately show ?case using i(1,2) by metis
qed

end
