(* ===== verification/Agent_Example.thy ===== *)
theory Agent_Example imports Agent_System begin

text \<open>
  A concrete agent and a run of it, for the witnesses of the properties over runs: at time 1010 an owner
  reserves room for the workload \<open>web\<close>, then deploys it, and the agent waits for the runtime. The
  cipher opens everything to the same bytes, every signature and token is good, and the runtime names a
  pod after its workload.
\<close>

section \<open>The environment\<close>

definition run_spec :: ExecutionSpec where
  "run_spec = \<lparr>ex_workload_name = ''web'', ex_replica_index = 0, ex_replica_count = 1, ex_manifest = [7],
     ex_proxy_endpoints = [toy_endpoint], ex_service_catalog = None, ex_workload_credential_b64 = toy_b64 [1],
     ex_workload_relay_auth_token = replicate 32 CHR ''t'', ex_workload_relay_ca_certificates = []\<rparr>"

definition run_crates :: crates where
  "run_crates = lax\<lparr>aead_decrypt := (\<lambda>_ _ _ _. Ok (replicate 32 0))\<rparr>"

definition run_scope :: EnrollmentScope where
  "run_scope = toy_scope\<lparr>sc_tenant_owner := toy_b64 (replicate 32 3), sc_revision_id := replicate 64 CHR
      ''a'', sc_issuer_public_key_b64 := toy_b64 (replicate 32 9)\<rparr>"

definition run_biscuit :: "fact list biscuit" where
  "run_biscuit = \<lparr>bk_public = Ok, bk_root = (\<lambda>_. Ok ()), bk_build = (\<lambda>_. Ok), bk_to_vec =
      (\<lambda>_. Ok [1]),
     bk_from = (\<lambda>_ _. Ok []), bk_authorize = (\<lambda>_ _ _. Ok ()), bk_authority = (\<lambda>tok.
         tok)\<rparr>"

definition run_env :: "fact list agent_env" where
  "run_env = toy_agent_env\<lparr>
     ae_wire := \<lparr>aw_crates = run_crates, aw_endpoint = (\<lambda>_. Ok [1]), aw_admission = (\<lambda>_. Ok
         [1]),
       aw_reservation = (\<lambda>_. Ok [1]), aw_grant = (\<lambda>_. Ok [1]), aw_update = (\<lambda>_. Ok [1]),
       aw_update_response = (\<lambda>_. Ok [1]), aw_receipt = (\<lambda>_. Ok [1]), aw_command = (\<lambda>_. Ok
           [1]),
       aw_command_response = (\<lambda>_. Ok [1]), aw_list_request = (\<lambda>_. Ok [1]), aw_list_response =
           (\<lambda>_. Ok [1]),
       aw_parse_list_request = (\<lambda>_. Err [])\<rparr>,
     ae_connector := cn_wire\<lparr>cn_env := toy_env\<lparr>se_crates := run_crates, se_biscuit := run_biscuit,
       se_json := toy_json\<lparr>js_parse_delegation := (\<lambda>_. Ok \<lparr>dl_version = 1, dl_scope =
           run_scope, dl_biscuit_b64 = toy_b64 [1]\<rparr>)\<rparr>\<rparr>\<rparr>,
     ae_parse_spec := (\<lambda>_. Ok run_spec),
     ae_measure := (\<lambda>m. Ok (m, \<lparr>mr_cpu_milli = 10, mr_memory_bytes = 10, mr_storage_bytes =
         10\<rparr>)),
     ae_target_id := (\<lambda>wid _ _. Ok (''pod-'' @ wid))\<rparr>"

section \<open>The messages\<close>

definition run_grant :: DeploymentGrant where
  "run_grant = (toy_grant (toy_b64 (replicate 64 0)))\<lparr>dg_revision_id := replicate 64 CHR ''a'',
      dg_target_node_id := toy_b64 (replicate 32 9),
     dg_capsule := \<lparr>cp_ciphertext = [1], cp_nonce = replicate 24 2, cp_wrapped_dek = 4 # replicate 60
         0\<rparr>\<rparr>"

definition run_admission :: AdmissionRequest where
  "run_admission = toy_admission\<lparr>aq_namespace_id := dg_namespace_id run_grant, aq_workload_id :=
      dg_workload_id run_grant,
     aq_target_node_id := toy_b64 (replicate 32 9), aq_response_kem_pubkey := toy_b64 (replicate 32 8),
     aq_owner_signature := toy_b64 (replicate 64 0), aq_issued_at_secs := 1000, aq_expires_at_secs := 1030\<rparr>"

definition run_admit_io :: admit_io where
  "run_admit_io = \<lparr>ai_now = 1010, ai_replay_now = 1010, ai_uuid = ''r'', ai_seal = ([], [])\<rparr>"

definition run_deploy_io :: deploy_io where
  "run_deploy_io = \<lparr>di_now = 1010, di_replay_now = 1010, di_released = True, di_locked_now = 1010, di_save =
      Ok (),
    di_deploy = (\<lambda>wid _ _. Answered (Ok (''pod-'' @ wid))), di_save_active = Ok (),
    di_failed = \<lparr>fi_save = Ok (), fi_cleanup = \<lparr>cl_delete = (\<lambda>_. Answered (Ok ())), cl_remove
        = Ok ()\<rparr>\<rparr>, di_seal = ([], [])\<rparr>"

section \<open>The run, step by step\<close>

lemma run_env_simps [simp]:
  "aw_crates (ae_wire run_env) = run_crates" "ae_config run_env = toy_config"
  "ae_signing_public run_env = replicate 32 9" "ae_signing_private run_env = replicate 32 9"
  "ae_kem_private run_env = replicate 32 8" "ae_parse_spec run_env = (\<lambda>_. Ok run_spec)"
  "ae_target_id run_env = (\<lambda>wid _ _. Ok (''pod-'' @ wid))" "ae_service_mesh_required run_env = False"
  "ae_measure run_env = (\<lambda>m. Ok (m, \<lparr>mr_cpu_milli = 10, mr_memory_bytes = 10, mr_storage_bytes =
      10\<rparr>))"
  "aw_admission (ae_wire run_env) = (\<lambda>_. Ok [1])" "aw_grant (ae_wire run_env) = (\<lambda>_. Ok [1])"
  "aw_reservation (ae_wire run_env) = (\<lambda>_. Ok [1])" "aw_endpoint (ae_wire run_env) = (\<lambda>_. Ok [1])"
  by (simp_all add: run_env_def toy_agent_env_def)

lemma run_crates_simps [simp]:
  "b64_encode run_crates b = toy_b64 b" "b64_decode run_crates (toy_b64 b) = Ok b"
  "length sk = 32 \<Longrightarrow> sign_domain run_crates sk d b = Ok (replicate 64 0)"
  "length pk = 32 \<Longrightarrow> length sig = 64 \<Longrightarrow> verify_domain run_crates pk d b sig = Ok ()"
  "aead_decrypt run_crates k n a c = Ok (replicate 32 0)" "blake3_hex run_crates x = replicate 64 CHR ''a''"
  using lax_simps(1,2) [of b] lax_simps(6) [of sk d b] lax_verify [of pk sig d b]
  by (simp_all add: run_crates_def b64_encode_def b64_decode_def sign_domain_def signing_key_from_def
      verify_domain_def
      verifying_key_from_def)
     (simp_all add: lax_def toy_crates_def)

lemma run_admission_verifies: "AdmissionRequest_verify (ae_wire run_env) run_admission 1010 = Ok ()"
  by (simp add: AdmissionRequest_verify_def AdmissionRequest_fields_def AdmissionRequest_canonical_bytes_def
      check_signature_Ok
     validity_window_Ok run_admission_def toy_admission_def run_grant_def toy_grant_def agent_consts
         validate_hex_id_def toy_scope_def list_all_iff is_ascii_hexdigit_def)

lemma run_grant_verifies: "DeploymentGrant_verify (ae_wire run_env) run_grant 1010 = Ok ()"
  by (simp add: DeploymentGrant_verify_def DeploymentGrant_fields_def DeploymentGrant_canonical_bytes_def
      check_signature_Ok
     validity_window_Ok run_grant_def toy_grant_def agent_consts validate_hex_id_def toy_scope_def list_all_iff
         is_ascii_hexdigit_def
     EncryptedWorkloadCapsule_validate_def)

lemma run_connector_simps [simp]:
  "se_biscuit (cn_env (ae_connector run_env)) = run_biscuit"
  "js_parse_delegation (se_json (cn_env (ae_connector run_env))) =
     (\<lambda>_. Ok \<lparr>dl_version = 1, dl_scope = run_scope, dl_biscuit_b64 = toy_b64 [1]\<rparr>)"
  by (simp_all add: run_env_def)

lemma run_delegation:
  "EnrollmentDelegation_verify run_crates run_biscuit \<lparr>dl_version = 1, dl_scope = run_scope, dl_biscuit_b64
      = toy_b64 [1]\<rparr> None = Ok ()"
  by (simp add: EnrollmentDelegation_verify_def WORKLOAD_IDENTITY_VERSION_def EnrollmentScope_validate_def
      run_scope_def
      public_key_def hex_id_def toy_scope_def list_all_iff is_lower_hexdigit_def MAX_IDENTITY_LIFETIME_SECS_def
          verify_token_def
      div_ceil_def MAX_IDENTITY_TOKEN_BYTES_def biscuit_root_from_owner_def biscuit_public_key_from_ed25519_def
          run_biscuit_def
      ctx_def)

lemma run_endpoint: "EndpointRecord_verify_structure run_crates (\<lambda>_. Ok [1]) toy_endpoint = Ok ()"
  by (simp add: EndpointRecord_verify_structure_iff EndpointRecord_validate_unsigned_def toy_endpoint_def
        validate_direct_addresses_def endpoint_consts parse_socket_addr_examples(1) saturating_add_def
        saturating_sub_def EndpointRecord_validate_signature_fields_def EndpointRecord_verify_signature_def
        EndpointRecord_canonical_bytes_def validate_encoded_size_def)

lemma run_unseals: "decrypt_payload_from_recipient_blob run_crates (4 # replicate 60 0) (replicate 32 8) = Ok
    (replicate 32 0)"
  by (simp add: decrypt_payload_from_recipient_blob_def SEALED_BLOB_VERSION_def SEALED_HEADER_LEN_def Let_def
     decapsulate_share_def kem_key_bytes_def numeral_eq_Suc) (simp add: run_crates_def lax_def toy_crates_def)

lemma run_decode: "decode_execution run_env run_grant = Ok run_spec"
  using run_delegation run_endpoint run_unseals
  by (simp add: decode_execution_def ExecutionSpec_validate_def run_grant_def toy_grant_def
      decrypt_payload_with_key_def Let_def
    run_spec_def agent_consts MAX_PROXY_ENDPOINTS_def workload_id_def revision_id_def route_id_def
    EnrollmentDelegation_from_b64_def identity_decode_b64_def identity_decode_def
        EnrollmentDelegation_verify_scope_def
    signing_pubkey_b64_def div_ceil_def MAX_DELEGATION_BYTES_def) (simp add: run_scope_def toy_scope_def toy_b64_def
      MAX_WORKLOAD_REPLICAS_def MAX_WORKLOAD_CREDENTIAL_B64_LEN_def MAX_BISCUIT_TOKEN_BYTES_def div_ceil_def)

definition run_reservation :: Reservation where
  "run_reservation = \<lparr>rv_version = 1, rv_reservation_id = ''r'', rv_request_id = ''q'', rv_namespace_id =
      dg_namespace_id run_grant,
     rv_workload_id = dg_workload_id run_grant, rv_agent_node_id = toy_b64 (replicate 32 9), rv_cpu_milli = 2000,
         rv_memory_bytes = 500,
     rv_storage_bytes = 500, rv_accepted = True, rv_reason = [], rv_expires_at_secs = 1040, rv_signature = toy_b64
         (replicate 64 0)\<rparr>"

lemma run_refusal: "admission_refusal toy_config WorkloadState_default run_admission = None"
proof -
  have amounts: "aq_amount r run_admission = (case r of Cpu \<Rightarrow> 2000 | _ \<Rightarrow> 500)" for r
    by (cases r) (simp_all add: run_admission_def toy_admission_def)
  have "aq_amount r run_admission \<le> capacity toy_config r \<and> aq_amount r run_admission \<le>
      pending_ceiling toy_config r" for r
    unfolding amounts by (cases r) (simp_all add: toy_config_def pending_ceiling_def)
  moreover have "\<not> contains_workload WorkloadState_default (aq_workload_id run_admission)"
    by (simp add: contains_workload_def WorkloadState_default_def hm_contains_def hm_values_def)
  moreover have "0 < cf_max_workloads toy_config" by (simp add: toy_config_def)
  ultimately show ?thesis
    unfolding admission_refusal_None_iff [OF st_inv_default toy_config_bounded] default_totals
    by (simp add: WorkloadState_default_def)
qed

lemma record_first:
  "now \<le> expires \<Longrightarrow> ReplayCache_record key expires now ReplayCache_default = (\<lparr>rc_seen =
      [(key, expires)], rc_order = [key]\<rparr>, Ok ())"
  by (simp add: ReplayCache_record_def ReplayCache_prune_def ReplayCache_push_def ReplayCache_default_def
        hm_contains_def MAX_REPLAY_ENTRIES_def hm_insert_def)

definition run_key :: string where "run_key = replay_key ''admission'' (aq_namespace_id run_admission) (aq_nonce
    run_admission)"

definition run_admitted :: agent where
  "run_admitted = (toy_agent [])\<lparr>ag_state := WorkloadState_default\<lparr>st_reservations := [(''r'',
      run_reservation)]\<rparr>,
     ag_replay := \<lparr>rc_seen = [(run_key, 1030)], rc_order = [run_key]\<rparr>\<rparr>"

lemma run_admits: "fst (admit run_env run_admit_io run_admission (toy_agent [])) = run_admitted"
proof -
  have "aq_target_node_id run_admission = signing_pubkey_b64 run_env" "aq_expires_at_secs run_admission = 1030"
    by (simp_all add: run_admission_def signing_pubkey_b64_def)
  moreover have "Reservation_sign (ae_wire run_env) (unsigned_reservation run_admission 1010 ''r'' None) (replicate
      32 9) (replicate 32 9) = Ok run_reservation"
    by (simp add: Reservation_sign_def unsigned_reservation_def Let_def Reservation_canonical_bytes_def
        run_reservation_def run_admission_def
      toy_admission_def AGENT_PROTOCOL_VERSION_def RESERVATION_TTL_SECS_def)
  moreover have "check_replay ''admission'' (aq_namespace_id run_admission) (aq_nonce run_admission) 1030 1010
      (toy_agent []) =
     ((toy_agent [])\<lparr>ag_replay := \<lparr>rc_seen = [(run_key, 1030)], rc_order = [run_key]\<rparr>\<rparr>,
         Ok ())"
    by (simp add: check_replay_def toy_agent_def record_first run_key_def)
  moreover have "rv_reservation_id run_reservation = ''r''" by (simp add: run_reservation_def)
  ultimately show ?thesis
    using run_admission_verifies run_refusal
    by (simp add: admit_def fst_op_bind fst_op_ensure reserve_def Let_def run_admit_io_def op_res_def
        run_admitted_def)
     (simp add: toy_agent_def WorkloadState_default_def hm_insert_def)
qed

definition run_stored :: StoredWorkload where
  "run_stored = planned_workload run_grant (''pod-'' @ dg_workload_id run_grant) run_reservation run_spec"

definition run_deploying :: agent where
  "run_deploying = \<lparr>ag_state = WorkloadState_default\<lparr>st_active := [(dg_workload_id run_grant,
      run_stored)]\<rparr>,
     ag_mutations = [(dg_workload_id run_grant, Lifecycle)],
     ag_replay = fst (ReplayCache_record (replay_key ''deploy'' (dg_namespace_id run_grant) (dg_nonce run_grant))
         1030 1010 (ag_replay run_admitted)),
     ag_disk = [(dg_workload_id run_grant, Ok run_stored)], ag_bindings = [], ag_endpoint = Some toy_addr\<rparr>"

lemma run_deploy_io_simps [simp]:
  "di_now run_deploy_io = 1010" "di_replay_now run_deploy_io = 1010" "di_released run_deploy_io = True"
  "di_locked_now run_deploy_io = 1010" "di_save run_deploy_io = Ok ()" "di_save_active run_deploy_io = Ok ()"
  "di_deploy run_deploy_io = (\<lambda>wid _ _. Answered (Ok (''pod-'' @ wid)))"
  by (simp_all add: run_deploy_io_def)

lemma run_accept: "deploy_accept run_env run_deploy_io run_grant run_admitted =
  (run_admitted\<lparr>ag_replay := ag_replay run_deploying\<rparr>, Ok run_spec)"
proof -
  have "dg_target_node_id run_grant = signing_pubkey_b64 run_env" "dg_expires_at_secs run_grant = 1030"
    by (simp_all add: run_grant_def toy_grant_def signing_pubkey_b64_def)
  moreover have "check_replay ''deploy'' (dg_namespace_id run_grant) (dg_nonce run_grant) 1030 1010 run_admitted =
      (run_admitted\<lparr>ag_replay := ag_replay run_deploying\<rparr>, Ok ())"
    by (simp add: check_replay_def run_deploying_def case_prod_beta)
      (simp add: run_admitted_def ReplayCache_record_def ReplayCache_prune_def hm_contains_def run_key_def
          replay_key_def)
  ultimately show ?thesis using run_grant_verifies run_decode
    by (simp add: deploy_accept_def op_bind_def op_res_def op_ensure_def)
qed

lemma run_begins: "deploy_begin run_env run_deploy_io run_grant run_admitted = (run_deploying, Ok (run_stored, [7]))"
proof -
  have "Reservation_verify (ae_wire run_env) run_reservation 1010 = Ok ()"
    by (simp add: Reservation_verify_def Reservation_fields_def Reservation_canonical_bytes_def check_signature_Ok
        run_reservation_def
     run_grant_def toy_grant_def agent_consts validate_hex_id_def list_all_iff is_ascii_hexdigit_def)
  moreover have "rv_accepted run_reservation" "rv_namespace_id run_reservation = dg_namespace_id run_grant"
    "rv_workload_id run_reservation = dg_workload_id run_grant" "rv_cpu_milli run_reservation = 2000"
    "rv_memory_bytes run_reservation = 500" "rv_storage_bytes run_reservation = 500"
    by (simp_all add: run_reservation_def)
  moreover have "runtime_manifest run_env wid ns run_spec = Ok ([7], \<lparr>mr_cpu_milli = 10, mr_memory_bytes =
      10, mr_storage_bytes = 10\<rparr>)" for wid ns
    by (simp add: runtime_manifest_def run_spec_def)
  moreover have "dg_reservation_id run_grant = ''r''" by (simp add: run_grant_def toy_grant_def)
  moreover have "owner_mutation (dg_workload_id run_grant) b (run_admitted\<lparr>ag_replay := r\<rparr>) =
     (run_admitted\<lparr>ag_replay := r, ag_mutations := [(dg_workload_id run_grant, Lifecycle)]\<rparr>, Ok ())"
         for b r
    by (simp add: owner_mutation_def mutation_with_owner_def run_admitted_def toy_agent_def
        MAX_CONFIGURED_WORKLOADS_def hm_insert_def)
  moreover have "dg_workload_id (sw_grant run_stored) = dg_workload_id run_grant" "ag_state run_admitted =
      WorkloadState_default\<lparr>st_reservations := [(''r'', run_reservation)]\<rparr>"
    by (simp_all add: run_stored_def planned_workload_def run_admitted_def)
  ultimately show ?thesis using run_grant_verifies
    by (simp add: deploy_begin_def run_accept op_bind_def op_res_def op_ensure_def op_guard_def deploy_commit_def
        take_reservation_def
     hm_remove_def hm_contains_def exceeds_def save_stored_def disk_save_def put_active_def Let_def)
    (simp add: run_deploying_def run_admitted_def toy_agent_def hm_insert_def WorkloadState_default_def
      run_stored_def planned_workload_def)
qed

definition run_started :: world where
  "run_started = \<lparr>wd_up = True, wd_agent = toy_agent [], wd_tasks = [], wd_pods = {}\<rparr>"

definition run_waiting :: world where
  "run_waiting = \<lparr>wd_up = True, wd_agent = run_deploying,
     wd_tasks = [(dg_workload_id run_grant, Deploying run_stored [7])], wd_pods = {sw_runtime_id run_stored}\<rparr>"

lemma run_steps: "(step run_env P)\<^sup>*\<^sup>* run_started run_waiting"
proof -
  have "step run_env P run_started (run_started\<lparr>wd_agent := run_admitted\<rparr>)"
    using step_admit [of run_started run_env P run_admit_io run_admission] run_admits by (simp add: run_started_def)
  moreover have "step run_env P (run_started\<lparr>wd_agent := run_admitted\<rparr>) run_waiting"
    using deploy_started [of "run_started\<lparr>wd_agent := run_admitted\<rparr>" run_env run_deploy_io run_grant
        run_deploying run_stored "[7]" P] run_begins
    by (simp add: run_started_def run_waiting_def hm_insert_def)
  ultimately show ?thesis by (meson converse_rtranclp_into_rtranclp rtranclp.rtrancl_refl)
qed

lemma run_reachable: "reachable run_env P run_waiting"
  unfolding reachable_def
  by (intro exI [of _ run_started] conjI run_steps)
    (simp add: started_def run_started_def toy_agent_def)

lemma run_stable: "stable run_env (\<lambda>wid. ''pod-'' @ wid)"
  by (simp add: stable_def)

end
