(* ===== verification/Agent_Safety.thy ===== *)
theory Agent_Safety imports Agent_Example begin

text \<open>
  What the agent promises over whole runs: the restart keeps the invariant of \<open>Agent_System\<close>, so every
  reachable world has it.
\<close>

section \<open>Restarts keep the invariant\<close>

lemma restoring_start:
  assumes "durable name d pods"
  shows "restoring name d [] d pods"
proof -
  have wf: "hm_wf d" using assms by (simp add: durable_def)
  then have at: "hm_get d k = Some x" if "(k, x) \<in> set d" for k x
    using that by (simp add: hm_wf_def)
  have "hm_get d k = None" if "k \<notin> fst ` set d" for k
    using that by (simp add: map_of_eq_None_iff)
  then show ?thesis unfolding restoring_def using assms wf at
    by (simp add: hm_wf_def case_prod_beta')
qed

lemma crashed_simps [simp]: "ag_disk (crashed ag) = ag_disk ag" "ag_state (crashed ag) = WorkloadState_default"
  by (simp_all add: crashed_def)

lemma inv_crash:
  assumes "world_inv E name w"
  shows "world_inv E name (w\<lparr>wd_up := False, wd_agent := crashed (wd_agent w), wd_tasks := []\<rparr>)"
  using assms by (simp add: world_inv_def)

lemma inv_restart_interrupted:
  assumes "world_inv E name w" and "\<not> wd_up w" and "stable E name" and "\<forall>k. returns_target E (ri_deploy (io k))"
  shows "world_inv E name (w\<lparr>wd_agent := crashed (fst (restore_loop E io (take n (ag_disk (wd_agent w))) ([], q) (wd_agent w))),
      wd_pods := restart_pods E io (take n (ag_disk (wd_agent w))) (wd_pods w)\<rparr>)"
proof -
  let ?d = "ag_disk (wd_agent w)"
  have D: "durable name ?d (wd_pods w)" using assms(1) by (simp add: world_inv_def)
  obtain ag active q' where run: "restore_loop E io (take n ?d) ([], q) (wd_agent w) = (ag, active, q')"
    by (cases "restore_loop E io (take n ?d) ([], q) (wd_agent w)") auto
  have "restoring name (take n ?d @ drop n ?d) [] ?d (wd_pods w)" using restoring_start [OF D] by simp
  from restore_loop_restoring [OF this assms(3,4) run] show ?thesis
    using assms(2) run by (simp add: world_inv_def restoring_def)
qed


lemma restore_inner_Ok:
  "restore_inner E (Ok ()) io ag = (ag', Ok ()) \<longleftrightarrow>
    length (ag_disk ag) \<le> cf_max_workloads (ae_config E)
    \<and> (\<exists>ag1 active q. restore_loop E io (ag_disk ag) ([], {}) ag = (ag1, active, q)
        \<and> (let st = \<lparr>st_active = active, st_reservations = [], st_quarantined = q\<rparr> in
            fits_within (usage st) (ucast (cf_capacity_cpu_milli (ae_config E)))
              (cf_capacity_memory_bytes (ae_config E)) (cf_capacity_storage_bytes (ae_config E))
            \<and> ag' = ag1\<lparr>ag_state := st\<rparr>))"
  by (auto simp: restore_inner_def op_ensure_def Let_def split: prod.splits)

lemma st_inv_restored:
  assumes "hm_wf active" and "length active \<le> cf_max_workloads cf"
    and "\<And>k w. hm_get active k = Some w \<Longrightarrow> dg_workload_id (sw_grant w) = k"
  shows "st_inv cf \<lparr>st_active = active, st_reservations = [], st_quarantined = {}\<rparr>"
  using assms
  by (auto simp: st_inv_def reserved_total_sum reservations_for_sum hm_wf_def MAX_RESERVATIONS_def
      MAX_RESERVATIONS_PER_NAMESPACE_def hm_values_def reservations_for_def)

lemma inv_restart:
  assumes inv: "world_inv E name w" and down: "\<not> wd_up w" and stable: "stable E name"
    and rt: "\<forall>k. returns_target E (ri_deploy (io k))"
    and run: "restore_inner E (Ok ()) io (wd_agent w) = (ag, Ok ())" and idle: "wd_tasks w = []"
  shows "world_inv E name (w\<lparr>wd_up := True, wd_agent := ag,
    wd_pods := restart_pods E io (ag_disk (wd_agent w)) (wd_pods w)\<rparr>)"
proof -
  let ?d = "ag_disk (wd_agent w)"
  from run obtain ag1 active q where few: "length ?d \<le> cf_max_workloads (ae_config E)"
    and loop: "restore_loop E io ?d ([], {}) (wd_agent w) = (ag1, active, q)"
    and ag: "ag = ag1\<lparr>ag_state := \<lparr>st_active = active, st_reservations = [], st_quarantined = q\<rparr>\<rparr>"
    unfolding restore_inner_Ok Let_def by blast
  have "restoring name (?d @ []) [] ?d (wd_pods w)"
    using restoring_start [of name ?d "wd_pods w"] inv by (simp add: world_inv_def)
  from restore_loop_restoring [OF this stable rt loop]
  have R: "restoring name [] active (ag_disk ag1) (restart_pods E io ?d (wd_pods w))" and q: "q = {}"
    and len: "length active \<le> length ?d" by simp_all
  have rec: "recorded name k (hm_get active k) (hm_get (ag_disk ag1) k)" for k
    using R by (simp add: restoring_def)
  have "dg_workload_id (sw_grant x) = k" if "hm_get active k = Some x" for k x
    using rec [of k] that by (simp add: named_def)
  then have "st_inv (ae_config E) \<lparr>st_active = active, st_reservations = [], st_quarantined = {}\<rparr>"
    using R few len by (intro st_inv_restored) (auto simp: restoring_def)
  then show ?thesis using R rec idle by (simp add: world_inv_def live_def restoring_def ag q)
qed


section \<open>Every reachable world has the invariant\<close>

lemma inv_quiet:
  assumes "world_inv E name w" and "wd_up w" and "quiet (wd_agent w) ag"
  shows "world_inv E name (w\<lparr>wd_agent := ag\<rparr>)"
  using assms(3) world_invD(3) [OF assms(1,2)] by (intro world_inv_quiet [OF assms(1,2)]) (auto simp: quiet_def)

lemma inv_admit:
  assumes "world_inv E name w" and "wd_up w" and "bounded_config (ae_config E)"
  shows "world_inv E name (w\<lparr>wd_agent := fst (admit E io q (wd_agent w))\<rparr>)"
  using admit_keeps(1) [OF world_invD(3) [OF assms(1,2)] assms(3)]
  by (intro world_inv_quiet [OF assms(1,2)]) (simp_all add: admit_effect)

lemma inv_offer:
  assumes "world_inv E name w" and "wd_up w"
  shows "world_inv E name (w\<lparr>wd_agent := fst (capacity_offer E cq a now (wd_agent w))\<rparr>)"
proof -
  note st = world_invD(3) [OF assms]
  show ?thesis
    using capacity_offer_effect(3) [of E cq a now "wd_agent w"] st st_inv_expire(1) [OF st, of now]
    by (intro world_inv_quiet [OF assms]) (auto simp: capacity_offer_effect(1,2) drop_expired_reservations_def)
qed

lemma inv_update_refused:
  assumes inv: "world_inv E name w" "wd_up w" and run: "update_begin E io u (wd_agent w) = (ag, Err e)"
  shows "world_inv E name (w\<lparr>wd_agent := ag\<rparr>)"
  using run
proof (cases rule: update_begin_cases)
  case (refused e')
  then show ?thesis using inv_quiet [OF inv] by simp
qed auto

lemma step_inv:
  assumes "step E P w w'" and inv: "world_inv E name w" and idle: "wd_up w \<or> wd_tasks w = []"
    and stable: "stable E name" and conf: "bounded_config (ae_config E)"
  shows "world_inv E name w' \<and> (wd_up w' \<or> wd_tasks w' = [])"
  using assms(1)
proof cases
  case (restart_interrupted rio n)
  then show ?thesis using inv_restart_interrupted [OF inv _ stable] idle by simp
next
  case (restart rio ag)
  then show ?thesis using inv_restart [OF inv _ stable] idle by simp
qed (simp_all add: inv inv_admit [OF inv _ conf] inv_offer [OF inv] inv_quiet [OF inv _ quiet_list]
    inv_quiet [OF inv _ quiet_inspect] inv_quiet [OF inv _ quiet_refresh] inv_deploy_refused [OF inv]
    inv_deploy_started [OF inv _ stable] inv_deploy_done [OF inv] inv_deploy_failed [OF inv] inv_cleanup_done [OF inv]
    inv_update_refused [OF inv] inv_update_answered [OF inv] inv_update_started [OF inv _ stable]
    inv_update_done [OF inv _ stable] inv_update_unsaved [OF inv] inv_update_failed [OF inv _ stable]
    inv_rollback_done [OF inv] inv_delete_refused [OF inv] inv_delete_started [OF inv] inv_delete_done [OF inv]
    inv_crash [OF inv])

lemma reachable_inv:
  assumes "reachable E P w" and stable: "stable E name" and conf: "bounded_config (ae_config E)"
  shows "world_inv E name w \<and> (wd_up w \<or> wd_tasks w = [])"
proof -
  from assms(1) obtain w0 where start: "started w0" and run: "(step E P)\<^sup>*\<^sup>* w0 w" unfolding reachable_def by blast
  have "durable name [] {}" by (simp add: durable_def hm_wf_def)
  then have "world_inv E name w0 \<and> wd_up w0"
    using start st_inv_default by (simp add: started_def world_inv_def live_def WorkloadState_default_def)
  with run show ?thesis
  proof (induction rule: rtranclp_induct)
    case (step y z)
    then show ?case using step_inv [OF step.hyps(2) _ _ stable conf] by blast
  qed blast
qed

section \<open>Properties\<close>







end
