(* ===== verification/Agent_Capacity.thy ===== *)
theory Agent_Capacity imports Agent_Safety begin

text \<open>
  Capacity over whole runs. As long as no update asks for less than its workload already has, an agent
  never commits more than its configured capacity, on disk as well, and therefore every restart succeeds.
  The rollback of a shrinking update breaks this.
\<close>

section \<open>What the disk adds up to\<close>

definition keeps_size :: "StoredWorkload \<Rightarrow> UpdateRequest \<Rightarrow> bool" where
  "keeps_size active u \<longleftrightarrow> (\<forall>r. sw_amount r active \<le> uq_amount r u)"

definition disk_amount :: "resource \<Rightarrow> StoredWorkload res \<Rightarrow> nat" where
  "disk_amount r x = (case x of Ok v \<Rightarrow> sw_amount r v | Err _ \<Rightarrow> 0)"

lemma disk_total_sum: "disk_total d r = hm_sum (disk_amount r) d"
  unfolding disk_total_def hm_sum_def hm_values_def disk_amount_def map_map comp_def case_prod_beta ..

lemma hm_sum_keys:
  assumes "hm_wf m"
  shows "hm_sum g m = (\<Sum>k \<in> hm_keys m. g (the (hm_get m k)))"
  using assms
proof (induction m)
  case (Cons p m)
  obtain k v where p: "p = (k, v)" by (cases p)
  have wf: "hm_wf m" and new: "k \<notin> hm_keys m" using Cons.prems by (auto simp: p hm_wf_def hm_keys_def)
  have "(\<Sum>j \<in> hm_keys m. g (the (hm_get (p # m) j))) = (\<Sum>j \<in> hm_keys m. g (the (hm_get m j)))"
    using new by (intro sum.cong) (auto simp: p)
  then show ?case using Cons.IH [OF wf] new by (simp add: p hm_keys_def)
qed (simp add: hm_keys_def)

lemma live_disk:
  assumes "live E name w" and "hm_wf (ag_disk (wd_agent w))"
  shows "disk_total (ag_disk (wd_agent w)) r = active_total (ag_state (wd_agent w)) r"
    and "length (ag_disk (wd_agent w)) = length (st_active (ag_state (wd_agent w)))"
proof -
  let ?d = "ag_disk (wd_agent w)" and ?m = "st_active (ag_state (wd_agent w))"
  have wf: "hm_wf ?m" using assms(1) by (simp add: live_def st_inv_def)
  have rec: "recorded name k (hm_get ?m k) (hm_get ?d k)" for k using assms(1) by (simp add: live_def)
  have keys: "hm_keys ?d = hm_keys ?m"
  proof (rule set_eqI)
    show "k \<in> hm_keys ?d \<longleftrightarrow> k \<in> hm_keys ?m" for k
      using rec [of k] by (cases "hm_get ?m k") (auto simp: hm_keys_dom)
  qed
  have "disk_amount r (the (hm_get ?d k)) = sw_amount r (the (hm_get ?m k))" if "k \<in> hm_keys ?m" for k r
    using rec [of k] that by (auto simp: hm_keys_dom disk_amount_def twins_def)
  then show "disk_total ?d r = active_total (ag_state (wd_agent w)) r"
    unfolding disk_total_sum active_total_sum hm_sum_keys [OF assms(2)] hm_sum_keys [OF wf] keys by simp
  show "length ?d = length ?m"
    using hm_length_card [OF wf] hm_length_card [OF assms(2)] keys by simp
qed

lemma reconciled_sum:
  assumes "reconciled name k stored d d' x" and wf: "hm_wf d" and at: "hm_get d k = Some (Ok stored)"
    and g: "\<And>y. \<forall>r. sw_amount r y = sw_amount r stored \<Longrightarrow> g (Ok y) = g (Ok stored)"
  shows "hm_sum g d' \<le> hm_sum g d"
proof -
  have "\<forall>r. sw_amount r y = sw_amount r stored \<Longrightarrow> hm_sum g (hm_insert k (Ok y) d) = hm_sum g d" for y
    using hm_sum_insert [OF wf, of g k "Ok y"] hm_sum_remove [OF wf at, of g] g [of y] by simp
  moreover have "hm_sum g (hm_remove k d) \<le> hm_sum g d" by (rule hm_sum_remove_le)
  moreover have "d' = d \<or> d' = hm_remove k d
      \<or> (\<exists>y. (\<forall>r. sw_amount r y = sw_amount r stored) \<and> d' = hm_insert k (Ok y) d)"
    using assms(1) unfolding reconciled_def by (cases x; cases "case x of Ok v \<Rightarrow> v | Err _ \<Rightarrow> None") auto
  ultimately show ?thesis by (metis le_refl)
qed

lemma reconciled_shrinks:
  assumes "reconciled name k stored d d' x" and "hm_wf d" and "hm_get d k = Some (Ok stored)"
  shows "disk_total d' r \<le> disk_total d r" and "length d' \<le> length d"
  using reconciled_sum [OF assms, of "disk_amount r"] reconciled_sum [OF assms, of "\<lambda>_. Suc 0"]
  by (simp_all add: disk_total_sum disk_amount_def hm_sum_const)

lemma restore_loop_shrinks:
  assumes "restoring name (xs @ ys) active (ag_disk ag) pods" and "stable E name"
    and "\<forall>k. returns_target E (ri_deploy (io k))"
  shows "disk_total (ag_disk (fst (restore_loop E io xs (active, q) ag))) r \<le> disk_total (ag_disk ag) r
    \<and> length (ag_disk (fst (restore_loop E io xs (active, q) ag))) \<le> length (ag_disk ag)"
  using assms
proof (induction xs arbitrary: active ag pods)
  case (Cons p xs)
  obtain k x where p: "p = (k, x)" by (cases p)
  with Cons.prems(1) have D: "durable name (ag_disk ag) pods" and at: "hm_get (ag_disk ag) k = Some x"
    by (auto simp: restoring_def)
  then obtain stored where x: "x = Ok stored" unfolding durable_def by blast
  have R: "restoring name ((k, Ok stored) # xs @ ys) active (ag_disk ag) pods" using Cons.prems(1) p x by simp
  have rt: "returns_target E (ri_deploy (io k))" using Cons.prems(3) by blast
  note step = restoring_step [OF R Cons.prems(2) rt]
  have "hm_wf (ag_disk ag)" using D by (simp add: durable_def)
  note less = reconciled_shrinks [OF step(1) this at [unfolded x]]
  note ih = Cons.IH [OF step(4) Cons.prems(2,3)]
  show ?case unfolding p x restore_loop_step
    by (intro conjI le_trans [OF conjunct1 [OF ih] less(1)] le_trans [OF conjunct2 [OF ih] less(2)])
qed simp

section \<open>Steps that keep the agent within its capacity\<close>

fun permitted :: "task \<Rightarrow> bool" where
  "permitted (Replacing u ex manifest active) \<longleftrightarrow> keeps_size active u"
| "permitted (RollingBack u active) \<longleftrightarrow> keeps_size active u"
| "permitted _ \<longleftrightarrow> True"

definition fitting :: "'tok agent_env \<Rightarrow> world \<Rightarrow> bool" where
  "fitting E w \<longleftrightarrow>
     (if wd_up w then within_capacity (ae_config E) (ag_state (wd_agent w))
        \<and> (\<forall>k t. hm_get (wd_tasks w) k = Some t \<longrightarrow> permitted t)
      else length (ag_disk (wd_agent w)) \<le> cf_max_workloads (ae_config E)
        \<and> (\<forall>r. disk_total (ag_disk (wd_agent w)) r \<le> capacity (ae_config E) r))"

lemma fitting_up:
  assumes "fitting E w" and "wd_up w"
  shows "within_capacity (ae_config E) (ag_state (wd_agent w))"
    and "hm_get (wd_tasks w) k = Some t \<Longrightarrow> permitted t"
  using assms by (auto simp: fitting_def)

lemma fitting_same:
  assumes "fitting E w" and "wd_up w" and "within_capacity (ae_config E) (ag_state ag)"
  shows "fitting E (w\<lparr>wd_agent := ag\<rparr>)" and "fitting E (w\<lparr>wd_agent := ag, wd_pods := pods\<rparr>)"
    and "fitting E (w\<lparr>wd_agent := ag, wd_tasks := hm_remove k (wd_tasks w)\<rparr>)"
    and "fitting E (w\<lparr>wd_agent := ag, wd_tasks := hm_remove k (wd_tasks w), wd_pods := pods\<rparr>)"
    and "permitted t \<Longrightarrow> fitting E (w\<lparr>wd_agent := ag, wd_tasks := hm_insert k t (wd_tasks w)\<rparr>)"
    and "permitted t \<Longrightarrow> fitting E (w\<lparr>wd_agent := ag, wd_tasks := hm_insert k t (wd_tasks w), wd_pods := pods\<rparr>)"
  using assms by (simp_all add: fitting_def)

lemma release_state [simp]: "ag_state (release_mutation wid ag) = ag_state ag"
  by (simp add: release_mutation_def)

text \<open>Replacing the record of a workload by one that asks for no more, or forgetting it.\<close>

lemma keeps_replaced:
  assumes inv: "world_inv E name w" "wd_up w" and fit: "fitting E w"
    and at: "mem (wd_agent w) wid = Some x" and less: "\<And>r. sw_amount r y \<le> sw_amount r x"
    and ag: "ag_state ag = (ag_state (wd_agent w))\<lparr>st_active := hm_insert wid y (st_active (ag_state (wd_agent w)))\<rparr>"
  shows "within_capacity (ae_config E) (ag_state ag)"
  unfolding ag by (rule within_capacity_replace [OF world_invD(3) [OF inv] fitting_up(1) [OF fit inv(2)] at less])

lemma keeps_forgotten:
  assumes "fitting E w" and "wd_up w"
    and "ag_state ag = (ag_state (wd_agent w))\<lparr>st_active := hm_remove wid (st_active (ag_state (wd_agent w)))\<rparr>"
  shows "within_capacity (ae_config E) (ag_state ag)"
  unfolding assms(3) by (rule within_capacity_forget [OF fitting_up(1) [OF assms(1,2)]])

lemma keeps_deploy_begin:
  assumes inv: "world_inv E name w" "wd_up w" and fit: "fitting E w"
    and run: "deploy_begin E io g (wd_agent w) = (ag, r)"
  shows "within_capacity (ae_config E) (ag_state ag)"
  using run
proof (cases rule: deploy_begin_cases)
  case (refused e)
  then show ?thesis
    using fitting_up(1) [OF fit inv(2)] st_inv_consume(2) [OF world_invD(3) [OF inv]] by auto
next
  case (started ag1 now ex stored manifest)
  note c = started(2) [unfolded claims_def]
  from started(3) obtain v where v: "hm_get (st_reservations (ag_state ag1)) (dg_reservation_id g) = Some v"
    and wid: "dg_workload_id (sw_grant stored) = rv_workload_id v" and amount: "\<And>r. sw_amount r stored = rv_amount r v"
    and ag: "ag_state ag = (ag_state ag1)\<lparr>st_reservations := hm_remove (dg_reservation_id g) (st_reservations (ag_state ag1)),
      st_active := hm_insert (rv_workload_id v) stored (st_active (ag_state ag1))\<rparr>"
    by (rule deploy_commit_Ok) auto
  have st: "ag_state ag1 = ag_state (wd_agent w)" using c by blast
  show ?thesis
    using st_inv_commit(2) [OF world_invD(3) [OF inv] v [unfolded st] wid amount fitting_up(1) [OF fit inv(2)]]
    unfolding ag st .
qed

lemma keeps_update_begin:
  assumes inv: "world_inv E name w" "wd_up w" and fit: "fitting E w" and conf: "bounded_config (ae_config E)"
    and run: "update_begin E io u (wd_agent w) = (ag, r)"
  shows "within_capacity (ae_config E) (ag_state ag)"
  using run
proof (cases rule: update_begin_cases)
  case (started ag1 now ex manifest active)
  have st: "ag_state ag1 = ag_state (wd_agent w)" using started(2) by (simp add: claims_def)
  have wf: "hm_wf (st_active (ag_state (wd_agent w)))" using world_invD(3) [OF inv] by (simp add: st_inv_def)
  from started(4) show ?thesis
  proof (cases rule: update_commit_cases)
    case (committed x)
    have id: "dg_workload_id (sw_grant x) = uq_workload_id u"
      using committed(2) st world_invD(3) [OF inv] by (simp add: st_inv_def)
    have "within_capacity (ae_config E) ((ag_state (wd_agent w))\<lparr>st_active :=
        hm_insert (uq_workload_id u) (transitioning x u) (st_active (ag_state (wd_agent w)))\<rparr>)"
      using committed(4) unfolding update_fits_iff [OF conf] st
      by (intro within_capacity_resize [OF wf]) (simp add: uq_amount_def)
    then show ?thesis using committed(3) id st by (simp add: transitioning_def)
  qed simp_all
qed (use fitting_up(1) [OF fit inv(2)] in \<open>auto simp: quiet_def claims_def\<close>)


lemma active_id:
  "world_inv E name w \<Longrightarrow> wd_up w \<Longrightarrow> mem (wd_agent w) wid = Some x \<Longrightarrow> dg_workload_id (sw_grant x) = wid"
  by (rule st_invD(5) [OF world_invD(3)])

lemma keeps_deploy_done:
  assumes inv: "world_inv E name w" "wd_up w" and fit: "fitting E w"
    and task: "hm_get (wd_tasks w) wid = Some (Deploying stored manifest)"
    and run: "deploy_answer io stored manifest (wd_agent w) = (ag, r)"
  shows "within_capacity (ae_config E) (ag_state ag)"
    and "r = Err e \<Longrightarrow> within_capacity (ae_config E) (ag_state (mark_failed save (stored\<lparr>sw_phase := p\<rparr>) ag))"
proof -
  have m: "mem (wd_agent w) wid = Some stored" using world_invD(7) [OF inv task] by simp
  have id: "dg_workload_id (sw_grant stored) = wid" using active_id [OF inv m] .
  have replaced: "within_capacity (ae_config E) ((ag_state (wd_agent w))\<lparr>st_active :=
      hm_insert wid (stored\<lparr>sw_phase := q\<rparr>) (st_active (ag_state (wd_agent w)))\<rparr>)" for q
    using keeps_replaced [OF inv fit m, of "stored\<lparr>sw_phase := q\<rparr>" "(wd_agent w)\<lparr>ag_state := (ag_state (wd_agent w))\<lparr>st_active :=
      hm_insert wid (stored\<lparr>sw_phase := q\<rparr>) (st_active (ag_state (wd_agent w)))\<rparr>\<rparr>"] by simp
  show "within_capacity (ae_config E) (ag_state ag)"
    using run replaced [of Active] fitting_up(1) [OF fit inv(2)] by (cases rule: deploy_answer_cases) (simp_all add: id)
  show "within_capacity (ae_config E) (ag_state (mark_failed save (stored\<lparr>sw_phase := p\<rparr>) ag))" if "r = Err e"
    using run replaced [of p] that
    by (cases rule: deploy_answer_cases) (simp_all add: id mark_failed_def save_stored_def disk_save_def split: result.splits)
qed

lemma keeps_cleanup:
  assumes inv: "world_inv E name w" "wd_up w" and fit: "fitting E w"
    and m: "mem (wd_agent w) wid = Some x" and id: "dg_workload_id (sw_grant stored) = wid"
    and ne: "sw_runtime_id stored \<noteq> []"
  shows "within_capacity (ae_config E) (ag_state (finish_cleanup E io stored (wd_agent w)))"
proof -
  obtain ag r where run: "cleanup_pending E io stored (wd_agent w) = (ag, r)" by fastforce
  from run ne show ?thesis
    using fitting_up(1) [OF fit inv(2)] within_capacity_forget [OF fitting_up(1) [OF fit inv(2)], of wid]
    by (cases rule: cleanup_pending_cases) (simp_all add: finish_cleanup_def run id drop_active_def)
qed

lemma keeps_update_answer:
  assumes inv: "world_inv E name w" "wd_up w" and fit: "fitting E w"
    and task: "hm_get (wd_tasks w) wid = Some (Replacing u ex manifest active)"
    and run: "update_answer io u ex manifest (wd_agent w) = (ag, r)"
  shows "within_capacity (ae_config E) (ag_state ag)"
proof -
  have m: "mem (wd_agent w) wid = Some (transitioning active u)" and ids: "uq_workload_id u = wid"
    using world_invD(7) [OF inv task] by simp_all
  have amount: "sw_amount r (updated u rid ex) \<le> sw_amount r (transitioning active u)" for r rid
    by (cases r) (simp_all add: updated_def uq_amount_def)
  show ?thesis
  proof (cases "ag = wd_agent w")
    case True
    then show ?thesis using fitting_up(1) [OF fit inv(2)] by simp
  next
    case False
    then obtain rid where "ag_state ag = (ag_state (wd_agent w))\<lparr>st_active :=
        hm_insert wid (updated u rid ex) (st_active (ag_state (wd_agent w)))\<rparr>"
      using run by (auto simp: update_answer_def save_stored_def disk_save_def ids split: result.splits)
    then show ?thesis by (rule keeps_replaced [OF inv fit m amount])
  qed
qed

lemma keeps_rollback:
  assumes inv: "world_inv E name w" "wd_up w" and fit: "fitting E w"
    and task: "hm_get (wd_tasks w) wid = Some (RollingBack u active)"
  shows "within_capacity (ae_config E) (ag_state (fst (update_rollback E io active (wd_agent w))))"
proof -
  have m: "mem (wd_agent w) wid = Some (transitioning active u)" using world_invD(7) [OF inv task] by simp
  have "keeps_size active u" using fitting_up(2) [OF fit inv(2) task] by simp
  then have less: "sw_amount r active \<le> sw_amount r (transitioning active u)" for r by (simp add: keeps_size_def)
  have id: "dg_workload_id (sw_grant active) = wid"
    using active_id [OF inv m] by (simp add: transitioning_def)
  obtain ag r where run: "update_rollback E io active (wd_agent w) = (ag, r)" by fastforce
  then show ?thesis
  proof (cases rule: update_rollback_cases)
    case rolled
    then show ?thesis using run keeps_replaced [OF inv fit m less, of ag] by (simp add: id)
  qed (use run fitting_up(1) [OF fit inv(2)] in simp)
qed


lemma keeps_delete_begin:
  assumes inv: "world_inv E name w" "wd_up w" and fit: "fitting E w" and ag1: "ag_state ag1 = ag_state (wd_agent w)"
    and run: "delete_begin io c active ag1 = (ag, r)"
  shows "within_capacity (ae_config E) (ag_state ag)"
  using run
proof (cases rule: delete_begin_cases)
  case (unsaved e current)
  have m: "mem (wd_agent w) (cm_workload_id c) = Some current" using unsaved(2) ag1 by simp
  have "hm_insert k y (hm_insert k x m) = hm_insert k y m" for k x y and m :: "(string, StoredWorkload) hmap"
    by (simp add: hm_insert_def hm_remove_def)
  then show ?thesis using keeps_replaced [OF inv fit m, of "current\<lparr>sw_deleting := False\<rparr>" ag] unsaved(3) ag1 by simp
next
  case (marked current)
  have m: "mem (wd_agent w) (cm_workload_id c) = Some current" using marked(2) ag1 by simp
  show ?thesis using keeps_replaced [OF inv fit m, of "current\<lparr>sw_deleting := True\<rparr>" ag] marked(3) ag1 by simp
qed (use ag1 fitting_up(1) [OF fit inv(2)] in simp_all)

lemma keeps_delete_claim:
  assumes inv: "world_inv E name w" "wd_up w" and fit: "fitting E w"
    and run: "delete_claim E io c (wd_agent w) = (ag, r)"
  shows "within_capacity (ae_config E) (ag_state ag)"
  using run
proof (cases rule: delete_claim_cases)
  case (quiet e)
  then show ?thesis using fitting_up(1) [OF fit inv(2)] by (simp add: quiet_def)
next
  case (refused ag1 ag2 active e)
  then show ?thesis using keeps_delete_begin [OF inv fit _ refused(4)] by (simp add: claims_def)
next
  case (started ag1 active plan)
  then show ?thesis using keeps_delete_begin [OF inv fit _ started(4)] by (simp add: claims_def)
qed

lemma keeps_delete_end:
  assumes inv: "world_inv E name w" "wd_up w" and fit: "fitting E w"
    and task: "hm_get (wd_tasks w) wid = Some (Deleting c active plan)"
  shows "within_capacity (ae_config E) (ag_state (fst (delete_end E io c active plan (wd_agent w))))"
proof -
  from world_invD(7) [OF inv task] obtain x where wid: "cm_workload_id c = wid"
    and m: "mem (wd_agent w) wid = Some x" and x: "x\<lparr>sw_deleting := False\<rparr> = active\<lparr>sw_deleting := False\<rparr>" by auto
  have n: "named name wid active" using arg_cong [OF x, of "named name wid"] task_record [OF inv m] by simp
  then have id: "dg_workload_id (sw_grant active) = wid" "sw_runtime_id active \<noteq> []" unfolding named_def by blast+
  have amount: "sw_amount r active \<le> sw_amount r x" for r using arg_cong [OF x, of "sw_amount r"] by simp
  note same = fitting_up(1) [OF fit inv(2)]
  show ?thesis
  proof (cases plan)
    case CleanUp
    have "fst (delete_end E io c active CleanUp (wd_agent w)) = finish_cleanup E (ci_cleanup io) active (wd_agent w)"
      by (simp add: delete_end_def delete_cleanup_def finish_cleanup_def op_bind_def id wid split: prod.splits result.splits)
    then show ?thesis using keeps_cleanup [OF inv fit m id] CleanUp by simp
  next
    case Remove
    obtain ag r where run: "delete_finish io wid active (wd_agent w) = (ag, r)" by fastforce
    then have "within_capacity (ae_config E) (ag_state ag)"
    proof (cases rule: delete_finish_cases)
      case deleted
      then show ?thesis using keeps_forgotten [OF fit inv(2)] by blast
    next
      case same
      then show ?thesis using fitting_up(1) [OF fit inv(2)] by simp
    next
      case undone
      then show ?thesis using keeps_replaced [OF inv fit m amount] by blast
    qed
    then show ?thesis by (simp add: Remove delete_end_def wid run)
  qed (simp add: delete_end_def same)
qed


section \<open>Crashes and restarts\<close>

lemma fitting_crash:
  assumes inv: "world_inv E name w" and fit: "fitting E w"
  shows "fitting E (w\<lparr>wd_up := False, wd_agent := crashed (wd_agent w), wd_tasks := []\<rparr>)"
proof (cases "wd_up w")
  case True
  have "live E name w" and "hm_wf (ag_disk (wd_agent w))" using inv True by (simp_all add: world_inv_def durable_def)
  note disk = live_disk [OF this]
  have "active_total (ag_state (wd_agent w)) r \<le> capacity (ae_config E) r" for r
    using fitting_up(1) [OF fit True] unfolding within_capacity_def by (metis add_leD1)
  moreover have "length (st_active (ag_state (wd_agent w))) \<le> cf_max_workloads (ae_config E)"
    using st_invD(8) [OF world_invD(3) [OF inv True]] by simp
  ultimately show ?thesis by (simp add: fitting_def disk)
qed (use fit in \<open>simp add: fitting_def\<close>)

lemma fitting_interrupted:
  assumes inv: "world_inv E name w" and fit: "fitting E w" and down: "\<not> wd_up w" and stable: "stable E name"
    and rt: "\<forall>k. returns_target E (ri_deploy (io k))"
  shows "fitting E (w\<lparr>wd_agent := crashed (fst (restore_loop E io (take n (ag_disk (wd_agent w))) ([], q) (wd_agent w))),
    wd_pods := pods\<rparr>)"
proof -
  let ?d = "ag_disk (wd_agent w)"
  have "restoring name (take n ?d @ drop n ?d) [] ?d (wd_pods w)"
    using restoring_start [of name ?d] inv by (simp add: world_inv_def)
  note less = restore_loop_shrinks [OF this stable rt, of q]
  have room: "length ?d \<le> cf_max_workloads (ae_config E)" "disk_total ?d r \<le> capacity (ae_config E) r" for r
    using fit down by (simp_all add: fitting_def)
  show ?thesis
    using down le_trans [OF conjunct1 [OF less] room(2)] le_trans [OF conjunct2 [OF less] room(1)]
    by (simp add: fitting_def)
qed

text \<open>A restart within capacity always succeeds, and its state is within capacity.\<close>

lemma restart_fits:
  assumes inv: "world_inv E name w" and fit: "fitting E w" and down: "\<not> wd_up w" and stable: "stable E name"
    and rt: "\<forall>k. returns_target E (ri_deploy (io k))" and conf: "bounded_config (ae_config E)"
  obtains ag where "restore_inner E (Ok ()) io (wd_agent w) = (ag, Ok ())" "within_capacity (ae_config E) (ag_state ag)"
proof -
  let ?d = "ag_disk (wd_agent w)"
  obtain ag1 active q where loop: "restore_loop E io ?d ([], {}) (wd_agent w) = (ag1, active, q)"
    by (cases "restore_loop E io ?d ([], {}) (wd_agent w)") auto
  let ?st = "\<lparr>st_active = active, st_reservations = [], st_quarantined = q\<rparr>"
  have "restoring name (?d @ []) [] ?d (wd_pods w)"
    using restoring_start [of name ?d "wd_pods w"] inv by (simp add: world_inv_def)
  from restore_loop_restoring [OF this stable rt loop]
  have sum: "hm_sum (sw_amount r) active \<le> disk_total ?d r" for r by simp
  have room: "length ?d \<le> cf_max_workloads (ae_config E)" "disk_total ?d r \<le> capacity (ae_config E) r" for r
    using fit down by (simp_all add: fitting_def)
  have none: "reserved_total ?st r = 0" for r by (simp add: reserved_total_sum)
  have total: "active_total ?st r \<le> capacity (ae_config E) r" for r
    using le_trans [OF sum room(2)] by (simp add: active_total_sum)
  have "fits_within (usage ?st) (ucast (cf_capacity_cpu_milli (ae_config E)))
      (cf_capacity_memory_bytes (ae_config E)) (cf_capacity_storage_bytes (ae_config E))"
    unfolding fits_within_iff usage_amount [of ?st, unfolded none, simplified]
    using total by (simp add: min.coboundedI1)
  then show thesis
    using that [of "ag1\<lparr>ag_state := ?st\<rparr>"] room(1) loop total none
    by (simp add: restore_inner_Ok within_capacity_def Let_def)
qed


section \<open>Every reachable world fits\<close>

lemma step_fitting:
  assumes "step E keeps_size w w'" and inv: "world_inv E name w" and fit: "fitting E w" and idle: "wd_up w \<or> wd_tasks w = []"
    and stable: "stable E name" and conf: "bounded_config (ae_config E)"
  shows "fitting E w'"
  using assms(1)
proof cases
  case (step_admit io q)
  then show ?thesis
    using fitting_same(1) [OF fit _ admit_keeps(2) [OF world_invD(3) [OF inv] conf fitting_up(1) [OF fit]]] by simp
next
  case (step_offer cq a now)
  note st = world_invD(3) [OF inv step_offer(2)] and ok = fitting_up(1) [OF fit step_offer(2)]
  have "within_capacity (ae_config E) (ag_state (fst (capacity_offer E cq a now (wd_agent w))))"
    using capacity_offer_effect(3) [of E cq a now "wd_agent w"] ok st_inv_expire(2) [OF st ok, of now] by auto
  then show ?thesis using fitting_same(1) [OF fit step_offer(2)] step_offer(1) by simp
next
  case (step_list now now' seal lq)
  then show ?thesis using fitting_same(1) [OF fit] fitting_up(1) [OF fit] quiet_list [unfolded quiet_def] by metis
next
  case (step_inspect c cio)
  then show ?thesis using fitting_same(1) [OF fit] fitting_up(1) [OF fit] quiet_inspect [unfolded quiet_def] by metis
next
  case (step_enroll eio wid)
  then show ?thesis using fitting_same(1) [OF fit] fitting_up(1) [OF fit] quiet_refresh [unfolded quiet_def] by metis
next
  case (cleanup_done wid stored cl)
  have m: "mem (wd_agent w) wid = Some stored" using world_invD(7) [OF inv cleanup_done(2,3)] by simp
  have "named name wid stored" using task_record [OF inv cleanup_done(2) m] .
  then have "sw_runtime_id stored \<noteq> []" unfolding named_def by blast
  from keeps_cleanup [OF inv cleanup_done(2) fit m active_id [OF inv cleanup_done(2) m] this]
  show ?thesis using fitting_same(4) [OF fit cleanup_done(2)] cleanup_done(1) by simp
next
  case (update_failed wid u ex manifest active uio ag e)
  have "permitted (RollingBack u active)" using fitting_up(2) [OF fit update_failed(2,3)] by simp
  from fitting_same(6) [OF fit update_failed(2) _ this] show ?thesis
    using keeps_update_answer [OF inv update_failed(2) fit update_failed(3,4)] update_failed(1) by simp
next
  case crash
  then show ?thesis using fitting_crash [OF inv fit] by simp
next
  case (restart_interrupted rio n)
  then show ?thesis using fitting_interrupted [OF inv fit _ stable] by simp
next
  case (restart rio ag)
  obtain ag' where "restore_inner E (Ok ()) rio (wd_agent w) = (ag', Ok ())" "within_capacity (ae_config E) (ag_state ag')"
    using restart_fits [OF inv fit restart(2) stable restart(4) conf] .
  then show ?thesis using restart idle by (simp add: fitting_def)
qed (simp_all add: fitting_same [OF fit] keeps_deploy_begin [OF inv _ fit] keeps_deploy_done [OF inv _ fit]
    keeps_update_begin [OF inv _ fit conf] keeps_update_answer [OF inv _ fit] keeps_rollback [OF inv _ fit]
    keeps_delete_claim [OF inv _ fit] keeps_delete_end [OF inv _ fit])


lemma reachable_fitting:
  assumes "reachable E keeps_size w" and stable: "stable E name" and conf: "bounded_config (ae_config E)"
  shows "world_inv E name w \<and> (wd_up w \<or> wd_tasks w = []) \<and> fitting E w"
proof -
  from assms(1) obtain w0 where start: "started w0" and run: "(step E keeps_size)\<^sup>*\<^sup>* w0 w" unfolding reachable_def by blast
  from run show ?thesis
  proof (induction rule: rtranclp_induct)
    case base
    have "reachable E keeps_size w0" using start unfolding reachable_def by blast
    from reachable_inv [OF this stable conf] show ?case
      using start within_capacity_default by (simp add: started_def fitting_def)
  next
    case (step y z)
    then show ?case using step_inv [OF step.hyps(2) _ _ stable conf] step_fitting [OF step.hyps(2) _ _ _ stable conf] by blast
  qed
qed

text \<open>Records of pods that run: a restart keeps them as they are.\<close>

definition healthy :: "restore_io \<Rightarrow> StoredWorkload \<Rightarrow> bool" where
  "healthy io v \<longleftrightarrow> sw_phase v = Active \<and> \<not> sw_deleting v \<and> sw_runtime_id v \<noteq> []
     \<and> is_ok (runtime_operation ''reconciliation status'' (ri_status io (sw_runtime_id v)))"

lemma restore_one_healthy: "healthy io v \<Longrightarrow> restore_one E io v ag = (ag, Ok (Some v))"
  by (auto simp: healthy_def restore_one_def needs_cleanup_def op_res_def)

lemma restore_loop_healthy:
  assumes "\<forall>(k, x) \<in> set xs. \<exists>v. x = Ok v \<and> healthy (io k) v" and "hm_wf active"
    and "distinct (map fst xs)" and "\<forall>k \<in> fst ` set xs. k \<notin> hm_keys active"
  obtains active' where "restore_loop E io xs (active, q) ag = (ag, active', q)"
    and "\<And>r. hm_sum (sw_amount r) active' = hm_sum (sw_amount r) active + disk_total xs r"
  using assms
proof (induction xs arbitrary: active thesis)
  case Nil
  then show ?case by (simp add: disk_total_def)
next
  case (Cons p xs)
  obtain k v where p: "p = (k, Ok v)" and ok: "healthy (io k) v" using Cons.prems(2) by (cases p) auto
  let ?a = "hm_insert k v active"
  have new: "k \<notin> hm_keys active" using Cons.prems(5) by (simp add: p)
  obtain active' where loop: "restore_loop E io xs (?a, q) ag = (ag, active', q)"
    and sum: "\<And>r. hm_sum (sw_amount r) active' = hm_sum (sw_amount r) ?a + disk_total xs r"
  proof (rule Cons.IH [of ?a])
    show "\<forall>k \<in> fst ` set xs. k \<notin> hm_keys ?a" using Cons.prems(4,5) by (auto simp: p)
  qed (use Cons.prems(2,3,4) in auto)
  have "hm_sum (sw_amount r) active' = hm_sum (sw_amount r) active + disk_total (p # xs) r" for r
    using sum [of r] hm_sum_insert [OF Cons.prems(3), of "sw_amount r" k v] hm_remove_absent [OF new]
    by (simp add: disk_total_def p)
  then show ?case using Cons.prems(1) loop by (simp add: p restore_one_healthy [OF ok])
qed

lemma restart_refused:
  assumes "\<forall>k x. hm_get (ag_disk ag) k = Some x \<longrightarrow> (\<exists>v. x = Ok v \<and> healthy (io k) v)" and wf: "hm_wf (ag_disk ag)"
    and few: "length (ag_disk ag) \<le> cf_max_workloads (ae_config E)"
    and over: "capacity (ae_config E) r < disk_total (ag_disk ag) r" and conf: "bounded_config (ae_config E)"
  shows "restore_inner E (Ok ()) io ag = (ag, Err ''persisted workloads exceed configured resource capacity'')"
proof -
  have "\<forall>(k, x) \<in> set (ag_disk ag). \<exists>v. x = Ok v \<and> healthy (io k) v"
    using assms(1) hm_get_in_set [OF wf] by fastforce
  then obtain active where loop: "restore_loop E io (ag_disk ag) ([], {}) ag = (ag, active, {})"
    and sum: "\<And>r. hm_sum (sw_amount r) active = disk_total (ag_disk ag) r"
    using wf by (auto simp: hm_wf_def elim: restore_loop_healthy [of "ag_disk ag" io "[]" E "{}" ag])
  let ?st = "\<lparr>st_active = active, st_reservations = [], st_quarantined = {}\<rparr>"
  have none: "reserved_total ?st s = 0" for s by (simp add: reserved_total_sum)
  have "capacity (ae_config E) r < 2 ^ 64 - 1" using conf unfolding bounded_config_def by blast
  then have "\<not> fits_within (usage ?st) (ucast (cf_capacity_cpu_milli (ae_config E)))
      (cf_capacity_memory_bytes (ae_config E)) (cf_capacity_storage_bytes (ae_config E))"
    unfolding fits_within_iff usage_amount [of ?st, unfolded none, simplified] active_total_sum
    using over sum [of r] by (auto simp: not_le intro!: exI [of _ r])
  then show ?thesis using few loop by (simp add: restore_inner_def op_ensure_def)
qed


section \<open>Properties\<close>




text \<open>Witness of C5: the agent crashes while it waits for the runtime, and every call of the runtime
  fails when it comes up again.\<close>

definition run_failing_io :: restore_io where
  "run_failing_io = \<lparr>ri_cleanup = \<lparr>cl_delete = (\<lambda>_. TimedOut), cl_remove = Err ''full''\<rparr>, ri_delete = (\<lambda>_. TimedOut),
     ri_remove = Err ''full'', ri_deploy = (\<lambda>_ _ _. TimedOut), ri_save = Err ''full'',
     ri_status = (\<lambda>_. TimedOut), ri_remove_enrollment = Err ''full''\<rparr>"


text \<open>C8: the rollback of a shrinking update can leave an agent that no longer starts. While an update
  waits for the runtime the workload is charged with the smaller amounts it asked for, so others may be
  admitted into the difference. When the runtime then fails, the rollback charges the old amounts again
  without asking whether they still fit. If they do not, the next restart finds more on disk than it may
  hold and refuses to start, although every pod is running.\<close>

theorem shrinking_rollback_blocks_restart:
  assumes wf: "hm_wf (ag_disk ag)" and at: "dsk ag wid = Some (Ok (transitioning active u))"
    and wid: "dg_workload_id (sw_grant active) = wid" and ok: "healthy (io wid) active"
    and others: "\<forall>k x. k \<noteq> wid \<longrightarrow> dsk ag k = Some x \<longrightarrow> (\<exists>v. x = Ok v \<and> healthy (io k) v)"
    and few: "length (ag_disk ag) \<le> cf_max_workloads (ae_config E)" and conf: "bounded_config (ae_config E)"
    and over: "capacity (ae_config E) r + uq_amount r u < disk_total (ag_disk ag) r + sw_amount r active"
  shows "snd (restore_inner E (Ok ()) io (fst (rollback_commit (Ok ()) active ag))) =
    Err ''persisted workloads exceed configured resource capacity''"
proof -
  let ?ag = "fst (rollback_commit (Ok ()) active ag)"
  have d: "ag_disk ?ag = hm_insert wid (Ok active) (ag_disk ag)"
    by (simp add: rollback_commit_def op_bind_def save_stored_def disk_save_def wid)
  have "disk_total (ag_disk ?ag) r = sw_amount r active + hm_sum (disk_amount r) (hm_remove wid (ag_disk ag))"
    unfolding d disk_total_sum hm_sum_insert [OF wf] by (simp add: disk_amount_def)
  moreover have "disk_total (ag_disk ag) r = uq_amount r u + hm_sum (disk_amount r) (hm_remove wid (ag_disk ag))"
    unfolding disk_total_sum hm_sum_remove [OF wf at] by (simp add: disk_amount_def)
  ultimately have "capacity (ae_config E) r < disk_total (ag_disk ?ag) r" using over by linarith
  moreover have "\<exists>v. x = Ok v \<and> healthy (io k) v" if "dsk ?ag k = Some x" for k x
    using that others ok by (auto simp: d split: if_splits)
  moreover have "length (ag_disk ?ag) \<le> cf_max_workloads (ae_config E)" "hm_wf (ag_disk ?ag)"
    using few wf at hm_get_Some_key [OF at] by (simp_all add: d hm_length_insert)
  ultimately show ?thesis using restart_refused [OF _ _ _ _ conf, of ?ag io r] by simp
qed


text \<open>Witness of C8: a workload of 2000 of 4000 milli-CPUs shrinks to 100, another of 3000 is admitted,
  and the update fails.\<close>

definition run_old :: StoredWorkload where
  "run_old = run_stored\<lparr>sw_phase := Active\<rparr>"

definition run_shrink :: UpdateRequest where
  "run_shrink = (toy_update [])\<lparr>uq_cpu_milli := 100\<rparr>"

definition run_healthy_io :: restore_io where
  "run_healthy_io = run_failing_io\<lparr>ri_status := (\<lambda>_. Answered (Ok ''Running''))\<rparr>"

definition run_shrunk :: agent where
  "run_shrunk = (toy_agent [])\<lparr>ag_disk := [(dg_workload_id run_grant, Ok (transitioning run_old run_shrink)),
     (''b'', Ok (run_old\<lparr>sw_cpu_milli := 3000\<rparr>))]\<rparr>"

lemma run_old_simps:
  "sw_amount Cpu run_old = 2000" "uq_amount Cpu run_shrink = 100" "sw_amount Cpu (run_old\<lparr>sw_cpu_milli := 3000\<rparr>) = 3000"
  "healthy run_healthy_io run_old" "healthy run_healthy_io (run_old\<lparr>sw_cpu_milli := 3000\<rparr>)"
  "dg_workload_id (sw_grant run_old) = dg_workload_id run_grant" "dg_workload_id run_grant = replicate 64 CHR ''a''"
  by (simp_all add: run_old_def run_stored_def planned_workload_def run_reservation_def healthy_def run_healthy_io_def
      run_shrink_def uq_amount_def run_grant_def toy_grant_def)

theorem shrinking_rollback_blocks_restart_witness:
  "disk_total (ag_disk run_shrunk) Cpu \<le> capacity (ae_config run_env) Cpu
   \<and> snd (restore_inner run_env (Ok ()) (\<lambda>_. run_healthy_io) (fst (rollback_commit (Ok ()) run_old run_shrunk))) =
       Err ''persisted workloads exceed configured resource capacity''"
proof -
  have ids: "replicate 64 CHR ''a'' \<noteq> ''b''" by (simp add: numeral_eq_Suc)
  have total: "disk_total (ag_disk run_shrunk) Cpu = 3100" "capacity (ae_config run_env) Cpu = 4000"
    using run_old_simps by (simp_all add: disk_total_def run_shrunk_def toy_config_def)
  have "hm_wf (ag_disk run_shrunk)" "dsk run_shrunk (dg_workload_id run_grant) = Some (Ok (transitioning run_old run_shrink))"
    "\<forall>k x. k \<noteq> dg_workload_id run_grant \<longrightarrow> dsk run_shrunk k = Some x \<longrightarrow> (\<exists>v. x = Ok v \<and> healthy run_healthy_io v)"
    "length (ag_disk run_shrunk) \<le> cf_max_workloads (ae_config run_env)" "bounded_config (ae_config run_env)"
    using run_old_simps(5,7) ids toy_config_bounded by (auto simp: run_shrunk_def hm_wf_def toy_config_def split: if_splits)
  note hyps = this
  have "capacity (ae_config run_env) Cpu + uq_amount Cpu run_shrink < disk_total (ag_disk run_shrunk) Cpu + sw_amount Cpu run_old"
    unfolding total run_old_simps by simp
  from shrinking_rollback_blocks_restart [where io = "\<lambda>_. run_healthy_io", OF hyps(1,2) run_old_simps(6,4) hyps(3,4,5) this]
  show ?thesis using total by simp
qed

end
