(* ===== verification/Manifest_Value.thy ===== *)
theory Manifest_Value
  imports Std_Str Service_Discovery
begin

text \<open>
  The documents of a manifest as trees, and \<open>shared/protocol/src/manifest_yaml.rs\<close>,
  \<open>shared/protocol/src/podmesh_annotations.rs\<close>.

  The sources hold a document as a \<open>serde_yaml::Value\<close> and convert it to a \<open>serde_json::Value\<close> and back.
  A tree stands for both: it has the cases the two types share, with string keys and without tags. Reading
  and printing YAML is \<open>serde_yaml\<close>'s, a parameter (\<open>yaml_io\<close>).
\<close>

section \<open>Trees\<close>

text \<open>A number is an integer, or a float given by its significand and exponent.\<close>

datatype number = Whole int | Float int int

datatype Value =
    VNull
  | VBool bool
  | VNum number
  | VStr string
  | VSeq "Value list"
  | VMap "(string \<times> Value) list"

fun get :: "string \<Rightarrow> Value \<Rightarrow> Value option" where
  "get k (VMap m) = map_of m k"
| "get k _ = None"

text \<open>A chain of \<open>get\<close>s, and \<open>pointer\<close>.\<close>

fun at :: "string list \<Rightarrow> Value \<Rightarrow> Value option" where
  "at [] v = Some v"
| "at (k # ks) v = Option.bind (get k v) (at ks)"

fun as_str :: "Value \<Rightarrow> string option" where
  "as_str (VStr s) = Some s"
| "as_str _ = None"

fun as_bool :: "Value \<Rightarrow> bool option" where
  "as_bool (VBool b) = Some b"
| "as_bool _ = None"

fun as_u64 :: "Value \<Rightarrow> u64 option" where
  "as_u64 (VNum (Whole n)) = (if 0 \<le> n \<and> n < 2 ^ 64 then Some (word_of_int n) else None)"
| "as_u64 _ = None"

fun as_sequence :: "Value \<Rightarrow> Value list option" where
  "as_sequence (VSeq vs) = Some vs"
| "as_sequence _ = None"

fun as_mapping :: "Value \<Rightarrow> (string \<times> Value) list option" where
  "as_mapping (VMap m) = Some m"
| "as_mapping _ = None"

text \<open>\<open>Mapping::insert\<close>: an existing key keeps its place, a new one comes last. \<open>modify\<close> is an update through
  \<open>get_mut\<close>, \<open>modify_at\<close> one through a chain of them.\<close>

fun map_insert :: "string \<Rightarrow> Value \<Rightarrow> (string \<times> Value) list \<Rightarrow> (string \<times> Value) list" where
  "map_insert k v [] = [(k, v)]"
| "map_insert k v ((k', v') # m) = (if k' = k then (k, v) # m else (k', v') # map_insert k v m)"

fun modify :: "string \<Rightarrow> (Value \<Rightarrow> Value) \<Rightarrow> Value \<Rightarrow> Value" where
  "modify k f (VMap m) = (case map_of m k of None \<Rightarrow> VMap m | Some v \<Rightarrow> VMap (map_insert k (f v) m))"
| "modify k f v = v"

fun modify_at :: "string list \<Rightarrow> (Value \<Rightarrow> Value) \<Rightarrow> Value \<Rightarrow> Value" where
  "modify_at [] f v = f v"
| "modify_at (k # ks) f v = modify k (modify_at ks f) v"

lemma get_map_insert: "map_of (map_insert k v m) = (map_of m)(k \<mapsto> v)"
  by (induction m) (auto simp: fun_eq_iff)

lemma get_modify: "get k' (modify k f v) = (if k' = k then map_option f (get k v) else get k' v)"
  by (cases v) (auto simp: get_map_insert split: option.splits)

section \<open>Documents\<close>

text \<open>\<open>ym_docs\<close> is \<open>Deserializer::from_str\<close> with \<open>Value::deserialize\<close>: the documents of a text in order, each
  read or refused. \<open>ym_print\<close> is \<open>serde_yaml::to_string\<close>.\<close>

record yaml_io =
  ym_docs :: "string \<Rightarrow> Value res list"
  ym_print :: "Value \<Rightarrow> string res"

definition parse_yaml_documents_from_str :: "yaml_io \<Rightarrow> string \<Rightarrow> Value list res" where
  "parse_yaml_documents_from_str Y s =
     try_r (collect_r (ym_docs Y s)) (\<lambda>docs. Ok (filter (\<lambda>d. d \<noteq> VNull) docs))"

definition parse_yaml_documents_from_slice :: "yaml_io \<Rightarrow> bytes \<Rightarrow> Value list res" where
  "parse_yaml_documents_from_slice Y b = parse_yaml_documents_from_str Y (map (\<lambda>x. char_of (unat x)) b)"

text \<open>One document is returned alone, several as an array.\<close>

definition parse_manifest_to_json :: "yaml_io \<Rightarrow> string \<Rightarrow> Value res" where
  "parse_manifest_to_json Y contents =
     try_r (parse_yaml_documents_from_str Y contents) (\<lambda>docs.
     ensure (docs \<noteq> []) ''manifest file did not contain any YAML documents''
       (Ok (if length docs = 1 then hd docs else VSeq docs)))"

definition newline :: string where "newline = [CHR 0x0A]"

fun serialize_loop :: "yaml_io \<Rightarrow> string \<Rightarrow> Value list \<Rightarrow> string \<Rightarrow> string res" where
  "serialize_loop Y sep [] out = Ok out"
| "serialize_loop Y sep (doc # docs) out =
     try_r (ym_print Y doc) (\<lambda>rendered.
       let line = (if rendered \<noteq> [] \<and> last rendered = CHR 0x0A then rendered else rendered @ newline)
       in serialize_loop Y (''---'' @ newline) docs (out @ sep @ line))"

definition serialize_yaml_documents :: "yaml_io \<Rightarrow> Value list \<Rightarrow> string res" where
  "serialize_yaml_documents Y docs = serialize_loop Y [] docs []"

text \<open>What the library printed it reads back: the hypothesis of the theorems that follow a manifest through
  its text.\<close>

definition reads_back :: "yaml_io \<Rightarrow> Value list \<Rightarrow> bool" where
  "reads_back Y docs \<longleftrightarrow>
     (case serialize_yaml_documents Y docs of Err _ \<Rightarrow> True | Ok s \<Rightarrow> parse_yaml_documents_from_str Y s = Ok docs)"

section \<open>Replicas\<close>

definition TRUST_POLICY :: string where "TRUST_POLICY = ''podmesh.io/trust-policy''"
definition REPLICAS :: string where "REPLICAS = ''podmesh.io/replicas''"
definition LEASE_TTL :: string where "LEASE_TTL = ''podmesh.io/lease-ttl''"
definition PROXY_ENDPOINTS :: string where "PROXY_ENDPOINTS = ''podmesh.io/proxy-endpoints''"
definition ANTI_AFFINITY :: string where "ANTI_AFFINITY = ''podmesh.io/anti-affinity''"

definition annotation_as_u64 :: "Value \<Rightarrow> u64 option" where
  "annotation_as_u64 v =
     (case v of VStr text \<Rightarrow> map_option word_of_nat (parse_unsigned (2 ^ 64) (trim text)) | other \<Rightarrow> as_u64 other)"

definition annotated_replicas :: "Value \<Rightarrow> u64 option" where
  "annotated_replicas doc = Option.bind (at [''metadata'', ''annotations'', REPLICAS] doc) annotation_as_u64"

definition spec_replicas :: "Value \<Rightarrow> u64 option" where
  "spec_replicas doc = Option.bind (at [''spec'', ''replicas''] doc) as_u64"

fun normalize_loop :: "u64 \<Rightarrow> Value list \<Rightarrow> u64 \<times> Value list" where
  "normalize_loop desired [] = (desired, [])"
| "normalize_loop desired (doc # docs) =
     (let desired = (case annotated_replicas doc of None \<Rightarrow> desired | Some annotated \<Rightarrow> max desired annotated);
          (desired, doc) = (case spec_replicas doc of
              None \<Rightarrow> (desired, doc)
            | Some v \<Rightarrow> (max desired v, modify_at [''spec'', ''replicas''] (\<lambda>_. VNum (Whole 1)) doc));
          (desired, docs) = normalize_loop desired docs
      in (desired, doc # docs))"

definition clamp :: "'a::linorder \<Rightarrow> 'a \<Rightarrow> 'a \<Rightarrow> 'a" where
  "clamp lo hi x = (if x < lo then lo else if hi < x then hi else x)"

definition normalize_replicas :: "Value list \<Rightarrow> u32 \<times> Value list" where
  "normalize_replicas docs =
     (let (desired, docs) = normalize_loop 0 docs
      in (ucast (clamp 1 (ucast MAX_WORKLOAD_REPLICAS) desired), docs))"

section \<open>Annotations\<close>

record PodmeshAnnotations =
  pa_trust_policy :: "string option"
  pa_replicas :: "u32 option"
  pa_lease_ttl_secs :: "u32 option"
  pa_proxy_endpoints :: "string list"
  pa_anti_affinity :: "string list"

definition default_annotations :: PodmeshAnnotations where
  "default_annotations = \<lparr>pa_trust_policy = None, pa_replicas = None, pa_lease_ttl_secs = None,
     pa_proxy_endpoints = [], pa_anti_affinity = []\<rparr>"

definition comma_list :: "string option \<Rightarrow> string list" where
  "comma_list v = (case v of None \<Rightarrow> [] | Some text \<Rightarrow> filter (\<lambda>w. w \<noteq> []) (map trim (split_on CHR '','' text)))"

definition from_yaml_annotations :: "Value \<Rightarrow> PodmeshAnnotations" where
  "from_yaml_annotations annotations =
     (let text = (\<lambda>key. Option.bind (get key annotations) as_str);
          number = (\<lambda>s. map_option word_of_nat (parse_unsigned (2 ^ 32) s))
      in \<lparr>pa_trust_policy = text TRUST_POLICY,
          pa_replicas = Option.bind (text REPLICAS) number,
          pa_lease_ttl_secs = Option.bind (text LEASE_TTL) number,
          pa_proxy_endpoints = comma_list (text PROXY_ENDPOINTS),
          pa_anti_affinity = comma_list (text ANTI_AFFINITY)\<rparr>)"

fun annotations_loop :: "Value res list \<Rightarrow> PodmeshAnnotations res" where
  "annotations_loop [] = Ok default_annotations"
| "annotations_loop (doc # docs) =
     try_r doc (\<lambda>v. case at [''metadata'', ''annotations''] v of
       None \<Rightarrow> annotations_loop docs
     | Some annotations \<Rightarrow>
         let parsed = from_yaml_annotations annotations in
         if parsed \<noteq> default_annotations then Ok parsed else annotations_loop docs)"

definition from_manifest_yaml :: "yaml_io \<Rightarrow> string \<Rightarrow> PodmeshAnnotations res" where
  "from_manifest_yaml Y yaml_str = annotations_loop (ym_docs Y yaml_str)"

definition with_defaults :: "PodmeshAnnotations \<Rightarrow> PodmeshAnnotations" where
  "with_defaults a =
     a\<lparr>pa_replicas := Some (case pa_replicas a of None \<Rightarrow> 1 | Some n \<Rightarrow> n),
       pa_lease_ttl_secs := Some (case pa_lease_ttl_secs a of None \<Rightarrow> 60 | Some n \<Rightarrow> n)\<rparr>"

section \<open>What normalising does\<close>

definition pinned :: "Value \<Rightarrow> Value" where
  "pinned doc = (if spec_replicas doc = None then doc else modify_at [''spec'', ''replicas''] (\<lambda>_. VNum (Whole 1)) doc)"

definition asked :: "Value \<Rightarrow> u64 list" where
  "asked doc = (case annotated_replicas doc of None \<Rightarrow> [] | Some v \<Rightarrow> [v])
     @ (case spec_replicas doc of None \<Rightarrow> [] | Some v \<Rightarrow> [v])"

lemma normalize_loop_eq: "normalize_loop d docs = (foldl max d (concat (map asked docs)), map pinned docs)"
proof (induction d docs rule: normalize_loop.induct)
  case (2 d doc docs)
  show ?case
    using 2 by (cases "annotated_replicas doc"; cases "spec_replicas doc")
      (simp_all add: Let_def asked_def pinned_def split_beta)
qed simp

lemma spec_replicas_pinned: "spec_replicas (pinned doc) = (if spec_replicas doc = None then None else Some 1)"
  by (auto simp: pinned_def spec_replicas_def get_modify bind_eq_Some_conv)

lemma foldl_max_bounds:
  "d \<le> foldl max d xs \<and> (\<forall>x \<in> set xs. x \<le> foldl max d xs) \<and> foldl max (d :: 'a::linorder) xs \<in> insert d (set xs)"
proof (induction xs arbitrary: d)
  case (Cons x xs)
  show ?case using Cons [of "max d x"] by (auto simp: max_def split: if_splits)
qed simp

end
