(* ===== verification/Rego_Lang.thy ===== *)
theory Rego_Lang
  imports Manifest_Value "HOL-Library.Char_ord" "HOL-Library.List_Lexorder"
begin

text \<open>
  The part of the Rego language that the policy in \<open>shared/protocol/src/manifest_policy.rs\<close> uses.

  An expression has a list of solutions: none when it is undefined, one for a plain value, several under
  \<open>some\<close>. A type error in a builtin either aborts the evaluation or makes the expression undefined, which is
  a setting of the engine (\<open>rg_strict\<close>, on by default in \<open>regorus\<close>), and so does iterating over a value that
  is no collection (\<open>rg_strict_some\<close>). The rendering of a message is the engine's (\<open>rg_sprintf\<close>, with no
  value on a type error).
\<close>

section \<open>Solutions\<close>

type_synonym 'a sols = "'a list res"

record rego =
  rg_strict :: bool
  rg_strict_some :: bool
  rg_sprintf :: "string \<Rightarrow> Value list \<Rightarrow> string option"

definition bind_s :: "'a sols \<Rightarrow> ('a \<Rightarrow> 'b sols) \<Rightarrow> 'b sols" where
  "bind_s m f = try_r m (\<lambda>xs. try_r (collect_r (map f xs)) (\<lambda>yss. Ok (concat yss)))"

definition must :: "bool \<Rightarrow> 'a sols \<Rightarrow> 'a sols" where
  "must b k = (if b then k else Ok [])"

definition builtin_error :: "rego \<Rightarrow> string \<Rightarrow> 'a sols" where
  "builtin_error R msg = (if rg_strict R then Err msg else Ok [])"

text \<open>\<open>v.k1.k2\<close>.\<close>

definition ref :: "string list \<Rightarrow> Value \<Rightarrow> Value sols" where
  "ref p v = Ok (case at p v of None \<Rightarrow> [] | Some x \<Rightarrow> [x])"

text \<open>\<open>some x in v\<close> and the keys of \<open>some k, _ in v\<close>.\<close>

fun some_in :: "rego \<Rightarrow> Value \<Rightarrow> Value sols" where
  "some_in R (VSeq vs) = Ok vs"
| "some_in R (VMap m) = Ok (map snd m)"
| "some_in R _ = (if rg_strict_some R then Err ''not a collection'' else Ok [])"

fun object_get :: "rego \<Rightarrow> string \<Rightarrow> Value \<Rightarrow> Value \<Rightarrow> Value sols" where
  "object_get R k d (VMap m) = Ok [case map_of m k of None \<Rightarrow> d | Some x \<Rightarrow> x]"
| "object_get R k d _ = builtin_error R ''object.get''"

fun array_concat :: "rego \<Rightarrow> Value \<Rightarrow> Value \<Rightarrow> Value sols" where
  "array_concat R (VSeq a) (VSeq b) = Ok [VSeq (a @ b)]"
| "array_concat R _ _ = builtin_error R ''array.concat''"

fun object_union :: "rego \<Rightarrow> Value \<Rightarrow> Value \<Rightarrow> Value sols" where
  "object_union R (VMap a) (VMap b) = Ok [VMap (foldl (\<lambda>m (k, v). map_insert k v m) a b)]"
| "object_union R _ _ = builtin_error R ''object.union''"

text \<open>\<open>count\<close>: the entries of a collection, the characters of a string.\<close>

fun count :: "rego \<Rightarrow> Value \<Rightarrow> nat sols" where
  "count R (VSeq vs) = Ok [length vs]"
| "count R (VMap m) = Ok [length m]"
| "count R (VStr s) = Ok [length (filter (\<lambda>c. (of_char c :: nat) < 128 \<or> 192 \<le> (of_char c :: nat)) s)]"
| "count R _ = builtin_error R ''count''"

definition sprintf :: "rego \<Rightarrow> string \<Rightarrow> Value list \<Rightarrow> string sols" where
  "sprintf R fmt args = (case rg_sprintf R fmt args of None \<Rightarrow> builtin_error R ''sprintf'' | Some s \<Rightarrow> Ok [s])"

text \<open>Numbers are compared by value.\<close>

fun is_zero :: "Value \<Rightarrow> bool" where
  "is_zero (VNum (Whole n)) \<longleftrightarrow> n = 0"
| "is_zero (VNum (Float m e)) \<longleftrightarrow> m = 0"
| "is_zero _ \<longleftrightarrow> False"

text \<open>A partial set collects the solutions of all its rules; its members come in order and once.\<close>

definition partial_set :: "'a::linorder sols list \<Rightarrow> 'a list res" where
  "partial_set rules = try_r (collect_r rules) (\<lambda>xss. Ok (remdups (sort (concat xss))))"

section \<open>Rules without solutions\<close>

text \<open>A rule fires nowhere exactly when every way through its body ends undefined and none in an error.\<close>

named_theorems no_sols \<open>when an expression has no solutions\<close>

lemma collect_r_empty: "collect_r rs = Ok xss \<Longrightarrow> concat xss = [] \<longleftrightarrow> (\<forall>r \<in> set rs. r = Ok [])"
  by (induction rs arbitrary: xss) auto

lemma collect_r_Err: "collect_r rs = Err e \<Longrightarrow> \<exists>r \<in> set rs. r = Err e"
  by (induction rs) (auto simp: try_r_Err_iff)

lemma bind_s_no_sols:
  "bind_s m f = Ok [] \<longleftrightarrow> (\<exists>xs. m = Ok xs \<and> (\<forall>x \<in> set xs. f x = Ok []))"
proof (cases m)
  case (Ok xs)
  show ?thesis
  proof (cases "collect_r (map f xs)")
    case c: (Ok yss)
    have "concat yss = [] \<longleftrightarrow> (\<forall>x \<in> set xs. f x = Ok [])" using collect_r_empty [OF c] by simp
    then show ?thesis by (simp add: bind_s_def Ok c)
  next
    case c: (Err e)
    obtain x where "x \<in> set xs" "f x = Err e" using collect_r_Err [OF c] by auto
    then show ?thesis by (auto simp: bind_s_def Ok c intro!: bexI [of _ x])
  qed
qed (simp add: bind_s_def)

lemma bind_list_no_sols [no_sols]: "bind_s (Ok xs) f = Ok [] \<longleftrightarrow> (\<forall>x \<in> set xs. f x = Ok [])"
  by (simp add: bind_s_no_sols)

lemma bind_one [simp]: "bind_s (Ok [x]) f = f x"
  by (cases "f x") (simp_all add: bind_s_def)

lemma bind_none [simp]: "bind_s (Ok []) f = Ok []" "bind_s (Err e) f = Err e"
  by (simp_all add: bind_s_def)

lemma must_no_sols [no_sols]: "must b k = Ok [] \<longleftrightarrow> (b \<longrightarrow> k = Ok [])"
  by (simp add: must_def)

lemma ref_no_sols [no_sols]: "bind_s (ref p v) f = Ok [] \<longleftrightarrow> (\<forall>x. at p v = Some x \<longrightarrow> f x = Ok [])"
  by (cases "at p v") (simp_all add: ref_def)

lemma sprintf_no_sols [no_sols]: "rg_strict R \<Longrightarrow> sprintf R fmt args \<noteq> Ok []"
  by (simp add: sprintf_def builtin_error_def split: option.splits)

text \<open>What \<open>object.get\<close> finds, as a path that may end early.\<close>

definition at_or :: "Value \<Rightarrow> string \<Rightarrow> Value \<Rightarrow> Value" where
  "at_or d k v = (case get k v of None \<Rightarrow> d | Some x \<Rightarrow> x)"

fun is_map :: "Value \<Rightarrow> bool" where
  "is_map (VMap m) \<longleftrightarrow> True"
| "is_map _ \<longleftrightarrow> False"

lemma object_get_no_sols [no_sols]:
  "rg_strict R \<Longrightarrow> bind_s (object_get R k d v) f = Ok [] \<longleftrightarrow> is_map v \<and> f (at_or d k v) = Ok []"
  by (cases v) (simp_all add: builtin_error_def at_or_def split: option.split)

fun items :: "Value \<Rightarrow> Value list" where
  "items (VSeq vs) = vs"
| "items (VMap m) = map snd m"
| "items _ = []"

definition items_at :: "string list \<Rightarrow> Value \<Rightarrow> Value list" where
  "items_at p v = (case at p v of None \<Rightarrow> [] | Some x \<Rightarrow> items x)"

lemma some_in_no_sols [no_sols]:
  "bind_s (some_in R v) f = Ok [] \<longleftrightarrow>
     (\<forall>x \<in> set (items v). f x = Ok []) \<and> (rg_strict_some R \<longrightarrow> is_map v \<or> as_sequence v \<noteq> None)"
  by (cases v) (auto simp: bind_s_no_sols)

fun blank :: "Value \<Rightarrow> bool" where
  "blank (VSeq vs) \<longleftrightarrow> vs = []"
| "blank (VMap m) \<longleftrightarrow> m = []"
| "blank (VStr s) \<longleftrightarrow> True"
| "blank _ \<longleftrightarrow> False"

lemma count_no_sols:
  "rg_strict R \<Longrightarrow> bind_s (count R v) (\<lambda>n. must (0 < n) k) = Ok [] \<Longrightarrow> k \<noteq> Ok [] \<Longrightarrow> blank v"
  by (cases v) (auto simp: builtin_error_def must_def split: if_splits)

lemma bind_s_Ok:
  "bind_s m f = Ok ys \<longleftrightarrow> (\<exists>xs yss. m = Ok xs \<and> map f xs = map Ok yss \<and> ys = concat yss)"
  by (auto simp: bind_s_def collect_r_map_Ok)

lemma map_Ok_ex: "\<forall>x \<in> set xs. \<exists>zs. f x = Ok zs \<Longrightarrow> \<exists>yss. map f xs = map Ok yss"
proof (induction xs)
  case (Cons x xs)
  then obtain zs yss where "f x = Ok zs" "map f xs = map Ok yss" by auto
  then show ?case by (intro exI [of _ "zs # yss"]) simp
qed simp

lemma all_map_Ok:
  assumes "map f xs = map Ok yss"
  shows "(\<forall>y \<in> set (concat yss). P y) \<longleftrightarrow> (\<forall>x \<in> set xs. \<exists>zs. f x = Ok zs \<and> (\<forall>z \<in> set zs. P z))"
  using assms
proof (induction xs arbitrary: yss)
  case (Cons x xs)
  then obtain zs rest where "yss = zs # rest" "f x = Ok zs" "map f xs = map Ok rest" by (cases yss) auto
  then show ?case using Cons.IH [of rest] by auto
qed simp

lemma bind_assoc_no_sols [no_sols]:
  "bind_s (bind_s m f) g = Ok [] \<longleftrightarrow> bind_s m (\<lambda>x. bind_s (f x) g) = Ok []"
proof -
  have "bind_s (bind_s m f) g = Ok [] \<longleftrightarrow> (\<exists>ys. bind_s m f = Ok ys \<and> (\<forall>y \<in> set ys. g y = Ok []))"
    by (rule bind_s_no_sols)
  also have "\<dots> \<longleftrightarrow> (\<exists>xs yss. m = Ok xs \<and> map f xs = map Ok yss \<and> (\<forall>y \<in> set (concat yss). g y = Ok []))"
    unfolding bind_s_Ok by blast
  also have "\<dots> \<longleftrightarrow> (\<exists>xs. m = Ok xs \<and> (\<forall>x \<in> set xs. \<exists>zs. f x = Ok zs \<and> (\<forall>z \<in> set zs. g z = Ok [])))"
    (is "?l \<longleftrightarrow> ?r")
  proof
    assume ?l
    then obtain xs yss where "m = Ok xs" and y: "map f xs = map Ok yss" and "\<forall>y \<in> set (concat yss). g y = Ok []"
      by blast
    then show ?r unfolding all_map_Ok [OF y, of "\<lambda>y. g y = Ok []"] by blast
  next
    assume ?r
    then obtain xs where m: "m = Ok xs" and f: "\<forall>x \<in> set xs. \<exists>zs. f x = Ok zs \<and> (\<forall>z \<in> set zs. g z = Ok [])"
      by blast
    then obtain yss where y: "map f xs = map Ok yss" using map_Ok_ex [of xs f] by blast
    then show ?l using m f unfolding all_map_Ok [OF y, of "\<lambda>y. g y = Ok []", symmetric] by blast
  qed
  also have "\<dots> \<longleftrightarrow> bind_s m (\<lambda>x. bind_s (f x) g) = Ok []"
    unfolding bind_s_no_sols ..
  finally show ?thesis .
qed

lemma at_last [simp]: "at [k] = get k"
proof
  show "at [k] v = get k v" for v by (cases "get k v") simp_all
qed

lemma at_at_or [simp]:
  "get k' (at_or (VMap []) k v) = at [k, k'] v"
  "at (k' # k'' # p) (at_or (VMap []) k v) = at (k # k' # k'' # p) v"
  by (cases "get k v"; simp add: at_or_def)+

lemma items_at_or [simp]: "items (at_or (VSeq []) k v) = items_at [k] v"
  by (cases "get k v") (simp_all add: at_or_def items_at_def)

lemma items_at_at_or [simp]: "items_at (k' # p) (at_or (VMap []) k v) = items_at (k # k' # p) v"
  by (cases "get k v") (simp_all add: at_or_def items_at_def)

declare at.simps(2) [simp del]

lemma partial_set_empty: "partial_set rules = Ok [] \<longleftrightarrow> (\<forall>r \<in> set rules. r = Ok [])"
proof (cases "collect_r rules")
  case (Ok xss)
  have "remdups (sort (concat xss)) = [] \<longleftrightarrow> concat xss = []"
    by (metis remdups_eq_nil_iff set_empty set_sort)
  then show ?thesis using collect_r_empty [OF Ok] Ok by (simp add: partial_set_def del: concat_eq_Nil_conv)
next
  case (Err e)
  then show ?thesis using collect_r_Err [OF Err] by (auto simp: partial_set_def)
qed

end
