(* ===== verification/Manifest_Policy.thy ===== *)
theory Manifest_Policy
  imports Rego_Lang
begin

text \<open>
  The policy a manifest must pass before an agent runs it: \<open>BUILTIN_POLICY\<close> rule by rule, the checks on the
  shape of the documents and the resource defaults, from \<open>shared/protocol/src/manifest_policy.rs\<close>. What
  the policy guarantees of an admitted manifest is in \<open>Manifest_Safety\<close>.
\<close>

section \<open>What the rules look at\<close>

definition INJECTED_SIDECAR_NAME :: string where "INJECTED_SIDECAR_NAME = ''podmesh-sidecar''"

definition obj0 :: Value where "obj0 = VMap []"
definition arr0 :: Value where "arr0 = VSeq []"

definition rego_pod_spec :: "Value \<Rightarrow> Value sols" where
  "rego_pod_spec input =
     (case get ''kind'' input of
        Some (VStr kind) \<Rightarrow>
          if kind = ''Pod'' then ref [''spec''] input
          else if kind \<in> set [''Deployment'', ''ReplicaSet'', ''DaemonSet'', ''StatefulSet'', ''Job'', ''CronJob'']
          then ref [''spec'', ''template'', ''spec''] input
          else Ok []
      | _ \<Rightarrow> Ok [])"

definition input_containers :: "rego \<Rightarrow> Value \<Rightarrow> Value sols" where
  "input_containers R input = bind_s (rego_pod_spec input) (object_get R ''containers'' arr0)"

definition init_containers :: "rego \<Rightarrow> Value \<Rightarrow> Value sols" where
  "init_containers R input = bind_s (rego_pod_spec input) (object_get R ''initContainers'' arr0)"

definition ephemeral_containers :: "rego \<Rightarrow> Value \<Rightarrow> Value sols" where
  "ephemeral_containers R input = bind_s (rego_pod_spec input) (object_get R ''ephemeralContainers'' arr0)"

definition all_containers :: "rego \<Rightarrow> Value \<Rightarrow> Value sols" where
  "all_containers R input =
     bind_s (input_containers R input) (\<lambda>a. bind_s (init_containers R input) (\<lambda>b.
     bind_s (array_concat R a b) (\<lambda>ab. bind_s (ephemeral_containers R input) (\<lambda>c. array_concat R ab c))))"

definition each_container :: "rego \<Rightarrow> Value \<Rightarrow> (Value \<Rightarrow> 'a sols) \<Rightarrow> 'a sols" where
  "each_container R input body = bind_s (bind_s (all_containers R input) (some_in R)) body"

definition is_injected_sidecar :: "Value \<Rightarrow> bool" where
  "is_injected_sidecar container \<longleftrightarrow> get ''name'' container = Some (VStr INJECTED_SIDECAR_NAME)"

text \<open>\<open>msg := sprintf(fmt, [container.name, ...])\<close>.\<close>

definition names_container :: "rego \<Rightarrow> string \<Rightarrow> Value \<Rightarrow> Value list \<Rightarrow> string sols" where
  "names_container R fmt container args = bind_s (ref [''name''] container) (\<lambda>name. sprintf R fmt (name # args))"

definition security_context :: "rego \<Rightarrow> Value \<Rightarrow> Value sols" where
  "security_context R v = object_get R ''securityContext'' obj0 v"

definition added_capabilities :: "rego \<Rightarrow> Value \<Rightarrow> Value sols" where
  "added_capabilities R container =
     bind_s (bind_s (security_context R container) (object_get R ''capabilities'' obj0)) (object_get R ''add'' arr0)"

section \<open>Container security context\<close>

definition rule_privileged :: "rego \<Rightarrow> Value \<Rightarrow> string sols" where
  "rule_privileged R input = each_container R input (\<lambda>c.
     bind_s (ref [''securityContext'', ''privileged''] c) (\<lambda>v.
     must (v = VBool True) (names_container R ''container '%s' requests privileged: true'' c [])))"

definition rule_escalation :: "rego \<Rightarrow> Value \<Rightarrow> string sols" where
  "rule_escalation R input = each_container R input (\<lambda>c.
     bind_s (ref [''securityContext'', ''allowPrivilegeEscalation''] c) (\<lambda>v.
     must (v = VBool True) (names_container R ''container '%s' requests allowPrivilegeEscalation: true'' c [])))"

definition rule_capabilities :: "rego \<Rightarrow> Value \<Rightarrow> string sols" where
  "rule_capabilities R input = each_container R input (\<lambda>c.
     must (\<not> is_injected_sidecar c) (
     bind_s (bind_s (added_capabilities R c) (some_in R)) (\<lambda>capability.
     names_container R ''container '%s' adds capability %s; only the injected sidecar may add capabilities'' c [capability])))"

definition rule_sidecar_capabilities :: "rego \<Rightarrow> Value \<Rightarrow> string sols" where
  "rule_sidecar_capabilities R input = each_container R input (\<lambda>c.
     must (is_injected_sidecar c) (
     bind_s (bind_s (added_capabilities R c) (some_in R)) (\<lambda>capability.
     must (capability \<noteq> VStr ''NET_ADMIN'')
       (sprintf R ''injected sidecar may only add NET_ADMIN, not %s'' [capability]))))"

definition rule_run_as_root :: "rego \<Rightarrow> Value \<Rightarrow> string sols" where
  "rule_run_as_root R input = each_container R input (\<lambda>c.
     must (\<not> is_injected_sidecar c) (
     bind_s (ref [''securityContext'', ''runAsUser''] c) (\<lambda>v.
     must (is_zero v) (names_container R ''container '%s' requests runAsUser: 0'' c []))))"

definition rule_may_be_root :: "rego \<Rightarrow> Value \<Rightarrow> string sols" where
  "rule_may_be_root R input = each_container R input (\<lambda>c.
     must (\<not> is_injected_sidecar c) (
     bind_s (ref [''securityContext'', ''runAsNonRoot''] c) (\<lambda>v.
     must (v = VBool False) (names_container R ''container '%s' sets runAsNonRoot: false'' c []))))"

definition rule_proc_mount :: "rego \<Rightarrow> Value \<Rightarrow> string sols" where
  "rule_proc_mount R input = each_container R input (\<lambda>c.
     bind_s (bind_s (security_context R c) (ref [''procMount''])) (\<lambda>v.
     must (v = VStr ''Unmasked'') (names_container R ''container '%s' requests an unmasked /proc'' c [])))"

definition rule_seccomp :: "rego \<Rightarrow> Value \<Rightarrow> string sols" where
  "rule_seccomp R input = each_container R input (\<lambda>c.
     bind_s (bind_s (bind_s (security_context R c) (object_get R ''seccompProfile'' obj0)) (ref [''type''])) (\<lambda>v.
     must (v \<noteq> VStr ''RuntimeDefault'')
       (names_container R ''container '%s' requests seccompProfile.type '%v'; only RuntimeDefault is allowed'' c [v])))"

definition rule_apparmor :: "rego \<Rightarrow> Value \<Rightarrow> string sols" where
  "rule_apparmor R input = each_container R input (\<lambda>c.
     bind_s (bind_s (bind_s (security_context R c) (object_get R ''appArmorProfile'' obj0)) (ref [''type''])) (\<lambda>v.
     must (v \<noteq> VStr ''RuntimeDefault'')
       (names_container R ''container '%s' requests appArmorProfile.type '%v'; only RuntimeDefault is allowed'' c [v])))"

definition rule_selinux :: "rego \<Rightarrow> Value \<Rightarrow> string sols" where
  "rule_selinux R input = each_container R input (\<lambda>c.
     bind_s (bind_s (bind_s (security_context R c) (object_get R ''seLinuxOptions'' obj0)) (count R)) (\<lambda>n.
     must (0 < n) (names_container R ''container '%s' sets seLinuxOptions, which is not permitted'' c [])))"

section \<open>Pod-level namespace sharing\<close>

definition pod_rule :: "Value \<Rightarrow> string list \<Rightarrow> (Value \<Rightarrow> bool) \<Rightarrow> string \<Rightarrow> string sols" where
  "pod_rule input path bad msg =
     bind_s (bind_s (rego_pod_spec input) (ref path)) (\<lambda>v. must (bad v) (Ok [msg]))"

definition rule_pod_namespaces :: "rego \<Rightarrow> Value \<Rightarrow> string sols list" where
  "rule_pod_namespaces R input =
    [pod_rule input [''hostNetwork''] (\<lambda>v. v = VBool True) ''pod requests hostNetwork'',
     pod_rule input [''hostPID''] (\<lambda>v. v = VBool True) ''pod requests hostPID'',
     pod_rule input [''hostIPC''] (\<lambda>v. v = VBool True) ''pod requests hostIPC'',
     pod_rule input [''shareProcessNamespace''] (\<lambda>v. v = VBool True)
       ''pod requests shareProcessNamespace, which exposes the sidecar's environment to the application'',
     pod_rule input [''securityContext'', ''runAsUser''] is_zero ''pod securityContext requests runAsUser: 0'',
     pod_rule input [''securityContext'', ''runAsNonRoot''] (\<lambda>v. v = VBool False)
       ''pod securityContext sets runAsNonRoot: false'',
     pod_rule input [''hostUsers''] (\<lambda>v. v = VBool True) ''pod requests hostUsers, disabling user-namespace isolation'']"

definition pod_context :: "rego \<Rightarrow> Value \<Rightarrow> string \<Rightarrow> Value \<Rightarrow> Value sols" where
  "pod_context R input k d =
     bind_s (bind_s (rego_pod_spec input) (security_context R)) (object_get R k d)"

definition rule_pod_seccomp :: "rego \<Rightarrow> Value \<Rightarrow> string sols" where
  "rule_pod_seccomp R input = bind_s (bind_s (pod_context R input ''seccompProfile'' obj0) (ref [''type''])) (\<lambda>v.
     must (v \<noteq> VStr ''RuntimeDefault'')
       (sprintf R ''pod securityContext requests seccompProfile.type '%v'; only RuntimeDefault is allowed'' [v]))"

definition rule_pod_apparmor :: "rego \<Rightarrow> Value \<Rightarrow> string sols" where
  "rule_pod_apparmor R input = bind_s (bind_s (pod_context R input ''appArmorProfile'' obj0) (ref [''type''])) (\<lambda>v.
     must (v \<noteq> VStr ''RuntimeDefault'')
       (sprintf R ''pod securityContext requests appArmorProfile.type '%v'; only RuntimeDefault is allowed'' [v]))"

definition rule_pod_selinux :: "rego \<Rightarrow> Value \<Rightarrow> string sols" where
  "rule_pod_selinux R input = bind_s (bind_s (pod_context R input ''seLinuxOptions'' obj0) (count R)) (\<lambda>n.
     must (0 < n) (Ok [''pod securityContext sets seLinuxOptions, which is not permitted'']))"

definition rule_pod_sysctls :: "rego \<Rightarrow> Value \<Rightarrow> string sols" where
  "rule_pod_sysctls R input = bind_s (bind_s (pod_context R input ''sysctls'' arr0) (count R)) (\<lambda>n.
     must (0 < n) (Ok [''pod securityContext sets sysctls, which is not permitted'']))"

section \<open>Annotations, host ports and volumes\<close>

definition annotations_at :: "rego \<Rightarrow> string list \<Rightarrow> Value \<Rightarrow> Value sols" where
  "annotations_at R path v = foldl (\<lambda>m k. bind_s m (object_get R k obj0)) (Ok [v]) (path @ [''metadata'', ''annotations''])"

definition all_annotations :: "rego \<Rightarrow> Value \<Rightarrow> Value sols" where
  "all_annotations R input =
     bind_s (annotations_at R [] input) (\<lambda>a.
     bind_s (annotations_at R [''spec'', ''template''] input) (\<lambda>b. object_union R a b))"

definition keys_of :: "Value \<Rightarrow> string list" where
  "keys_of v = (case v of VMap m \<Rightarrow> map fst m | _ \<Rightarrow> [])"

definition rule_annotations :: "rego \<Rightarrow> Value \<Rightarrow> string sols" where
  "rule_annotations R input = bind_s (bind_s (all_annotations R input) (\<lambda>v. Ok (keys_of v))) (\<lambda>key.
     must (\<not> starts_with key ''podmesh.io/'')
       (sprintf R ''annotation '%s' is not allowed; only podmesh.io/* annotations are permitted'' [VStr key]))"

definition rule_host_ports :: "rego \<Rightarrow> Value \<Rightarrow> string sols" where
  "rule_host_ports R input = each_container R input (\<lambda>c.
     bind_s (bind_s (object_get R ''ports'' arr0 c) (some_in R)) (\<lambda>port.
     bind_s (object_get R ''hostPort'' (VNum (Whole 0)) port) (\<lambda>p.
     must (\<not> is_zero p) (
     bind_s (ref [''hostPort''] port) (\<lambda>hp.
     names_container R ''container '%s' requests hostPort %v'' c [hp])))))"

definition is_safe_emptydir_volume :: "Value \<Rightarrow> bool" where
  "is_safe_emptydir_volume vol \<longleftrightarrow>
     (case vol of
        VMap m \<Rightarrow>
          (case map_of m ''name'' of Some (VStr name) \<Rightarrow> name \<noteq> [] | _ \<Rightarrow> False)
          \<and> (case map_of m ''emptyDir'' of
               Some (VMap e) \<Rightarrow> list_all (\<lambda>k. k \<in> set [''medium'', ''sizeLimit'']) (map fst e) | _ \<Rightarrow> False)
          \<and> list_all (\<lambda>k. k \<in> set [''name'', ''emptyDir'']) (map fst m)
      | _ \<Rightarrow> False)"

definition pod_volumes :: "rego \<Rightarrow> Value \<Rightarrow> Value sols" where
  "pod_volumes R input =
     bind_s (bind_s (rego_pod_spec input) (object_get R ''volumes'' arr0)) (some_in R)"

text \<open>The names are strings, as \<open>is_safe_emptydir_volume\<close> asks.\<close>

definition declared_emptydir_names :: "rego \<Rightarrow> Value \<Rightarrow> Value list res" where
  "declared_emptydir_names R input =
     bind_s (pod_volumes R input) (\<lambda>vol. must (is_safe_emptydir_volume vol) (ref [''name''] vol))"

definition rule_volumes :: "rego \<Rightarrow> Value \<Rightarrow> string sols" where
  "rule_volumes R input = bind_s (pod_volumes R input) (\<lambda>vol.
     must (\<not> is_safe_emptydir_volume vol) (
     bind_s (object_get R ''name'' (VStr ''unnamed'') vol) (\<lambda>name.
     sprintf R ''pod declares unsupported volume '%v'; only emptyDir volumes are supported'' [name])))"

definition is_safe_volume_mount :: "Value list \<Rightarrow> Value \<Rightarrow> bool" where
  "is_safe_volume_mount names mount \<longleftrightarrow>
     (case mount of
        VMap m \<Rightarrow>
          (case map_of m ''name'' of Some name \<Rightarrow> name \<in> set names | None \<Rightarrow> False)
          \<and> (case map_of m ''mountPath'' of
               Some (VStr p) \<Rightarrow> starts_with p ''/'' \<and> \<not> contains_str p ''..''
                 \<and> \<not> starts_with p ''/var/run/podmesh'' \<and> \<not> starts_with p ''/var/lib/podmesh-connector''
             | _ \<Rightarrow> False)
          \<and> at_or (VStr ''None'') ''mountPropagation'' mount \<in> set [VStr ''None'', VStr '''']
          \<and> at_or (VStr '''') ''subPathExpr'' mount = VStr ''''
      | _ \<Rightarrow> False)"

definition rule_volume_mounts :: "rego \<Rightarrow> Value \<Rightarrow> string sols" where
  "rule_volume_mounts R input = each_container R input (\<lambda>c.
     must (\<not> is_injected_sidecar c) (
     bind_s (bind_s (object_get R ''volumeMounts'' arr0 c) (some_in R)) (\<lambda>mount.
     try_r (declared_emptydir_names R input) (\<lambda>names.
     must (\<not> is_safe_volume_mount names mount) (
     bind_s (object_get R ''name'' (VStr ''unnamed'') mount) (\<lambda>name.
     names_container R ''container '%s' declares unsupported volumeMount '%v'; only mounts of declared emptyDir volumes are supported''
       c [name]))))))"

section \<open>The policy\<close>

definition container_rules :: "(rego \<Rightarrow> Value \<Rightarrow> string sols) list" where
  "container_rules = [rule_privileged, rule_escalation, rule_capabilities, rule_sidecar_capabilities,
     rule_run_as_root, rule_may_be_root, rule_proc_mount, rule_seccomp, rule_apparmor, rule_selinux]"

definition document_rules :: "(rego \<Rightarrow> Value \<Rightarrow> string sols) list" where
  "document_rules = [rule_pod_seccomp, rule_pod_apparmor, rule_pod_selinux, rule_pod_sysctls, rule_annotations,
     rule_host_ports, rule_volumes, rule_volume_mounts]"

definition policy_violations :: "rego \<Rightarrow> Value \<Rightarrow> string list res" where
  "policy_violations R input =
     partial_set (map (\<lambda>r. r R input) container_rules @ rule_pod_namespaces R input
       @ map (\<lambda>r. r R input) document_rules)"

definition policy_allow :: "rego \<Rightarrow> Value \<Rightarrow> bool res" where
  "policy_allow R input = try_r (policy_violations R input) (\<lambda>vs. Ok (length vs = 0))"

section \<open>Shape of the documents\<close>

definition SUPPORTED_POD_KINDS :: "string list" where "SUPPORTED_POD_KINDS = [''Pod'', ''Deployment'']"
definition SUPPORTED_AUXILIARY_KINDS :: "string list" where "SUPPORTED_AUXILIARY_KINDS = [''Service'', ''Ingress'']"

definition pod_spec :: "Value \<Rightarrow> string \<Rightarrow> Value option" where
  "pod_spec document kind =
     (if kind = ''Pod'' then get ''spec'' document
      else if kind = ''Deployment'' then at [''spec'', ''template'', ''spec''] document
      else None)"

definition kind_of :: "Value \<Rightarrow> string option" where
  "kind_of document = Option.bind (get ''kind'' document) as_str"

definition document_prefix :: "nat \<Rightarrow> string" where
  "document_prefix index = ''document '' @ nat_str index @ '': ''"

text \<open>The violations of a document of a supported pod kind with a pod specification.\<close>

definition pod_shape :: "nat \<Rightarrow> string \<Rightarrow> Value \<Rightarrow> Value \<Rightarrow> string list" where
  "pod_shape index kind document spec =
     (case Option.bind (get ''ephemeralContainers'' spec) as_sequence of
        Some (c # cs) \<Rightarrow> [document_prefix index @ ''ephemeralContainers are not supported'']
      | _ \<Rightarrow> [])
     @ (case at [''spec'', ''replicas''] document of
          Some replicas \<Rightarrow> if kind = ''Deployment'' \<and> as_u64 replicas \<noteq> Some 1
            then [document_prefix index @ ''Deployment spec.replicas must be exactly 1''] else []
        | None \<Rightarrow> [])"

definition document_shape :: "nat \<Rightarrow> Value \<Rightarrow> nat \<times> string list" where
  "document_shape index document =
     (case kind_of document of
        None \<Rightarrow> (0, [document_prefix index @ ''kind is required''])
      | Some kind \<Rightarrow>
          if kind \<in> set SUPPORTED_POD_KINDS
          then (1, case pod_spec document kind of
              None \<Rightarrow> [document_prefix index @ kind @ '' does not contain a pod specification'']
            | Some spec \<Rightarrow> pod_shape index kind document spec)
          else if kind \<notin> set SUPPORTED_AUXILIARY_KINDS
          then (0, [document_prefix index @ ''manifest kind '' @ kind @ '' is not supported''])
          else (0, []))"

fun shape_loop :: "nat \<Rightarrow> nat \<Rightarrow> Value list \<Rightarrow> nat \<times> string list" where
  "shape_loop index pods [] = (pods, [])"
| "shape_loop index pods (document # documents) =
     (let (n, violations) = document_shape index document;
          (pods, rest) = shape_loop (index + 1) (pods + n) documents
      in (pods, violations @ rest))"

definition validate_document_shape :: "Value list \<Rightarrow> string list" where
  "validate_document_shape documents =
     (let (pods, violations) = shape_loop 0 0 documents
      in violations @ (if pods \<noteq> 1
           then [''manifest must contain exactly one Pod or Deployment document, found '' @ nat_str pods] else []))"

section \<open>Defaults\<close>

definition DEFAULT_CPU_LIMIT :: string where "DEFAULT_CPU_LIMIT = ''100m''"
definition DEFAULT_MEMORY_LIMIT :: string where "DEFAULT_MEMORY_LIMIT = ''128Mi''"
definition DEFAULT_STORAGE_LIMIT :: string where "DEFAULT_STORAGE_LIMIT = ''1Gi''"
definition DEFAULT_CPU_REQUEST :: string where "DEFAULT_CPU_REQUEST = ''50m''"
definition DEFAULT_MEMORY_REQUEST :: string where "DEFAULT_MEMORY_REQUEST = ''64Mi''"
definition DEFAULT_STORAGE_REQUEST :: string where "DEFAULT_STORAGE_REQUEST = ''512Mi''"

definition CONTAINER_FIELDS :: "string list" where "CONTAINER_FIELDS = [''containers'', ''initContainers'']"

definition insert_missing :: "string \<Rightarrow> Value \<Rightarrow> (string \<times> Value) list \<Rightarrow> (string \<times> Value) list" where
  "insert_missing k v m = (if map_of m k = None then map_insert k v m else m)"

text \<open>The defaults of one table, which is left alone when it is no mapping.\<close>

definition default_table :: "string \<Rightarrow> string \<Rightarrow> string \<Rightarrow> Value \<Rightarrow> Value" where
  "default_table cpu memory storage v =
     (case v of
        VMap m \<Rightarrow> VMap (insert_missing ''ephemeral-storage'' (VStr storage)
          (insert_missing ''memory'' (VStr memory) (insert_missing ''cpu'' (VStr cpu) m)))
      | _ \<Rightarrow> v)"

definition with_table :: "string \<Rightarrow> (Value \<Rightarrow> Value) \<Rightarrow> Value \<Rightarrow> Value" where
  "with_table k f v = (case v of VMap m \<Rightarrow> modify k f (VMap (insert_missing k obj0 m)) | _ \<Rightarrow> v)"

definition inject_resource_defaults :: "Value \<Rightarrow> Value" where
  "inject_resource_defaults container =
     with_table ''resources'' (\<lambda>resources.
       with_table ''requests'' (default_table DEFAULT_CPU_REQUEST DEFAULT_MEMORY_REQUEST DEFAULT_STORAGE_REQUEST)
         (with_table ''limits'' (default_table DEFAULT_CPU_LIMIT DEFAULT_MEMORY_LIMIT DEFAULT_STORAGE_LIMIT) resources))
       container"

text \<open>\<open>containers_mut\<close> leads to one container list; the update through it maps over the list.\<close>

definition update_containers :: "(Value \<Rightarrow> Value) \<Rightarrow> string \<Rightarrow> Value \<Rightarrow> Value" where
  "update_containers f field doc =
     (let each = (\<lambda>v. case v of VSeq cs \<Rightarrow> VSeq (map f cs) | _ \<Rightarrow> v)
      in case kind_of doc of
           Some kind \<Rightarrow>
             if kind = ''Pod'' then modify_at [''spec'', field] each doc
             else if kind = ''Deployment'' then modify_at [''spec'', ''template'', ''spec'', field] each doc
             else doc
         | None \<Rightarrow> doc)"

definition mutate_document_defaults :: "Value \<Rightarrow> Value" where
  "mutate_document_defaults doc = foldl (\<lambda>d field. update_containers inject_resource_defaults field d) doc CONTAINER_FIELDS"

definition mutate_manifest_defaults :: "yaml_io \<Rightarrow> string \<Rightarrow> string res" where
  "mutate_manifest_defaults Y manifest_yaml =
     try_r (ctx ''failed to parse manifest for mutation'' (parse_yaml_documents_from_str Y manifest_yaml)) (\<lambda>docs.
     ctx ''failed to serialize mutated manifest'' (serialize_yaml_documents Y (map mutate_document_defaults docs)))"

section \<open>The engine\<close>

record PolicyResult =
  pr_allowed :: bool
  pr_violations :: "string list"
  pr_mutated_manifest :: "string option"

fun evaluate_loop :: "rego \<Rightarrow> nat \<Rightarrow> nat \<Rightarrow> Value list \<Rightarrow> (bool \<times> string list) res" where
  "evaluate_loop R n idx [] = Ok (True, [])"
| "evaluate_loop R n idx (doc # docs) =
     try_r (ctx ''failed to evaluate allow rule'' (policy_allow R doc)) (\<lambda>allowed.
     try_r (ctx ''failed to evaluate violations rule'' (policy_violations R doc)) (\<lambda>violations.
     try_r (evaluate_loop R n (idx + 1) docs) (\<lambda>(all_allowed, rest).
       Ok (allowed \<and> all_allowed, map (\<lambda>msg. if 1 < n then document_prefix idx @ msg else msg) violations @ rest))))"

definition policy_validate :: "rego \<Rightarrow> yaml_io \<Rightarrow> string \<Rightarrow> PolicyResult res" where
  "policy_validate R Y manifest_yaml =
     try_r (ctx ''failed to parse manifest YAML'' (parse_yaml_documents_from_str Y manifest_yaml)) (\<lambda>docs.
     ensure (docs \<noteq> []) ''manifest contains no documents'' (
     let shape = validate_document_shape docs in
     try_r (evaluate_loop R (length docs) 0 docs) (\<lambda>(allowed, violations).
     let all_allowed = (shape = [] \<and> allowed) in
     try_r (if all_allowed then try_r (mutate_manifest_defaults Y manifest_yaml) (\<lambda>s. Ok (Some s)) else Ok None)
       (\<lambda>mutated. Ok \<lparr>pr_allowed = all_allowed, pr_violations = shape @ violations, pr_mutated_manifest = mutated\<rparr>))))"

fun join :: "string \<Rightarrow> string list \<Rightarrow> string" where
  "join sep [] = []"
| "join sep [s] = s"
| "join sep (s # ss) = s @ sep @ join sep ss"

definition validate_and_mutate_manifest :: "rego \<Rightarrow> yaml_io \<Rightarrow> string \<Rightarrow> string res" where
  "validate_and_mutate_manifest R Y manifest_yaml =
     try_r (policy_validate R Y manifest_yaml) (\<lambda>r.
     if \<not> pr_allowed r
     then Err (if pr_violations r = [] then ''manifest rejected by policy''
               else ''manifest rejected by policy: '' @ join ''; '' (pr_violations r))
     else ok_or (pr_mutated_manifest r) ''internal error: allowed manifest has no mutation result'')"

end
