(* ===== verification/Service_Manifest.thy ===== *)
theory Service_Manifest
  imports Manifest_Policy "HOL-Library.Multiset"
begin

text \<open>
  The services a manifest offers, from \<open>shared/protocol/src/service_discovery/manifest.rs\<close>. The main result is
  that the extracted services always pass the checks of a service catalogue.
\<close>

section \<open>Ports\<close>

definition number :: "Value \<Rightarrow> u16 res" where
  "number v =
     try_r (ok_or (as_u64 v) ''Service port must be an integer'') (\<lambda>n.
     ensure (1 \<le> n \<and> n \<le> 65535) ''Service port out of range'' (Ok (ucast n)))"

text \<open>\<open>v["k"]\<close>, which is null where there is no such entry.\<close>

definition index :: "string \<Rightarrow> Value \<Rightarrow> Value" where
  "index k v = (case get k v of None \<Rightarrow> VNull | Some x \<Rightarrow> x)"

definition list_of :: "string \<Rightarrow> Value \<Rightarrow> Value list" where
  "list_of k v = (case Option.bind (get k v) as_sequence of None \<Rightarrow> [] | Some vs \<Rightarrow> vs)"

text \<open>\<open>is_none_or\<close>.\<close>

definition none_or :: "(string \<Rightarrow> bool) \<Rightarrow> string \<Rightarrow> Value \<Rightarrow> bool" where
  "none_or P k v \<longleftrightarrow> (case Option.bind (get k v) as_str of None \<Rightarrow> True | Some s \<Rightarrow> P s)"

text \<open>The values of a \<open>BTreeMap\<close>, in the order of its keys.\<close>

definition into_values :: "('k::linorder, 'v) hmap \<Rightarrow> 'v list" where
  "into_values m = map snd (sort_key fst m)"

definition named_port :: "Value \<Rightarrow> (string, u16) hmap \<Rightarrow> (string, u16) hmap res" where
  "named_port port named =
     (case Option.bind (get ''name'' port) as_str of
        None \<Rightarrow> Ok named
      | Some name \<Rightarrow>
          try_r (number (index ''containerPort'' port)) (\<lambda>n.
          ensure (case hm_get named name of None \<Rightarrow> True | Some old \<Rightarrow> old = n) ''ambiguous named target port''
            (Ok (hm_insert name n named))))"

fun named_ports_loop :: "Value list \<Rightarrow> (string, u16) hmap \<Rightarrow> (string, u16) hmap res" where
  "named_ports_loop [] named = Ok named"
| "named_ports_loop (port # ports) named = try_r (named_port port named) (named_ports_loop ports)"

definition target_of :: "(string, u16) hmap \<Rightarrow> u16 \<Rightarrow> Value \<Rightarrow> u16 res" where
  "target_of named published port =
     (case get ''targetPort'' port of
        None \<Rightarrow> Ok published
      | Some (VStr name) \<Rightarrow> ok_or (hm_get named name) ''named Service targetPort not declared''
      | Some v \<Rightarrow> number v)"

fun service_ports_loop :: "(string, u16) hmap \<Rightarrow> Value list \<Rightarrow> (u16, ServicePort) hmap \<Rightarrow> (u16, ServicePort) hmap res" where
  "service_ports_loop named [] ports = Ok ports"
| "service_ports_loop named (port # rest) ports =
     ensure (none_or (\<lambda>p. p = ''TCP'') ''protocol'' port) ''internal services currently support TCP only'' (
     try_r (number (index ''port'' port)) (\<lambda>published.
     try_r (target_of named published port) (\<lambda>target.
     ensure (hm_get ports published = None) ''duplicate Service port''
       (service_ports_loop named rest
          (hm_insert published \<lparr>sp_port = published, sp_target_port = target\<rparr> ports)))))"

section \<open>Services\<close>

definition service_of :: "Value option \<Rightarrow> (string, u16) hmap \<Rightarrow> Value \<Rightarrow> ServiceDefinition res" where
  "service_of labels named doc =
     try_r (ok_or (Option.bind (at [''metadata'', ''name''] doc) as_str) ''Service name missing'') (\<lambda>name.
     try_r (validate_service_label name) (\<lambda>_.
     try_r (ok_or (get ''spec'' doc) ''Service spec missing'') (\<lambda>spec.
     ensure (none_or (\<lambda>k. k = ''ClusterIP'') ''type'' spec) ''internal DNS supports only ClusterIP Services'' (
     try_r (ok_or (Option.bind (get ''selector'' spec) as_mapping) ''Service selector missing'') (\<lambda>selectors.
     ensure (selectors \<noteq> [] \<and> list_all (\<lambda>(k, v). Option.bind labels (get k) = Some v) selectors)
       ''Service selector does not match this workload'' (
     try_r (ok_or (as_sequence (index ''ports'' spec)) ''Service ports missing'') (\<lambda>port_list.
     try_r (service_ports_loop named port_list []) (\<lambda>ports.
     ensure (ports \<noteq> [] \<and> length ports \<le> MAX_SERVICE_PORTS) ''invalid Service port count''
       (Ok \<lparr>sd_name = name, sd_ports = into_values ports\<rparr>)))))))))"

fun services_loop ::
  "Value option \<Rightarrow> (string, u16) hmap \<Rightarrow> Value list \<Rightarrow> (string, ServiceDefinition) hmap \<Rightarrow> (string, ServiceDefinition) hmap res" where
  "services_loop labels named [] services = Ok services"
| "services_loop labels named (doc # docs) services =
     (if kind_of doc \<noteq> Some ''Service'' then services_loop labels named docs services
      else try_r (service_of labels named doc) (\<lambda>s.
           ensure (hm_get services (sd_name s) = None) ''duplicate Service name''
             (services_loop labels named docs (hm_insert (sd_name s) s services))))"

definition workload_pod :: "Value list \<Rightarrow> Value option" where
  "workload_pod docs = find (\<lambda>doc. kind_of doc = Some ''Pod'' \<or> at [''spec'', ''template'', ''spec''] doc \<noteq> None) docs"

definition template_or :: "string list \<Rightarrow> string list \<Rightarrow> Value \<Rightarrow> Value option" where
  "template_or p q doc = (case at p doc of None \<Rightarrow> at q doc | v \<Rightarrow> v)"

definition extract_services :: "yaml_io \<Rightarrow> bytes \<Rightarrow> ServiceDefinition list res" where
  "extract_services Y manifest =
     try_r (parse_yaml_documents_from_slice Y manifest) (\<lambda>docs.
     try_r (ok_or (workload_pod docs) ''service manifest has no workload pod'') (\<lambda>pod.
     try_r (ok_or (template_or [''spec'', ''template'', ''spec''] [''spec''] pod) ''workload spec missing'') (\<lambda>spec.
     let labels = template_or [''spec'', ''template'', ''metadata'', ''labels''] [''metadata'', ''labels''] pod in
     try_r (ok_or (as_sequence (index ''containers'' spec)) ''workload containers missing'') (\<lambda>containers.
     try_r (named_ports_loop (concat (map (list_of ''ports'') containers)) []) (\<lambda>named.
     try_r (services_loop labels named docs []) (\<lambda>services.
     ensure (length services \<le> MAX_CATALOG_SERVICES) ''too many Services'' (Ok (into_values services))))))))"

text \<open>Without a Service the workload offers the TCP ports of its containers, or port 18080.\<close>

fun tcp_ports_loop :: "Value list \<Rightarrow> (u16, ServicePort) hmap \<Rightarrow> (u16, ServicePort) hmap res" where
  "tcp_ports_loop [] ports = Ok ports"
| "tcp_ports_loop (port # rest) ports =
     (if none_or (\<lambda>p. p = ''TCP'') ''protocol'' port
      then try_r (number (index ''containerPort'' port)) (\<lambda>n.
           tcp_ports_loop rest (hm_insert n \<lparr>sp_port = n, sp_target_port = n\<rparr> ports))
      else tcp_ports_loop rest ports)"

definition container_ports :: "Value \<Rightarrow> Value list" where
  "container_ports doc =
     (case template_or [''spec'', ''template'', ''spec''] [''spec''] doc of
        None \<Rightarrow> []
      | Some spec \<Rightarrow> concat (map (list_of ''ports'') (list_of ''containers'' spec)))"

definition workload_services :: "yaml_io \<Rightarrow> bytes \<Rightarrow> ServiceDefinition list res" where
  "workload_services Y manifest =
     try_r (extract_services Y manifest) (\<lambda>services.
     if services \<noteq> [] then Ok services
     else try_r (parse_yaml_documents_from_slice Y manifest) (\<lambda>docs.
     try_r (tcp_ports_loop (concat (map container_ports docs)) []) (\<lambda>ports.
     let ports = (if ports = [] then hm_insert 18080 \<lparr>sp_port = 18080, sp_target_port = 18080\<rparr> ports else ports) in
     ensure (length ports \<le> MAX_SERVICE_PORTS) ''too many workload TCP ports''
       (Ok [\<lparr>sd_name = ''workload'', sd_ports = into_values ports\<rparr>]))))"

section \<open>Extracted services are well-formed\<close>

definition keyed :: "('v \<Rightarrow> 'k) \<Rightarrow> ('v \<Rightarrow> bool) \<Rightarrow> ('k, 'v) hmap \<Rightarrow> bool" where
  "keyed key ok m \<longleftrightarrow> hm_wf m \<and> (\<forall>k v. hm_get m k = Some v \<longrightarrow> key v = k \<and> ok v)"

lemma keyed_Nil [simp]: "keyed key ok []"
  by (simp add: keyed_def hm_wf_empty)

lemma keyed_insert: "keyed key ok m \<Longrightarrow> ok v \<Longrightarrow> keyed key ok (hm_insert (key v) v m)"
  by (auto simp: keyed_def)

lemma keyed_values:
  assumes "keyed key ok m"
  shows "distinct (map key (into_values m))" "\<forall>v \<in> set (into_values m). ok v" "length (into_values m) = length m"
proof -
  have kv: "key v = k \<and> ok v" if "(k, v) \<in> set m" for k v
    using assms that by (auto simp: keyed_def hm_wf_def)
  then have "map key (map snd m) = map fst m" by auto
  then have "distinct (map key (map snd m))" using assms by (metis keyed_def hm_wf_def)
  moreover have "mset (map key (into_values m)) = mset (map key (map snd m))"
    unfolding into_values_def mset_map by simp
  ultimately show "distinct (map key (into_values m))" by (metis mset_eq_imp_distinct_iff)
  show "\<forall>v \<in> set (into_values m). ok v" "length (into_values m) = length m"
    using kv by (auto simp: into_values_def)
qed

definition port_ok :: "ServicePort \<Rightarrow> bool" where
  "port_ok p \<longleftrightarrow> sp_port p \<noteq> 0 \<and> sp_target_port p \<noteq> 0"

definition service_ok :: "ServiceDefinition \<Rightarrow> bool" where
  "service_ok s \<longleftrightarrow> validate_service_label (sd_name s) = Ok () \<and> sd_ports s \<noteq> []
     \<and> length (sd_ports s) \<le> MAX_SERVICE_PORTS \<and> validate_ports [] (sd_ports s) = Ok ()"

lemma number_Ok: "number v = Ok n \<Longrightarrow> n \<noteq> 0"
proof -
  assume "number v = Ok n"
  then obtain m :: u64 where m: "1 \<le> m" "m \<le> 65535" "n = ucast m" by (auto simp: number_def)
  have "unat m < 2 ^ 16" using m(2) by (simp add: word_le_nat_alt)
  then have "unat n = unat m" using m(3) by (simp add: unsigned_ucast_eq take_bit_nat_eq_self)
  then show ?thesis using m(1) by (metis unat_0 unat_1 word_le_nat_alt not_one_le_zero)
qed

lemma validate_ports_Ok:
  "validate_ports seen ps = Ok () \<longleftrightarrow> (\<forall>p \<in> set ps. port_ok p \<and> sp_port p \<notin> set seen) \<and> distinct (map sp_port ps)"
proof (induction seen ps rule: validate_ports.induct)
  case (2 seen p rest)
  have "validate_ports seen (p # rest) = Ok () \<longleftrightarrow>
      port_ok p \<and> sp_port p \<notin> set seen \<and> validate_ports (sp_port p # seen) rest = Ok ()"
    by (auto simp: port_ok_def)
  then show ?case using 2 by (cases "port_ok p \<and> sp_port p \<notin> set seen") (auto simp: port_ok_def image_iff)
qed simp

lemma validate_services_Ok:
  "validate_services names ss = Ok () \<longleftrightarrow> (\<forall>s \<in> set ss. service_ok s \<and> sd_name s \<notin> set names) \<and> distinct (map sd_name ss)"
proof (induction names ss rule: validate_services.induct)
  case (2 names s rest)
  have "validate_services names (s # rest) = Ok () \<longleftrightarrow>
      service_ok s \<and> sd_name s \<notin> set names \<and> validate_services (sd_name s # names) rest = Ok ()"
    by (auto simp: service_ok_def)
  then show ?case using 2 by (cases "service_ok s \<and> sd_name s \<notin> set names") (auto simp: service_ok_def image_iff)
qed simp

lemma named_ports_nonzero:
  assumes "named_ports_loop ports named = Ok named'" "\<forall>k. hm_get named k \<noteq> Some 0"
  shows "\<forall>k. hm_get named' k \<noteq> Some 0"
  using assms
proof (induction ports arbitrary: named)
  case (Cons port ports)
  then obtain named1 where n: "named_port port named = Ok named1" "named_ports_loop ports named1 = Ok named'" by auto
  have "\<forall>k. hm_get named1 k \<noteq> Some 0"
    using n(1) Cons.prems(2) by (auto simp: named_port_def dest!: number_Ok split: option.splits if_splits)
  then show ?case using Cons.IH [OF n(2)] by blast
qed simp

lemma target_nonzero:
  "target_of named published port = Ok t \<Longrightarrow> published \<noteq> 0 \<Longrightarrow> \<forall>k. hm_get named k \<noteq> Some 0 \<Longrightarrow> t \<noteq> 0"
  by (auto simp: target_of_def dest!: number_Ok split: option.splits Value.splits)

lemma service_ports_keyed:
  assumes "service_ports_loop named rest ports = Ok ports'" "keyed sp_port port_ok ports" "\<forall>k. hm_get named k \<noteq> Some 0"
  shows "keyed sp_port port_ok ports'"
  using assms
proof (induction named rest ports rule: service_ports_loop.induct)
  case (2 named port rest ports)
  then obtain published target where p: "number (index ''port'' port) = Ok published"
    "target_of named published port = Ok target" "hm_get ports published = None"
    "service_ports_loop named rest (hm_insert published \<lparr>sp_port = published, sp_target_port = target\<rparr> ports) = Ok ports'"
    by auto
  let ?p = "\<lparr>sp_port = published, sp_target_port = target\<rparr>"
  have "port_ok ?p" using number_Ok [OF p(1)] target_nonzero [OF p(2)] "2.prems"(3) by (simp add: port_ok_def)
  then have "keyed sp_port port_ok (hm_insert published ?p ports)"
    using keyed_insert [of sp_port port_ok ports ?p] "2.prems"(2) by simp
  then show ?case using "2.IH" [OF p(4)] "2.prems"(3) by blast
qed simp

lemma service_of_ok:
  assumes "service_of labels named doc = Ok s" "\<forall>k. hm_get named k \<noteq> Some 0"
  shows "service_ok s"
proof -
  obtain name ports port_list where s: "validate_service_label name = Ok ()" "service_ports_loop named port_list [] = Ok ports"
    "ports \<noteq> []" "length ports \<le> MAX_SERVICE_PORTS" "s = \<lparr>sd_name = name, sd_ports = into_values ports\<rparr>"
    using assms(1) by (auto simp: service_of_def)
  have k: "keyed sp_port port_ok ports" using service_ports_keyed [OF s(2)] assms(2) by simp
  have "into_values ports \<noteq> []" using keyed_values(3) [OF k] s(3) by auto
  then show ?thesis using keyed_values [OF k] s by (simp add: service_ok_def validate_ports_Ok)
qed

lemma services_loop_keyed:
  assumes "services_loop labels named docs services = Ok services'" "keyed sd_name service_ok services"
    "\<forall>k. hm_get named k \<noteq> Some 0"
  shows "keyed sd_name service_ok services'"
  using assms
proof (induction labels named docs services rule: services_loop.induct)
  case (2 labels named doc docs services)
  show ?case
  proof (cases "kind_of doc = Some ''Service''")
    case True
    then obtain s where s: "service_of labels named doc = Ok s" "hm_get services (sd_name s) = None"
      "services_loop labels named docs (hm_insert (sd_name s) s services) = Ok services'"
      using "2.prems"(1) by auto
    have "keyed sd_name service_ok (hm_insert (sd_name s) s services)"
      using service_of_ok [OF s(1) "2.prems"(3)] "2.prems"(2) by (rule keyed_insert [rotated])
    then show ?thesis using "2.IH"(2) True s "2.prems"(3) by blast
  next
    case False
    then show ?thesis using "2.IH"(1) "2.prems" by simp
  qed
qed simp

lemma tcp_ports_keyed:
  "tcp_ports_loop rest ports = Ok ports' \<Longrightarrow> keyed sp_port port_ok ports \<Longrightarrow> keyed sp_port port_ok ports'"
proof (induction rest ports rule: tcp_ports_loop.induct)
  case (2 port rest ports)
  have "keyed sp_port port_ok (hm_insert n \<lparr>sp_port = n, sp_target_port = n\<rparr> ports)"
    if "number (index ''containerPort'' port) = Ok n" for n
    using keyed_insert [of sp_port port_ok ports "\<lparr>sp_port = n, sp_target_port = n\<rparr>"] number_Ok [OF that] "2.prems"(2)
    by (simp add: port_ok_def)
  then show ?case using 2 by (auto split: if_splits)
qed simp

lemma extract_services_ok:
  assumes "extract_services Y manifest = Ok ss"
  shows "validate_services [] ss = Ok () \<and> length ss \<le> MAX_CATALOG_SERVICES"
proof -
  obtain labels docs named port_list services where e: "named_ports_loop port_list [] = Ok named"
    "services_loop labels named docs [] = Ok services" "length services \<le> MAX_CATALOG_SERVICES" "ss = into_values services"
    using assms by (auto simp: extract_services_def Let_def)
  have "\<forall>k. hm_get named k \<noteq> Some 0" using named_ports_nonzero [OF e(1)] by simp
  then have k: "keyed sd_name service_ok services" using services_loop_keyed [OF e(2)] by simp
  show ?thesis using keyed_values [OF k] e(3,4) by (simp add: validate_services_Ok)
qed

section \<open>Properties\<close>

text \<open>C35: whatever services a manifest declares, the list compiled from it is fit for a catalogue. It is never
  empty, holds at most 32 services, and passes the checks of \<open>ServiceCatalog::validate\<close>: valid and distinct DNS
  labels, between one and sixteen ports each, no port zero and no published port twice.\<close>

theorem workload_services_valid:
  assumes "workload_services Y manifest = Ok ss"
  shows "ss \<noteq> [] \<and> length ss \<le> MAX_CATALOG_SERVICES \<and> validate_services [] ss = Ok ()"
proof -
  obtain services where s: "extract_services Y manifest = Ok services" using assms by (auto simp: workload_services_def)
  show ?thesis
  proof (cases "services = []")
    case False
    then have "ss = services" using assms s by (simp add: workload_services_def)
    then show ?thesis using extract_services_ok [OF s] False by simp
  next
    case True
    then obtain port_list ports where p: "tcp_ports_loop port_list [] = Ok ports"
      and ss: "let ps = (if ports = [] then hm_insert 18080 \<lparr>sp_port = 18080, sp_target_port = 18080\<rparr> ports else ports)
        in length ps \<le> MAX_SERVICE_PORTS \<and> ss = [\<lparr>sd_name = ''workload'', sd_ports = into_values ps\<rparr>]"
      using assms s by (auto simp: workload_services_def Let_def)
    define ps where "ps = (if ports = [] then hm_insert 18080 \<lparr>sp_port = 18080, sp_target_port = 18080\<rparr> ports else ports)"
    have "keyed sp_port port_ok ports" using tcp_ports_keyed [OF p] by simp
    then have k: "keyed sp_port port_ok ps"
      using keyed_insert [of sp_port port_ok ports "\<lparr>sp_port = 18080, sp_target_port = 18080\<rparr>"]
      by (cases "ports = []") (simp_all add: ps_def port_ok_def)
    have "ps \<noteq> []" by (simp add: ps_def hm_insert_def)
    then have "into_values ps \<noteq> []" using keyed_values(3) [OF k] by auto
    moreover have "validate_service_label ''workload'' = Ok ()" by code_simp
    ultimately show ?thesis using ss keyed_values [OF k]
      by (simp add: ps_def [symmetric] Let_def validate_services_Ok service_ok_def validate_ports_Ok MAX_CATALOG_SERVICES_def)
  qed
qed

definition toy_service_docs :: "Value list" where
  "toy_service_docs = [VMap [(''kind'', VStr ''Pod''), (''metadata'', VMap [(''labels'', VMap [(''app'', VStr ''api'')])]),
     (''spec'', VMap [(''containers'', VSeq [VMap [(''ports'', VSeq [VMap [(''name'', VStr ''http''), (''containerPort'', VNum (Whole 8080))]])]])])],
   VMap [(''kind'', VStr ''Service''), (''metadata'', VMap [(''name'', VStr ''api'')]),
     (''spec'', VMap [(''selector'', VMap [(''app'', VStr ''api'')]),
       (''ports'', VSeq [VMap [(''port'', VNum (Whole 80)), (''targetPort'', VStr ''http'')]])])]]"

text \<open>Witness of C35.\<close>

theorem workload_services_valid_witness:
  "workload_services \<lparr>ym_docs = \<lambda>_. map Ok toy_service_docs, ym_print = \<lambda>_. Ok []\<rparr> [] =
     Ok [\<lparr>sd_name = ''api'', sd_ports = [\<lparr>sp_port = 80, sp_target_port = 8080\<rparr>]\<rparr>]
   \<and> validate_services [] [\<lparr>sd_name = ''api'', sd_ports = [\<lparr>sp_port = 80, sp_target_port = 8080\<rparr>]\<rparr>] = Ok ()"
proof -
  have "workload_services \<lparr>ym_docs = \<lambda>_. map Ok toy_service_docs, ym_print = \<lambda>_. Ok []\<rparr> [] =
     Ok [\<lparr>sd_name = ''api'', sd_ports = [\<lparr>sp_port = 80, sp_target_port = 8080\<rparr>]\<rparr>]"
    by code_simp
  then show ?thesis using workload_services_valid by blast
qed

end
