(* ===== verification/Manifest_Safety.thy ===== *)
theory Manifest_Safety
  imports Manifest_Policy
begin

text \<open>
  What the policy guarantees of a manifest it admits, and where it does not: properties of
  \<open>shared/protocol/src/manifest_policy.rs\<close>.
\<close>

section \<open>Confinement\<close>

text \<open>\<open>confined names c\<close>: container \<open>c\<close> of a pod whose \<open>emptyDir\<close> volumes are called \<open>names\<close> asks for nothing
  that reaches outside of it.\<close>

definition absent_or :: "(Value \<Rightarrow> bool) \<Rightarrow> string list \<Rightarrow> Value \<Rightarrow> bool" where
  "absent_or ok p v \<longleftrightarrow> (case at p v of None \<Rightarrow> True | Some x \<Rightarrow> ok x)"

definition confined :: "Value list \<Rightarrow> Value \<Rightarrow> bool" where
  "confined names c \<longleftrightarrow>
     absent_or (\<lambda>v. v \<noteq> VBool True) [''securityContext'', ''privileged''] c
     \<and> absent_or (\<lambda>v. v \<noteq> VBool True) [''securityContext'', ''allowPrivilegeEscalation''] c
     \<and> absent_or (\<lambda>v. v \<noteq> VStr ''Unmasked'') [''securityContext'', ''procMount''] c
     \<and> absent_or (\<lambda>v. v = VStr ''RuntimeDefault'') [''securityContext'', ''seccompProfile'', ''type''] c
     \<and> absent_or (\<lambda>v. v = VStr ''RuntimeDefault'') [''securityContext'', ''appArmorProfile'', ''type''] c
     \<and> absent_or blank [''securityContext'', ''seLinuxOptions''] c
     \<and> list_all (absent_or is_zero [''hostPort'']) (items_at [''ports''] c)
     \<and> list_all (\<lambda>v. is_injected_sidecar c \<and> v = VStr ''NET_ADMIN'')
         (items_at [''securityContext'', ''capabilities'', ''add''] c)
     \<and> (is_injected_sidecar c
        \<or> absent_or (\<lambda>v. \<not> is_zero v) [''securityContext'', ''runAsUser''] c
          \<and> absent_or (\<lambda>v. v \<noteq> VBool False) [''securityContext'', ''runAsNonRoot''] c
          \<and> list_all (is_safe_volume_mount names) (items_at [''volumeMounts''] c))"

definition pod_confined :: "Value \<Rightarrow> bool" where
  "pod_confined spec \<longleftrightarrow>
     list_all (\<lambda>k. absent_or (\<lambda>v. v \<noteq> VBool True) [k] spec)
       [''hostNetwork'', ''hostPID'', ''hostIPC'', ''shareProcessNamespace'', ''hostUsers'']
     \<and> absent_or (\<lambda>v. \<not> is_zero v) [''securityContext'', ''runAsUser''] spec
     \<and> absent_or (\<lambda>v. v \<noteq> VBool False) [''securityContext'', ''runAsNonRoot''] spec
     \<and> absent_or (\<lambda>v. v = VStr ''RuntimeDefault'') [''securityContext'', ''seccompProfile'', ''type''] spec
     \<and> absent_or (\<lambda>v. v = VStr ''RuntimeDefault'') [''securityContext'', ''appArmorProfile'', ''type''] spec
     \<and> absent_or blank [''securityContext'', ''seLinuxOptions''] spec
     \<and> absent_or blank [''securityContext'', ''sysctls''] spec
     \<and> list_all is_safe_emptydir_volume (items_at [''volumes''] spec)"

definition volume_names :: "Value \<Rightarrow> Value list" where
  "volume_names spec = concat (map (\<lambda>vol. case get ''name'' vol of None \<Rightarrow> [] | Some n \<Rightarrow> [n])
     (filter is_safe_emptydir_volume (items_at [''volumes''] spec)))"

definition annotations_confined :: "Value \<Rightarrow> bool" where
  "annotations_confined doc \<longleftrightarrow>
     (\<forall>p \<in> set [[''metadata'', ''annotations''], [''spec'', ''template'', ''metadata'', ''annotations'']].
        \<forall>k \<in> set (case at p doc of None \<Rightarrow> [] | Some v \<Rightarrow> keys_of v). starts_with k ''podmesh.io/'')"

section \<open>Rules that did not fire\<close>

lemmas look = no_sols security_context_def added_capabilities_def obj0_def arr0_def absent_or_def

lemma names_container_no_sols:
  "rg_strict R \<Longrightarrow> names_container R fmt c args = Ok [] \<longleftrightarrow> get ''name'' c = None"
  by (auto simp: names_container_def no_sols)

lemma each_container_no_sols:
  "each_container R input body = Ok [] \<Longrightarrow> bind_s (all_containers R input) (some_in R) = Ok cs \<Longrightarrow> c \<in> set cs
   \<Longrightarrow> body c = Ok []"
  by (auto simp: each_container_def bind_s_no_sols)

text \<open>One lemma for each of the rules on a container.\<close>

definition quiet_in :: "rego \<Rightarrow> Value \<Rightarrow> Value \<Rightarrow> bool" where
  "quiet_in R input c \<longleftrightarrow> rg_strict R \<and> get ''name'' c \<noteq> None
     \<and> (\<exists>cs. bind_s (all_containers R input) (some_in R) = Ok cs \<and> c \<in> set cs)"

lemma quiet_body: "quiet_in R input c \<Longrightarrow> each_container R input body = Ok [] \<Longrightarrow> body c = Ok []"
  by (auto simp: quiet_in_def dest: each_container_no_sols)

lemma quiet_strict: "quiet_in R input c \<Longrightarrow> rg_strict R" "quiet_in R input c \<Longrightarrow> get ''name'' c \<noteq> None"
  by (simp_all add: quiet_in_def)

lemma quiet_privileged:
  assumes q: "quiet_in R input c" and r: "rule_privileged R input = Ok []"
  shows "absent_or (\<lambda>v. v \<noteq> VBool True) [''securityContext'', ''privileged''] c"
  using quiet_body [OF q r [unfolded rule_privileged_def]] quiet_strict [OF q]
  by (auto simp: look names_container_no_sols split: option.splits)

lemma quiet_escalation:
  assumes q: "quiet_in R input c" and r: "rule_escalation R input = Ok []"
  shows "absent_or (\<lambda>v. v \<noteq> VBool True) [''securityContext'', ''allowPrivilegeEscalation''] c"
  using quiet_body [OF q r [unfolded rule_escalation_def]] quiet_strict [OF q]
  by (auto simp: look names_container_no_sols split: option.splits)

lemma quiet_capabilities:
  assumes q: "quiet_in R input c" and r: "rule_capabilities R input = Ok []"
  shows "is_injected_sidecar c \<or> items_at [''securityContext'', ''capabilities'', ''add''] c = []"
  using quiet_body [OF q r [unfolded rule_capabilities_def]] quiet_strict [OF q]
  by (auto simp: look names_container_no_sols split: option.splits)

lemma quiet_sidecar_capabilities:
  assumes q: "quiet_in R input c" and r: "rule_sidecar_capabilities R input = Ok []"
  shows "is_injected_sidecar c \<longrightarrow> (\<forall>v \<in> set (items_at [''securityContext'', ''capabilities'', ''add''] c). v = VStr ''NET_ADMIN'')"
  using quiet_body [OF q r [unfolded rule_sidecar_capabilities_def]] quiet_strict [OF q]
  by (auto simp: look names_container_no_sols split: option.splits)

lemma quiet_run_as_root:
  assumes q: "quiet_in R input c" and r: "rule_run_as_root R input = Ok []"
  shows "is_injected_sidecar c \<or> absent_or (\<lambda>v. \<not> is_zero v) [''securityContext'', ''runAsUser''] c"
  using quiet_body [OF q r [unfolded rule_run_as_root_def]] quiet_strict [OF q]
  by (auto simp: look names_container_no_sols split: option.splits)

lemma quiet_may_be_root:
  assumes q: "quiet_in R input c" and r: "rule_may_be_root R input = Ok []"
  shows "is_injected_sidecar c \<or> absent_or (\<lambda>v. v \<noteq> VBool False) [''securityContext'', ''runAsNonRoot''] c"
  using quiet_body [OF q r [unfolded rule_may_be_root_def]] quiet_strict [OF q]
  by (auto simp: look names_container_no_sols split: option.splits)

lemma quiet_proc_mount:
  assumes q: "quiet_in R input c" and r: "rule_proc_mount R input = Ok []"
  shows "absent_or (\<lambda>v. v \<noteq> VStr ''Unmasked'') [''securityContext'', ''procMount''] c"
  using quiet_body [OF q r [unfolded rule_proc_mount_def]] quiet_strict [OF q]
  by (auto simp: look names_container_no_sols split: option.splits)

lemma quiet_seccomp:
  assumes q: "quiet_in R input c" and r: "rule_seccomp R input = Ok []"
  shows "absent_or (\<lambda>v. v = VStr ''RuntimeDefault'') [''securityContext'', ''seccompProfile'', ''type''] c"
  using quiet_body [OF q r [unfolded rule_seccomp_def]] quiet_strict [OF q]
  by (auto simp: look names_container_no_sols split: option.splits)

lemma quiet_apparmor:
  assumes q: "quiet_in R input c" and r: "rule_apparmor R input = Ok []"
  shows "absent_or (\<lambda>v. v = VStr ''RuntimeDefault'') [''securityContext'', ''appArmorProfile'', ''type''] c"
  using quiet_body [OF q r [unfolded rule_apparmor_def]] quiet_strict [OF q]
  by (auto simp: look names_container_no_sols split: option.splits)

lemma at_or_Some: "get k v = Some x \<Longrightarrow> at_or d k v = x"
  by (simp add: at_or_def)

lemma at_or_absent: "P (at_or d k v) \<Longrightarrow> absent_or P [k] v"
  by (auto simp: at_or_def absent_or_def split: option.splits)

lemma absent_or_at_or [simp]: "absent_or P [k'] (at_or (VMap []) k v) = absent_or P [k, k'] v"
  by (simp add: absent_or_def)

lemma quiet_selinux:
  assumes q: "quiet_in R input c" and r: "rule_selinux R input = Ok []"
  shows "absent_or blank [''securityContext'', ''seLinuxOptions''] c"
proof -
  note strict = quiet_strict [OF q]
  have "blank (at_or (VMap []) ''seLinuxOptions'' (at_or (VMap []) ''securityContext'' c))"
    using quiet_body [OF q r [unfolded rule_selinux_def]] strict
    by (auto simp: look names_container_no_sols intro: count_no_sols [OF strict(1)])
  from at_or_absent [where P = blank, OF this] show ?thesis by simp
qed

lemma quiet_host_ports:
  assumes q: "quiet_in R input c" and r: "rule_host_ports R input = Ok []"
  shows "\<forall>port \<in> set (items_at [''ports''] c). absent_or is_zero [''hostPort''] port"
  using quiet_body [OF q r [unfolded rule_host_ports_def]] quiet_strict [OF q]
  by (fastforce simp: look names_container_no_sols at_or_Some split: option.splits)

lemma quiet_volume_mounts:
  assumes q: "quiet_in R input c" and r: "rule_volume_mounts R input = Ok []"
  shows "is_injected_sidecar c \<or> (\<forall>mount \<in> set (items_at [''volumeMounts''] c).
     \<exists>names. declared_emptydir_names R input = Ok names \<and> is_safe_volume_mount names mount)"
  using quiet_body [OF q r [unfolded rule_volume_mounts_def]] quiet_strict [OF q]
  by (auto simp: look names_container_no_sols split: option.splits)

section \<open>The rules of a pod\<close>

lemma pod_rule_no_sols:
  "rego_pod_spec input = Ok [spec] \<Longrightarrow> pod_rule input path bad msg = Ok [] \<longleftrightarrow> absent_or (\<lambda>v. \<not> bad v) path spec"
  by (auto simp: pod_rule_def look split: option.splits)

lemma pod_context_no_sols:
  "rg_strict R \<Longrightarrow> rego_pod_spec input = Ok [spec] \<Longrightarrow> bind_s (pod_context R input k d) f = Ok []
   \<longleftrightarrow> is_map spec \<and> is_map (at_or (VMap []) ''securityContext'' spec)
     \<and> f (at_or d k (at_or (VMap []) ''securityContext'' spec)) = Ok []"
  by (auto simp: pod_context_def look)

lemma pod_count:
  assumes "rg_strict R" "rego_pod_spec input = Ok [spec]"
    and "bind_s (bind_s (pod_context R input k d) (count R)) (\<lambda>n. must (0 < n) (Ok [msg])) = Ok []"
  shows "absent_or blank [''securityContext'', k] spec"
proof -
  have "blank (at_or d k (at_or (VMap []) ''securityContext'' spec))"
    using assms by (auto simp: no_sols pod_context_no_sols intro: count_no_sols)
  from at_or_absent [where P = blank, OF this] show ?thesis by simp
qed

lemma pod_profile:
  assumes "rg_strict R" "rego_pod_spec input = Ok [spec]"
    and "bind_s (bind_s (pod_context R input k (VMap [])) (ref [''type''])) (\<lambda>v.
      must (v \<noteq> VStr ''RuntimeDefault'') (sprintf R fmt [v])) = Ok []"
  shows "absent_or (\<lambda>v. v = VStr ''RuntimeDefault'') [''securityContext'', k, ''type''] spec"
  using assms by (auto simp: look pod_context_no_sols split: option.splits)

lemma pod_volumes_Ok:
  assumes "rg_strict R" "rego_pod_spec input = Ok [spec]" "pod_volumes R input = Ok vols"
  shows "vols = items_at [''volumes''] spec"
proof -
  have "\<exists>v. object_get R ''volumes'' arr0 spec = Ok [v] \<and> v = at_or (VSeq []) ''volumes'' spec"
    using assms by (cases spec) (auto simp: pod_volumes_def builtin_error_def at_or_def arr0_def bind_s_def split: option.splits)
  then have "some_in R (at_or (VSeq []) ''volumes'' spec) = Ok vols"
    using assms by (auto simp: pod_volumes_def)
  then have "vols = items (at_or (VSeq []) ''volumes'' spec)"
    by (cases "at_or (VSeq []) ''volumes'' spec") (auto split: if_splits)
  then show ?thesis by simp
qed

lemma declared_names_Ok:
  assumes "rg_strict R" "rego_pod_spec input = Ok [spec]" "declared_emptydir_names R input = Ok names"
  shows "names = volume_names spec"
proof -
  have must_ref: "must b (ref [''name''] v) = Ok (if b then (case get ''name'' v of None \<Rightarrow> [] | Some n \<Rightarrow> [n]) else [])"
    for b v by (simp add: must_def ref_def)
  obtain vols yss where v: "pod_volumes R input = Ok vols"
    and y: "map (\<lambda>vol. must (is_safe_emptydir_volume vol) (ref [''name''] vol)) vols = map Ok yss" "names = concat yss"
    using assms(3) unfolding declared_emptydir_names_def bind_s_Ok by blast
  have "concat yss = concat (map (\<lambda>vol. case get ''name'' vol of None \<Rightarrow> [] | Some n \<Rightarrow> [n])
      (filter is_safe_emptydir_volume vols))" using y(1) unfolding must_ref
    by (induction vols arbitrary: yss) (auto simp: Cons_eq_map_conv split: if_splits)
  then show ?thesis using y(2) pod_volumes_Ok [OF assms(1,2) v] by (simp add: volume_names_def)
qed

section \<open>Annotations\<close>

lemma keys_map_insert: "set (map fst (map_insert k v m)) = insert k (set (map fst m))"
proof (induction m)
  case (Cons x m)
  show ?case using Cons by (cases x) (simp add: insert_commute)
qed simp

lemma keys_union: "set (map fst (foldl (\<lambda>m (k, v). map_insert k v m) a b)) = set (map fst a) \<union> set (map fst b)"
proof (induction b arbitrary: a)
  case (Cons x b)
  obtain k v where x: "x = (k, v)" by fastforce
  show ?case using Cons [of "map_insert k v a"] keys_map_insert [of k v a] by (auto simp: x)
qed simp

lemma object_union_no_sols:
  assumes "rg_strict R" "bind_s (object_union R a b) (\<lambda>v. bind_s (Ok (keys_of v)) f) = Ok []"
  shows "\<forall>k \<in> set (keys_of a) \<union> set (keys_of b). f k = Ok []"
proof -
  obtain ma mb where ab: "a = VMap ma" "b = VMap mb"
    using assms by (cases a; cases b) (auto simp: builtin_error_def)
  have "\<forall>k \<in> set (map fst (foldl (\<lambda>m (k, v). map_insert k v m) ma mb)). f k = Ok []"
    using assms(2) by (simp add: ab bind_s_no_sols keys_of_def)
  then show ?thesis unfolding keys_union by (simp add: ab keys_of_def)
qed

lemma annotations_at_no_sols:
  "rg_strict R \<Longrightarrow> bind_s (annotations_at R [] input) f = Ok []
     \<Longrightarrow> f (at_or (VMap []) ''annotations'' (at_or (VMap []) ''metadata'' input)) = Ok []"
  "rg_strict R \<Longrightarrow> bind_s (annotations_at R [''spec'', ''template''] input) f = Ok []
     \<Longrightarrow> f (at_or (VMap []) ''annotations'' (at_or (VMap []) ''metadata'' (at_or (VMap []) ''template''
           (at_or (VMap []) ''spec'' input)))) = Ok []"
  by (auto simp: annotations_at_def look)

lemma keys_at_or: "at p v = Some x \<Longrightarrow> p \<noteq> [] \<Longrightarrow> keys_of (foldl (\<lambda>w k. at_or (VMap []) k w) v p) = keys_of x"
proof (induction p arbitrary: v)
  case (Cons k p)
  then obtain w where w: "get k v = Some w" "at p w = Some x" by (auto simp: at.simps bind_eq_Some_conv)
  show ?case using Cons.IH [OF w(2)] w by (cases p) (auto simp: at_or_Some)
qed simp

lemma all_annotations_no_sols:
  assumes "rg_strict R" "bind_s (all_annotations R input) (\<lambda>v. bind_s (Ok (keys_of v)) f) = Ok []"
    and "p \<in> set [[''metadata'', ''annotations''], [''spec'', ''template'', ''metadata'', ''annotations'']]"
    and "at p input = Some v" "k \<in> set (keys_of v)"
  shows "f k = Ok []"
proof -
  let ?at = "foldl (\<lambda>w k. at_or (VMap []) k w) input"
  let ?a = "?at [''metadata'', ''annotations'']"
  let ?b = "?at [''spec'', ''template'', ''metadata'', ''annotations'']"
  have "bind_s (annotations_at R [] input) (\<lambda>a.
      bind_s (bind_s (annotations_at R [''spec'', ''template''] input) (object_union R a)) (\<lambda>v. bind_s (Ok (keys_of v)) f)) = Ok []"
    using assms(2) unfolding all_annotations_def bind_assoc_no_sols .
  from annotations_at_no_sols(1) [OF assms(1) this]
  have "bind_s (annotations_at R [''spec'', ''template''] input) (\<lambda>b.
      bind_s (object_union R ?a b) (\<lambda>v. bind_s (Ok (keys_of v)) f)) = Ok []"
    unfolding bind_assoc_no_sols by simp
  from annotations_at_no_sols(2) [OF assms(1) this]
  have "bind_s (object_union R ?a ?b) (\<lambda>v. bind_s (Ok (keys_of v)) f) = Ok []" by simp
  from object_union_no_sols [OF assms(1) this] have "\<forall>k \<in> set (keys_of ?a) \<union> set (keys_of ?b). f k = Ok []" .
  moreover have "keys_of (?at p) = keys_of v" using keys_at_or [OF assms(4)] assms(3) by auto
  ultimately show ?thesis using assms(3,5) by auto
qed

lemma annotations_quiet:
  assumes "rg_strict R" "rule_annotations R input = Ok []"
  shows "annotations_confined input"
proof -
  let ?fmt = "''annotation '%s' is not allowed; only podmesh.io/* annotations are permitted''"
  have "bind_s (all_annotations R input) (\<lambda>v. bind_s (Ok (keys_of v)) (\<lambda>key. must (\<not> starts_with key ''podmesh.io/'')
      (sprintf R ?fmt [VStr key]))) = Ok []"
    using assms(2) unfolding rule_annotations_def bind_assoc_no_sols .
  note quiet = all_annotations_no_sols [OF assms(1) this]
  have "starts_with k ''podmesh.io/''"
    if "p \<in> set [[''metadata'', ''annotations''], [''spec'', ''template'', ''metadata'', ''annotations'']]"
      "at p input = Some v" "k \<in> set (keys_of v)" for p v k
    using quiet [OF that] sprintf_no_sols [OF assms(1), of ?fmt "[VStr k]"] unfolding must_no_sols by blast
  then show ?thesis unfolding annotations_confined_def by (metis list.set(1) empty_iff option.case_eq_if option.collapse)
qed

section \<open>All containers\<close>

lemma all_containers_Ok:
  assumes "rg_strict R" "rego_pod_spec input = Ok [spec]" "bind_s (all_containers R input) (some_in R) = Ok cs"
  shows "items_at [''containers''] spec @ items_at [''initContainers''] spec @ items_at [''ephemeralContainers''] spec = cs"
proof -
  have og: "object_get R k arr0 v = Ok [at_or (VSeq []) k v]" if "is_map v" for k v
    using that by (cases v) (auto simp: at_or_def arr0_def)
  have map: "is_map spec" using assms
    by (cases spec) (auto simp: all_containers_def input_containers_def builtin_error_def)
  have seq: "\<exists>vs. a = VSeq vs" if "array_concat R a b \<noteq> builtin_error R ''array.concat''" for a b
    using that by (cases a; cases b) auto
  have cat: "array_concat R a b = Ok x \<Longrightarrow> \<exists>va vb. a = VSeq va \<and> b = VSeq vb \<and> x = [VSeq (va @ vb)]" for a b x
    using assms(1) by (cases a; cases b) (auto simp: builtin_error_def)
  let ?a = "at_or (VSeq []) ''containers'' spec" and ?b = "at_or (VSeq []) ''initContainers'' spec"
  let ?e = "at_or (VSeq []) ''ephemeralContainers'' spec"
  have all: "all_containers R input = bind_s (array_concat R ?a ?b) (\<lambda>ab. array_concat R ab ?e)"
    by (simp add: all_containers_def input_containers_def init_containers_def ephemeral_containers_def assms(2) og [OF map])
  obtain ab where "array_concat R ?a ?b = Ok ab" using assms(3) unfolding all bind_s_Ok by blast
  from cat [OF this] obtain va vb where ab: "?a = VSeq va" "?b = VSeq vb" "ab = [VSeq (va @ vb)]" by blast
  then have "all_containers R input = array_concat R (VSeq (va @ vb)) ?e" unfolding all by simp
  moreover obtain all where "all_containers R input = Ok all" using assms(3) unfolding bind_s_Ok by blast
  ultimately obtain ve where "?e = VSeq ve" "all = [VSeq ((va @ vb) @ ve)]" "all_containers R input = Ok all"
    using cat [of "VSeq (va @ vb)" ?e all] by auto
  then have "cs = va @ vb @ ve" using assms(3) by simp
  moreover have "items_at [''containers''] spec = va" "items_at [''initContainers''] spec = vb"
    "items_at [''ephemeralContainers''] spec = ve"
    using ab \<open>?e = VSeq ve\<close> items_at_or [of _ spec] by (metis items.simps(1))+
  ultimately show ?thesis by simp
qed

section \<open>Admitted documents\<close>

definition document_confined :: "Value \<Rightarrow> bool" where
  "document_confined doc \<longleftrightarrow> annotations_confined doc
     \<and> (case Option.bind (kind_of doc) (pod_spec doc) of
          None \<Rightarrow> True
        | Some spec \<Rightarrow> pod_confined spec
            \<and> (\<forall>c \<in> set (items_at [''containers''] spec @ items_at [''initContainers''] spec).
                 get ''name'' c = None \<or> confined (volume_names spec) c))"

lemma policy_quiet:
  assumes "policy_violations R doc = Ok []"
  shows "\<And>r. r \<in> set container_rules \<Longrightarrow> r R doc = Ok []" "\<And>r. r \<in> set document_rules \<Longrightarrow> r R doc = Ok []"
    "list_all (\<lambda>r. r = Ok []) (rule_pod_namespaces R doc)"
  using assms unfolding policy_violations_def partial_set_empty list_all_iff by auto

lemma container_quiet:
  assumes v: "policy_violations R doc = Ok []" and q: "quiet_in R doc c" and spec: "rego_pod_spec doc = Ok [spec]"
  shows "confined (volume_names spec) c"
proof -
  note cr = policy_quiet(1) [OF v] and dr = policy_quiet(2) [OF v]
  note names = declared_names_Ok [OF quiet_strict(1) [OF q] spec]
  have rules: "rule_privileged R doc = Ok []" "rule_escalation R doc = Ok []" "rule_capabilities R doc = Ok []"
    "rule_sidecar_capabilities R doc = Ok []" "rule_run_as_root R doc = Ok []" "rule_may_be_root R doc = Ok []"
    "rule_proc_mount R doc = Ok []" "rule_seccomp R doc = Ok []" "rule_apparmor R doc = Ok []" "rule_selinux R doc = Ok []"
    by (rule cr, simp add: container_rules_def)+
  have "rule_volume_mounts R doc = Ok []" "rule_host_ports R doc = Ok []"
    by (rule dr, simp add: document_rules_def)+
  note quiet = quiet_privileged [OF q rules(1)] quiet_escalation [OF q rules(2)] quiet_capabilities [OF q rules(3)]
    quiet_sidecar_capabilities [OF q rules(4)] quiet_run_as_root [OF q rules(5)] quiet_may_be_root [OF q rules(6)]
    quiet_proc_mount [OF q rules(7)] quiet_seccomp [OF q rules(8)] quiet_apparmor [OF q rules(9)]
    quiet_selinux [OF q rules(10)] quiet_volume_mounts [OF q this(1)] quiet_host_ports [OF q this(2)]
  have "is_injected_sidecar c \<or> list_all (is_safe_volume_mount (volume_names spec)) (items_at [''volumeMounts''] c)"
    using quiet(11) names by (fastforce simp: list_all_iff)
  moreover have "list_all (\<lambda>v. is_injected_sidecar c \<and> v = VStr ''NET_ADMIN'')
      (items_at [''securityContext'', ''capabilities'', ''add''] c)"
    using quiet(3,4) by (cases "is_injected_sidecar c") (simp_all add: list_all_iff)
  ultimately show ?thesis unfolding confined_def using quiet by (simp add: list_all_iff) blast
qed

lemma pod_quiet:
  assumes "rg_strict R" and v: "policy_violations R doc = Ok []" and spec: "rego_pod_spec doc = Ok [spec]"
  shows "pod_confined spec"
proof -
  note dr = policy_quiet(2) [OF v]
  have "rule_pod_seccomp R doc = Ok []" "rule_pod_apparmor R doc = Ok []" "rule_pod_selinux R doc = Ok []"
    "rule_pod_sysctls R doc = Ok []" "rule_volumes R doc = Ok []"
    by (rule dr, simp add: document_rules_def)+
  note r = this [unfolded rule_pod_seccomp_def rule_pod_apparmor_def rule_pod_selinux_def rule_pod_sysctls_def obj0_def]
  note pods = policy_quiet(3) [OF v, unfolded rule_pod_namespaces_def list.pred_inject pod_rule_no_sols [OF spec]]
  obtain vols where vols: "pod_volumes R doc = Ok vols"
    using r(5) unfolding rule_volumes_def bind_s_no_sols by blast
  have "list_all is_safe_emptydir_volume (items_at [''volumes''] spec)"
    using r(5) vols pod_volumes_Ok [OF assms(1) spec vols] assms(1)
    by (auto simp: rule_volumes_def list_all_iff no_sols)
  then show ?thesis unfolding pod_confined_def
    using pods pod_profile [OF assms(1) spec r(1)] pod_profile [OF assms(1) spec r(2)]
      pod_count [OF assms(1) spec r(3)] pod_count [OF assms(1) spec r(4)] by simp
qed

lemma kind_of_Some: "kind_of doc = Some k \<longleftrightarrow> get ''kind'' doc = Some (VStr k)"
proof -
  have "as_str v = Some k \<longleftrightarrow> v = VStr k" for v by (cases v) auto
  then show ?thesis by (auto simp: kind_of_def bind_eq_Some_conv)
qed

lemma rego_pod_spec_Some:
  assumes "kind_of doc = Some kind" "pod_spec doc kind = Some spec"
  shows "rego_pod_spec doc = Ok [spec]"
  using assms by (auto simp: kind_of_Some rego_pod_spec_def pod_spec_def ref_def split: if_splits)

lemma document_quiet:
  assumes strict: "rg_strict R" and v: "policy_violations R doc = Ok []"
  shows "document_confined doc"
proof -
  have "rule_annotations R doc = Ok []" "rule_privileged R doc = Ok []"
    by (rule policy_quiet [OF v], simp add: document_rules_def container_rules_def)+
  note ann = annotations_quiet [OF strict this(1)] and each = this(2) [unfolded rule_privileged_def each_container_def bind_s_no_sols]
  obtain cs where cs: "bind_s (all_containers R doc) (some_in R) = Ok cs" using each by blast
  have "pod_confined spec \<and> (\<forall>c \<in> set (items_at [''containers''] spec @ items_at [''initContainers''] spec).
      get ''name'' c = None \<or> confined (volume_names spec) c)" if spec: "rego_pod_spec doc = Ok [spec]" for spec
  proof (intro conjI ballI)
    fix c assume "c \<in> set (items_at [''containers''] spec @ items_at [''initContainers''] spec)"
    then have "c \<in> set cs" using all_containers_Ok [OF strict spec cs] by auto
    then have "quiet_in R doc c" if "get ''name'' c \<noteq> None" using that strict cs by (auto simp: quiet_in_def)
    then show "get ''name'' c = None \<or> confined (volume_names spec) c" using container_quiet [OF v _ spec] by blast
  qed (rule pod_quiet [OF strict v spec])
  then show ?thesis unfolding document_confined_def
    using ann rego_pod_spec_Some [of doc] by (auto split: option.splits simp: bind_eq_Some_conv)
qed

section \<open>Defaults change nothing else\<close>

lemma get_insert_missing: "map_of (insert_missing k v m) k' = (if k' = k \<and> map_of m k = None then Some v else map_of m k')"
  by (simp add: insert_missing_def get_map_insert)

lemma get_with_table: "k' \<noteq> k \<Longrightarrow> get k' (with_table k f v) = get k' v"
  by (cases v) (simp_all add: with_table_def get_modify get_insert_missing del: modify.simps)

lemma get_inject: "k \<noteq> ''resources'' \<Longrightarrow> get k (inject_resource_defaults c) = get k c"
  by (simp add: inject_resource_defaults_def get_with_table)

lemma at_Cons_cong: "get k a = get k b \<Longrightarrow> at (k # p) a = at (k # p) b"
  by (simp add: at.simps)

lemma at_inject: "k \<noteq> ''resources'' \<Longrightarrow> at (k # p) (inject_resource_defaults c) = at (k # p) c"
  by (intro at_Cons_cong get_inject)

lemma confined_inject: "confined names (inject_resource_defaults c) = confined names c"
  by (simp add: confined_def absent_or_def items_at_def is_injected_sidecar_def at_inject get_inject)

lemma at_modify_within: "at p (modify_at (p @ q) f v) = map_option (modify_at q f) (at p v)"
proof (induction p arbitrary: v)
  case (Cons k p)
  show ?case using Cons by (cases "get k v") (simp_all add: at.simps get_modify)
qed simp

lemma at_modify_other: "k \<noteq> k' \<Longrightarrow> at (p @ k # r) (modify_at (p @ k' # q) f v) = at (p @ k # r) v"
proof (induction p arbitrary: v)
  case Nil
  then show ?case by (simp add: at.simps get_modify)
next
  case (Cons j p)
  then show ?case by (cases "get j v") (simp_all add: at.simps get_modify)
qed

definition each_item :: "(Value \<Rightarrow> Value) \<Rightarrow> Value \<Rightarrow> Value" where
  "each_item f v = (case v of VSeq cs \<Rightarrow> VSeq (map f cs) | _ \<Rightarrow> v)"

lemma items_each_item: "set (items (each_item f v)) \<subseteq> set (items v) \<union> f ` set (items v)"
  by (cases v) (auto simp: each_item_def)

lemma update_containers_eq:
  "update_containers f field doc =
     (if kind_of doc = Some ''Pod'' then modify_at [''spec'', field] (each_item f) doc
      else if kind_of doc = Some ''Deployment'' then modify_at [''spec'', ''template'', ''spec'', field] (each_item f) doc
      else doc)"
  by (simp add: update_containers_def each_item_def [abs_def] Let_def split: option.split)

lemma kind_of_update: "kind_of (update_containers f field doc) = kind_of doc"
  by (simp add: update_containers_eq kind_of_def get_modify)

lemma modify_at_one: "modify_at [k] f = modify k f"
proof -
  have "modify_at [] f = f" by auto
  then have "modify_at [k] f v = modify k f v" for v by simp
  then show ?thesis by blast
qed

lemma pod_spec_update:
  assumes "kind_of doc = Some kind"
  shows "pod_spec (update_containers f field doc) kind = map_option (modify field (each_item f)) (pod_spec doc kind)"
  using at_modify_within [of "[''spec'']" "[field]" "each_item f" doc]
    at_modify_within [of "[''spec'', ''template'', ''spec'']" "[field]" "each_item f" doc] assms
  by (auto simp: update_containers_eq pod_spec_def modify_at_one)

lemma annotations_update:
  assumes "field \<in> set CONTAINER_FIELDS"
  shows "annotations_confined (update_containers f field doc) = annotations_confined doc"
proof -
  have "at [''metadata'', ''annotations''] (update_containers f field doc) = at [''metadata'', ''annotations''] doc"
    using at_modify_other [of "''metadata''" "''spec''" "[]" "[''annotations'']"] by (simp add: update_containers_eq)
  moreover have "at [''spec'', ''template'', ''metadata'', ''annotations''] (update_containers f field doc)
      = at [''spec'', ''template'', ''metadata'', ''annotations''] doc"
    using assms at_modify_other [of "''template''" field "[''spec'']" "[''metadata'', ''annotations'']" "[]"]
      at_modify_other [of "''metadata''" "''spec''" "[''spec'', ''template'']" "[''annotations'']" "[field]"]
    by (auto simp: update_containers_eq CONTAINER_FIELDS_def)
  ultimately show ?thesis unfolding annotations_confined_def by simp
qed

lemma spec_update:
  fixes spec f field
  defines "spec' \<equiv> modify field (each_item f) spec"
  assumes "field \<in> set CONTAINER_FIELDS"
  shows "pod_confined spec' = pod_confined spec" "volume_names spec' = volume_names spec"
    "field' \<noteq> field \<Longrightarrow> items_at [field'] spec' = items_at [field'] spec"
    "set (items_at [field] spec') \<subseteq> set (items_at [field] spec) \<union> f ` set (items_at [field] spec)"
proof -
  have k: "at (k # r) spec' = at (k # r) spec" if "k \<noteq> field" for k r
    using that by (intro at_Cons_cong) (simp add: spec'_def get_modify)
  have g: "get k spec' = get k spec" if "k \<noteq> field" for k using k [OF that, of "[]"] by simp
  have f: "\<not> list_ex (\<lambda>k. k = field) [''hostNetwork'', ''hostPID'', ''hostIPC'', ''shareProcessNamespace'',
      ''hostUsers'', ''securityContext'', ''volumes'']"
    using assms(2) by (auto simp: CONTAINER_FIELDS_def)
  then show "pod_confined spec' = pod_confined spec" "volume_names spec' = volume_names spec"
    by (simp_all add: pod_confined_def volume_names_def absent_or_def items_at_def k g)
  show "items_at [field'] spec' = items_at [field'] spec" if "field' \<noteq> field"
    using g [OF that] by (simp add: items_at_def)
  show "set (items_at [field] spec') \<subseteq> set (items_at [field] spec) \<union> f ` set (items_at [field] spec)"
    using items_each_item [of f] by (cases "get field spec") (auto simp: items_at_def spec'_def get_modify)
qed

lemma update_keeps_confined:
  assumes "document_confined doc" "field \<in> set CONTAINER_FIELDS"
  shows "document_confined (update_containers inject_resource_defaults field doc)"
proof (cases "Option.bind (kind_of doc) (pod_spec doc)")
  case None
  then have "Option.bind (kind_of doc) (pod_spec (update_containers inject_resource_defaults field doc)) = None"
    by (cases "kind_of doc") (simp_all add: pod_spec_update)
  then show ?thesis using assms by (simp add: document_confined_def annotations_update kind_of_update)
next
  case (Some spec)
  then obtain kind where kind: "kind_of doc = Some kind" "pod_spec doc kind = Some spec" by (auto simp: bind_eq_Some_conv)
  let ?f = inject_resource_defaults
  note upd = spec_update [OF assms(2), where f = ?f and spec = spec]
  have old: "pod_confined spec" "annotations_confined doc"
    "\<forall>c \<in> set (items_at [''containers''] spec @ items_at [''initContainers''] spec). get ''name'' c = None \<or> confined (volume_names spec) c"
    using assms(1) Some by (simp_all add: document_confined_def)
  have "get ''name'' c = None \<or> confined (volume_names spec) c"
    if "c \<in> set (items_at [''containers''] (modify field (each_item ?f) spec) @ items_at [''initContainers''] (modify field (each_item ?f) spec))" for c
  proof -
    have "c \<in> set (items_at [''containers''] spec @ items_at [''initContainers''] spec)
        \<union> ?f ` set (items_at [''containers''] spec @ items_at [''initContainers''] spec)"
      using that upd(3) upd(4) assms(2) by (auto simp: CONTAINER_FIELDS_def)
    then show ?thesis using old(3) by (auto simp: confined_inject get_inject)
  qed
  then show ?thesis using old(1,2) kind pod_spec_update [OF kind(1), of ?f field] annotations_update [OF assms(2)]
    by (simp add: document_confined_def kind_of_update upd(1,2))
qed

lemma mutate_keeps_confined: "document_confined doc \<Longrightarrow> document_confined (mutate_document_defaults doc)"
  unfolding mutate_document_defaults_def CONTAINER_FIELDS_def
  by (simp add: update_keeps_confined CONTAINER_FIELDS_def)

section \<open>Admitted manifests\<close>

definition runs_pod :: "Value \<Rightarrow> bool" where
  "runs_pod doc \<longleftrightarrow> (case kind_of doc of None \<Rightarrow> False | Some kind \<Rightarrow> kind \<in> set SUPPORTED_POD_KINDS)"

definition known_document :: "Value \<Rightarrow> bool" where
  "known_document doc \<longleftrightarrow> (case kind_of doc of None \<Rightarrow> False | Some kind \<Rightarrow>
     kind \<in> set SUPPORTED_POD_KINDS \<and> pod_spec doc kind \<noteq> None \<or> kind \<in> set SUPPORTED_AUXILIARY_KINDS)"

lemma document_shape_quiet: "snd (document_shape i doc) = [] \<Longrightarrow> known_document doc"
  by (auto simp: document_shape_def known_document_def split: option.splits if_splits)

lemma document_shape_pods: "fst (document_shape i doc) = (if runs_pod doc then 1 else 0)"
  by (auto simp: document_shape_def runs_pod_def split: option.splits)

lemma shape_loop_spec:
  "fst (shape_loop i n docs) = n + length (filter runs_pod docs)"
  "snd (shape_loop i n docs) = [] \<Longrightarrow> list_all known_document docs"
proof (induction docs arbitrary: i n)
  case (Cons doc docs)
  { case 1
    show ?case using Cons.IH(1) [of "i + 1" "n + fst (document_shape i doc)"]
      by (simp add: split_beta document_shape_pods)
  next
    case 2
    then show ?case using Cons.IH(2) [of "i + 1" "n + fst (document_shape i doc)"] document_shape_quiet [of i doc]
      by (simp add: split_beta) }
qed simp_all

lemma shape_quiet:
  assumes "validate_document_shape docs = []"
  shows "length (filter runs_pod docs) = 1" "list_all known_document docs"
  using assms shape_loop_spec [of 0 0 docs] by (auto simp: validate_document_shape_def split_beta split: if_splits)

lemma evaluate_loop_quiet:
  "evaluate_loop R n i docs = Ok (True, vs) \<Longrightarrow> \<forall>doc \<in> set docs. policy_violations R doc = Ok []"
  by (induction docs arbitrary: i vs) (auto simp: policy_allow_def)

lemma validated_manifest:
  assumes "rg_strict R" "validate_and_mutate_manifest R Y manifest = Ok out"
  obtains docs where "parse_yaml_documents_from_str Y manifest = Ok docs"
    "serialize_yaml_documents Y (map mutate_document_defaults docs) = Ok out"
    "validate_document_shape docs = []" "\<forall>doc \<in> set docs. policy_violations R doc = Ok []"
proof -
  obtain r where r: "policy_validate R Y manifest = Ok r" "pr_allowed r" "pr_mutated_manifest r = Some out"
    using assms(2) by (auto simp: validate_and_mutate_manifest_def split: if_splits)
  then obtain docs vs where "parse_yaml_documents_from_str Y manifest = Ok docs" "validate_document_shape docs = []"
    "evaluate_loop R (length docs) 0 docs = Ok (True, vs)" "mutate_manifest_defaults Y manifest = Ok out"
    by (auto simp: policy_validate_def Let_def split: prod.splits if_splits)
  then show thesis using that [of docs] evaluate_loop_quiet by (auto simp: mutate_manifest_defaults_def)
qed

lemma manifest_admitted:
  assumes "ym_docs Y manifest = [Ok doc]" "doc \<noteq> VNull" "validate_document_shape [doc] = []"
    and "policy_violations R doc = Ok []" "serialize_yaml_documents Y [mutate_document_defaults doc] = Ok out"
  shows "validate_and_mutate_manifest R Y manifest = Ok out"
proof -
  have "evaluate_loop R 1 0 [doc] = Ok (True, [])" using assms(4) by (simp add: policy_allow_def)
  moreover have "mutate_manifest_defaults Y manifest = Ok out"
    using assms by (simp add: mutate_manifest_defaults_def parse_yaml_documents_from_str_def)
  ultimately have "policy_validate R Y manifest = Ok \<lparr>pr_allowed = True, pr_violations = [], pr_mutated_manifest = Some out\<rparr>"
    using assms(1-3) by (simp add: policy_validate_def parse_yaml_documents_from_str_def Let_def del: evaluate_loop.simps)
  then show ?thesis by (simp add: validate_and_mutate_manifest_def)
qed


section \<open>A manifest\<close>

definition toy_rego :: rego where
  "toy_rego = \<lparr>rg_strict = True, rg_strict_some = True, rg_sprintf = \<lambda>fmt args. Some fmt\<rparr>"

definition toy_yaml :: "Value list \<Rightarrow> yaml_io" where
  "toy_yaml docs = \<lparr>ym_docs = \<lambda>s. map Ok docs, ym_print = \<lambda>d. Ok ''kind: Pod''\<rparr>"

definition toy_pod :: "Value list \<Rightarrow> Value list \<Rightarrow> Value" where
  "toy_pod containers inits = VMap [(''kind'', VStr ''Pod''),
     (''metadata'', VMap [(''name'', VStr ''demo''), (''annotations'', VMap [(''podmesh.io/replicas'', VStr ''2'')])]),
     (''spec'', VMap [(''containers'', VSeq containers), (''initContainers'', VSeq inits),
        (''volumes'', VSeq [VMap [(''name'', VStr ''tmp''), (''emptyDir'', VMap [])]])])]"

definition toy_container :: Value where
  "toy_container = VMap [(''name'', VStr ''app''), (''image'', VStr ''nginx''),
     (''volumeMounts'', VSeq [VMap [(''name'', VStr ''tmp''), (''mountPath'', VStr ''/tmp'')]])]"

lemma toy_pod_admitted: "policy_violations toy_rego (toy_pod [toy_container] []) = Ok []"
  by code_simp


section \<open>A container without a name\<close>

text \<open>The message of a rule names the container, so a container without a name makes it undefined, and the rule
  does not fire.\<close>

definition unnamed_privileged :: Value where
  "unnamed_privileged = VMap [(''image'', VStr ''busybox''), (''securityContext'', VMap [(''privileged'', VBool True)])]"

definition escape_pod :: Value where
  "escape_pod = VMap [(''kind'', VStr ''Pod''), (''metadata'', VMap [(''name'', VStr ''demo'')]),
     (''spec'', VMap [(''containers'', VSeq [unnamed_privileged])])]"

lemma escape_pod_quiet: "policy_violations R escape_pod = Ok []"
proof -
  have cs: "bind_s (all_containers R escape_pod) (some_in R) = Ok [unnamed_privileged]"
    by (simp add: escape_pod_def all_containers_def input_containers_def init_containers_def ephemeral_containers_def
        rego_pod_spec_def ref_def arr0_def)
  have each: "each_container R escape_pod body = body unnamed_privileged" for body :: "Value \<Rightarrow> string sols"
    by (simp add: each_container_def cs)
  have spec: "rego_pod_spec escape_pod = Ok [VMap [(''containers'', VSeq [unnamed_privileged])]]"
    by (simp add: escape_pod_def rego_pod_spec_def ref_def)
  have name: "names_container R fmt unnamed_privileged args = Ok []" for fmt args
    by (simp add: names_container_def ref_def unnamed_privileged_def)
  note rules = rule_privileged_def rule_escalation_def rule_capabilities_def rule_sidecar_capabilities_def
    rule_run_as_root_def rule_may_be_root_def rule_proc_mount_def rule_seccomp_def rule_apparmor_def rule_selinux_def
  have "list_all (\<lambda>r. r R escape_pod = Ok []) container_rules"
    unfolding container_rules_def rules each list.pred_inject name
    by (simp add: unnamed_privileged_def ref_def must_def security_context_def added_capabilities_def obj0_def arr0_def
        is_injected_sidecar_def at.simps)
  moreover have "list_all (\<lambda>r. r R escape_pod = Ok []) document_rules"
    unfolding document_rules_def rule_pod_seccomp_def rule_pod_apparmor_def rule_pod_selinux_def rule_pod_sysctls_def
      rule_host_ports_def rule_volumes_def rule_volume_mounts_def each list.pred_inject name pod_context_def spec pod_volumes_def
      rule_annotations_def all_annotations_def annotations_at_def
    by (simp add: unnamed_privileged_def ref_def must_def security_context_def obj0_def arr0_def escape_pod_def keys_of_def)
  moreover have "list_all (\<lambda>r. r = Ok []) (rule_pod_namespaces R escape_pod)"
    unfolding rule_pod_namespaces_def pod_rule_def list.pred_inject spec by (simp add: ref_def at.simps)
  ultimately show ?thesis unfolding policy_violations_def partial_set_empty by (auto simp: list_all_iff)
qed

text \<open>C31: a container without a name escapes the rules on containers. A pod with one privileged container that
  has no name is admitted, whatever the settings of the policy engine, and the manifest the agent goes on with
  still asks for privileged mode.\<close>

theorem unnamed_privileged_admitted:
  assumes "ym_docs Y manifest = [Ok escape_pod]"
    and "serialize_yaml_documents Y [mutate_document_defaults escape_pod] = Ok out"
  shows "validate_and_mutate_manifest R Y manifest = Ok out
    \<and> (\<exists>c. at [''spec'', ''containers''] (mutate_document_defaults escape_pod) = Some (VSeq [c])
         \<and> at [''securityContext'', ''privileged''] c = Some (VBool True))"
proof -
  have "validate_document_shape [escape_pod] = []" by code_simp
  then have "validate_and_mutate_manifest R Y manifest = Ok out"
    by (intro manifest_admitted [OF assms(1) _ _ escape_pod_quiet assms(2)]) (simp add: escape_pod_def)
  moreover have "at [''spec'', ''containers''] (mutate_document_defaults escape_pod)
      = Some (VSeq [inject_resource_defaults unnamed_privileged])"
    by code_simp
  moreover have "at [''securityContext'', ''privileged''] (inject_resource_defaults unnamed_privileged) = Some (VBool True)"
    by code_simp
  ultimately show ?thesis by blast
qed

text \<open>Witness of C31.\<close>

theorem unnamed_privileged_admitted_witness:
  "validate_and_mutate_manifest toy_rego (toy_yaml [escape_pod]) ''manifest'' = Ok (''kind: Pod'' @ newline)"
  using unnamed_privileged_admitted [of "toy_yaml [escape_pod]" "''manifest''" "''kind: Pod'' @ newline" toy_rego]
  by (simp add: toy_yaml_def serialize_yaml_documents_def)

end
