(* ===== verification/Manifest_Quantity.thy ===== *)
theory Manifest_Quantity
  imports Std_Str
begin

text \<open>
  The resource quantities of a manifest: \<open>parse_cpu\<close> and \<open>parse_bytes\<close> of
  \<open>shared/protocol/src/manifest_resources.rs\<close>, with the parts of \<open>str\<close> they use.
\<close>

definition whole_fraction :: "string \<Rightarrow> string \<times> string" where
  "whole_fraction s = (case split_once CHR ''.'' s of Some p \<Rightarrow> p | None \<Rightarrow> (s, []))"

section \<open>CPU\<close>

definition parse_cpu :: "string \<Rightarrow> u32 res" where
  "parse_cpu quantity =
     (case strip_suffix ''m'' quantity of
        Some milli \<Rightarrow>
          try_r (ok_or (parse_unsigned (2 ^ 32) milli) ''invalid millicore quantity'') (\<lambda>value.
          ensure (0 < value) ''CPU limit must be greater than zero'' (Ok (word_of_nat value)))
      | None \<Rightarrow>
          (let (whole, fraction) = whole_fraction quantity in
           ensure (whole \<noteq> [] \<and> list_all is_ascii_digit whole \<and> length fraction \<le> 3 \<and> list_all is_ascii_digit fraction)
             ''unsupported CPU quantity'' (
           try_r (ok_or (parse_unsigned (2 ^ 32) whole) ''invalid CPU quantity'') (\<lambda>w.
           try_r (ok_or (parse_unsigned (2 ^ 32) (fraction @ replicate (3 - length fraction) CHR ''0''))
             ''invalid CPU fraction'') (\<lambda>f.
           try_r (ok_or (Option.bind (checked_mul (word_of_nat w :: u32) 1000) (\<lambda>v. checked_add v (word_of_nat f)))
             ''CPU quantity overflow'') (\<lambda>milli.
           ensure (0 < milli) ''CPU limit must be greater than zero'' (Ok milli)))))))"

section \<open>Bytes\<close>

definition SUFFIXES :: "(string \<times> u128) list" where
  "SUFFIXES = [(''Ti'', 1024 ^ 4), (''Gi'', 1024 ^ 3), (''Mi'', 1024 ^ 2), (''Ki'', 1024),
     (''T'', 1000 ^ 4), (''G'', 1000 ^ 3), (''M'', 1000 ^ 2), (''K'', 1000)]"

fun find_suffix :: "(string \<times> u128) list \<Rightarrow> string \<Rightarrow> string \<times> u128" where
  "find_suffix [] quantity = (quantity, 1)"
| "find_suffix ((ending, multiplier) # rest) quantity =
     (case strip_suffix ending quantity of Some number \<Rightarrow> (number, multiplier) | None \<Rightarrow> find_suffix rest quantity)"

definition parse_bytes :: "string \<Rightarrow> u64 res" where
  "parse_bytes quantity =
     (let (number, multiplier) = find_suffix SUFFIXES quantity;
          (whole, fraction) = whole_fraction number
      in ensure (whole \<noteq> [] \<and> list_all is_ascii_digit whole \<and> length fraction \<le> 9 \<and> list_all is_ascii_digit fraction)
           ''unsupported byte quantity'' (
         let scale = word_of_nat (10 ^ length fraction) :: u128 in
         try_r (ok_or (parse_unsigned (2 ^ 128) whole) ''invalid byte quantity'') (\<lambda>w.
         try_r (if fraction = [] then Ok 0
           else ok_or (parse_unsigned (2 ^ 128) fraction) ''invalid byte quantity fraction'') (\<lambda>f.
         try_r (ok_or (Option.bind (checked_mul (word_of_nat w) scale) (\<lambda>v.
             Option.bind (checked_add v (word_of_nat f)) (\<lambda>v. checked_mul v multiplier)))
           ''byte quantity overflow'') (\<lambda>scaled.
         try_r (ok_or (checked_add scaled (saturating_sub scale 1)) ''byte quantity rounding overflow'') (\<lambda>rounded.
         let bytes = rounded div scale in
         ensure (0 < bytes) ''byte limit must be greater than zero'' (
         ensure (unat bytes < 2 ^ 64) ''byte quantity exceeds u64'' (Ok (ucast bytes)))))))))"

section \<open>Lemmas\<close>

text \<open>A decimal number: its digits, and the power of ten that makes it whole.\<close>

definition decimal :: "nat \<Rightarrow> string \<Rightarrow> bool" where
  "decimal places s \<longleftrightarrow> (case whole_fraction s of (whole, fraction) \<Rightarrow>
     whole \<noteq> [] \<and> list_all is_ascii_digit whole \<and> length fraction \<le> places \<and> list_all is_ascii_digit fraction)"

definition decimal_scale :: "string \<Rightarrow> nat" where
  "decimal_scale s = 10 ^ length (snd (whole_fraction s))"

definition decimal_scaled :: "string \<Rightarrow> nat" where
  "decimal_scaled s = str_nat (fst (whole_fraction s)) * decimal_scale s + str_nat (snd (whole_fraction s))"

text \<open>\<open>n\<close> is the number \<open>s\<close> times \<open>m\<close>, rounded up.\<close>

definition rounded_up :: "nat \<Rightarrow> nat \<Rightarrow> string \<Rightarrow> bool" where
  "rounded_up n m s \<longleftrightarrow> decimal_scaled s * m \<le> n * decimal_scale s \<and> n * decimal_scale s < decimal_scaled s * m + decimal_scale s"

lemma rounded_up_div:
  fixes N n S :: nat
  assumes "0 < S"
  shows "N \<le> n * S \<and> n * S < N + S \<longleftrightarrow> n = (N + (S - 1)) div S"
proof
  assume r: "N \<le> n * S \<and> n * S < N + S"
  have "N + (S - 1) = n * S + (N + (S - 1) - n * S)" "N + (S - 1) - n * S < S" using r assms by auto
  then show "n = (N + (S - 1)) div S" using assms
    by (metis add.commute add_0 div_less div_mult_self1 less_irrefl_nat)
next
  assume n: "n = (N + (S - 1)) div S"
  have "n * S + (N + (S - 1)) mod S = N + (S - 1)" unfolding n by (rule div_mult_mod_eq)
  then show "N \<le> n * S \<and> n * S < N + S" using mod_less_divisor [OF assms, of "N + (S - 1)"] by linarith
qed

lemma find_suffix_SUFFIXES: "find_suffix SUFFIXES q = (s, m) \<Longrightarrow> 0 < unat m"
  by (auto simp: SUFFIXES_def split: option.splits)

lemma unat_word_of_nat: "n < 2 ^ LENGTH('a) \<Longrightarrow> unat (word_of_nat n :: 'a::len word) = n"
  by (simp add: unat_of_nat)

lemma ex_checked:
  fixes a b :: "'a::len word"
  shows "(\<exists>v. checked_mul a b = Some v \<and> P v) \<longleftrightarrow> unat a * unat b < 2 ^ LENGTH('a) \<and> P (a * b)"
    and "(\<exists>v. checked_add a b = Some v \<and> P v) \<longleftrightarrow> unat a + unat b < 2 ^ LENGTH('a) \<and> P (a + b)"
  by (auto simp: checked_mul_def checked_add_def)

lemma scaled_rounded:
  fixes scale m :: u128
  assumes S: "unat scale = S" "0 < S" and W: "W < 2 ^ 128" and F: "F < 2 ^ 128"
  shows "(\<exists>v. checked_mul (word_of_nat W) scale = Some v \<and> (\<exists>v'. checked_add v (word_of_nat F) = Some v'
      \<and> (\<exists>scaled. checked_mul v' m = Some scaled \<and> (\<exists>rounded. checked_add scaled (saturating_sub scale 1) = Some rounded
      \<and> P (unat (rounded div scale))))))
    \<longleftrightarrow> W * S < 2 ^ 128 \<and> W * S + F < 2 ^ 128 \<and> (W * S + F) * unat m < 2 ^ 128
      \<and> (W * S + F) * unat m + (S - 1) < 2 ^ 128 \<and> P (((W * S + F) * unat m + (S - 1)) div S)"
proof -
  have one: "unat (saturating_sub scale 1) = S - 1" using S by (simp add: unat_simps)
  have w: "unat (word_of_nat W :: u128) = W" "unat (word_of_nat F :: u128) = F"
    using W F by (simp_all add: unat_word_of_nat)
  let ?a = "word_of_nat W * scale" and ?b = "word_of_nat W * scale + word_of_nat F"
  have a: "unat ?a = W * S" if "W * S < 2 ^ 128"
    using that unat_mult_lem [of "word_of_nat W" scale] w S by simp
  have b: "unat ?b = W * S + F" if "W * S < 2 ^ 128" "W * S + F < 2 ^ 128"
    using that(2) unat_add_lem [of ?a "word_of_nat F"] w(2) a [OF that(1)] by simp
  have c: "unat (?b * m) = (W * S + F) * unat m" if "W * S < 2 ^ 128" "W * S + F < 2 ^ 128" "(W * S + F) * unat m < 2 ^ 128"
    using that(3) unat_mult_lem [of ?b m] b [OF that(1,2)] by simp
  have d: "unat ((?b * m + saturating_sub scale 1) div scale) = ((W * S + F) * unat m + (S - 1)) div S"
    if "W * S < 2 ^ 128" "W * S + F < 2 ^ 128" "(W * S + F) * unat m < 2 ^ 128" "(W * S + F) * unat m + (S - 1) < 2 ^ 128"
    using that(4) unat_add_lem [of "?b * m" "saturating_sub scale 1"] c [OF that(1-3)] one S(1) by (simp add: unat_div)
  have len: "LENGTH(128) = 128" by simp
  show ?thesis unfolding ex_checked w S(1) one len
    by (intro conj_cong refl) (simp_all only: a b c d)
qed


lemma fits_u64_fits_u128:
  assumes "0 < S" and "S \<le> 10 ^ 9" and "0 < m" and "((W * S + F) * m + (S - 1)) div S < 2 ^ 64"
  shows "W < 2 ^ 128 \<and> W * S < 2 ^ 128 \<and> W * S + F < 2 ^ 128 \<and> (W * S + F) * m < (2 :: nat) ^ 128
    \<and> (W * S + F) * m + (S - 1) < 2 ^ 128"
proof -
  let ?t = "(W * S + F) * m + (S - 1)"
  have "?t < 2 ^ 64 * S" using assms(1,4) by (simp add: div_less_iff_less_mult)
  also have "\<dots> \<le> 2 ^ 64 * 10 ^ 9" using assms(2) by simp
  also have "\<dots> < 2 ^ 128" by simp
  finally have t: "?t < 2 ^ 128" .
  have "W * S + F \<le> (W * S + F) * m" "W \<le> W * S" using assms(1,3) by simp_all
  then show ?thesis using t by linarith
qed

lemma narrowed: "unat (x :: u128) < 2 ^ 64 \<Longrightarrow> unat (ucast x :: u64) = unat x"
  by (simp add: unsigned_ucast_eq take_bit_nat_eq_self)

lemma parse_bytes_Ok:
  assumes q: "find_suffix SUFFIXES q = (number, m)"
  shows "parse_bytes q = Ok b \<longleftrightarrow> decimal 9 number
    \<and> (\<exists>n. rounded_up n (unat m) number \<and> 0 < n \<and> n < 2 ^ 64 \<and> unat b = n)"
proof -
  obtain whole fraction where p: "whole_fraction number = (whole, fraction)" by fastforce
  let ?W = "str_nat whole" and ?F = "str_nat fraction" and ?S = "10 ^ length fraction :: nat"
  let ?n = "((?W * ?S + ?F) * unat m + (?S - 1)) div ?S"
  let ?scale = "word_of_nat ?S :: u128"
  have up: "rounded_up n (unat m) number \<longleftrightarrow> n = ?n" for n
    unfolding rounded_up_def decimal_scaled_def decimal_scale_def p fst_conv snd_conv by (rule rounded_up_div) simp
  show ?thesis
  proof (cases "decimal 9 number")
    case False
    then show ?thesis by (auto simp: parse_bytes_def q p decimal_def)
  next
    case True
    then have wf: "whole \<noteq> []" "list_all is_ascii_digit whole" "length fraction \<le> 9" "list_all is_ascii_digit fraction"
      by (simp_all add: decimal_def p)
    have S: "?S \<le> 10 ^ 9" using wf(3) by (intro power_increasing) simp_all
    then have S': "unat ?scale = ?S" by (intro unat_word_of_nat) simp
    have F: "?F < 2 ^ 128" using str_nat_digits [OF wf(4)] S by simp
    have frac: "(if fraction = [] then Ok 0 else ok_or (parse_unsigned (2 ^ 128) fraction) e) = Ok ?F" for e :: string
      using parse_digits [OF wf(4)] F by (simp add: str_nat_def)
    have "parse_bytes q = Ok b \<longleftrightarrow> ?W < 2 ^ 128 \<and> (\<exists>v. checked_mul (word_of_nat ?W) ?scale = Some v
        \<and> (\<exists>v'. checked_add v (word_of_nat ?F) = Some v' \<and> (\<exists>scaled. checked_mul v' m = Some scaled
        \<and> (\<exists>rounded. checked_add scaled (saturating_sub ?scale 1) = Some rounded \<and>
          (0 < unat (rounded div ?scale) \<and> unat (rounded div ?scale) < 2 ^ 64 \<and> unat b = unat (rounded div ?scale))))))"
      using wf parse_digits [OF wf(2,1)] frac
      by (auto simp: parse_bytes_def q p Let_def bind_eq_Some_conv narrowed word_less_nat_alt)
        (rule unat_eqI, simp add: narrowed)
    also have "\<dots> \<longleftrightarrow> 0 < ?n \<and> ?n < 2 ^ 64 \<and> unat b = ?n"
      using scaled_rounded [OF S' _ _ F, of ?W m "\<lambda>n. 0 < n \<and> n < 2 ^ 64 \<and> unat b = n"]
        fits_u64_fits_u128 [OF _ S find_suffix_SUFFIXES [OF q], of ?W ?F] by auto
    finally show ?thesis using True unfolding up by blast
  qed
qed


lemma cpu_chain:
  assumes "W < 2 ^ 32" and "F < 1000"
  shows "(\<exists>v. checked_mul (word_of_nat W :: u32) 1000 = Some v \<and> (\<exists>v'. checked_add v (word_of_nat F) = Some v' \<and> P v'))
    \<longleftrightarrow> W * 1000 + F < 2 ^ 32 \<and> P (word_of_nat (W * 1000 + F))"
proof -
  have w: "unat (word_of_nat W :: u32) = W" "unat (word_of_nat F :: u32) = F"
    using unat_word_of_nat [where 'a = 32] assms by simp_all
  have t: "unat (1000 :: u32) = 1000" and len: "LENGTH(32) = 32" by simp_all
  have a: "unat (word_of_nat W * 1000 :: u32) = W * 1000" if "W * 1000 < 2 ^ 32"
    using that unat_mult_lem [of "word_of_nat W :: u32" 1000] w t by simp
  have e: "(word_of_nat W * 1000 + word_of_nat F :: u32) = word_of_nat (W * 1000 + F)" by simp
  have "W * 1000 < 2 ^ 32 \<and> W * 1000 + F < 2 ^ 32 \<longleftrightarrow> W * 1000 + F < 2 ^ 32" by linarith
  then show ?thesis unfolding ex_checked w t len e
    using a by (metis (no_types, lifting))
qed

lemma cpu_decimal_Ok:
  assumes q: "strip_suffix ''m'' q = None" and p: "whole_fraction q = (whole, fraction)"
    and wf: "whole \<noteq> []" "list_all is_ascii_digit whole" "length fraction \<le> 3" "list_all is_ascii_digit fraction"
  shows "parse_cpu q = Ok c \<longleftrightarrow> 0 < unat c \<and> unat c = str_nat whole * 1000 + str_nat fraction * 10 ^ (3 - length fraction)"
proof -
  let ?pad = "fraction @ replicate (3 - length fraction) CHR ''0''"
  have len: "length ?pad = 3" using wf(3) by simp
  then have ne: "?pad \<noteq> []" by (metis length_0_conv zero_neq_numeral)
  have "is_ascii_digit CHR ''0''" by (simp add: is_ascii_digit_def)
  then have pad: "list_all is_ascii_digit ?pad" using wf(4) by (auto simp: list_all_iff)
  have small: "str_nat ?pad < 1000" using str_nat_digits [OF pad] len by simp
  have "parse_cpu q = Ok c \<longleftrightarrow> str_nat whole < 2 ^ 32 \<and> (\<exists>v. checked_mul (word_of_nat (str_nat whole) :: u32) 1000 = Some v
      \<and> (\<exists>v'. checked_add v (word_of_nat (str_nat ?pad)) = Some v' \<and> (0 < v' \<and> v' = c)))"
    using wf small
    by (simp only: parse_cpu_def q p Let_def option.case prod.case ensure_Ok_iff try_r_Ok_iff ok_or_Ok_iff
      bind_eq_Some_conv result.inject parse_digits [OF wf(2,1)] parse_digits [OF pad ne])
      (auto split: if_splits)
  also have "\<dots> \<longleftrightarrow> str_nat whole < 2 ^ 32 \<and> str_nat whole * 1000 + str_nat ?pad < 2 ^ 32
      \<and> 0 < (word_of_nat (str_nat whole * 1000 + str_nat ?pad) :: u32) \<and> word_of_nat (str_nat whole * 1000 + str_nat ?pad) = c"
    by (rule conj_cong [OF refl]) (rule cpu_chain [OF _ small])
  also have "\<dots> \<longleftrightarrow> 0 < unat c \<and> unat c = str_nat whole * 1000 + str_nat ?pad" (is "?l \<longleftrightarrow> ?r")
  proof -
    have exact: "unat (word_of_nat n :: u32) = n" if "n < 2 ^ 32" for n using unat_word_of_nat [where 'a = 32] that by simp
    show ?thesis
    proof
      assume ?l
      then show ?r using exact [of "str_nat whole * 1000 + str_nat ?pad"] by (auto simp: word_less_nat_alt simp del: of_nat_add of_nat_mult)
    next
      assume r: ?r
      then have less: "str_nat whole * 1000 + str_nat ?pad < 2 ^ 32" using unat_less_pow [of c] by simp
      have "c = word_of_nat (str_nat whole * 1000 + str_nat ?pad)" using r exact [OF less] by (metis unat_eqI)
      then show ?l using r less by (auto simp: word_less_nat_alt simp del: of_nat_add of_nat_mult)
    qed
  qed
  finally show ?thesis unfolding str_nat_zeros .
qed


lemma parse_cpu_Ok:
  "parse_cpu q = Ok c \<longleftrightarrow> 0 < unat c \<and>
    (case strip_suffix ''m'' q of
       Some milli \<Rightarrow> parse_unsigned (2 ^ 32) milli = Some (unat c)
     | None \<Rightarrow> decimal 3 q \<and> unat c * decimal_scale q = decimal_scaled q * 1000)"
proof (cases "strip_suffix ''m'' q")
  case None
  obtain whole fraction where p: "whole_fraction q = (whole, fraction)" by fastforce
  show ?thesis
  proof (cases "decimal 3 q")
    case False
    then show ?thesis using None by (auto simp: parse_cpu_def p decimal_def)
  next
    case True
    then have wf: "whole \<noteq> []" "list_all is_ascii_digit whole" "length fraction \<le> 3" "list_all is_ascii_digit fraction"
      by (simp_all add: decimal_def p)
    let ?S = "10 ^ length fraction :: nat" and ?Z = "10 ^ (3 - length fraction) :: nat"
    have SZ: "?S * ?Z = 1000" using wf(3) by (simp add: power_add [symmetric])
    have "(str_nat whole * ?S + str_nat fraction) * 1000 = (str_nat whole * 1000 + str_nat fraction * ?Z) * ?S"
      unfolding SZ [symmetric] by (simp add: algebra_simps)
    then have "n * ?S = (str_nat whole * ?S + str_nat fraction) * 1000
        \<longleftrightarrow> n = str_nat whole * 1000 + str_nat fraction * ?Z" for n by simp
    then show ?thesis
      using True cpu_decimal_Ok [OF None p wf] by (simp add: None decimal_scaled_def decimal_scale_def p)
  qed
next
  case (Some milli)
  have "unat (word_of_nat n :: u32) = n" if "parse_unsigned (2 ^ 32) milli = Some n" for n
    using that unat_word_of_nat [of n, where 'a = 32] by (auto simp: parse_unsigned_def Let_def split: if_splits)
  then show ?thesis using Some by (auto simp: parse_cpu_def)
qed

section \<open>Properties\<close>

text \<open>C36: resource quantities are read exactly, or refused. A byte quantity is accepted precisely when it is
  a decimal number with at most nine places, its unit and value give between 1 and \<open>2 ^ 64 - 1\<close> bytes, and
  the result is that many bytes, rounded up, never down; the 128-bit arithmetic refuses nothing that fits.
  A CPU quantity is accepted precisely when it is a positive number of millicores below \<open>2 ^ 32\<close>, written
  with \<open>m\<close> or as a decimal with at most three places, and the result is that number.\<close>

theorem quantities_exact:
  "(parse_bytes q = Ok b \<longleftrightarrow> (case find_suffix SUFFIXES q of (number, m) \<Rightarrow>
      decimal 9 number \<and> rounded_up (unat b) (unat m) number \<and> 0 < unat b))
   \<and> (parse_cpu q = Ok c \<longleftrightarrow> 0 < unat c \<and>
      (case strip_suffix ''m'' q of
         Some milli \<Rightarrow> parse_unsigned (2 ^ 32) milli = Some (unat c)
       | None \<Rightarrow> decimal 3 q \<and> unat c * decimal_scale q = decimal_scaled q * 1000))"
proof -
  obtain number m where q: "find_suffix SUFFIXES q = (number, m)" by fastforce
  have "unat b < 2 ^ 64" using unat_less_pow [of b] by simp
  then show ?thesis using parse_bytes_Ok [OF q, of b] parse_cpu_Ok [of q c] by (auto simp: q)
qed

end
