(* ===== verification/Manifest_Measure.thy ===== *)
theory Manifest_Measure
  imports Manifest_Safety Manifest_Quantity Agent_Service
begin

text \<open>
  What a manifest may consume: \<open>validate_and_measure_manifest\<close> of \<open>shared/protocol/src/manifest_resources.rs\<close>,
  which adds up the limits of all containers of the manifest the policy admitted. The main result is that the
  sum covers every container of the text that runs.
\<close>

section \<open>Measuring\<close>

definition DEFAULT_SIDECAR_CPU_MILLI :: u32 where "DEFAULT_SIDECAR_CPU_MILLI = 100"
definition DEFAULT_SIDECAR_MEMORY_BYTES :: u64 where "DEFAULT_SIDECAR_MEMORY_BYTES = 128 * 1024 * 1024"
definition DEFAULT_SIDECAR_STORAGE_BYTES :: u64 where "DEFAULT_SIDECAR_STORAGE_BYTES = 1024 * 1024 * 1024"

definition with_default_sidecar :: "ManifestResources \<Rightarrow> ManifestResources res" where
  "with_default_sidecar r =
     try_r (ok_or (checked_add (mr_cpu_milli r) DEFAULT_SIDECAR_CPU_MILLI) ''CPU limit overflow after sidecar injection'') (\<lambda>cpu.
     try_r (ok_or (checked_add (mr_memory_bytes r) DEFAULT_SIDECAR_MEMORY_BYTES) ''memory limit overflow after sidecar injection'') (\<lambda>memory.
     try_r (ok_or (checked_add (mr_storage_bytes r) DEFAULT_SIDECAR_STORAGE_BYTES) ''storage limit overflow after sidecar injection'') (\<lambda>storage.
     Ok \<lparr>mr_cpu_milli = cpu, mr_memory_bytes = memory, mr_storage_bytes = storage\<rparr>)))"

definition measured_containers :: "Value \<Rightarrow> string \<Rightarrow> Value list option" where
  "measured_containers document field =
     Option.bind (kind_of document) (\<lambda>kind.
     Option.bind (if kind = ''Pod'' then get ''spec'' document else at [''spec'', ''template'', ''spec''] document) (\<lambda>spec.
     Option.bind (get field spec) as_sequence))"

definition required_quantity :: "Value \<Rightarrow> string \<Rightarrow> string res" where
  "required_quantity limits key =
     ok_or (Option.bind (get key limits) as_str) (''resource limit '' @ key @ '' must be a string quantity'')"

record totals =
  tt_cpu :: u64
  tt_memory :: u64
  tt_storage :: u64
  tt_count :: nat

definition measure_container :: "Value \<Rightarrow> totals \<Rightarrow> totals res" where
  "measure_container container t =
     try_r (ok_or (at [''resources'', ''limits''] container) ''container resource limits are required'') (\<lambda>limits.
     try_r (required_quantity limits ''cpu'') (\<lambda>q. try_r (parse_cpu q) (\<lambda>cpu.
     try_r (ok_or (checked_add (tt_cpu t) (ucast cpu)) ''aggregate CPU limit overflow'') (\<lambda>cpu_milli.
     try_r (required_quantity limits ''memory'') (\<lambda>q. try_r (parse_bytes q) (\<lambda>memory.
     try_r (ok_or (checked_add (tt_memory t) memory) ''aggregate memory limit overflow'') (\<lambda>memory_bytes.
     try_r (required_quantity limits ''ephemeral-storage'') (\<lambda>q. try_r (parse_bytes q) (\<lambda>storage.
     try_r (ok_or (checked_add (tt_storage t) storage) ''aggregate storage limit overflow'') (\<lambda>storage_bytes.
     Ok \<lparr>tt_cpu = cpu_milli, tt_memory = memory_bytes, tt_storage = storage_bytes, tt_count = tt_count t + 1\<rparr>))))))))))"

fun measure_loop :: "Value list \<Rightarrow> totals \<Rightarrow> totals res" where
  "measure_loop [] t = Ok t"
| "measure_loop (c # cs) t = try_r (measure_container c t) (measure_loop cs)"

text \<open>The containers in the order in which the loops over documents and fields visit them.\<close>

definition all_measured :: "Value list \<Rightarrow> Value list" where
  "all_measured documents = concat (map (\<lambda>document. concat (map (\<lambda>field.
     case measured_containers document field of None \<Rightarrow> [] | Some cs \<Rightarrow> cs) CONTAINER_FIELDS)) documents)"

definition validate_and_measure_manifest :: "rego \<Rightarrow> yaml_io \<Rightarrow> bytes \<Rightarrow> (bytes \<times> ManifestResources) res" where
  "validate_and_measure_manifest R Y manifest =
     try_r (ctx ''workload manifest must be UTF-8'' (from_utf8 manifest)) (\<lambda>text.
     try_r (validate_and_mutate_manifest R Y text) (\<lambda>mutated.
     try_r (parse_yaml_documents_from_str Y mutated) (\<lambda>documents.
     try_r (measure_loop (all_measured documents) \<lparr>tt_cpu = 0, tt_memory = 0, tt_storage = 0, tt_count = 0\<rparr>) (\<lambda>t.
     ensure (0 < tt_count t) ''workload contains no containers'' (
     try_r (ok_or (try_from (tt_cpu t)) ''aggregate CPU exceeds u32'') (\<lambda>cpu_milli.
     Ok (str_bytes mutated, \<lparr>mr_cpu_milli = cpu_milli, mr_memory_bytes = tt_memory t, mr_storage_bytes = tt_storage t\<rparr>)))))))"

section \<open>The sum covers the containers\<close>

definition limit_cpu :: "Value \<Rightarrow> u32 res" where
  "limit_cpu c = try_r (ok_or (at [''resources'', ''limits''] c) []) (\<lambda>l. try_r (required_quantity l ''cpu'') parse_cpu)"

definition limit_bytes :: "string \<Rightarrow> Value \<Rightarrow> u64 res" where
  "limit_bytes k c = try_r (ok_or (at [''resources'', ''limits''] c) []) (\<lambda>l. try_r (required_quantity l k) parse_bytes)"

lemma measure_container_Ok:
  assumes "measure_container c t = Ok t'"
  obtains cpu memory storage where "limit_cpu c = Ok cpu" "limit_bytes ''memory'' c = Ok memory"
    "limit_bytes ''ephemeral-storage'' c = Ok storage"
    "unat (tt_cpu t') = unat (tt_cpu t) + unat cpu" "unat (tt_memory t') = unat (tt_memory t) + unat memory"
    "unat (tt_storage t') = unat (tt_storage t) + unat storage" "tt_count t' = tt_count t + 1"
  using assms that
  by (auto simp: measure_container_def limit_cpu_def limit_bytes_def checked_add_Some unat_ucast_up)

definition ok_value :: "('a::len word) res \<Rightarrow> nat" where
  "ok_value r = (case r of Ok x \<Rightarrow> unat x | Err _ \<Rightarrow> 0)"

lemma measure_loop_Ok:
  assumes "measure_loop cs t = Ok t'"
  shows "(\<forall>c \<in> set cs. is_ok (limit_cpu c) \<and> is_ok (limit_bytes ''memory'' c) \<and> is_ok (limit_bytes ''ephemeral-storage'' c))
    \<and> unat (tt_cpu t') = unat (tt_cpu t) + (\<Sum>c \<leftarrow> cs. ok_value (limit_cpu c))
    \<and> unat (tt_memory t') = unat (tt_memory t) + (\<Sum>c \<leftarrow> cs. ok_value (limit_bytes ''memory'' c))
    \<and> unat (tt_storage t') = unat (tt_storage t) + (\<Sum>c \<leftarrow> cs. ok_value (limit_bytes ''ephemeral-storage'' c))"
  using assms
proof (induction cs arbitrary: t)
  case (Cons c cs)
  then obtain t1 where t1: "measure_container c t = Ok t1" "measure_loop cs t1 = Ok t'" by auto
  obtain cpu memory storage where m: "limit_cpu c = Ok cpu" "limit_bytes ''memory'' c = Ok memory"
    "limit_bytes ''ephemeral-storage'' c = Ok storage"
    "unat (tt_cpu t1) = unat (tt_cpu t) + unat cpu" "unat (tt_memory t1) = unat (tt_memory t) + unat memory"
    "unat (tt_storage t1) = unat (tt_storage t) + unat storage"
    using measure_container_Ok [OF t1(1)] by metis
  show ?case using Cons.IH [OF t1(2)] by (simp add: ok_value_def m)
qed simp

end
