(* ===== verification/Sidecar_Inject.thy ===== *)
theory Sidecar_Inject
  imports Service_Manifest Manifest_Measure Agent_Example
begin

text \<open>
  The sidecar an agent adds to a manifest (\<open>podmesh-agent/src/sidecar.rs\<close>, with the metadata of
  \<open>shared/protocol/src/sidecar_metadata.rs\<close>) and the name the Podman runtime then gives to the pod and its
  network (\<open>podmesh-agent/src/runtime.rs\<close>, \<open>podmesh-agent/src/runtime/network.rs\<close>).

  \<open>inject\<close> passes the documents through JSON; the tree keeps the order of its entries there, which nothing in
  the sources reads.
\<close>

section \<open>Metadata\<close>

record SidecarMetadata =
  sm_workload_name :: string
  sm_manifest_id :: string
  sm_replica_index :: u32
  sm_replica_count :: u32
  sm_manifest_b64 :: string
  sm_owner_public_key_b64 :: string
  sm_proxy_endpoints :: "EndpointRecord list"
  sm_service_catalog :: "ServiceCatalog option"
  sm_workload_credential_b64 :: string
  sm_workload_relay_auth_token :: string
  sm_workload_relay_ca_certificates :: "bytes list"

definition METADATA_BLOB_ENV_VAR :: string where "METADATA_BLOB_ENV_VAR = ''PODMESH_SIDECAR_METADATA_B64''"

definition check_catalog :: "'tok service_env \<Rightarrow> yaml_io \<Rightarrow> SidecarMetadata \<Rightarrow> EnrollmentDelegation \<Rightarrow> unit res" where
  "check_catalog E Y m delegation =
     (case sm_service_catalog m of
        None \<Rightarrow> Ok ()
      | Some catalog \<Rightarrow>
          try_r (ServiceCatalog_verify E catalog (sm_owner_public_key_b64 m)) (\<lambda>_.
          try_r (if ct_manifest_id catalog = sm_manifest_id m \<and> ct_revision_id catalog = sc_revision_id (dl_scope delegation)
                 then try_r (b64_decode (se_crates E) (sm_manifest_b64 m)) (\<lambda>manifest.
                      try_r (workload_services Y manifest) (\<lambda>services. Ok (ct_services catalog = services)))
                 else Ok False) (\<lambda>same.
          ensure same ''sidecar service catalog mismatch'' (Ok ()))))"

definition SidecarMetadata_validate :: "'tok service_env \<Rightarrow> yaml_io \<Rightarrow> SidecarMetadata \<Rightarrow> unit res" where
  "SidecarMetadata_validate E Y m =
     (let C = se_crates E in
     ensure (sm_workload_name m \<noteq> [] \<and> length (sm_workload_name m) \<le> 253) ''invalid workload name'' (
     try_r (b64_decode C (sm_owner_public_key_b64 m)) (\<lambda>owner.
     ensure (length owner = 32) ''owner_public_key_b64 must decode to 32 bytes'' (
     ensure (sm_manifest_id m = route_id C owner (sm_workload_name m))
       ''manifest_id is not derived from the owner key and workload name'' (
     ensure (1 \<le> sm_replica_count m \<and> sm_replica_count m \<le> MAX_WORKLOAD_REPLICAS)
       ''replica count must be between 1 and 64'' (
     ensure (sm_replica_index m < sm_replica_count m) ''replica index is outside the deployment'' (
     ensure (sm_proxy_endpoints m \<noteq> [] \<and> length (sm_proxy_endpoints m) \<le> MAX_PROXY_ENDPOINTS)
       ''invalid proxy endpoint count'' (
     try_r (for_each_r (EndpointRecord_verify_structure C (se_pc_endpoint E)) (sm_proxy_endpoints m)) (\<lambda>_.
     try_r (EnrollmentDelegation_from_b64 C (se_json E) (sm_workload_credential_b64 m)) (\<lambda>delegation.
     try_r (EnrollmentDelegation_verify_scope C (se_biscuit E) delegation (sm_owner_public_key_b64 m) (sm_manifest_id m)
         (workload_id C owner (sm_workload_name m) (sm_replica_index m)) None None) (\<lambda>_.
     try_r (b64_decode C (sm_manifest_b64 m)) (\<lambda>manifest.
     ensure (sc_revision_id (dl_scope delegation) = revision_id C manifest) ''sidecar enrollment revision mismatch'' (
     try_r (check_catalog E Y m delegation) (\<lambda>_.
     ensure (32 \<le> length (sm_workload_relay_auth_token m) \<and> length (sm_workload_relay_auth_token m) \<le> 4 * 1024)
       ''invalid workload relay auth token length'' (
     ensure (length (sm_workload_relay_ca_certificates m) \<le> 8) ''too many workload relay CA certificates'' (
     for_each_r (\<lambda>certificate. ensure (certificate \<noteq> [] \<and> length certificate \<le> 64 * 1024)
       ''invalid workload relay CA certificate size'' (Ok ())) (sm_workload_relay_ca_certificates m)))))))))))))))))"

section \<open>Injection\<close>

definition SIDECAR_NAME :: string where "SIDECAR_NAME = ''podmesh-sidecar''"
definition RUNTIME_NAME_PREFIX :: string where "RUNTIME_NAME_PREFIX = ''podmesh-''"
definition MAX_DNS_LABEL_LEN :: nat where "MAX_DNS_LABEL_LEN = 63"
definition PODMAN_WORKLOAD_SUFFIX_LEN :: nat where "PODMAN_WORKLOAD_SUFFIX_LEN = length ''-pod''"

definition workload_runtime_name :: "crates \<Rightarrow> string \<Rightarrow> string" where
  "workload_runtime_name C wid =
     RUNTIME_NAME_PREFIX @ take (MAX_DNS_LABEL_LEN - PODMAN_WORKLOAD_SUFFIX_LEN - length RUNTIME_NAME_PREFIX)
       (blake3_hex C (str_bytes wid))"

text \<open>The listen address is given by its rendering and its port.\<close>

record SidecarInjection =
  si_workload_id :: string
  si_workload_name :: string
  si_replica_index :: u32
  si_replica_count :: u32
  si_namespace_id :: string
  si_sidecar_image :: string
  si_proxy_endpoints :: "EndpointRecord list"
  si_service_catalog :: "ServiceCatalog option"
  si_workload_credential_b64 :: string
  si_workload_relay_auth_token :: string
  si_workload_relay_ca_certificates :: "bytes list"
  si_metrics_listen :: "(string \<times> u16) option"

definition sidecar_metadata :: "crates \<Rightarrow> bytes \<Rightarrow> SidecarInjection \<Rightarrow> bytes \<Rightarrow> SidecarMetadata" where
  "sidecar_metadata C manifest i owner =
     \<lparr>sm_workload_name = si_workload_name i, sm_manifest_id = route_id C owner (si_workload_name i),
      sm_replica_index = si_replica_index i, sm_replica_count = si_replica_count i,
      sm_manifest_b64 = b64_encode C manifest, sm_owner_public_key_b64 = si_namespace_id i,
      sm_proxy_endpoints = si_proxy_endpoints i, sm_service_catalog = si_service_catalog i,
      sm_workload_credential_b64 = si_workload_credential_b64 i,
      sm_workload_relay_auth_token = si_workload_relay_auth_token i,
      sm_workload_relay_ca_certificates = si_workload_relay_ca_certificates i\<rparr>"

definition env_entry :: "string \<Rightarrow> string \<Rightarrow> Value" where
  "env_entry name text = VMap [(''name'', VStr name), (''value'', VStr text)]"

definition sidecar_environment :: "string \<Rightarrow> (string \<times> u16) option \<Rightarrow> Value list" where
  "sidecar_environment blob listen =
    [env_entry METADATA_BLOB_ENV_VAR blob,
     env_entry ''PODMESH_CONNECTOR_SOCKET'' ''/var/run/podmesh/connector/control.sock'',
     env_entry ''PODMESH_CONNECTOR_IDENTITY_DIR'' ''/var/lib/podmesh-connector/identity'',
     env_entry ''PODMESH_ENABLE_EGRESS'' ''true'',
     env_entry ''RUST_LOG'' ''info'']
    @ (case listen of None \<Rightarrow> [] | Some (address, _) \<Rightarrow> [env_entry ''PODMESH_METRICS_LISTEN'' address])"

definition sidecar_container :: "string \<Rightarrow> string \<Rightarrow> (string \<times> u16) option \<Rightarrow> Value" where
  "sidecar_container img blob listen =
     VMap ([(''name'', VStr SIDECAR_NAME), (''image'', VStr img), (''imagePullPolicy'', VStr ''IfNotPresent''),
        (''env'', VSeq (sidecar_environment blob listen)),
        (''securityContext'', VMap [(''runAsUser'', VNum (Whole 0)), (''runAsNonRoot'', VBool False),
           (''capabilities'', VMap [(''add'', VSeq [VStr ''NET_ADMIN''])])])]
      @ (case listen of None \<Rightarrow> [] | Some (_, port) \<Rightarrow>
          [(''ports'', VSeq [VMap [(''containerPort'', VNum (Whole (uint port))), (''protocol'', VStr ''TCP'')]])]))"

definition pod_spec_path :: "Value \<Rightarrow> string list" where
  "pod_spec_path doc = (if kind_of doc = Some ''Pod'' then [''spec''] else [''spec'', ''template'', ''spec''])"

definition set_name :: "string \<Rightarrow> Value \<Rightarrow> Value" where
  "set_name name v = (case v of VMap m \<Rightarrow> VMap (map_insert ''name'' (VStr name) m) | _ \<Rightarrow> v)"

text \<open>One document: none when it has no pod specification.\<close>

definition inject_document :: "string \<Rightarrow> Value \<Rightarrow> Value \<Rightarrow> Value option res" where
  "inject_document runtime_name sidecar doc =
     (case at (pod_spec_path doc) doc of
        None \<Rightarrow> Ok None
      | Some spec \<Rightarrow>
          try_r (ok_or (Option.bind (get ''metadata'' doc) as_mapping) ''workload metadata must be an object'') (\<lambda>_.
          let named = modify ''metadata'' (set_name runtime_name) doc in
          try_r (ok_or (Option.bind (get ''containers'' spec) as_sequence) ''pod spec containers must be an array'') (\<lambda>containers.
          ensure (\<not> list_ex (\<lambda>c. get ''name'' c = Some (VStr SIDECAR_NAME)) containers)
            ''manifest already contains a podmesh sidecar''
            (Ok (Some (modify_at (pod_spec_path doc @ [''containers'']) (\<lambda>_. VSeq (containers @ [sidecar])) named))))))"

definition inject_documents :: "string \<Rightarrow> Value \<Rightarrow> Value list \<Rightarrow> Value list res" where
  "inject_documents runtime_name sidecar docs =
     try_r (collect_r (map (inject_document runtime_name sidecar) docs)) (\<lambda>out.
     let injected = concat (map (\<lambda>o'. case o' of None \<Rightarrow> [] | Some d \<Rightarrow> [d]) out) in
     ensure (0 < length injected) ''manifest does not contain a supported pod spec'' (
     ensure (length injected = 1) ''a workload may contain only one pod-bearing document'' (Ok injected)))"

text \<open>\<open>js_metadata\<close> is \<open>serde_json::to_vec\<close> for the metadata.\<close>

definition inject ::
  "'tok service_env \<Rightarrow> yaml_io \<Rightarrow> (SidecarMetadata \<Rightarrow> bytes res) \<Rightarrow> bytes \<Rightarrow> SidecarInjection \<Rightarrow> bytes res" where
  "inject E Y js_metadata manifest i =
     try_r (ctx ''decode namespace owner key'' (b64_decode (se_crates E) (si_namespace_id i))) (\<lambda>owner.
     let metadata = sidecar_metadata (se_crates E) manifest i owner in
     try_r (SidecarMetadata_validate E Y metadata) (\<lambda>_.
     try_r (js_metadata metadata) (\<lambda>blob.
     try_r (ctx ''decode canonical workload manifest'' (parse_yaml_documents_from_slice Y manifest)) (\<lambda>docs.
     try_r (inject_documents (workload_runtime_name (se_crates E) (si_workload_id i))
         (sidecar_container (si_sidecar_image i) (b64_encode (se_crates E) blob) (si_metrics_listen i)) docs) (\<lambda>out.
     try_r (serialize_yaml_documents Y out) (\<lambda>text. Ok (str_bytes text)))))))"

section \<open>The names Podman sees\<close>

definition is_ascii_alphanumeric :: "char \<Rightarrow> bool" where
  "is_ascii_alphanumeric c \<longleftrightarrow>
     is_ascii_digit c \<or> is_ascii_lowercase c \<or> 65 \<le> (of_char c :: nat) \<and> (of_char c :: nat) \<le> 90"

definition document_pod_name :: "Value \<Rightarrow> string res" where
  "document_pod_name doc =
     try_r (ok_or (Option.bind (at [''metadata'', ''name''] doc) as_str) ''workload metadata.name is required'') (\<lambda>name.
     ensure (length name \<le> 253 \<and> list_all (\<lambda>c. is_ascii_alphanumeric c \<or> c = CHR ''-'' \<or> c = CHR ''.'') name)
       ''invalid workload name''
       (Ok (if kind_of doc = Some ''Pod'' then name else name @ ''-pod'')))"

definition pod_name :: "yaml_io \<Rightarrow> bytes \<Rightarrow> string res" where
  "pod_name Y manifest =
     try_r (ctx ''parse workload manifest'' (parse_yaml_documents_from_slice Y manifest)) (\<lambda>documents.
     try_r (ok_or (find (\<lambda>doc. at (pod_spec_path doc) doc \<noteq> None) documents) ''manifest does not contain a pod workload'')
       document_pod_name)"

definition validate_prefix :: "string \<Rightarrow> unit res" where
  "validate_prefix pre =
     ensure (pre \<noteq> [] \<and> length pre \<le> 63 \<and> is_ascii_alphanumeric (hd pre)
         \<and> list_all (\<lambda>c. is_ascii_alphanumeric c \<or> c = CHR ''-'' \<or> c = CHR ''_'' \<or> c = CHR ''.'') pre)
       ''invalid workload network prefix'' (Ok ())"

definition tenant_digest :: "crates \<Rightarrow> string \<Rightarrow> string res" where
  "tenant_digest C namespace_id =
     try_r (ctx ''decode network tenant identity'' (b64_decode C namespace_id)) (\<lambda>owner.
     ensure (length owner = 32) ''invalid network tenant identity length'' (Ok (blake3_hex C owner)))"

definition tenant_network_name :: "crates \<Rightarrow> string \<Rightarrow> string \<Rightarrow> string res" where
  "tenant_network_name C pre namespace_id =
     try_r (validate_prefix pre) (\<lambda>_.
     try_r (tenant_digest C namespace_id) (\<lambda>digest. Ok (pre @ ''-'' @ digest)))"

record Network =
  nw_name :: string
  nw_driver :: string
  nw_dns_enabled :: bool
  nw_internal :: bool
  nw_labels :: "(string, string) hmap"

text \<open>The networks are what \<open>serde_json\<close> made of Podman's answer.\<close>

definition validate_network :: "Network list res \<Rightarrow> string \<Rightarrow> string \<Rightarrow> unit res" where
  "validate_network parsed name tenant =
     try_r (ctx ''inspect tenant network'' parsed) (\<lambda>networks.
     ensure (length networks = 1) ''expected exactly one tenant network'' (
     let network = hd networks in
     ensure (nw_name network = name \<and> nw_driver network = ''bridge'' \<and> nw_dns_enabled network \<and> \<not> nw_internal network
         \<and> hm_get (nw_labels network) ''io.podmesh.managed'' = Some ''true''
         \<and> hm_get (nw_labels network) ''io.podmesh.tenant'' = Some tenant)
       (''tenant network ownership or configuration mismatch: '' @ name) (Ok ())))"

section \<open>What injection does\<close>

lemma as_mapping_Some: "as_mapping v = Some m \<longleftrightarrow> v = VMap m"
  by (cases v) auto

lemma as_sequence_Some: "as_sequence v = Some vs \<longleftrightarrow> v = VSeq vs"
  by (cases v) auto

lemma inject_document_Some:
  assumes "inject_document name sidecar doc = Ok (Some doc')"
  obtains spec containers where "at (pod_spec_path doc) doc = Some spec" "get ''containers'' spec = Some (VSeq containers)"
    "\<not> list_ex (\<lambda>c. get ''name'' c = Some (VStr SIDECAR_NAME)) containers" "is_map (index ''metadata'' doc)"
    "doc' = modify_at (pod_spec_path doc @ [''containers'']) (\<lambda>_. VSeq (containers @ [sidecar]))
       (modify ''metadata'' (set_name name) doc)"
  using assms by (auto simp: inject_document_def Let_def bind_eq_Some_conv as_mapping_Some as_sequence_Some index_def split: option.splits)

lemma pod_spec_path_spec: "\<exists>p. pod_spec_path doc = ''spec'' # p"
  by (simp add: pod_spec_path_def)

lemma at_append: "at (p @ q) v = Option.bind (at p v) (at q)"
proof (induction p arbitrary: v)
  case (Cons k p)
  show ?case by (cases "get k v") (simp_all add: at.simps Cons)
qed simp

lemma at_path_other: "k \<noteq> ''spec'' \<Longrightarrow> at (k # r) (modify_at (pod_spec_path d @ q) f v) = at (k # r) v"
  using pod_spec_path_spec [of d] at_modify_other [of k "''spec''" "[]" r _ f v] by auto

lemma at_modify_metadata: "k \<noteq> ''metadata'' \<Longrightarrow> at (k # r) (modify ''metadata'' f v) = at (k # r) v"
  by (intro at_Cons_cong) (simp add: get_modify)

lemma inject_document_effect:
  assumes "inject_document name sidecar doc = Ok (Some doc')"
  shows "at [''metadata'', ''name''] doc' = Some (VStr name)" "kind_of doc' = kind_of doc"
    "\<exists>cs. at (pod_spec_path doc @ [''containers'']) doc = Some (VSeq cs)
       \<and> at (pod_spec_path doc @ [''containers'']) doc' = Some (VSeq (cs @ [sidecar]))
       \<and> \<not> list_ex (\<lambda>c. get ''name'' c = Some (VStr SIDECAR_NAME)) cs"
    "k \<noteq> ''metadata'' \<Longrightarrow> k \<noteq> ''spec'' \<Longrightarrow> get k doc' = get k doc"
    "k \<noteq> ''containers'' \<Longrightarrow> at (pod_spec_path doc @ k # r) doc' = at (pod_spec_path doc @ k # r) doc"
proof -
  let ?p = "pod_spec_path doc" and ?named = "modify ''metadata'' (set_name name) doc"
  obtain spec cs where s: "at ?p doc = Some spec" "get ''containers'' spec = Some (VSeq cs)"
    "\<not> list_ex (\<lambda>c. get ''name'' c = Some (VStr SIDECAR_NAME)) cs" "is_map (index ''metadata'' doc)"
    "doc' = modify_at (?p @ [''containers'']) (\<lambda>_. VSeq (cs @ [sidecar])) ?named"
    using inject_document_Some [OF assms] by metis
  obtain p' where p': "?p = ''spec'' # p'" using pod_spec_path_spec by blast
  have named: "at (?p @ r) ?named = at (?p @ r) doc" for r
    unfolding p' using at_modify_metadata [of "''spec''" "p' @ r"] by simp
  obtain m where m: "get ''metadata'' doc = Some (VMap m)"
    using s(4) by (cases "get ''metadata'' doc"; cases "index ''metadata'' doc") (auto simp: index_def)
  have "at [''metadata'', ''name''] doc' = at [''metadata'', ''name''] ?named"
    unfolding s(5) by (rule at_path_other) simp
  then show "at [''metadata'', ''name''] doc' = Some (VStr name)"
    by (simp add: at.simps get_modify m set_name_def get_map_insert)
  show other: "get k doc' = get k doc" if "k \<noteq> ''metadata''" "k \<noteq> ''spec''" for k
    using at_path_other [OF that(2), of "[]"] that(1) unfolding s(5) by (simp add: get_modify)
  show "kind_of doc' = kind_of doc" by (simp add: kind_of_def other)
  have at_cs: "at (?p @ [''containers'']) v = Option.bind (at ?p v) (get ''containers'')" for v
    by (simp add: at_append)
  show "\<exists>cs. at (?p @ [''containers'']) doc = Some (VSeq cs) \<and> at (?p @ [''containers'']) doc' = Some (VSeq (cs @ [sidecar]))
       \<and> \<not> list_ex (\<lambda>c. get ''name'' c = Some (VStr SIDECAR_NAME)) cs"
    using s at_modify_within [of "?p @ [''containers'']" "[]" "\<lambda>_. VSeq (cs @ [sidecar])" ?named] named [of "[''containers'']"]
    by (simp add: at_cs)
  show "at (?p @ k # r) doc' = at (?p @ k # r) doc" if "k \<noteq> ''containers''"
    unfolding s(5) at_modify_other [OF that] by (rule named)
qed

definition bears_pod :: "Value \<Rightarrow> bool" where
  "bears_pod doc \<longleftrightarrow> at (pod_spec_path doc) doc \<noteq> None"

lemma inject_document_None: "inject_document name sidecar doc = Ok o' \<Longrightarrow> o' = None \<longleftrightarrow> \<not> bears_pod doc"
  by (auto simp: inject_document_def bears_pod_def Let_def split: option.splits)

lemma injected_list:
  "map (inject_document name sidecar) docs = map Ok outs \<Longrightarrow>
   list_all2 (\<lambda>doc doc'. inject_document name sidecar doc = Ok (Some doc')) (filter bears_pod docs)
     (concat (map (\<lambda>o'. case o' of None \<Rightarrow> [] | Some d \<Rightarrow> [d]) outs))"
proof (induction docs arbitrary: outs)
  case (Cons doc docs)
  then obtain o' rest where o': "outs = o' # rest" "inject_document name sidecar doc = Ok o'"
    "map (inject_document name sidecar) docs = map Ok rest" by (cases outs) auto
  show ?case using Cons.IH [OF o'(3)] inject_document_None [OF o'(2)] o' by (cases o') auto
qed simp

lemma inject_documents_Ok:
  assumes "inject_documents name sidecar docs = Ok out"
  obtains doc doc' where "filter bears_pod docs = [doc]" "inject_document name sidecar doc = Ok (Some doc')" "out = [doc']"
proof -
  obtain outs where o: "map (inject_document name sidecar) docs = map Ok outs"
    "out = concat (map (\<lambda>o'. case o' of None \<Rightarrow> [] | Some d \<Rightarrow> [d]) outs)" "length out = 1"
    using assms by (auto simp: inject_documents_def Let_def collect_r_map_Ok)
  from injected_list [OF o(1)] have l: "list_all2 (\<lambda>doc doc'. inject_document name sidecar doc = Ok (Some doc')) (filter bears_pod docs) out"
    using o(2) by simp
  obtain doc' where "out = [doc']" using o(3) by (auto simp: length_Suc_conv)
  with l that show thesis by (auto simp: list_all2_Cons2)
qed

text \<open>Bytes and text.\<close>

lemma parse_from_slice: "parse_yaml_documents_from_slice Y (str_bytes s) = parse_yaml_documents_from_str Y s"
proof -
  have "char_of (unat (word_of_nat (of_char c) :: u8)) = c" for c
    using nat_of_char_less_256 [of c] by (simp add: unat_of_nat)
  then have "map (\<lambda>x. char_of (unat x)) (str_bytes s) = s" by (simp add: str_bytes_def comp_def)
  then show ?thesis by (simp add: parse_yaml_documents_from_slice_def)
qed

lemma inject_Ok:
  assumes "inject E Y js_metadata manifest i = Ok out"
  obtains docs doc doc' sidecar printed where "parse_yaml_documents_from_slice Y manifest = Ok docs"
    "filter bears_pod docs = [doc]"
    "inject_document (workload_runtime_name (se_crates E) (si_workload_id i)) sidecar doc = Ok (Some doc')"
    "serialize_yaml_documents Y [doc'] = Ok printed" "out = str_bytes printed"
    "\<exists>blob. sidecar = sidecar_container (si_sidecar_image i) blob (si_metrics_listen i)"
proof -
  obtain blob docs outd printed where o: "parse_yaml_documents_from_slice Y manifest = Ok docs"
    "inject_documents (workload_runtime_name (se_crates E) (si_workload_id i))
       (sidecar_container (si_sidecar_image i) blob (si_metrics_listen i)) docs = Ok outd"
    "serialize_yaml_documents Y outd = Ok printed" "out = str_bytes printed"
    using assms by (auto simp: inject_def Let_def)
  show thesis
    by (rule inject_documents_Ok [OF o(2)]) (use that o in blast)
qed

section \<open>Properties\<close>


section \<open>An injection\<close>

definition toy_injection :: SidecarInjection where
  "toy_injection = \<lparr>si_workload_id = dg_workload_id run_grant, si_workload_name = ex_workload_name run_spec,
     si_replica_index = ex_replica_index run_spec, si_replica_count = ex_replica_count run_spec,
     si_namespace_id = toy_b64 (replicate 32 3), si_sidecar_image = ''sidecar'',
     si_proxy_endpoints = ex_proxy_endpoints run_spec, si_service_catalog = None,
     si_workload_credential_b64 = ex_workload_credential_b64 run_spec,
     si_workload_relay_auth_token = ex_workload_relay_auth_token run_spec,
     si_workload_relay_ca_certificates = [], si_metrics_listen = Some (''127.0.0.1:9090'', 9090)\<rparr>"

definition toy_service_env :: "fact list service_env" where
  "toy_service_env = (cn_env (ae_connector run_env))\<lparr>se_pc_endpoint := (\<lambda>_. Ok [1])\<rparr>"

lemma toy_service_env_simps [simp]:
  "se_crates toy_service_env = run_crates" "se_biscuit toy_service_env = run_biscuit"
  "se_pc_endpoint toy_service_env = (\<lambda>_. Ok [1])"
  "js_parse_delegation (se_json toy_service_env) =
     (\<lambda>_. Ok \<lparr>dl_version = 1, dl_scope = run_scope, dl_biscuit_b64 = toy_b64 [1]\<rparr>)"
  by (simp_all add: toy_service_env_def run_env_def)

lemma toy_metadata_valid:
  "SidecarMetadata_validate toy_service_env Y (sidecar_metadata run_crates m toy_injection (replicate 32 3)) = Ok ()"
  using run_delegation run_endpoint
  by (simp add: SidecarMetadata_validate_def sidecar_metadata_def toy_injection_def run_spec_def Let_def check_catalog_def
      MAX_WORKLOAD_REPLICAS_def MAX_PROXY_ENDPOINTS_def route_id_def workload_id_def revision_id_def
      EnrollmentDelegation_from_b64_def identity_decode_b64_def identity_decode_def EnrollmentDelegation_verify_scope_def
      div_ceil_def MAX_DELEGATION_BYTES_def) (simp add: run_scope_def toy_scope_def toy_b64_def)

lemma toy_injects:
  "\<exists>out. inject toy_service_env (toy_yaml [toy_pod [toy_container] inits]) (\<lambda>_. Ok [1]) m toy_injection = Ok out"
proof -
  have doc: "inject_document name sidecar (toy_pod [toy_container] inits) = Ok (Some
      (modify_at [''spec'', ''containers''] (\<lambda>_. VSeq [toy_container, sidecar])
        (modify ''metadata'' (set_name name) (toy_pod [toy_container] inits))))" for name sidecar
    by (simp add: inject_document_def toy_pod_def toy_container_def pod_spec_path_def kind_of_def SIDECAR_NAME_def at.simps)
  have owner: "b64_decode run_crates (si_namespace_id toy_injection) = Ok (replicate 32 3)" by (simp add: toy_injection_def)
  show ?thesis unfolding inject_def toy_service_env_simps owner
    by (simp add: toy_metadata_valid Let_def parse_yaml_documents_from_slice_def parse_yaml_documents_from_str_def
        inject_documents_def doc serialize_yaml_documents_def toy_yaml_def)
       (simp add: toy_pod_def)
qed


section \<open>A container under the sidecar's name\<close>

definition impostor :: Value where
  "impostor = VMap [(''name'', VStr SIDECAR_NAME),
     (''securityContext'', VMap [(''runAsUser'', VNum (Whole 0)), (''capabilities'', VMap [(''add'', VSeq [VStr ''NET_ADMIN''])])]),
     (''volumeMounts'', VSeq [VMap [(''name'', VStr ''tmp''), (''mountPath'', VStr ''/var/lib/podmesh-connector'')]])]"

definition impostor_spec :: "Value list \<Rightarrow> Value" where
  "impostor_spec more_containers = VMap [(''containers'', VSeq (VMap [(''name'', VStr ''app'')] # more_containers)),
     (''initContainers'', VSeq [impostor]), (''volumes'', VSeq [VMap [(''name'', VStr ''tmp''), (''emptyDir'', VMap [])]])]"

definition impostor_pod :: "string \<Rightarrow> Value list \<Rightarrow> Value" where
  "impostor_pod name more_containers =
     VMap [(''kind'', VStr ''Pod''), (''metadata'', VMap [(''name'', VStr name)]), (''spec'', impostor_spec more_containers)]"

text \<open>The rules ask of a container what they ask of the injected sidecar, if it has that name.\<close>

lemma impostor_pod_quiet:
  assumes "more_containers = [] \<or> more_containers = [sidecar_container img blob None]"
  shows "policy_violations R (impostor_pod name more_containers) = Ok []"
proof -
  let ?doc = "impostor_pod name more_containers" and ?cs = "VMap [(''name'', VStr ''app'')] # more_containers @ [impostor]"
  have spec: "rego_pod_spec ?doc = Ok [impostor_spec more_containers]"
    by (simp add: impostor_pod_def rego_pod_spec_def ref_def)
  have cs: "bind_s (all_containers R ?doc) (some_in R) = Ok ?cs"
    by (simp add: all_containers_def input_containers_def init_containers_def ephemeral_containers_def spec arr0_def impostor_spec_def)
  have each: "each_container R ?doc body = Ok [] \<longleftrightarrow> (\<forall>c \<in> set ?cs. body c = Ok [])" for body :: "Value \<Rightarrow> string sols"
    by (simp add: each_container_def cs bind_list_no_sols)
  note rules = rule_privileged_def rule_escalation_def rule_capabilities_def rule_sidecar_capabilities_def
    rule_run_as_root_def rule_may_be_root_def rule_proc_mount_def rule_seccomp_def rule_apparmor_def rule_selinux_def
  have cases: "P (VMap [(''name'', VStr ''app'')]) \<Longrightarrow> P impostor \<Longrightarrow> P (sidecar_container img blob None) \<Longrightarrow> \<forall>c \<in> set ?cs. P c" for P
    using assms by auto
  have "list_all (\<lambda>r. r R ?doc = Ok []) container_rules"
    unfolding container_rules_def rules each list.pred_inject
    by (intro conjI cases TrueI)
       (simp_all add: impostor_def sidecar_container_def ref_def must_def security_context_def added_capabilities_def
         obj0_def arr0_def is_injected_sidecar_def SIDECAR_NAME_def INJECTED_SIDECAR_NAME_def at.simps)
  moreover have "list_all (\<lambda>r. r R ?doc = Ok []) document_rules"
    unfolding document_rules_def rule_pod_seccomp_def rule_pod_apparmor_def rule_pod_selinux_def rule_pod_sysctls_def
      rule_host_ports_def rule_volumes_def rule_volume_mounts_def each list.pred_inject pod_context_def spec pod_volumes_def
      rule_annotations_def all_annotations_def annotations_at_def
    by (intro conjI cases TrueI)
       (simp_all add: impostor_def sidecar_container_def ref_def must_def security_context_def obj0_def arr0_def
         impostor_pod_def impostor_spec_def keys_of_def is_injected_sidecar_def SIDECAR_NAME_def INJECTED_SIDECAR_NAME_def
         is_safe_emptydir_volume_def)
  moreover have "list_all (\<lambda>r. r = Ok []) (rule_pod_namespaces R ?doc)"
    unfolding rule_pod_namespaces_def pod_rule_def list.pred_inject spec impostor_spec_def by (simp add: ref_def at.simps)
  ultimately show ?thesis unfolding policy_violations_def partial_set_empty by (auto simp: list_all_iff)
qed

text \<open>C32: an init container may pose as the sidecar. The policy recognises the injected sidecar by its name, in
  every list of containers, while injection only refuses that name among the regular ones. A tenant's init
  container of that name, running as root with \<open>NET_ADMIN\<close> and a mount under the connector's directory, passes
  the policy before and after the injection, whatever the settings of the engine.\<close>

theorem init_container_poses_as_sidecar:
  "policy_violations R (impostor_pod ''demo'' []) = Ok []
   \<and> (\<exists>doc. inject_document name (sidecar_container img blob None) (impostor_pod ''demo'' []) = Ok (Some doc)
        \<and> policy_violations R doc = Ok [] \<and> validate_document_shape [doc] = []
        \<and> at [''spec'', ''initContainers''] doc = Some (VSeq [impostor])
        \<and> at [''securityContext'', ''capabilities'', ''add''] impostor = Some (VSeq [VStr ''NET_ADMIN''])
        \<and> \<not> is_safe_volume_mount (volume_names (impostor_spec [])) (hd (items_at [''volumeMounts''] impostor)))"
proof -
  let ?doc = "impostor_pod name [sidecar_container img blob None]"
  have "inject_document name (sidecar_container img blob None) (impostor_pod ''demo'' []) = Ok (Some ?doc)"
    by (simp add: inject_document_def impostor_pod_def impostor_spec_def pod_spec_path_def kind_of_def SIDECAR_NAME_def
        at.simps set_name_def)
  moreover have "validate_document_shape [?doc] = []"
    by (simp add: validate_document_shape_def document_shape_def kind_of_def impostor_pod_def impostor_spec_def
        SUPPORTED_POD_KINDS_def pod_spec_def pod_shape_def at.simps)
  moreover have "at [''spec'', ''initContainers''] ?doc = Some (VSeq [impostor])"
    by (simp add: impostor_pod_def impostor_spec_def at.simps)
  moreover have "at [''securityContext'', ''capabilities'', ''add''] impostor = Some (VSeq [VStr ''NET_ADMIN''])"
    "\<not> is_safe_volume_mount (volume_names (impostor_spec [])) (hd (items_at [''volumeMounts''] impostor))"
    by code_simp+
  ultimately show ?thesis using impostor_pod_quiet [of "[]" img blob R] impostor_pod_quiet [of "[sidecar_container img blob None]" img blob R]
    by blast
qed

end
