(* ===== verification/Agent_Manifest.thy ===== *)
theory Agent_Manifest
  imports Sidecar_Inject
begin

text \<open>
  An agent whose parameters for manifests are the definitions of \<open>Sidecar_Inject\<close> and \<open>Manifest_Measure\<close>, with
  the Podman runtime's name of a pod: what it hands to the runtime is confined, stays within its reservation,
  and is named after its workload.
\<close>

section \<open>The composed agent\<close>

text \<open>What \<open>serde_yaml\<close> printed it reads back.\<close>

definition yaml_law :: "yaml_io \<Rightarrow> bool" where
  "yaml_law Y \<longleftrightarrow> (\<forall>docs. VNull \<notin> set docs \<longrightarrow> reads_back Y docs)"

text \<open>The call of \<open>inject\<close> in \<open>AgentService::runtime_manifest\<close>; image and listen address are from the
  configuration.\<close>

definition injection_of :: "string \<Rightarrow> (string \<times> u16) option \<Rightarrow> string \<Rightarrow> string \<Rightarrow> ExecutionSpec \<Rightarrow> SidecarInjection" where
  "injection_of img listen wid namespace_id ex =
     \<lparr>si_workload_id = wid, si_workload_name = ex_workload_name ex, si_replica_index = ex_replica_index ex,
      si_replica_count = ex_replica_count ex, si_namespace_id = namespace_id, si_sidecar_image = img,
      si_proxy_endpoints = ex_proxy_endpoints ex, si_service_catalog = ex_service_catalog ex,
      si_workload_credential_b64 = ex_workload_credential_b64 ex,
      si_workload_relay_auth_token = ex_workload_relay_auth_token ex,
      si_workload_relay_ca_certificates = ex_workload_relay_ca_certificates ex, si_metrics_listen = listen\<rparr>"

definition manifest_agent ::
  "rego \<Rightarrow> yaml_io \<Rightarrow> (SidecarMetadata \<Rightarrow> bytes res) \<Rightarrow> string \<Rightarrow> (string \<times> u16) option \<Rightarrow> 'tok agent_env \<Rightarrow> 'tok agent_env" where
  "manifest_agent R Y js img listen E =
     E\<lparr>ae_inject := (\<lambda>wid ns ex. inject (cn_env (ae_connector E)) Y js (ex_manifest ex) (injection_of img listen wid ns ex)),
       ae_measure := validate_and_measure_manifest R Y,
       ae_target_id := (\<lambda>wid ns manifest. pod_name Y manifest)\<rparr>"

lemma manifest_agent_simps [simp]:
  "ae_measure (manifest_agent R Y js img listen E) = validate_and_measure_manifest R Y"
  "ae_inject (manifest_agent R Y js img listen E) =
     (\<lambda>wid ns ex. inject (cn_env (ae_connector E)) Y js (ex_manifest ex) (injection_of img listen wid ns ex))"
  "ae_target_id (manifest_agent R Y js img listen E) = (\<lambda>wid ns manifest. pod_name Y manifest)"
  "ae_service_mesh_required (manifest_agent R Y js img listen E) = ae_service_mesh_required E"
  by (simp_all add: manifest_agent_def)

section \<open>What the runtime is given\<close>

definition limited :: "Value \<Rightarrow> bool" where
  "limited c \<longleftrightarrow> is_ok (limit_cpu c) \<and> is_ok (limit_bytes ''memory'' c) \<and> is_ok (limit_bytes ''ephemeral-storage'' c)"

definition consumes :: "Value list \<Rightarrow> resource \<Rightarrow> nat" where
  "consumes docs r = (\<Sum>c \<leftarrow> all_measured docs. case r of
     Cpu \<Rightarrow> ok_value (limit_cpu c) | Memory \<Rightarrow> ok_value (limit_bytes ''memory'' c) | Storage \<Rightarrow> ok_value (limit_bytes ''ephemeral-storage'' c))"

definition mr_amount :: "resource \<Rightarrow> ManifestResources \<Rightarrow> nat" where
  "mr_amount r m = (case r of Cpu \<Rightarrow> unat (mr_cpu_milli m) | Memory \<Rightarrow> unat (mr_memory_bytes m) | Storage \<Rightarrow> unat (mr_storage_bytes m))"

lemma modify_not_null: "modify k f v = VNull \<longleftrightarrow> v = VNull"
  by (cases v) (auto split: option.splits)

lemma mutate_not_null: "doc \<noteq> VNull \<Longrightarrow> mutate_document_defaults doc \<noteq> VNull"
  by (simp add: mutate_document_defaults_def CONTAINER_FIELDS_def update_containers_eq modify_not_null)

lemma parse_not_null: "parse_yaml_documents_from_str Y s = Ok docs \<Longrightarrow> VNull \<notin> set docs"
  by (auto simp: parse_yaml_documents_from_str_def)

lemma printed_reads_back:
  "yaml_law Y \<Longrightarrow> VNull \<notin> set docs \<Longrightarrow> serialize_yaml_documents Y docs = Ok s \<Longrightarrow> parse_yaml_documents_from_str Y s = Ok docs"
  by (drule yaml_law_def [THEN iffD1, THEN spec [of _ docs]]) (simp add: reads_back_def)

lemma unat_eq_ucast: "unat (x :: u64) < 2 ^ 32 \<Longrightarrow> ucast x = (y :: u32) \<Longrightarrow> unat y = unat x"
  by (drule sym) (simp add: unsigned_ucast_eq take_bit_nat_eq_self)

lemma measured_manifest:
  assumes "rg_strict R" "yaml_law Y" "validate_and_measure_manifest R Y m = Ok (out, r)"
  obtains src where "parse_yaml_documents_from_slice Y m = Ok src"
    "parse_yaml_documents_from_slice Y out = Ok (map mutate_document_defaults src)"
    "list_all document_confined (map mutate_document_defaults src)"
    "list_all limited (all_measured (map mutate_document_defaults src))"
    "\<And>x. consumes (map mutate_document_defaults src) x = mr_amount x r"
proof -
  obtain s mutated docs t where v: "from_utf8 m = Ok s" "validate_and_mutate_manifest R Y s = Ok mutated"
    "parse_yaml_documents_from_str Y mutated = Ok docs"
    "measure_loop (all_measured docs) \<lparr>tt_cpu = 0, tt_memory = 0, tt_storage = 0, tt_count = 0\<rparr> = Ok t"
    "try_from (tt_cpu t) = Some (mr_cpu_milli r)" "mr_memory_bytes r = tt_memory t" "mr_storage_bytes r = tt_storage t"
    "out = str_bytes mutated"
    using assms(3) by (auto simp: validate_and_measure_manifest_def)
  have s: "s = map (\<lambda>x. char_of (unat x)) m" using v(1) by (simp add: from_utf8_def)
  obtain src where src: "parse_yaml_documents_from_str Y s = Ok src"
    "serialize_yaml_documents Y (map mutate_document_defaults src) = Ok mutated"
    "\<forall>doc \<in> set src. policy_violations R doc = Ok []"
    using validated_manifest [OF assms(1) v(2)] by metis
  have "VNull \<notin> set (map mutate_document_defaults src)"
    using parse_not_null [OF src(1)] mutate_not_null by (metis imageE list.set_map)
  then have docs: "docs = map mutate_document_defaults src"
    using printed_reads_back [OF assms(2) _ src(2)] v(3) by simp
  have "unat (mr_cpu_milli r) = unat (tt_cpu t)"
    using v(5) by (auto simp: try_from_def unat_eq_ucast split: if_splits)
  then have "consumes docs x = mr_amount x r" for x
    using measure_loop_Ok [OF v(4)] v(6,7) by (cases x) (simp_all add: consumes_def mr_amount_def)
  moreover have "list_all limited (all_measured docs)"
    using measure_loop_Ok [OF v(4)] by (simp add: list_all_iff limited_def)
  moreover have "list_all document_confined docs"
    using src(3) document_quiet [OF assms(1)] mutate_keeps_confined by (simp add: docs list_all_iff)
  moreover have "parse_yaml_documents_from_slice Y m = Ok src"
    using src(1) by (simp add: parse_yaml_documents_from_slice_def s)
  ultimately show thesis using that [of src] v(3,8) docs by (simp add: parse_from_slice)
qed

lemma runtime_manifest_measured:
  assumes "runtime_manifest (manifest_agent R Y js img listen E) wid ns ex = Ok (manifest, measured)"
  obtains m where "validate_and_measure_manifest R Y m = Ok (manifest, measured)"
    "if ae_service_mesh_required E then inject (cn_env (ae_connector E)) Y js (ex_manifest ex) (injection_of img listen wid ns ex) = Ok m
     else m = ex_manifest ex"
  using assms that by (auto simp: runtime_manifest_def split: if_splits)

lemma deploy_commit_measured:
  assumes "deploy_commit E now io grant ex ag = (ag', Ok (stored, manifest))"
  shows "\<exists>measured. runtime_manifest E (dg_workload_id grant) (dg_namespace_id grant) ex = Ok (manifest, measured)
    \<and> \<not> exceeds measured (sw_cpu_milli stored) (sw_memory_bytes stored) (sw_storage_bytes stored)"
  using assms by (auto simp: deploy_commit_def op_bind_Ok take_reservation_def Let_def planned_workload_def split: option.splits)

lemma not_exceeds: "\<not> exceeds m (sw_cpu_milli s) (sw_memory_bytes s) (sw_storage_bytes s) \<Longrightarrow> mr_amount r m \<le> sw_amount r s"
  by (cases r) (auto simp: exceeds_def mr_amount_def word_le_nat_alt word_less_nat_alt)

section \<open>Properties\<close>


section \<open>A deployment\<close>

text \<open>A YAML library for one document, printed as a single character.\<close>

definition bell :: char where "bell = CHR 0x07"

definition one_yaml :: "Value \<Rightarrow> yaml_io" where
  "one_yaml d = \<lparr>ym_docs = \<lambda>s. replicate (length (filter (\<lambda>c. c = bell) s)) (Ok d),
     ym_print = \<lambda>v. if v = d then Ok [bell] else Err ''unsupported document''\<rparr>"

lemma one_yaml_loop:
  "serialize_loop (one_yaml d) sep docs out = Ok s \<Longrightarrow> filter (\<lambda>c. c = bell) sep = [] \<Longrightarrow>
   docs = replicate (length docs) d \<and> length (filter (\<lambda>c. c = bell) s) = length (filter (\<lambda>c. c = bell) out) + length docs"
proof (induction "one_yaml d" sep docs out rule: serialize_loop.induct)
  case (2 sep doc docs out)
  have doc: "doc = d" "serialize_loop (one_yaml d) (''---'' @ newline) docs (out @ sep @ [bell] @ newline) = Ok s"
    using "2.prems"(1) by (auto simp: one_yaml_def bell_def newline_def split: if_splits)
  have "ym_print (one_yaml d) doc = Ok [bell]" by (simp add: one_yaml_def doc(1))
  from "2.hyps" [of "[bell] @ newline" "[bell]"] doc(2) have "docs = replicate (length docs) d
      \<and> length (filter (\<lambda>c. c = bell) s) = length (filter (\<lambda>c. c = bell) (out @ sep @ [bell] @ newline)) + length docs"
    by (simp add: bell_def newline_def)
  then show ?case using doc(1) "2.prems"(2) by (simp add: bell_def newline_def)
qed simp

lemma one_yaml_law: "d \<noteq> VNull \<Longrightarrow> yaml_law (one_yaml d)"
  unfolding yaml_law_def
proof (intro allI impI)
  fix docs assume d: "d \<noteq> VNull"
  show "reads_back (one_yaml d) docs"
  proof (cases "serialize_yaml_documents (one_yaml d) docs")
    case (Ok s)
    then have l: "docs = replicate (length docs) d" "length (filter (\<lambda>c. c = bell) s) = length docs"
      using one_yaml_loop [of d "[]" docs "[]" s] by (auto simp: serialize_yaml_documents_def)
    have "collect_r (replicate n (Ok d)) = (Ok (replicate n d) :: Value list res)" for n by (induction n) auto
    then have "parse_yaml_documents_from_str (one_yaml d) s = Ok (replicate (length docs) d)"
      using d l(2) by (simp add: parse_yaml_documents_from_str_def one_yaml_def)
    then show ?thesis using Ok l(1) by (simp add: reads_back_def)
  qed (simp add: reads_back_def)
qed

definition small_table :: Value where
  "small_table = VMap [(''cpu'', VStr ''100m''), (''memory'', VStr ''400''), (''ephemeral-storage'', VStr ''400'')]"

definition small_pod :: Value where
  "small_pod = VMap [(''kind'', VStr ''Pod''), (''metadata'', VMap [(''name'', VStr ''demo'')]),
     (''spec'', VMap [(''containers'', VSeq [VMap [(''name'', VStr ''app''),
        (''resources'', VMap [(''limits'', small_table), (''requests'', small_table)])]])])]"

lemma small_pod_admitted:
  "policy_violations toy_rego small_pod = Ok []" "validate_document_shape [small_pod] = []"
  "mutate_document_defaults small_pod = small_pod"
  by code_simp+

lemma small_quantities: "parse_bytes ''400'' = Ok 400" "parse_cpu ''100m'' = Ok 100"
  by (simp_all add: parse_bytes_def parse_cpu_def SUFFIXES_def strip_suffix_def split_once_def whole_fraction_def
      is_ascii_digit_def parse_unsigned_def str_nat_def checked_mul_def checked_add_def saturating_sub_def)

lemma small_pod_measured:
  "measure_loop (all_measured [small_pod]) \<lparr>tt_cpu = 0, tt_memory = 0, tt_storage = 0, tt_count = 0\<rparr>
    = Ok \<lparr>tt_cpu = 100, tt_memory = 400, tt_storage = 400, tt_count = 1\<rparr>"
  by (simp add: all_measured_def measured_containers_def CONTAINER_FIELDS_def small_pod_def small_table_def kind_of_def
      measure_container_def required_quantity_def small_quantities checked_add_def at.simps)

lemma bell_chars: "char_of (7 :: nat) = bell" "char_of (10 :: nat) = CHR 0x0A" "CHR 0x0A \<noteq> bell"
  by code_simp+

lemma small_pod_manifest:
  "validate_and_measure_manifest toy_rego (one_yaml small_pod) [7]
    = Ok ([7, 10], \<lparr>mr_cpu_milli = 100, mr_memory_bytes = 400, mr_storage_bytes = 400\<rparr>)"
proof -
  let ?Y = "one_yaml small_pod"
  have not_null: "small_pod \<noteq> VNull" by (simp add: small_pod_def)
  have "from_utf8 [7] = Ok [bell]" by (simp add: from_utf8_def bell_chars)
  moreover have printed: "serialize_yaml_documents ?Y [small_pod] = Ok ([bell] @ newline)"
    by (simp add: serialize_yaml_documents_def one_yaml_def bell_def)
  moreover have "ym_docs ?Y [bell] = [Ok small_pod]" by (simp add: one_yaml_def bell_def)
  then have "validate_and_mutate_manifest toy_rego ?Y [bell] = Ok ([bell] @ newline)"
    using small_pod_admitted printed manifest_admitted [of ?Y "[bell]" small_pod toy_rego "[bell] @ newline"] not_null by simp
  moreover have "parse_yaml_documents_from_str ?Y ([bell] @ newline) = Ok [small_pod]"
    by (simp add: parse_yaml_documents_from_str_def one_yaml_def bell_def newline_def) (simp add: small_pod_def)
  moreover have "str_bytes ([bell] @ newline) = [7, 10]" by (simp add: str_bytes_def bell_def newline_def)
  moreover have "try_from (100 :: u64) = Some (100 :: u32)" by (simp add: try_from_def)
  ultimately show ?thesis by (simp add: validate_and_measure_manifest_def small_pod_measured)
qed

definition pod_env :: "fact list agent_env" where
  "pod_env = manifest_agent toy_rego (one_yaml small_pod) (\<lambda>_. Ok []) [] None run_env"

lemma pod_env_simps [simp]:
  "ae_wire pod_env = ae_wire run_env" "ae_measure pod_env = validate_and_measure_manifest toy_rego (one_yaml small_pod)"
  "ae_target_id pod_env = (\<lambda>wid ns manifest. pod_name (one_yaml small_pod) manifest)"
  "signing_pubkey_b64 pod_env = signing_pubkey_b64 run_env" "ae_service_mesh_required pod_env = False"
  by (simp_all add: pod_env_def signing_pubkey_b64_def) (simp_all add: manifest_agent_def)

lemma pod_decode: "decode_execution pod_env run_grant = Ok run_spec"
proof -
  have "decode_execution pod_env run_grant = decode_execution run_env run_grant"
    by (simp add: decode_execution_def) (simp add: pod_env_def manifest_agent_def)
  then show ?thesis using run_decode by simp
qed

definition pod_stored :: StoredWorkload where
  "pod_stored = planned_workload run_grant ''demo'' run_reservation run_spec"

lemma pod_name_small: "pod_name (one_yaml small_pod) [7, 10] = Ok ''demo''"
proof -
  have "parse_yaml_documents_from_slice (one_yaml small_pod) [7, 10] = Ok [small_pod]"
    by (simp add: parse_yaml_documents_from_slice_def parse_yaml_documents_from_str_def one_yaml_def bell_chars)
       (simp add: small_pod_def)
  moreover have "document_pod_name small_pod = Ok ''demo''" "at (pod_spec_path small_pod) small_pod \<noteq> None" by code_simp+
  ultimately show ?thesis by (simp add: pod_name_def)
qed

lemma pod_accept: "deploy_accept pod_env run_deploy_io run_grant run_admitted =
  (run_admitted\<lparr>ag_replay := ag_replay run_deploying\<rparr>, Ok run_spec)"
proof -
  have "deploy_accept run_env run_deploy_io run_grant run_admitted = (run_admitted\<lparr>ag_replay := ag_replay run_deploying\<rparr>, Ok run_spec)"
    by (rule run_accept)
  then show ?thesis
    using run_decode pod_decode small_pod_manifest
    by (simp add: deploy_accept_def op_bind_def op_res_def op_ensure_def run_spec_def split: if_splits prod.splits result.splits)
qed

lemma pod_begins: "\<exists>ag'. deploy_begin pod_env run_deploy_io run_grant run_admitted = (ag', Ok (pod_stored, [7, 10]))"
proof -
  have "Reservation_verify (ae_wire run_env) run_reservation 1010 = Ok ()"
    by (simp add: Reservation_verify_def Reservation_fields_def Reservation_canonical_bytes_def check_signature_Ok
        run_reservation_def run_grant_def toy_grant_def agent_consts validate_hex_id_def list_all_iff is_ascii_hexdigit_def)
  moreover have "rv_accepted run_reservation" "rv_namespace_id run_reservation = dg_namespace_id run_grant"
    "rv_workload_id run_reservation = dg_workload_id run_grant" "rv_cpu_milli run_reservation = 2000"
    "rv_memory_bytes run_reservation = 500" "rv_storage_bytes run_reservation = 500"
    by (simp_all add: run_reservation_def)
  moreover have "runtime_manifest pod_env wid ns run_spec = Ok ([7, 10], \<lparr>mr_cpu_milli = 100, mr_memory_bytes = 400, mr_storage_bytes = 400\<rparr>)" for wid ns
    by (simp add: runtime_manifest_def run_spec_def small_pod_manifest)
  moreover have "dg_reservation_id run_grant = ''r''" by (simp add: run_grant_def toy_grant_def)
  moreover have "owner_mutation (dg_workload_id run_grant) b (run_admitted\<lparr>ag_replay := r\<rparr>) =
     (run_admitted\<lparr>ag_replay := r, ag_mutations := [(dg_workload_id run_grant, Lifecycle)]\<rparr>, Ok ())" for b r
    by (simp add: owner_mutation_def mutation_with_owner_def run_admitted_def toy_agent_def MAX_CONFIGURED_WORKLOADS_def hm_insert_def)
  moreover have "ag_state run_admitted = WorkloadState_default\<lparr>st_reservations := [(''r'', run_reservation)]\<rparr>"
    by (simp add: run_admitted_def)
  ultimately show ?thesis using run_grant_verifies
    by (simp add: deploy_begin_def pod_accept op_bind_def op_res_def op_ensure_def op_guard_def deploy_commit_def
        take_reservation_def hm_remove_def hm_contains_def exceeds_def save_stored_def disk_save_def Let_def pod_name_small)
       (simp add: pod_stored_def WorkloadState_default_def)
qed


section \<open>Updates that change the kind\<close>

lemma at_mutate_metadata: "at (''metadata'' # r) (mutate_document_defaults doc) = at (''metadata'' # r) doc"
proof -
  have "at (''metadata'' # r) (update_containers f field d) = at (''metadata'' # r) d" for f field d
    using at_modify_other [of "''metadata''" "''spec''" "[]" r] by (simp add: update_containers_eq)
  then show ?thesis by (simp add: mutate_document_defaults_def CONTAINER_FIELDS_def)
qed

lemma kind_of_mutate: "kind_of (mutate_document_defaults doc) = kind_of doc"
  by (simp add: mutate_document_defaults_def CONTAINER_FIELDS_def kind_of_update)

lemma injected_pod_name:
  assumes "inject_document rn sidecar doc = Ok (Some doc')" "document_pod_name (mutate_document_defaults doc') = Ok n"
  shows "n = (if kind_of doc = Some ''Pod'' then rn else rn @ ''-pod'')"
  using assms(2) inject_document_effect(1,2) [OF assms(1)]
  by (auto simp: document_pod_name_def at_mutate_metadata kind_of_mutate split: if_splits)


definition tiny :: "string \<Rightarrow> Value \<Rightarrow> Value" where
  "tiny kind spec = VMap [(''kind'', VStr kind), (''metadata'', VMap [(''name'', VStr ''demo'')]), (''spec'', spec)]"

definition tiny_spec :: Value where "tiny_spec = VMap [(''containers'', VSeq [VMap [(''name'', VStr ''app'')]])]"

definition tiny_pod :: Value where "tiny_pod = tiny ''Pod'' tiny_spec"
definition tiny_deployment :: Value where "tiny_deployment = tiny ''Deployment'' (VMap [(''template'', VMap [(''spec'', tiny_spec)])])"

definition tiny_injected :: "Value \<Rightarrow> Value" where
  "tiny_injected doc = (case inject_document ''podmesh-a'' obj0 doc of Ok (Some d) \<Rightarrow> d | _ \<Rightarrow> VNull)"

definition tiny_io :: update_io where
  "tiny_io = \<lparr>ui_now = 0, ui_replay_now = 0, ui_released = True, ui_locked_now = 0, ui_save = Ok (),
     ui_deploy = (\<lambda>_ _ _. Answered (Ok ''podmesh-a-pod'')), ui_redeploy = (\<lambda>_ _ _. TimedOut),
     ui_save_rollback = Ok (), ui_save_updated = Ok (), ui_seal = ([], [])\<rparr>"


end
