(* ===== verification/Mesh_Messages.thy ===== *)
theory Mesh_Messages
  imports Agent_Service
begin

text \<open>
  What schedulers, agents and relays say to each other, from \<open>shared/protocol/src\<close>: grants for a machine
  relay (\<open>machine_relay.rs\<close>), the attachment of an agent (\<open>scheduler_mesh.rs\<close>), gossip (\<open>scheduler_gossip.rs\<close>),
  placement (\<open>placement.rs\<close>), reconciliation (\<open>reconciliation.rs\<close>) and relayed control traffic
  (\<open>agent_control.rs\<close>, \<open>agent_control_relay.rs\<close>). \<open>mesh_wire\<close> adds postcard for these types to the
  environments of \<open>Capacity\<close> and \<open>Agent_Types\<close>. The signed ones interpret \<open>signed_message\<close>.
\<close>

section \<open>Types\<close>

datatype MachineRole = Scheduler | Agent | Podctl | Proxy | Sidecar

record MachineRelayGrant =
  mg_version :: u16
  mg_subject_endpoint_id :: bytes
  mg_role :: MachineRole
  mg_relay_audience :: string
  mg_issued_at_secs :: u64
  mg_expires_at_secs :: u64
  mg_token_id :: string
  mg_issuer_pubkey :: string
  mg_signature :: string

record AgentAttachmentHello =
  ah_version :: u16
  ah_role :: MachineRole
  ah_agent_endpoint :: EndpointRecord
  ah_nonce :: string
  ah_issued_at_secs :: u64
  ah_expires_at_secs :: u64
  ah_signing_pubkey :: string
  ah_signature :: string

record AgentAttachmentAck =
  ak_version :: u16
  ak_relay_grants :: "string list"
  ak_refresh_after_secs :: u64

record AgentLocationQuery =
  al_version :: u16
  al_query_id :: string
  al_agent_endpoint_id :: bytes
  al_reply_endpoint :: EndpointRecord
  al_issued_at_secs :: u64
  al_expires_at_secs :: u64
  al_signing_pubkey :: string
  al_signature :: string

record SchedulerReconciliationQuery =
  rq_version :: u16
  rq_query_id :: string
  rq_owner_request :: bytes
  rq_reply_endpoint :: EndpointRecord
  rq_issued_at_secs :: u64
  rq_expires_at_secs :: u64
  rq_signing_pubkey :: string
  rq_signature :: string

datatype ReconciliationEvent =
    AgentAnswer (re_agent: bytes) (re_sealed: bytes)
  | AgentUnreachable (re_agent: bytes)
  | Complete

record SchedulerReconciliationResponse =
  xr_version :: u16
  xr_query_id :: string
  xr_responder_endpoint :: EndpointRecord
  xr_event :: ReconciliationEvent
  xr_responded_at_secs :: u64
  xr_signing_pubkey :: string
  xr_signature :: string

datatype SchedulerGossipMessage =
    GossipCapacity CapacityQuery
  | GossipAnnouncement EndpointRecord
  | GossipLocate AgentLocationQuery
  | GossipReconcile SchedulerReconciliationQuery

record PlacementRequest =
  pl_version :: u16
  pl_request_id :: string
  pl_cpu_milli :: u32
  pl_memory_bytes :: u64
  pl_storage_bytes :: u64
  pl_required_capabilities :: "string list"
  pl_excluded_endpoint_ids :: "bytes list"
  pl_issued_at_secs :: u64
  pl_expires_at_secs :: u64

datatype PlacementError = NoCapacity | PlacementBusy | Internal

record PlacementResponse =
  ps_version :: u16
  ps_request_id :: string
  ps_offer :: "CapacityOffer option"
  ps_error :: "PlacementError option"

datatype AgentControlOperation = Admission | Deploy | Update | Command | ListWorkloads

record AgentControlRequest =
  ar_version :: u16
  ar_operation :: AgentControlOperation
  ar_encrypted_payload :: bytes

datatype AgentControlError = ControlRejected | ControlBusy

record AgentControlResponse =
  as_version :: u16
  as_ok :: bool
  as_encrypted_payload :: bytes
  as_error :: "AgentControlError option"

datatype AgentControlRelayIntent = Locate | Forward AgentControlOperation | LocationAnswer

record AgentControlRelayRequest =
  ry_version :: u16
  ry_agent_endpoint_id :: bytes
  ry_intent :: AgentControlRelayIntent
  ry_query_id :: string
  ry_encrypted_payload :: bytes

datatype AgentControlRelayError = RelayUnknownAgent | RelayBusy | RelayRejected | RelayUnavailable

record AgentControlRelayResponse =
  rz_version :: u16
  rz_ok :: bool
  rz_encrypted_payload :: bytes
  rz_error :: "AgentControlRelayError option"

record mesh_wire =
  mw_capacity :: capacity_wire
  mw_agent :: agent_wire
  mw_grant :: "MachineRelayGrant \<Rightarrow> bytes res"
  mw_parse_grant :: "bytes \<Rightarrow> MachineRelayGrant res"
  mw_hello :: "AgentAttachmentHello \<Rightarrow> bytes res"
  mw_parse_hello :: "bytes \<Rightarrow> AgentAttachmentHello res"
  mw_ack :: "AgentAttachmentAck \<Rightarrow> bytes res"
  mw_parse_ack :: "bytes \<Rightarrow> AgentAttachmentAck res"
  mw_location :: "AgentLocationQuery \<Rightarrow> bytes res"
  mw_reconcile :: "SchedulerReconciliationQuery \<Rightarrow> bytes res"
  mw_reconciled :: "SchedulerReconciliationResponse \<Rightarrow> bytes res"
  mw_parse_reconciled :: "bytes \<Rightarrow> SchedulerReconciliationResponse res"
  mw_gossip :: "SchedulerGossipMessage \<Rightarrow> bytes res"
  mw_parse_gossip :: "bytes \<Rightarrow> SchedulerGossipMessage res"
  mw_placement :: "PlacementRequest \<Rightarrow> bytes res"
  mw_parse_placement :: "bytes \<Rightarrow> PlacementRequest res"
  mw_placed :: "PlacementResponse \<Rightarrow> bytes res"
  mw_parse_placed :: "bytes \<Rightarrow> PlacementResponse res"
  mw_control :: "AgentControlRequest \<Rightarrow> bytes res"
  mw_parse_control :: "bytes \<Rightarrow> AgentControlRequest res"
  mw_controlled :: "AgentControlResponse \<Rightarrow> bytes res"
  mw_parse_controlled :: "bytes \<Rightarrow> AgentControlResponse res"
  mw_relay :: "AgentControlRelayRequest \<Rightarrow> bytes res"
  mw_parse_relay :: "bytes \<Rightarrow> AgentControlRelayRequest res"
  mw_relayed :: "AgentControlRelayResponse \<Rightarrow> bytes res"
  mw_parse_relayed :: "bytes \<Rightarrow> AgentControlRelayResponse res"

abbreviation mw_crates :: "mesh_wire \<Rightarrow> crates" where
  "mw_crates W \<equiv> cw_crates (mw_capacity W)"

abbreviation mw_verify_endpoint :: "mesh_wire \<Rightarrow> EndpointRecord \<Rightarrow> u64 \<Rightarrow> unit res" where
  "mw_verify_endpoint W \<equiv> EndpointRecord_verify (mw_crates W) (cw_endpoint (mw_capacity W))"

section \<open>Grants for a machine relay\<close>

definition MACHINE_RELAY_GRANT_VERSION :: u16 where "MACHINE_RELAY_GRANT_VERSION = 1"
definition MAX_MACHINE_RELAY_GRANT_BYTES :: nat where "MAX_MACHINE_RELAY_GRANT_BYTES = 2 * 1024"
definition MAX_MACHINE_RELAY_AUTH_TOKEN_LEN :: nat where "MAX_MACHINE_RELAY_AUTH_TOKEN_LEN = 4 * ((MAX_MACHINE_RELAY_GRANT_BYTES + 2) div 3)"
definition MAX_MACHINE_RELAY_GRANT_LIFETIME_SECS :: u64 where "MAX_MACHINE_RELAY_GRANT_LIFETIME_SECS = 5 * 60"
definition MAX_MACHINE_RELAY_CLOCK_SKEW_SECS :: u64 where "MAX_MACHINE_RELAY_CLOCK_SKEW_SECS = 30"
definition MAX_MACHINE_RELAY_AUDIENCE_LEN :: nat where "MAX_MACHINE_RELAY_AUDIENCE_LEN = 2048"
definition MAX_MACHINE_RELAY_TOKEN_ID_LEN :: nat where "MAX_MACHINE_RELAY_TOKEN_ID_LEN = 128"

definition is_machine_relay_allowed :: "MachineRole \<Rightarrow> bool" where
  "is_machine_relay_allowed role \<longleftrightarrow> role \<in> {Scheduler, Agent, Podctl}"

definition validate_audience :: "string \<Rightarrow> unit res" where
  "validate_audience value =
     ensure (value \<noteq> [] \<and> length value \<le> MAX_MACHINE_RELAY_AUDIENCE_LEN) ''relay grant audience length is invalid'' (
     ensure (prefix ''https://'' value \<or> prefix ''http://'' value) ''relay grant audience must use HTTP or HTTPS'' (
     ensure (\<not> list_ex (\<lambda>c. is_ascii_whitespace c \<or> is_ascii_control c) value)
       ''relay grant audience contains invalid characters'' (Ok ())))"

definition validate_grant_size :: "bytes \<Rightarrow> unit res" where
  "validate_grant_size b =
     ensure (b \<noteq> [] \<and> length b \<le> MAX_MACHINE_RELAY_GRANT_BYTES) ''machine relay grant encoded size is invalid'' (Ok ())"

definition MachineRelayGrant_validate_unsigned :: "MachineRelayGrant \<Rightarrow> u64 \<Rightarrow> unit res" where
  "MachineRelayGrant_validate_unsigned g now_secs =
     ensure (mg_version g = MACHINE_RELAY_GRANT_VERSION) ''unsupported machine relay grant version'' (
     ensure (length (mg_subject_endpoint_id g) = IROH_ENDPOINT_ID_BYTES) ''relay grant subject must contain 32 bytes'' (
     try_r (validate_audience (mg_relay_audience g)) (\<lambda>_.
     ensure (mg_token_id g \<noteq> [] \<and> length (mg_token_id g) \<le> MAX_MACHINE_RELAY_TOKEN_ID_LEN)
       ''relay grant token ID length is invalid'' (
     ensure (mg_issued_at_secs g \<le> saturating_add now_secs MAX_MACHINE_RELAY_CLOCK_SKEW_SECS)
       ''relay grant issue time is too far in the future'' (
     ensure (now_secs \<le> mg_expires_at_secs g) ''relay grant expired'' (
     ensure (mg_issued_at_secs g \<le> mg_expires_at_secs g) ''relay grant expiry precedes issue time'' (
     ensure (saturating_sub (mg_expires_at_secs g) (mg_issued_at_secs g) \<le> MAX_MACHINE_RELAY_GRANT_LIFETIME_SECS)
       ''relay grant lifetime exceeds limit'' (Ok ()))))))))"

definition MachineRelayGrant_validate :: "crates \<Rightarrow> MachineRelayGrant \<Rightarrow> u64 \<Rightarrow> unit res" where
  "MachineRelayGrant_validate C g now_secs =
     try_r (MachineRelayGrant_validate_unsigned g now_secs) (\<lambda>_.
     try_r (b64_decode C (mg_issuer_pubkey g)) (\<lambda>pk.
     ensure (length pk = 32) ''relay grant issuer key must decode to 32 bytes'' (
     try_r (b64_decode C (mg_signature g)) (\<lambda>sig.
     ensure (length sig = 64) ''relay grant signature must decode to 64 bytes'' (Ok ())))))"

definition MachineRelayGrant_canonical_bytes :: "mesh_wire \<Rightarrow> MachineRelayGrant \<Rightarrow> bytes res" where
  "MachineRelayGrant_canonical_bytes W g =
     try_r (ctx ''serialize canonical machine relay grant'' (mw_grant W (g\<lparr>mg_signature := []\<rparr>))) (\<lambda>b.
     try_r (validate_grant_size b) (\<lambda>_. Ok b))"

definition MachineRelayGrant_sign ::
  "mesh_wire \<Rightarrow> MachineRelayGrant \<Rightarrow> bytes \<Rightarrow> bytes \<Rightarrow> u64 \<Rightarrow> MachineRelayGrant res" where
  "MachineRelayGrant_sign W g issuer_public issuer_private now_secs =
     (let g1 = g\<lparr>mg_issuer_pubkey := b64_encode (mw_crates W) issuer_public, mg_signature := []\<rparr> in
      try_r (MachineRelayGrant_validate_unsigned g1 now_secs) (\<lambda>_.
      try_r (MachineRelayGrant_canonical_bytes W g1) (\<lambda>b.
      try_r (sign_domain (mw_crates W) issuer_private D_MachineRelayGrant b) (\<lambda>sig.
        let g2 = g1\<lparr>mg_signature := b64_encode (mw_crates W) sig\<rparr> in
        try_r (MachineRelayGrant_validate (mw_crates W) g2 now_secs) (\<lambda>_. Ok g2)))))"

definition MachineRelayGrant_verify ::
  "mesh_wire \<Rightarrow> MachineRelayGrant \<Rightarrow> bytes list \<Rightarrow> bytes \<Rightarrow> string \<Rightarrow> u64 \<Rightarrow> unit res" where
  "MachineRelayGrant_verify W g trusted_issuers expected_subject_endpoint_id expected_relay_audience now_secs =
     try_r (MachineRelayGrant_validate (mw_crates W) g now_secs) (\<lambda>_.
     ensure (mg_subject_endpoint_id g = expected_subject_endpoint_id)
       ''relay grant subject does not match authenticated endpoint'' (
     ensure (mg_relay_audience g = expected_relay_audience) ''relay grant audience does not match relay'' (
     ensure (is_machine_relay_allowed (mg_role g)) ''role is not allowed on machine relay'' (
     try_r (b64_decode (mw_crates W) (mg_issuer_pubkey g)) (\<lambda>issuer_public.
     ensure (issuer_public \<in> set trusted_issuers) ''relay grant issuer is not trusted'' (
     try_r (b64_decode (mw_crates W) (mg_signature g)) (\<lambda>signature.
     try_r (MachineRelayGrant_canonical_bytes W g) (\<lambda>b.
       verify_domain (mw_crates W) issuer_public D_MachineRelayGrant b signature))))))))"

definition MachineRelayGrant_to_bytes :: "mesh_wire \<Rightarrow> MachineRelayGrant \<Rightarrow> u64 \<Rightarrow> bytes res" where
  "MachineRelayGrant_to_bytes W g now_secs =
     try_r (MachineRelayGrant_validate (mw_crates W) g now_secs) (\<lambda>_.
     try_r (ctx ''serialize machine relay grant'' (mw_grant W g)) (\<lambda>b.
     try_r (validate_grant_size b) (\<lambda>_. Ok b)))"

definition MachineRelayGrant_from_bytes :: "mesh_wire \<Rightarrow> bytes \<Rightarrow> u64 \<Rightarrow> MachineRelayGrant res" where
  "MachineRelayGrant_from_bytes W b now_secs =
     try_r (validate_grant_size b) (\<lambda>_.
     try_r (ctx ''decode machine relay grant'' (mw_parse_grant W b)) (\<lambda>g.
     try_r (MachineRelayGrant_validate (mw_crates W) g now_secs) (\<lambda>_. Ok g)))"

definition MachineRelayGrant_to_auth_token :: "mesh_wire \<Rightarrow> MachineRelayGrant \<Rightarrow> u64 \<Rightarrow> string res" where
  "MachineRelayGrant_to_auth_token W g now_secs =
     try_r (MachineRelayGrant_to_bytes W g now_secs) (\<lambda>b. Ok (b64_encode (mw_crates W) b))"

definition MachineRelayGrant_from_auth_token :: "mesh_wire \<Rightarrow> string \<Rightarrow> u64 \<Rightarrow> MachineRelayGrant res" where
  "MachineRelayGrant_from_auth_token W token now_secs =
     ensure (token \<noteq> [] \<and> length token \<le> MAX_MACHINE_RELAY_AUTH_TOKEN_LEN)
       ''machine relay authorization token length is invalid'' (
     try_r (b64_decode (mw_crates W) token) (\<lambda>b. MachineRelayGrant_from_bytes W b now_secs))"

section \<open>The attachment of an agent\<close>

definition SCHEDULER_MESH_PROTOCOL_VERSION :: u16 where "SCHEDULER_MESH_PROTOCOL_VERSION = 1"
definition MAX_AGENT_ATTACHMENT_BYTES :: nat where "MAX_AGENT_ATTACHMENT_BYTES = 8 * 1024"
definition MAX_AGENT_ATTACHMENT_NONCE_LEN :: nat where "MAX_AGENT_ATTACHMENT_NONCE_LEN = 128"
definition MAX_AGENT_ATTACHMENT_CLOCK_SKEW_SECS :: u64 where "MAX_AGENT_ATTACHMENT_CLOCK_SKEW_SECS = 5"
definition MAX_ATTACHMENT_RELAY_GRANTS :: nat where "MAX_ATTACHMENT_RELAY_GRANTS = 16"

definition validate_attachment_size :: "bytes \<Rightarrow> unit res" where
  "validate_attachment_size b =
     ensure (b \<noteq> [] \<and> length b \<le> MAX_AGENT_ATTACHMENT_BYTES) ''agent attachment encoded size is invalid'' (Ok ())"

definition encode_attachment :: "bytes res \<Rightarrow> bytes res" where
  "encode_attachment encoded =
     try_r (ctx ''serialize agent attachment hello'' encoded) (\<lambda>b.
     try_r (validate_attachment_size b) (\<lambda>_. Ok b))"

definition AgentAttachmentHello_validate_unsigned :: "mesh_wire \<Rightarrow> AgentAttachmentHello \<Rightarrow> u64 \<Rightarrow> unit res" where
  "AgentAttachmentHello_validate_unsigned W h now_secs =
     ensure (ah_version h = SCHEDULER_MESH_PROTOCOL_VERSION) ''unsupported agent attachment version'' (
     ensure (ah_role h = Agent) ''agent attachment requires the agent role'' (
     try_r (mw_verify_endpoint W (ah_agent_endpoint h) now_secs) (\<lambda>_.
     ensure (er_signing_pubkey (ah_agent_endpoint h) = ah_signing_pubkey h)
       ''agent attachment signer is not bound to endpoint record'' (
     ensure (ah_nonce h \<noteq> [] \<and> length (ah_nonce h) \<le> MAX_AGENT_ATTACHMENT_NONCE_LEN)
       ''agent attachment nonce length is invalid'' (
     ensure (ah_issued_at_secs h \<le> saturating_add now_secs MAX_AGENT_ATTACHMENT_CLOCK_SKEW_SECS)
       ''agent attachment issue time is too far in the future'' (
     ensure (now_secs \<le> ah_expires_at_secs h) ''agent attachment expired'' (
     ensure (ah_issued_at_secs h \<le> ah_expires_at_secs h
         \<and> ah_expires_at_secs h - ah_issued_at_secs h \<le> MAX_AGENT_ATTACHMENT_LIFETIME_SECS)
       ''agent attachment lifetime is invalid'' (Ok ()))))))))"

definition AgentAttachmentHello_validate :: "mesh_wire \<Rightarrow> AgentAttachmentHello \<Rightarrow> u64 \<Rightarrow> unit res" where
  "AgentAttachmentHello_validate W h now_secs =
     try_r (AgentAttachmentHello_validate_unsigned W h now_secs) (\<lambda>_.
     try_r (b64_decode (mw_crates W) (ah_signing_pubkey h)) (\<lambda>pk.
     ensure (length pk = 32) ''agent attachment signing key must decode to 32 bytes'' (
     try_r (b64_decode (mw_crates W) (ah_signature h)) (\<lambda>sig.
     ensure (length sig = 64) ''agent attachment signature must decode to 64 bytes'' (Ok ())))))"

definition AgentAttachmentHello_canonical_bytes :: "mesh_wire \<Rightarrow> AgentAttachmentHello \<Rightarrow> bytes res" where
  "AgentAttachmentHello_canonical_bytes W h = encode_attachment (mw_hello W (h\<lparr>ah_signature := []\<rparr>))"

definition AgentAttachmentHello_sign ::
  "mesh_wire \<Rightarrow> AgentAttachmentHello \<Rightarrow> bytes \<Rightarrow> bytes \<Rightarrow> u64 \<Rightarrow> AgentAttachmentHello res" where
  "AgentAttachmentHello_sign W h signing_public signing_private now_secs =
     (let h1 = h\<lparr>ah_signing_pubkey := b64_encode (mw_crates W) signing_public, ah_signature := []\<rparr> in
      try_r (AgentAttachmentHello_validate_unsigned W h1 now_secs) (\<lambda>_.
      try_r (AgentAttachmentHello_canonical_bytes W h1) (\<lambda>b.
      try_r (sign_domain (mw_crates W) signing_private D_AgentAttachmentHello b) (\<lambda>sig.
        let h2 = h1\<lparr>ah_signature := b64_encode (mw_crates W) sig\<rparr> in
        try_r (AgentAttachmentHello_validate W h2 now_secs) (\<lambda>_. Ok h2)))))"

definition AgentAttachmentHello_verify :: "mesh_wire \<Rightarrow> AgentAttachmentHello \<Rightarrow> u64 \<Rightarrow> unit res" where
  "AgentAttachmentHello_verify W h now_secs =
     try_r (AgentAttachmentHello_validate W h now_secs) (\<lambda>_.
     try_r (b64_decode (mw_crates W) (ah_signing_pubkey h)) (\<lambda>public.
     try_r (b64_decode (mw_crates W) (ah_signature h)) (\<lambda>signature.
     try_r (AgentAttachmentHello_canonical_bytes W h) (\<lambda>b.
       verify_domain (mw_crates W) public D_AgentAttachmentHello b signature))))"

definition AgentAttachmentHello_to_bytes :: "mesh_wire \<Rightarrow> AgentAttachmentHello \<Rightarrow> u64 \<Rightarrow> bytes res" where
  "AgentAttachmentHello_to_bytes W h now_secs =
     try_r (AgentAttachmentHello_verify W h now_secs) (\<lambda>_. encode_attachment (mw_hello W h))"

definition AgentAttachmentHello_from_bytes :: "mesh_wire \<Rightarrow> bytes \<Rightarrow> u64 \<Rightarrow> AgentAttachmentHello res" where
  "AgentAttachmentHello_from_bytes W b now_secs =
     try_r (validate_attachment_size b) (\<lambda>_.
     try_r (ctx ''decode agent attachment hello'' (mw_parse_hello W b)) (\<lambda>h.
     try_r (AgentAttachmentHello_verify W h now_secs) (\<lambda>_. Ok h)))"

fun relay_grants_loop :: "string list \<Rightarrow> unit res" where
  "relay_grants_loop [] = Ok ()"
| "relay_grants_loop (grant # rest) =
     ensure (grant \<noteq> [] \<and> length grant \<le> MAX_MACHINE_RELAY_AUTH_TOKEN_LEN) ''attachment relay grant length is invalid''
       (relay_grants_loop rest)"

definition AgentAttachmentAck_validate :: "AgentAttachmentAck \<Rightarrow> u64 \<Rightarrow> unit res" where
  "AgentAttachmentAck_validate a now_secs =
     ensure (ak_version a = SCHEDULER_MESH_PROTOCOL_VERSION) ''unsupported agent attachment acknowledgement version'' (
     ensure (length (ak_relay_grants a) \<le> MAX_ATTACHMENT_RELAY_GRANTS) ''too many attachment relay grants'' (
     ensure (now_secs < ak_refresh_after_secs a) ''agent attachment refresh deadline must be in the future''
       (relay_grants_loop (ak_relay_grants a))))"

definition AgentAttachmentAck_to_bytes :: "mesh_wire \<Rightarrow> AgentAttachmentAck \<Rightarrow> u64 \<Rightarrow> bytes res" where
  "AgentAttachmentAck_to_bytes W a now_secs =
     try_r (AgentAttachmentAck_validate a now_secs) (\<lambda>_. encode_attachment (mw_ack W a))"

definition AgentAttachmentAck_from_bytes :: "mesh_wire \<Rightarrow> bytes \<Rightarrow> u64 \<Rightarrow> AgentAttachmentAck res" where
  "AgentAttachmentAck_from_bytes W b now_secs =
     try_r (validate_attachment_size b) (\<lambda>_.
     try_r (ctx ''decode agent attachment ack'' (mw_parse_ack W b)) (\<lambda>a.
     try_r (AgentAttachmentAck_validate a now_secs) (\<lambda>_. Ok a)))"

section \<open>Gossip\<close>

definition SCHEDULER_GOSSIP_PROTOCOL_VERSION :: u16 where "SCHEDULER_GOSSIP_PROTOCOL_VERSION = 1"
definition MAX_LOCATION_QUERY_LIFETIME_SECS :: u64 where "MAX_LOCATION_QUERY_LIFETIME_SECS = 15"
definition MAX_LOCATION_CLOCK_SKEW_SECS :: u64 where "MAX_LOCATION_CLOCK_SKEW_SECS = 5"
definition MAX_LOCATION_QUERY_ID_BYTES :: nat where "MAX_LOCATION_QUERY_ID_BYTES = 128"

definition SchedulerGossipMessage_to_bytes :: "mesh_wire \<Rightarrow> SchedulerGossipMessage \<Rightarrow> bytes res" where
  "SchedulerGossipMessage_to_bytes W m =
     try_r (ctx ''serialize scheduler gossip message'' (mw_gossip W m)) (\<lambda>b.
     ensure (length b \<le> MAX_CAPACITY_MESSAGE_BYTES) ''scheduler gossip message exceeds 16384 bytes'' (Ok b))"

definition SchedulerGossipMessage_from_bytes :: "mesh_wire \<Rightarrow> bytes \<Rightarrow> SchedulerGossipMessage res" where
  "SchedulerGossipMessage_from_bytes W b =
     ensure (b \<noteq> [] \<and> length b \<le> MAX_CAPACITY_MESSAGE_BYTES) ''scheduler gossip message size is invalid''
       (ctx ''decode scheduler gossip message'' (mw_parse_gossip W b))"

definition AgentLocationQuery_canonical_bytes :: "mesh_wire \<Rightarrow> AgentLocationQuery \<Rightarrow> bytes res" where
  "AgentLocationQuery_canonical_bytes W q =
     ctx ''serialize canonical agent location query'' (mw_location W (q\<lparr>al_signature := []\<rparr>))"

definition AgentLocationQuery_validate_unsigned :: "mesh_wire \<Rightarrow> AgentLocationQuery \<Rightarrow> u64 \<Rightarrow> unit res" where
  "AgentLocationQuery_validate_unsigned W q now_secs =
     ensure (al_version q = SCHEDULER_GOSSIP_PROTOCOL_VERSION) ''unsupported agent location query version'' (
     ensure (length (al_agent_endpoint_id q) = IROH_ENDPOINT_ID_BYTES) ''agent EndpointId must contain 32 bytes'' (
     ensure (al_query_id q \<noteq> [] \<and> length (al_query_id q) \<le> MAX_LOCATION_QUERY_ID_BYTES)
       ''location query id must be 1 to 128 bytes'' (
     ensure (al_issued_at_secs q \<le> saturating_add now_secs MAX_LOCATION_CLOCK_SKEW_SECS)
       ''agent location query issued too far in the future'' (
     ensure (al_issued_at_secs q < al_expires_at_secs q
         \<and> al_expires_at_secs q - al_issued_at_secs q \<le> MAX_LOCATION_QUERY_LIFETIME_SECS)
       ''agent location query lifetime is invalid'' (
     ensure (now_secs \<le> saturating_add (al_expires_at_secs q) MAX_LOCATION_CLOCK_SKEW_SECS)
       ''agent location query expired'' (
     try_r (mw_verify_endpoint W (al_reply_endpoint q) now_secs) (\<lambda>_.
     ensure (er_signing_pubkey (al_reply_endpoint q) = al_signing_pubkey q)
       ''agent location reply endpoint does not belong to the query signer'' (Ok ()))))))))"

definition AgentLocationQuery_sign ::
  "mesh_wire \<Rightarrow> AgentLocationQuery \<Rightarrow> bytes \<Rightarrow> bytes \<Rightarrow> u64 \<Rightarrow> AgentLocationQuery res" where
  "AgentLocationQuery_sign W q signing_public signing_private now_secs =
     (let q1 = q\<lparr>al_signing_pubkey := b64_encode (mw_crates W) signing_public, al_signature := []\<rparr> in
      try_r (AgentLocationQuery_validate_unsigned W q1 now_secs) (\<lambda>_.
      try_r (AgentLocationQuery_canonical_bytes W q1) (\<lambda>b.
      try_r (sign_domain (mw_crates W) signing_private D_AgentLocationQuery b) (\<lambda>sig.
        Ok (q1\<lparr>al_signature := b64_encode (mw_crates W) sig\<rparr>)))))"

definition AgentLocationQuery_verify :: "mesh_wire \<Rightarrow> AgentLocationQuery \<Rightarrow> u64 \<Rightarrow> unit res" where
  "AgentLocationQuery_verify W q now_secs =
     try_r (AgentLocationQuery_validate_unsigned W q now_secs) (\<lambda>_.
     try_r (b64_decode (mw_crates W) (al_signing_pubkey q)) (\<lambda>public.
     try_r (b64_decode (mw_crates W) (al_signature q)) (\<lambda>signature.
     try_r (AgentLocationQuery_canonical_bytes W q) (\<lambda>b.
       verify_domain (mw_crates W) public D_AgentLocationQuery b signature))))"

section \<open>Placement\<close>

definition PLACEMENT_PROTOCOL_VERSION :: u16 where "PLACEMENT_PROTOCOL_VERSION = 1"
definition MAX_PLACEMENT_REQUEST_LIFETIME_SECS :: u64 where "MAX_PLACEMENT_REQUEST_LIFETIME_SECS = 15"
definition MAX_PLACEMENT_CLOCK_SKEW_SECS :: u64 where "MAX_PLACEMENT_CLOCK_SKEW_SECS = 5"

fun placement_capabilities_loop :: "string list \<Rightarrow> string list \<Rightarrow> unit res" where
  "placement_capabilities_loop unique [] = Ok ()"
| "placement_capabilities_loop unique (capability # rest) =
     ensure (capability \<noteq> [] \<and> length capability \<le> MAX_CAPACITY_CAPABILITY_LEN)
       ''placement capability length is invalid'' (
     ensure (capability \<notin> set unique) ''duplicate placement capability''
       (placement_capabilities_loop (capability # unique) rest))"

fun placement_exclusions_loop :: "bytes list \<Rightarrow> bytes list \<Rightarrow> unit res" where
  "placement_exclusions_loop unique [] = Ok ()"
| "placement_exclusions_loop unique (endpoint_id # rest) =
     ensure (length endpoint_id = IROH_ENDPOINT_ID_BYTES) ''excluded placement EndpointId must contain 32 bytes'' (
     ensure (endpoint_id \<notin> set unique) ''duplicate excluded placement endpoint''
       (placement_exclusions_loop (endpoint_id # unique) rest))"

definition PlacementRequest_validate :: "PlacementRequest \<Rightarrow> u64 \<Rightarrow> unit res" where
  "PlacementRequest_validate r now_secs =
     ensure (pl_version r = PLACEMENT_PROTOCOL_VERSION) ''unsupported placement protocol version'' (
     ensure (pl_request_id r \<noteq> [] \<and> length (pl_request_id r) \<le> MAX_CAPACITY_ID_LEN)
       ''placement request ID length is invalid'' (
     ensure (0 < pl_cpu_milli r \<and> 0 < pl_memory_bytes r \<and> 0 < pl_storage_bytes r)
       ''placement resources must be non-zero'' (
     ensure (length (pl_required_capabilities r) \<le> MAX_CAPACITY_CAPABILITIES) ''too many placement capabilities'' (
     try_r (placement_capabilities_loop [] (pl_required_capabilities r)) (\<lambda>_.
     ensure (length (pl_excluded_endpoint_ids r) \<le> MAX_CAPACITY_EXCLUDED_ENDPOINTS)
       ''too many excluded placement endpoints'' (
     try_r (placement_exclusions_loop [] (pl_excluded_endpoint_ids r)) (\<lambda>_.
     ensure (pl_issued_at_secs r \<le> saturating_add now_secs MAX_PLACEMENT_CLOCK_SKEW_SECS)
       ''placement request issue time is too far in the future'' (
     ensure (now_secs \<le> pl_expires_at_secs r) ''placement request expired'' (
     ensure (pl_issued_at_secs r \<le> pl_expires_at_secs r
         \<and> pl_expires_at_secs r - pl_issued_at_secs r \<le> MAX_PLACEMENT_REQUEST_LIFETIME_SECS)
       ''placement request lifetime is invalid'' (Ok ()))))))))))"

definition validate_placement_size :: "bytes \<Rightarrow> unit res" where
  "validate_placement_size b =
     ensure (b \<noteq> [] \<and> length b \<le> MAX_CAPACITY_MESSAGE_BYTES) ''placement message encoded size is invalid'' (Ok ())"

definition encode_placement :: "bytes res \<Rightarrow> string \<Rightarrow> bytes res" where
  "encode_placement encoded field =
     try_r (ctx (''serialize '' @ field) encoded) (\<lambda>b.
     try_r (validate_placement_size b) (\<lambda>_. Ok b))"

definition PlacementRequest_to_bytes :: "mesh_wire \<Rightarrow> PlacementRequest \<Rightarrow> u64 \<Rightarrow> bytes res" where
  "PlacementRequest_to_bytes W r now_secs =
     try_r (PlacementRequest_validate r now_secs) (\<lambda>_. encode_placement (mw_placement W r) ''placement request'')"

definition PlacementRequest_from_bytes :: "mesh_wire \<Rightarrow> bytes \<Rightarrow> u64 \<Rightarrow> PlacementRequest res" where
  "PlacementRequest_from_bytes W b now_secs =
     try_r (validate_placement_size b) (\<lambda>_.
     try_r (ctx ''decode placement request'' (mw_parse_placement W b)) (\<lambda>r.
     try_r (PlacementRequest_validate r now_secs) (\<lambda>_. Ok r)))"

definition PlacementResponse_selected :: "string \<Rightarrow> CapacityOffer \<Rightarrow> PlacementResponse" where
  "PlacementResponse_selected request_id bid =
     \<lparr>ps_version = PLACEMENT_PROTOCOL_VERSION, ps_request_id = request_id, ps_offer = Some bid, ps_error = None\<rparr>"

definition PlacementResponse_failed :: "string \<Rightarrow> PlacementError \<Rightarrow> PlacementResponse" where
  "PlacementResponse_failed request_id error =
     \<lparr>ps_version = PLACEMENT_PROTOCOL_VERSION, ps_request_id = request_id, ps_offer = None, ps_error = Some error\<rparr>"

definition PlacementResponse_validate :: "mesh_wire \<Rightarrow> PlacementResponse \<Rightarrow> u64 \<Rightarrow> unit res" where
  "PlacementResponse_validate W r now_secs =
     ensure (ps_version r = PLACEMENT_PROTOCOL_VERSION) ''unsupported placement response version'' (
     ensure (ps_request_id r \<noteq> [] \<and> length (ps_request_id r) \<le> MAX_CAPACITY_ID_LEN)
       ''placement response ID length is invalid'' (
     ensure ((ps_offer r \<noteq> None) \<noteq> (ps_error r \<noteq> None)) ''placement response must contain exactly one result'' (
     case ps_offer r of
       None \<Rightarrow> Ok ()
     | Some bid \<Rightarrow>
         ensure (co_version bid = CAPACITY_PROTOCOL_VERSION) ''invalid placement offer version''
           (CapacityOffer_verify (mw_capacity W) bid now_secs))))"

definition PlacementResponse_to_bytes :: "mesh_wire \<Rightarrow> PlacementResponse \<Rightarrow> u64 \<Rightarrow> bytes res" where
  "PlacementResponse_to_bytes W r now_secs =
     try_r (PlacementResponse_validate W r now_secs) (\<lambda>_. encode_placement (mw_placed W r) ''placement response'')"

definition PlacementResponse_from_bytes :: "mesh_wire \<Rightarrow> bytes \<Rightarrow> u64 \<Rightarrow> PlacementResponse res" where
  "PlacementResponse_from_bytes W b now_secs =
     try_r (validate_placement_size b) (\<lambda>_.
     try_r (ctx ''decode placement response'' (mw_parse_placed W b)) (\<lambda>r.
     try_r (PlacementResponse_validate W r now_secs) (\<lambda>_. Ok r)))"

section \<open>Control traffic\<close>

definition AGENT_CONTROL_PROTOCOL_VERSION :: u16 where "AGENT_CONTROL_PROTOCOL_VERSION = 1"
definition MAX_AGENT_CONTROL_PAYLOAD_BYTES :: nat where "MAX_AGENT_CONTROL_PAYLOAD_BYTES = 20 * 1024 * 1024"
definition MAX_AGENT_CONTROL_FRAME_BYTES :: nat where "MAX_AGENT_CONTROL_FRAME_BYTES = MAX_AGENT_CONTROL_PAYLOAD_BYTES + 1024"

definition validate_payload :: "bytes \<Rightarrow> unit res" where
  "validate_payload payload =
     ensure (payload \<noteq> [] \<and> length payload \<le> MAX_AGENT_CONTROL_PAYLOAD_BYTES)
       ''agent control payload size is invalid'' (Ok ())"

definition validate_control_size :: "bytes \<Rightarrow> unit res" where
  "validate_control_size b =
     ensure (b \<noteq> [] \<and> length b \<le> MAX_AGENT_CONTROL_FRAME_BYTES) ''agent control frame size is invalid'' (Ok ())"

definition encode_control :: "bytes res \<Rightarrow> string \<Rightarrow> bytes res" where
  "encode_control encoded field =
     try_r (ctx (''serialize '' @ field) encoded) (\<lambda>b.
     try_r (validate_control_size b) (\<lambda>_. Ok b))"

definition AgentControlRequest_validate :: "AgentControlRequest \<Rightarrow> unit res" where
  "AgentControlRequest_validate r =
     ensure (ar_version r = AGENT_CONTROL_PROTOCOL_VERSION) ''unsupported agent control protocol version''
       (validate_payload (ar_encrypted_payload r))"

definition AgentControlRequest_to_bytes :: "mesh_wire \<Rightarrow> AgentControlRequest \<Rightarrow> bytes res" where
  "AgentControlRequest_to_bytes W r =
     try_r (AgentControlRequest_validate r) (\<lambda>_. encode_control (mw_control W r) ''agent control request'')"

definition AgentControlRequest_from_bytes :: "mesh_wire \<Rightarrow> bytes \<Rightarrow> AgentControlRequest res" where
  "AgentControlRequest_from_bytes W b =
     try_r (validate_control_size b) (\<lambda>_.
     try_r (ctx ''decode agent control request'' (mw_parse_control W b)) (\<lambda>r.
     try_r (AgentControlRequest_validate r) (\<lambda>_. Ok r)))"

definition AgentControlResponse_success :: "bytes \<Rightarrow> AgentControlResponse" where
  "AgentControlResponse_success payload =
     \<lparr>as_version = AGENT_CONTROL_PROTOCOL_VERSION, as_ok = True, as_encrypted_payload = payload, as_error = None\<rparr>"

definition AgentControlResponse_rejected :: AgentControlResponse where
  "AgentControlResponse_rejected =
     \<lparr>as_version = AGENT_CONTROL_PROTOCOL_VERSION, as_ok = False, as_encrypted_payload = [], as_error = Some ControlRejected\<rparr>"

definition AgentControlResponse_validate :: "AgentControlResponse \<Rightarrow> unit res" where
  "AgentControlResponse_validate r =
     ensure (as_version r = AGENT_CONTROL_PROTOCOL_VERSION) ''unsupported agent control response version'' (
     ensure (as_ok r = (as_error r = None)) ''agent control response result is ambiguous'' (
     if as_ok r then validate_payload (as_encrypted_payload r)
     else ensure (as_encrypted_payload r = []) ''rejected agent response cannot contain a payload'' (Ok ())))"

definition AgentControlResponse_to_bytes :: "mesh_wire \<Rightarrow> AgentControlResponse \<Rightarrow> bytes res" where
  "AgentControlResponse_to_bytes W r =
     try_r (AgentControlResponse_validate r) (\<lambda>_. encode_control (mw_controlled W r) ''agent control response'')"

definition AgentControlResponse_from_bytes :: "mesh_wire \<Rightarrow> bytes \<Rightarrow> AgentControlResponse res" where
  "AgentControlResponse_from_bytes W b =
     try_r (validate_control_size b) (\<lambda>_.
     try_r (ctx ''decode agent control response'' (mw_parse_controlled W b)) (\<lambda>r.
     try_r (AgentControlResponse_validate r) (\<lambda>_. Ok r)))"

section \<open>Control traffic relayed by a scheduler\<close>

definition AGENT_CONTROL_RELAY_PROTOCOL_VERSION :: u16 where "AGENT_CONTROL_RELAY_PROTOCOL_VERSION = 1"
definition AGENT_CONTROL_RELAY_FRAME_OVERHEAD_BYTES :: nat where "AGENT_CONTROL_RELAY_FRAME_OVERHEAD_BYTES = 1024"
definition MAX_AGENT_CONTROL_RELAY_FRAME_BYTES :: nat where
  "MAX_AGENT_CONTROL_RELAY_FRAME_BYTES = MAX_AGENT_CONTROL_PAYLOAD_BYTES + AGENT_CONTROL_RELAY_FRAME_OVERHEAD_BYTES"

definition AgentControlRelayRequest_location_answer :: "bytes \<Rightarrow> string \<Rightarrow> AgentControlRelayRequest" where
  "AgentControlRelayRequest_location_answer agent_endpoint_id query_id =
     \<lparr>ry_version = AGENT_CONTROL_RELAY_PROTOCOL_VERSION, ry_agent_endpoint_id = agent_endpoint_id,
      ry_intent = LocationAnswer, ry_query_id = query_id, ry_encrypted_payload = []\<rparr>"

definition AgentControlRelayRequest_locate :: "bytes \<Rightarrow> AgentControlRelayRequest" where
  "AgentControlRelayRequest_locate agent_endpoint_id =
     \<lparr>ry_version = AGENT_CONTROL_RELAY_PROTOCOL_VERSION, ry_agent_endpoint_id = agent_endpoint_id,
      ry_intent = Locate, ry_query_id = [], ry_encrypted_payload = []\<rparr>"

definition AgentControlRelayRequest_forward :: "bytes \<Rightarrow> AgentControlOperation \<Rightarrow> bytes \<Rightarrow> AgentControlRelayRequest" where
  "AgentControlRelayRequest_forward agent_endpoint_id operation encrypted_payload =
     \<lparr>ry_version = AGENT_CONTROL_RELAY_PROTOCOL_VERSION, ry_agent_endpoint_id = agent_endpoint_id,
      ry_intent = Forward operation, ry_query_id = [], ry_encrypted_payload = encrypted_payload\<rparr>"

definition AgentControlRelayRequest_validate :: "AgentControlRelayRequest \<Rightarrow> unit res" where
  "AgentControlRelayRequest_validate r =
     ensure (ry_version r = AGENT_CONTROL_RELAY_PROTOCOL_VERSION) ''unsupported agent control relay protocol version'' (
     ensure (length (ry_agent_endpoint_id r) = IROH_ENDPOINT_ID_BYTES) ''relayed agent EndpointId must contain 32 bytes'' (
     try_r (case ry_intent r of
         Locate \<Rightarrow> ensure (ry_encrypted_payload r = []) ''a locate probe cannot carry a payload'' (Ok ())
       | Forward _ \<Rightarrow>
           ensure (ry_encrypted_payload r \<noteq> [] \<and> length (ry_encrypted_payload r) \<le> MAX_AGENT_CONTROL_PAYLOAD_BYTES)
             ''relayed agent control payload size is invalid'' (Ok ())
       | LocationAnswer \<Rightarrow>
           ensure (ry_encrypted_payload r = []) ''a location answer cannot carry a payload'' (
           ensure (ry_query_id r \<noteq> [] \<and> length (ry_query_id r) \<le> 128)
             ''a location answer must name the query it answers'' (Ok ()))) (\<lambda>_.
     ensure (ry_intent r = LocationAnswer \<or> ry_query_id r = []) ''only a location answer carries a query id'' (Ok ()))))"

definition validate_relay_size :: "bytes \<Rightarrow> unit res" where
  "validate_relay_size b =
     ensure (b \<noteq> [] \<and> length b \<le> MAX_AGENT_CONTROL_RELAY_FRAME_BYTES) ''agent control relay frame size is invalid'' (Ok ())"

definition encode_relay :: "bytes res \<Rightarrow> string \<Rightarrow> bytes res" where
  "encode_relay encoded field =
     try_r (ctx (''serialize '' @ field) encoded) (\<lambda>b.
     try_r (validate_relay_size b) (\<lambda>_. Ok b))"

definition AgentControlRelayRequest_to_bytes :: "mesh_wire \<Rightarrow> AgentControlRelayRequest \<Rightarrow> bytes res" where
  "AgentControlRelayRequest_to_bytes W r =
     try_r (AgentControlRelayRequest_validate r) (\<lambda>_. encode_relay (mw_relay W r) ''agent control relay request'')"

definition AgentControlRelayRequest_from_bytes :: "mesh_wire \<Rightarrow> bytes \<Rightarrow> AgentControlRelayRequest res" where
  "AgentControlRelayRequest_from_bytes W b =
     try_r (validate_relay_size b) (\<lambda>_.
     try_r (ctx ''decode agent control relay request'' (mw_parse_relay W b)) (\<lambda>r.
     try_r (AgentControlRelayRequest_validate r) (\<lambda>_. Ok r)))"

definition AgentControlRelayResponse_located :: AgentControlRelayResponse where
  "AgentControlRelayResponse_located =
     \<lparr>rz_version = AGENT_CONTROL_RELAY_PROTOCOL_VERSION, rz_ok = True, rz_encrypted_payload = [], rz_error = None\<rparr>"

definition AgentControlRelayResponse_delivered :: "bytes \<Rightarrow> AgentControlRelayResponse" where
  "AgentControlRelayResponse_delivered payload =
     \<lparr>rz_version = AGENT_CONTROL_RELAY_PROTOCOL_VERSION, rz_ok = True, rz_encrypted_payload = payload, rz_error = None\<rparr>"

definition AgentControlRelayResponse_failed :: "AgentControlRelayError \<Rightarrow> AgentControlRelayResponse" where
  "AgentControlRelayResponse_failed error =
     \<lparr>rz_version = AGENT_CONTROL_RELAY_PROTOCOL_VERSION, rz_ok = False, rz_encrypted_payload = [], rz_error = Some error\<rparr>"

definition AgentControlRelayResponse_validate :: "AgentControlRelayResponse \<Rightarrow> unit res" where
  "AgentControlRelayResponse_validate r =
     ensure (rz_version r = AGENT_CONTROL_RELAY_PROTOCOL_VERSION) ''unsupported agent control relay response version'' (
     ensure (rz_ok r = (rz_error r = None)) ''agent control relay response result is ambiguous'' (
     if rz_ok r
     then ensure (length (rz_encrypted_payload r) \<le> MAX_AGENT_CONTROL_PAYLOAD_BYTES)
       ''relayed agent control response payload is too large'' (Ok ())
     else ensure (rz_encrypted_payload r = []) ''a failed relay response cannot contain a payload'' (Ok ())))"

definition AgentControlRelayResponse_to_bytes :: "mesh_wire \<Rightarrow> AgentControlRelayResponse \<Rightarrow> bytes res" where
  "AgentControlRelayResponse_to_bytes W r =
     try_r (AgentControlRelayResponse_validate r) (\<lambda>_. encode_relay (mw_relayed W r) ''agent control relay response'')"

definition AgentControlRelayResponse_from_bytes :: "mesh_wire \<Rightarrow> bytes \<Rightarrow> AgentControlRelayResponse res" where
  "AgentControlRelayResponse_from_bytes W b =
     try_r (validate_relay_size b) (\<lambda>_.
     try_r (ctx ''decode agent control relay response'' (mw_parse_relayed W b)) (\<lambda>r.
     try_r (AgentControlRelayResponse_validate r) (\<lambda>_. Ok r)))"

section \<open>Reconciliation\<close>

definition RECONCILIATION_PROTOCOL_VERSION :: u16 where "RECONCILIATION_PROTOCOL_VERSION = 1"
definition MAX_RECONCILIATION_LIFETIME_SECS :: u64 where "MAX_RECONCILIATION_LIFETIME_SECS = 15"
definition MAX_RECONCILIATION_CLOCK_SKEW_SECS :: u64 where "MAX_RECONCILIATION_CLOCK_SKEW_SECS = 5"
definition MAX_RECONCILIATION_QUERY_ID_BYTES :: nat where "MAX_RECONCILIATION_QUERY_ID_BYTES = 128"
definition MAX_RECONCILIATION_RESPONSE_BYTES :: nat where
  "MAX_RECONCILIATION_RESPONSE_BYTES = MAX_AGENT_CONTROL_PAYLOAD_BYTES + 4 * 1024"

definition validate_query_id :: "string \<Rightarrow> unit res" where
  "validate_query_id query_id =
     ensure (query_id \<noteq> [] \<and> length query_id \<le> MAX_RECONCILIATION_QUERY_ID_BYTES)
       ''reconciliation query id length is invalid'' (Ok ())"

definition validate_endpoint_id :: "bytes \<Rightarrow> unit res" where
  "validate_endpoint_id endpoint_id =
     ensure (length endpoint_id = IROH_ENDPOINT_ID_BYTES) ''reconciliation EndpointId must contain 32 bytes'' (Ok ())"

definition validate_window :: "u64 \<Rightarrow> u64 \<Rightarrow> u64 \<Rightarrow> unit res" where
  "validate_window issued_at_secs expires_at_secs now_secs =
     ensure (issued_at_secs \<le> saturating_add now_secs MAX_RECONCILIATION_CLOCK_SKEW_SECS)
       ''reconciliation query was issued too far in the future'' (
     ensure (issued_at_secs < expires_at_secs \<and> expires_at_secs - issued_at_secs \<le> MAX_RECONCILIATION_LIFETIME_SECS)
       ''reconciliation query lifetime is invalid'' (
     ensure (now_secs \<le> saturating_add expires_at_secs MAX_RECONCILIATION_CLOCK_SKEW_SECS)
       ''reconciliation query expired'' (Ok ())))"

definition SchedulerReconciliationQuery_canonical_bytes :: "mesh_wire \<Rightarrow> SchedulerReconciliationQuery \<Rightarrow> bytes res" where
  "SchedulerReconciliationQuery_canonical_bytes W q =
     ctx ''serialize canonical reconciliation query'' (mw_reconcile W (q\<lparr>rq_signature := []\<rparr>))"

definition SchedulerReconciliationQuery_validate_unsigned ::
  "mesh_wire \<Rightarrow> SchedulerReconciliationQuery \<Rightarrow> u64 \<Rightarrow> unit res" where
  "SchedulerReconciliationQuery_validate_unsigned W q now_secs =
     ensure (rq_version q = RECONCILIATION_PROTOCOL_VERSION) ''unsupported reconciliation query version'' (
     try_r (validate_query_id (rq_query_id q)) (\<lambda>_.
     try_r (validate_window (rq_issued_at_secs q) (rq_expires_at_secs q) now_secs) (\<lambda>_.
     try_r (WorkloadListRequest_from_bytes (mw_agent W) (rq_owner_request q) now_secs) (\<lambda>_.
     try_r (mw_verify_endpoint W (rq_reply_endpoint q) now_secs) (\<lambda>_.
     ensure (er_signing_pubkey (rq_reply_endpoint q) = rq_signing_pubkey q)
       ''reconciliation reply endpoint does not belong to the query signer'' (Ok ()))))))"

definition SchedulerReconciliationQuery_sign ::
  "mesh_wire \<Rightarrow> SchedulerReconciliationQuery \<Rightarrow> bytes \<Rightarrow> bytes \<Rightarrow> u64 \<Rightarrow> SchedulerReconciliationQuery res" where
  "SchedulerReconciliationQuery_sign W q signing_public signing_private now_secs =
     (let q1 = q\<lparr>rq_signing_pubkey := b64_encode (mw_crates W) signing_public, rq_signature := []\<rparr> in
      try_r (SchedulerReconciliationQuery_validate_unsigned W q1 now_secs) (\<lambda>_.
      try_r (SchedulerReconciliationQuery_canonical_bytes W q1) (\<lambda>b.
      try_r (sign_domain (mw_crates W) signing_private D_SchedulerReconciliationQuery b) (\<lambda>sig.
        Ok (q1\<lparr>rq_signature := b64_encode (mw_crates W) sig\<rparr>)))))"

definition SchedulerReconciliationQuery_verify :: "mesh_wire \<Rightarrow> SchedulerReconciliationQuery \<Rightarrow> u64 \<Rightarrow> unit res" where
  "SchedulerReconciliationQuery_verify W q now_secs =
     try_r (SchedulerReconciliationQuery_validate_unsigned W q now_secs) (\<lambda>_.
     try_r (b64_decode (mw_crates W) (rq_signing_pubkey q)) (\<lambda>public.
     try_r (b64_decode (mw_crates W) (rq_signature q)) (\<lambda>signature.
     try_r (SchedulerReconciliationQuery_canonical_bytes W q) (\<lambda>b.
       verify_domain (mw_crates W) public D_SchedulerReconciliationQuery b signature))))"

definition validate_event :: "ReconciliationEvent \<Rightarrow> unit res" where
  "validate_event event =
     (case event of
        AgentAnswer agent_endpoint_id sealed_response \<Rightarrow>
          try_r (validate_endpoint_id agent_endpoint_id) (\<lambda>_.
          ensure (sealed_response \<noteq> [] \<and> length sealed_response \<le> MAX_AGENT_CONTROL_PAYLOAD_BYTES)
            ''sealed reconciliation answer size is invalid'' (Ok ()))
      | AgentUnreachable agent_endpoint_id \<Rightarrow> validate_endpoint_id agent_endpoint_id
      | Complete \<Rightarrow> Ok ())"

definition SchedulerReconciliationResponse_canonical_bytes ::
  "mesh_wire \<Rightarrow> SchedulerReconciliationResponse \<Rightarrow> bytes res" where
  "SchedulerReconciliationResponse_canonical_bytes W r =
     ctx ''serialize canonical reconciliation response'' (mw_reconciled W (r\<lparr>xr_signature := []\<rparr>))"

definition SchedulerReconciliationResponse_validate_unsigned ::
  "mesh_wire \<Rightarrow> SchedulerReconciliationResponse \<Rightarrow> u64 \<Rightarrow> unit res" where
  "SchedulerReconciliationResponse_validate_unsigned W r now_secs =
     ensure (xr_version r = RECONCILIATION_PROTOCOL_VERSION) ''unsupported reconciliation response version'' (
     try_r (validate_query_id (xr_query_id r)) (\<lambda>_.
     try_r (mw_verify_endpoint W (xr_responder_endpoint r) now_secs) (\<lambda>_.
     ensure (er_signing_pubkey (xr_responder_endpoint r) = xr_signing_pubkey r)
       ''reconciliation responder endpoint does not belong to the signer'' (
     ensure (xr_responded_at_secs r \<le> saturating_add now_secs MAX_RECONCILIATION_CLOCK_SKEW_SECS)
       ''reconciliation response was issued too far in the future'' (validate_event (xr_event r))))))"

definition SchedulerReconciliationResponse_sign ::
  "mesh_wire \<Rightarrow> SchedulerReconciliationResponse \<Rightarrow> bytes \<Rightarrow> bytes \<Rightarrow> u64 \<Rightarrow> SchedulerReconciliationResponse res" where
  "SchedulerReconciliationResponse_sign W r signing_public signing_private now_secs =
     (let r1 = r\<lparr>xr_signing_pubkey := b64_encode (mw_crates W) signing_public, xr_signature := []\<rparr> in
      try_r (SchedulerReconciliationResponse_validate_unsigned W r1 now_secs) (\<lambda>_.
      try_r (SchedulerReconciliationResponse_canonical_bytes W r1) (\<lambda>b.
      try_r (sign_domain (mw_crates W) signing_private D_SchedulerReconciliationResponse b) (\<lambda>sig.
        Ok (r1\<lparr>xr_signature := b64_encode (mw_crates W) sig\<rparr>)))))"

definition SchedulerReconciliationResponse_verify ::
  "mesh_wire \<Rightarrow> SchedulerReconciliationResponse \<Rightarrow> u64 \<Rightarrow> unit res" where
  "SchedulerReconciliationResponse_verify W r now_secs =
     try_r (SchedulerReconciliationResponse_validate_unsigned W r now_secs) (\<lambda>_.
     try_r (b64_decode (mw_crates W) (xr_signing_pubkey r)) (\<lambda>public.
     try_r (b64_decode (mw_crates W) (xr_signature r)) (\<lambda>signature.
     try_r (SchedulerReconciliationResponse_canonical_bytes W r) (\<lambda>b.
       verify_domain (mw_crates W) public D_SchedulerReconciliationResponse b signature))))"

definition validate_reconciled_size :: "bytes \<Rightarrow> unit res" where
  "validate_reconciled_size b =
     ensure (b \<noteq> [] \<and> length b \<le> MAX_RECONCILIATION_RESPONSE_BYTES) ''reconciliation response size is invalid'' (Ok ())"

definition SchedulerReconciliationResponse_to_bytes ::
  "mesh_wire \<Rightarrow> SchedulerReconciliationResponse \<Rightarrow> u64 \<Rightarrow> bytes res" where
  "SchedulerReconciliationResponse_to_bytes W r now_secs =
     try_r (SchedulerReconciliationResponse_verify W r now_secs) (\<lambda>_.
     try_r (ctx ''serialize reconciliation response'' (mw_reconciled W r)) (\<lambda>b.
     try_r (validate_reconciled_size b) (\<lambda>_. Ok b)))"

definition SchedulerReconciliationResponse_from_bytes ::
  "mesh_wire \<Rightarrow> bytes \<Rightarrow> u64 \<Rightarrow> SchedulerReconciliationResponse res" where
  "SchedulerReconciliationResponse_from_bytes W b now_secs =
     try_r (validate_reconciled_size b) (\<lambda>_.
     try_r (ctx ''decode reconciliation response'' (mw_parse_reconciled W b)) (\<lambda>r.
     try_r (SchedulerReconciliationResponse_verify W r now_secs) (\<lambda>_. Ok r)))"

section \<open>The signed messages honour the contract\<close>

interpretation relay_grant: signed_message "mw_crates W" D_MachineRelayGrant "MachineRelayGrant_canonical_bytes W"
  mg_issuer_pubkey mg_signature "\<lambda>s g. g\<lparr>mg_signature := s\<rparr>"
  "\<lambda>g. is_ok (MachineRelayGrant_validate_unsigned g now) \<and> mg_subject_endpoint_id g = subject
     \<and> mg_relay_audience g = audience \<and> is_machine_relay_allowed (mg_role g)
     \<and> (\<exists>pk \<in> set trusted. b64_decode (mw_crates W) (mg_issuer_pubkey g) = Ok pk)"
  "\<lambda>g. MachineRelayGrant_verify W g trusted subject audience now"
  for W trusted subject audience now
  by unfold_locales
    (auto simp: MachineRelayGrant_verify_def MachineRelayGrant_validate_def MachineRelayGrant_canonical_bytes_def
      MachineRelayGrant_validate_unsigned_def is_ok_iff)

interpretation hello: signed_message "mw_crates W" D_AgentAttachmentHello "AgentAttachmentHello_canonical_bytes W"
  ah_signing_pubkey ah_signature "\<lambda>s h. h\<lparr>ah_signature := s\<rparr>"
  "\<lambda>h. is_ok (AgentAttachmentHello_validate_unsigned W h now)" "\<lambda>h. AgentAttachmentHello_verify W h now"
  for W now
  by unfold_locales
    (auto simp: AgentAttachmentHello_verify_def AgentAttachmentHello_validate_def AgentAttachmentHello_canonical_bytes_def
      AgentAttachmentHello_validate_unsigned_def is_ok_iff)

interpretation locate: signed_message "mw_crates W" D_AgentLocationQuery "AgentLocationQuery_canonical_bytes W"
  al_signing_pubkey al_signature "\<lambda>s q. q\<lparr>al_signature := s\<rparr>"
  "\<lambda>q. is_ok (AgentLocationQuery_validate_unsigned W q now)" "\<lambda>q. AgentLocationQuery_verify W q now"
  for W now
  by unfold_locales
    (auto simp: AgentLocationQuery_verify_def AgentLocationQuery_canonical_bytes_def
      AgentLocationQuery_validate_unsigned_def is_ok_iff verify_domain_Ok_iff)

interpretation reconcile: signed_message "mw_crates W" D_SchedulerReconciliationQuery
  "SchedulerReconciliationQuery_canonical_bytes W" rq_signing_pubkey rq_signature "\<lambda>s q. q\<lparr>rq_signature := s\<rparr>"
  "\<lambda>q. is_ok (SchedulerReconciliationQuery_validate_unsigned W q now)" "\<lambda>q. SchedulerReconciliationQuery_verify W q now"
  for W now
  by unfold_locales
    (auto simp: SchedulerReconciliationQuery_verify_def SchedulerReconciliationQuery_canonical_bytes_def
      SchedulerReconciliationQuery_validate_unsigned_def is_ok_iff verify_domain_Ok_iff)

interpretation reconciled: signed_message "mw_crates W" D_SchedulerReconciliationResponse
  "SchedulerReconciliationResponse_canonical_bytes W" xr_signing_pubkey xr_signature "\<lambda>s r. r\<lparr>xr_signature := s\<rparr>"
  "\<lambda>r. is_ok (SchedulerReconciliationResponse_validate_unsigned W r now)"
  "\<lambda>r. SchedulerReconciliationResponse_verify W r now"
  for W now
  by unfold_locales
    (auto simp: SchedulerReconciliationResponse_verify_def SchedulerReconciliationResponse_canonical_bytes_def
      SchedulerReconciliationResponse_validate_unsigned_def is_ok_iff verify_domain_Ok_iff)

end
