(* ===== verification/Scheduler_Query.thy ===== *)
theory Scheduler_Query
  imports Mesh_Messages "HOL-Library.List_Lexorder" "HOL-Library.Product_Lexorder" "HOL-Library.Char_ord"
begin

text \<open>
  Placement at a scheduler: its identity (\<open>podmesh-scheduler/src/machine/identity.rs\<close>), the queries it has in
  flight and the offers it collects for them (\<open>podmesh-scheduler/src/machine/query.rs\<close>). Every operation of
  \<open>QueryManager\<close> holds the lock from start to end, so each is one function of the state; a run is a list of
  them in any order. An \<open>EndpointId\<close> is its 32 bytes. New UUIDs are inputs. The limits are those of a validated
  configuration, so they are positive, as \<open>clamp\<close> in \<open>begin\<close> demands, and fit a \<open>usize\<close>. Metrics are left out, and
  so is the channel on which waiters watch the number of offers, which is the length of \<open>pq_offers\<close>.
\<close>

section \<open>Identity\<close>

record SchedulerIdentity =
  sc_endpoint_id :: bytes
  sc_signing_public :: bytes
  sc_signing_private :: bytes
  sc_advertise_addresses :: "string list"

definition SchedulerIdentity_endpoint_record ::
  "capacity_wire \<Rightarrow> SchedulerIdentity \<Rightarrow> EndpointAddr \<Rightarrow> u64 \<Rightarrow> u64 \<Rightarrow> EndpointRecord res" where
  "SchedulerIdentity_endpoint_record W identity address now_secs expires_at_secs =
     ensure (ea_id address = sc_endpoint_id identity)
       ''scheduler reply address does not match persistent transport identity'' (
     let direct_addresses = take MAX_ENDPOINT_DIRECT_ADDRESSES
           (if sc_advertise_addresses identity = [] then ea_ip_addrs address else sc_advertise_addresses identity) in
     EndpointRecord_sign (cw_crates W) (cw_endpoint W)
       \<lparr>er_version = ENDPOINT_RECORD_VERSION, er_endpoint_id = sc_endpoint_id identity,
        er_relay_url = (case ea_relay_urls address of [] \<Rightarrow> None | url # _ \<Rightarrow> Some url),
        er_direct_addresses = direct_addresses, er_signing_pubkey = [], er_issued_at_secs = now_secs,
        er_expires_at_secs = expires_at_secs, er_signature = []\<rparr>
       (sc_signing_public identity) (sc_signing_private identity) now_secs)"

definition SchedulerIdentity_issue_relay_grant ::
  "mesh_wire \<Rightarrow> SchedulerIdentity \<Rightarrow> bytes \<Rightarrow> MachineRole \<Rightarrow> string \<Rightarrow> string \<Rightarrow> u64 \<Rightarrow> MachineRelayGrant res" where
  "SchedulerIdentity_issue_relay_grant W identity subject role audience token_id now_secs =
     MachineRelayGrant_sign W
       \<lparr>mg_version = MACHINE_RELAY_GRANT_VERSION, mg_subject_endpoint_id = subject, mg_role = role,
        mg_relay_audience = audience, mg_issued_at_secs = now_secs,
        mg_expires_at_secs = now_secs + MAX_MACHINE_RELAY_GRANT_LIFETIME_SECS, mg_token_id = token_id,
        mg_issuer_pubkey = [], mg_signature = []\<rparr>
       (sc_signing_public identity) (sc_signing_private identity) now_secs"

section \<open>Queries in flight\<close>

record CapacityCriteria =
  cc_cpu_milli :: u32
  cc_memory_bytes :: u64
  cc_storage_bytes :: u64
  cc_required_capabilities :: "string list"
  cc_excluded_endpoint_ids :: "bytes list"

definition CapacityCriteria_normalized :: "CapacityCriteria \<Rightarrow> CapacityCriteria" where
  "CapacityCriteria_normalized c =
     c\<lparr>cc_required_capabilities := sort (cc_required_capabilities c),
       cc_excluded_endpoint_ids := sort (cc_excluded_endpoint_ids c)\<rparr>"

record PendingQuery =
  pq_criteria :: CapacityCriteria
  pq_query :: CapacityQuery
  pq_offers :: "(bytes, CapacityOffer) hmap"
  pq_selected :: "bytes list"
  pq_target_offers :: nat

record QueryState =
  qs_pending :: "(string, PendingQuery) hmap"
  qs_equivalent :: "(CapacityCriteria, string) hmap"

text \<open>The limits of a \<open>QueryManager\<close>, with the timeout in seconds.\<close>

record QueryManager =
  qm_max_pending_queries :: nat
  qm_max_offers_per_query :: nat
  qm_query_timeout :: u64

record BegunQuery =
  bq_query :: CapacityQuery
  bq_newly_created :: bool
  bq_target_offers :: nat

definition QueryState_new :: QueryState where
  "QueryState_new = \<lparr>qs_pending = [], qs_equivalent = []\<rparr>"

definition drop_query :: "string \<times> CapacityCriteria \<Rightarrow> QueryState \<Rightarrow> QueryState" where
  "drop_query e st =
     st\<lparr>qs_pending := hm_remove (fst e) (qs_pending st), qs_equivalent := hm_remove (snd e) (qs_equivalent st)\<rparr>"

definition cleanup_locked :: "u64 \<Rightarrow> QueryState \<Rightarrow> QueryState" where
  "cleanup_locked now_secs st =
     fold drop_query
       (map (\<lambda>(query_id, pending). (query_id, pq_criteria pending))
         (filter (\<lambda>(query_id, pending). saturating_add (cq_expires_at_secs (pq_query pending)) 1 < now_secs) (qs_pending st)))
       st"

text \<open>The inputs of \<open>begin\<close> beside its arguments: two UUIDs and the address of the endpoint.\<close>

record begin_io =
  bi_query_id :: string
  bi_nonce :: string
  bi_reply_address :: EndpointAddr
  bi_now :: u64

definition new_query :: "CapacityCriteria \<Rightarrow> begin_io \<Rightarrow> EndpointRecord \<Rightarrow> u64 \<Rightarrow> CapacityQuery" where
  "new_query criteria io reply_endpoint expires_at_secs =
     \<lparr>cq_version = CAPACITY_PROTOCOL_VERSION, cq_query_id = bi_query_id io, cq_nonce = bi_nonce io,
      cq_cpu_milli = cc_cpu_milli criteria, cq_memory_bytes = cc_memory_bytes criteria,
      cq_storage_bytes = cc_storage_bytes criteria, cq_required_capabilities = cc_required_capabilities criteria,
      cq_excluded_endpoint_ids = cc_excluded_endpoint_ids criteria, cq_reply_endpoint = reply_endpoint,
      cq_issued_at_secs = bi_now io, cq_expires_at_secs = expires_at_secs, cq_signing_pubkey = [], cq_signature = []\<rparr>"

definition create_query ::
  "capacity_wire \<Rightarrow> QueryManager \<Rightarrow> SchedulerIdentity \<Rightarrow> CapacityCriteria \<Rightarrow> nat \<Rightarrow> begin_io \<Rightarrow> QueryState
    \<Rightarrow> QueryState \<times> BegunQuery res" where
  "create_query W M identity criteria target_offers io st =
     (let expires_at_secs = saturating_add (bi_now io) (qm_query_timeout M) in
      case try_r (SchedulerIdentity_endpoint_record W identity (bi_reply_address io) (bi_now io) expires_at_secs) (\<lambda>reply_endpoint.
           CapacityQuery_sign W (new_query criteria io reply_endpoint expires_at_secs) (sc_signing_public identity)
             (sc_signing_private identity) (bi_now io)) of
        Err e \<Rightarrow> (st, Err e)
      | Ok query \<Rightarrow>
          (st\<lparr>qs_equivalent := hm_insert criteria (cq_query_id query) (qs_equivalent st),
              qs_pending := hm_insert (cq_query_id query)
                \<lparr>pq_criteria = criteria, pq_query = query, pq_offers = [], pq_selected = [], pq_target_offers = target_offers\<rparr>
                (qs_pending st)\<rparr>,
           Ok \<lparr>bq_query = query, bq_newly_created = True, bq_target_offers = target_offers\<rparr>))"

definition QueryManager_begin ::
  "capacity_wire \<Rightarrow> QueryManager \<Rightarrow> SchedulerIdentity \<Rightarrow> CapacityCriteria \<Rightarrow> nat \<Rightarrow> begin_io \<Rightarrow> QueryState
    \<Rightarrow> QueryState \<times> BegunQuery res" where
  "QueryManager_begin W M identity asked target io st0 =
     (let criteria = CapacityCriteria_normalized asked;
          target_offers = min (max 1 target) (qm_max_offers_per_query M);
          st = cleanup_locked (bi_now io) st0
      in case Option.bind (hm_get (qs_equivalent st) criteria) (\<lambda>query_id.
             map_option (Pair query_id) (hm_get (qs_pending st) query_id)) of
           Some (query_id, pending) \<Rightarrow>
             let joined = pending\<lparr>pq_target_offers := min (pq_target_offers pending + target_offers) (qm_max_offers_per_query M)\<rparr> in
             (st\<lparr>qs_pending := hm_insert query_id joined (qs_pending st)\<rparr>,
              Ok \<lparr>bq_query = pq_query pending, bq_newly_created = False, bq_target_offers = pq_target_offers joined\<rparr>)
         | None \<Rightarrow>
             if qm_max_pending_queries M \<le> length (qs_pending st) then (st, Err ''scheduler pending-query limit reached'')
             else create_query W M identity criteria target_offers io st)"

section \<open>Offers\<close>

definition offer_checks :: "PendingQuery \<Rightarrow> CapacityOffer \<Rightarrow> bytes \<Rightarrow> u64 \<Rightarrow> unit res" where
  "offer_checks pending bid authenticated_endpoint now_secs =
     ensure (now_secs \<le> cq_expires_at_secs (pq_query pending)) ''capacity offer arrived after query deadline'' (
     ensure (authenticated_endpoint \<notin> set (cc_excluded_endpoint_ids (pq_criteria pending)))
       ''capacity offer came from an excluded agent'' (
     ensure (cc_cpu_milli (pq_criteria pending) \<le> co_available_cpu_milli bid
         \<and> cc_memory_bytes (pq_criteria pending) \<le> co_available_memory_bytes bid
         \<and> cc_storage_bytes (pq_criteria pending) \<le> co_available_storage_bytes bid)
       ''capacity offer does not satisfy requested resources'' (
     ensure (list_all (\<lambda>required. required \<in> set (co_capabilities bid)) (cc_required_capabilities (pq_criteria pending)))
       ''capacity offer does not satisfy required capabilities'' (Ok ()))))"

definition QueryManager_submit_offer ::
  "capacity_wire \<Rightarrow> QueryManager \<Rightarrow> CapacityOffer \<Rightarrow> bytes \<Rightarrow> u64 \<Rightarrow> QueryState \<Rightarrow> QueryState \<times> bool res" where
  "QueryManager_submit_offer W M bid authenticated_endpoint now_secs st0 =
     (case try_r (CapacityOffer_verify W bid now_secs) (\<lambda>_.
           ensure (er_endpoint_id (co_agent_endpoint bid) = authenticated_endpoint)
             ''capacity offer EndpointId does not match authenticated sender'' (Ok ())) of
        Err e \<Rightarrow> (st0, Err e)
      | Ok _ \<Rightarrow>
          let st = cleanup_locked now_secs st0 in
          case hm_get (qs_pending st) (co_query_id bid) of
            None \<Rightarrow> (st, Err ''capacity offer names no active query'')
          | Some pending \<Rightarrow>
              (case offer_checks pending bid authenticated_endpoint now_secs of
                 Err e \<Rightarrow> (st, Err e)
               | Ok _ \<Rightarrow>
                   if hm_contains (pq_offers pending) authenticated_endpoint then (st, Ok False)
                   else if qm_max_offers_per_query M \<le> length (pq_offers pending)
                   then (st, Err ''capacity offer limit reached for query'')
                   else (st\<lparr>qs_pending := hm_insert (co_query_id bid)
                           (pending\<lparr>pq_offers := hm_insert authenticated_endpoint bid (pq_offers pending)\<rparr>) (qs_pending st)\<rparr>,
                         Ok True)))"

text \<open>\<open>Ord::cmp\<close> with \<open>Ordering::then_with\<close>, and \<open>Iterator::min_by\<close>, which keeps the first of two equals.\<close>

datatype ordering = Less | Equal | Greater

definition cmp :: "'a::linorder \<Rightarrow> 'a \<Rightarrow> ordering" where
  "cmp a b = (if a < b then Less else if a = b then Equal else Greater)"

definition then_with :: "ordering \<Rightarrow> ordering \<Rightarrow> ordering" where
  "then_with a b = (case a of Equal \<Rightarrow> b | _ \<Rightarrow> a)"

fun min_by :: "('a \<Rightarrow> 'a \<Rightarrow> ordering) \<Rightarrow> 'a list \<Rightarrow> 'a option" where
  "min_by compare [] = None"
| "min_by compare (x # xs) = Some (foldl (\<lambda>best y. if compare best y = Greater then y else best) x xs)"

definition compare_offers :: "CapacityCriteria \<Rightarrow> CapacityOffer \<Rightarrow> CapacityOffer \<Rightarrow> ordering" where
  "compare_offers criteria left right =
     then_with (then_with (then_with
       (cmp (saturating_sub (co_available_cpu_milli left) (cc_cpu_milli criteria))
            (saturating_sub (co_available_cpu_milli right) (cc_cpu_milli criteria)))
       (cmp (saturating_sub (co_available_memory_bytes left) (cc_memory_bytes criteria))
            (saturating_sub (co_available_memory_bytes right) (cc_memory_bytes criteria))))
       (cmp (saturating_sub (co_available_storage_bytes left) (cc_storage_bytes criteria))
            (saturating_sub (co_available_storage_bytes right) (cc_storage_bytes criteria))))
       (cmp (er_endpoint_id (co_agent_endpoint left)) (er_endpoint_id (co_agent_endpoint right)))"

definition open_offers :: "PendingQuery \<Rightarrow> u64 \<Rightarrow> (bytes, CapacityOffer) hmap" where
  "open_offers pending now_secs =
     filter (\<lambda>(endpoint, bid). now_secs \<le> co_expires_at_secs bid \<and> endpoint \<notin> set (pq_selected pending)) (pq_offers pending)"

definition QueryManager_finish :: "string \<Rightarrow> u64 \<Rightarrow> QueryState \<Rightarrow> QueryState \<times> CapacityOffer option" where
  "QueryManager_finish query_id now_secs st =
     (case hm_get (qs_pending st) query_id of
        None \<Rightarrow> (st, None)
      | Some pending \<Rightarrow>
          (case min_by (\<lambda>l r. compare_offers (pq_criteria pending) (snd l) (snd r)) (open_offers pending now_secs) of
             None \<Rightarrow> (st, None)
           | Some (selected_endpoint, _) \<Rightarrow>
               (st\<lparr>qs_pending := hm_insert query_id
                     (pending\<lparr>pq_selected := List.insert selected_endpoint (pq_selected pending)\<rparr>) (qs_pending st)\<rparr>,
                hm_get (pq_offers pending) selected_endpoint)))"

definition QueryManager_abort :: "string \<Rightarrow> QueryState \<Rightarrow> QueryState" where
  "QueryManager_abort query_id st =
     (case hm_get (qs_pending st) query_id of
        None \<Rightarrow> st
      | Some pending \<Rightarrow> drop_query (query_id, pq_criteria pending) st)"

definition QueryManager_cleanup :: "u64 \<Rightarrow> QueryState \<Rightarrow> QueryState" where
  "QueryManager_cleanup now_secs st = cleanup_locked now_secs st"

text \<open>A caller of \<open>CapacityService\<close> (\<open>podmesh-scheduler/src/machine/coordinator.rs\<close>) up to its wait, with how long it
  waits at most; afterwards it calls \<open>finish\<close>. Whether the service is being shut down and whether gossip took the
  query are inputs.\<close>

definition solicit_begin ::
  "capacity_wire \<Rightarrow> QueryManager \<Rightarrow> SchedulerIdentity \<Rightarrow> bool \<Rightarrow> CapacityCriteria \<Rightarrow> nat \<Rightarrow> begin_io \<Rightarrow> unit res \<Rightarrow> QueryState
    \<Rightarrow> QueryState \<times> (BegunQuery \<times> u64) res" where
  "solicit_begin W M identity cancelled criteria target_offers io published st =
     (if cancelled then (st, Err ''scheduler capacity service is shutting down'')
      else case QueryManager_begin W M identity criteria target_offers io st of
        (st', Err e) \<Rightarrow> (st', Err e)
      | (st', Ok begun) \<Rightarrow>
          (case (if bq_newly_created begun then published else Ok ()) of
             Err e \<Rightarrow> (QueryManager_abort (cq_query_id (bq_query begun)) st', Err e)
           | Ok _ \<Rightarrow> (st', Ok (begun, saturating_sub (cq_expires_at_secs (bq_query begun)) (bi_now io)))))"

section \<open>Runs\<close>

datatype query_event =
    Begin CapacityCriteria nat begin_io
  | Submit CapacityOffer bytes u64
  | Finish string u64
  | Abort string
  | Cleanup u64

definition query_step :: "capacity_wire \<Rightarrow> QueryManager \<Rightarrow> SchedulerIdentity \<Rightarrow> query_event \<Rightarrow> QueryState \<Rightarrow> QueryState" where
  "query_step W M identity e st =
     (case e of
        Begin criteria target io \<Rightarrow> fst (QueryManager_begin W M identity criteria target io st)
      | Submit bid endpoint now \<Rightarrow> fst (QueryManager_submit_offer W M bid endpoint now st)
      | Finish query_id now \<Rightarrow> fst (QueryManager_finish query_id now st)
      | Abort query_id \<Rightarrow> QueryManager_abort query_id st
      | Cleanup now \<Rightarrow> QueryManager_cleanup now st)"

definition query_run :: "capacity_wire \<Rightarrow> QueryManager \<Rightarrow> SchedulerIdentity \<Rightarrow> query_event list \<Rightarrow> QueryState \<Rightarrow> QueryState" where
  "query_run W M identity = fold (query_step W M identity)"

fun uuids :: "query_event list \<Rightarrow> string list" where
  "uuids [] = []"
| "uuids (Begin _ _ io # es) = bi_query_id io # uuids es"
| "uuids (_ # es) = uuids es"

text \<open>The agents chosen in a run, each with its query.\<close>

fun chosen :: "capacity_wire \<Rightarrow> QueryManager \<Rightarrow> SchedulerIdentity \<Rightarrow> query_event list \<Rightarrow> QueryState \<Rightarrow> (string \<times> bytes) list" where
  "chosen W M identity [] st = []"
| "chosen W M identity (e # es) st =
     (case e of
        Finish query_id now \<Rightarrow>
          (case snd (QueryManager_finish query_id now st) of
             None \<Rightarrow> []
           | Some bid \<Rightarrow> [(query_id, er_endpoint_id (co_agent_endpoint bid))])
      | _ \<Rightarrow> [])
     @ chosen W M identity es (query_step W M identity e st)"

section \<open>The best offer\<close>

definition offer_rank :: "CapacityCriteria \<Rightarrow> CapacityOffer \<Rightarrow> u32 \<times> u64 \<times> u64 \<times> bytes" where
  "offer_rank c f =
     (saturating_sub (co_available_cpu_milli f) (cc_cpu_milli c),
      saturating_sub (co_available_memory_bytes f) (cc_memory_bytes c),
      saturating_sub (co_available_storage_bytes f) (cc_storage_bytes c), er_endpoint_id (co_agent_endpoint f))"

lemma compare_offers_Greater: "compare_offers c l r = Greater \<longleftrightarrow> offer_rank c r < offer_rank c l"
  by (auto simp: compare_offers_def offer_rank_def then_with_def cmp_def less_prod_simp)

lemma min_by_rank:
  assumes "\<And>x y. compare x y = Greater \<longleftrightarrow> rank y < (rank x :: 'b::linorder)" "min_by compare xs = Some m"
  shows "m \<in> set xs \<and> (\<forall>y \<in> set xs. rank m \<le> rank y)"
proof -
  have "let b = foldl (\<lambda>best y. if compare best y = Greater then y else best) x ys in
      b \<in> insert x (set ys) \<and> (\<forall>y \<in> insert x (set ys). rank b \<le> rank y)" for x ys
  proof (induction ys arbitrary: x)
    case (Cons y ys)
    show ?case
    proof (cases "rank y < rank x")
      case True
      then show ?thesis using Cons [of y] assms(1) [of x y] by (auto simp: Let_def)
    next
      case False
      then show ?thesis using Cons [of x] assms(1) [of x y] by (auto simp: Let_def)
    qed
  qed simp
  with assms(2) show ?thesis by (cases xs) (auto simp: Let_def)
qed

lemma min_by_None: "min_by compare xs = None \<longleftrightarrow> xs = []"
  by (cases xs) auto

section \<open>What every run keeps\<close>

text \<open>\<open>fits q f\<close>: offer \<open>f\<close> answers query \<open>q\<close> and covers what it asks for.\<close>

definition fits :: "CapacityQuery \<Rightarrow> CapacityOffer \<Rightarrow> bool" where
  "fits q f \<longleftrightarrow> co_query_id f = cq_query_id q
     \<and> er_endpoint_id (co_agent_endpoint f) \<notin> set (cq_excluded_endpoint_ids q)
     \<and> cq_cpu_milli q \<le> co_available_cpu_milli f \<and> cq_memory_bytes q \<le> co_available_memory_bytes f
     \<and> cq_storage_bytes q \<le> co_available_storage_bytes f \<and> set (cq_required_capabilities q) \<subseteq> set (co_capabilities f)"

definition in_time :: "capacity_wire \<Rightarrow> CapacityQuery \<Rightarrow> CapacityOffer \<Rightarrow> bool" where
  "in_time W q f \<longleftrightarrow> (\<exists>t. CapacityOffer_verify W f t = Ok () \<and> t \<le> cq_expires_at_secs q)"

definition asks :: "CapacityQuery \<Rightarrow> CapacityCriteria \<Rightarrow> bool" where
  "asks q c \<longleftrightarrow> cq_cpu_milli q = cc_cpu_milli c \<and> cq_memory_bytes q = cc_memory_bytes c
     \<and> cq_storage_bytes q = cc_storage_bytes c \<and> cq_required_capabilities q = cc_required_capabilities c
     \<and> cq_excluded_endpoint_ids q = cc_excluded_endpoint_ids c"

definition pending_ok :: "capacity_wire \<Rightarrow> QueryManager \<Rightarrow> string \<Rightarrow> PendingQuery \<Rightarrow> bool" where
  "pending_ok W M ident p \<longleftrightarrow> cq_query_id (pq_query p) = ident \<and> asks (pq_query p) (pq_criteria p)
     \<and> hm_wf (pq_offers p) \<and> length (pq_offers p) \<le> qm_max_offers_per_query M \<and> set (pq_selected p) \<subseteq> hm_keys (pq_offers p)
     \<and> (\<forall>e f. hm_get (pq_offers p) e = Some f \<longrightarrow>
          er_endpoint_id (co_agent_endpoint f) = e \<and> fits (pq_query p) f \<and> in_time W (pq_query p) f)"

definition query_inv :: "capacity_wire \<Rightarrow> QueryManager \<Rightarrow> QueryState \<Rightarrow> bool" where
  "query_inv W M st \<longleftrightarrow> hm_wf (qs_pending st) \<and> length (qs_pending st) \<le> qm_max_pending_queries M
     \<and> (\<forall>ident p. hm_get (qs_pending st) ident = Some p \<longrightarrow>
          pending_ok W M ident p \<and> hm_get (qs_equivalent st) (pq_criteria p) = Some ident)
     \<and> (\<forall>c ident. hm_get (qs_equivalent st) c = Some ident \<longrightarrow>
          (\<exists>p. hm_get (qs_pending st) ident = Some p \<and> pq_criteria p = c))"

lemma query_inv_new: "query_inv W M QueryState_new"
  by (simp add: query_inv_def QueryState_new_def)

lemma drop_query_inv:
  assumes "query_inv W M st" "hm_get (qs_pending st) ident = Some p"
  shows "query_inv W M (drop_query (ident, pq_criteria p) st)"
  using assms hm_length_remove_le [of ident "qs_pending st"]
  unfolding query_inv_def drop_query_def by (auto split: if_splits) (metis option.inject)+

lemma drop_queries:
  assumes "query_inv W M st" "distinct (map fst es)"
    and "\<forall>(ident, c) \<in> set es. \<exists>p. hm_get (qs_pending st) ident = Some p \<and> pq_criteria p = c"
  shows "query_inv W M (fold drop_query es st)
    \<and> (\<forall>ident. hm_get (qs_pending (fold drop_query es st)) ident =
          (if ident \<in> fst ` set es then None else hm_get (qs_pending st) ident))"
  using assms
proof (induction es arbitrary: st)
  case (Cons e es)
  obtain ident c where e: "e = (ident, c)" by (cases e)
  from Cons.prems(3) e obtain p where p: "hm_get (qs_pending st) ident = Some p" "pq_criteria p = c" by auto
  let ?st = "drop_query e st"
  have get: "hm_get (qs_pending ?st) = (hm_get (qs_pending st))(ident := None)" by (simp add: drop_query_def e)
  have "query_inv W M ?st" using drop_query_inv [OF Cons.prems(1) p(1)] p(2) e by simp
  moreover have "\<forall>(j, d) \<in> set es. \<exists>p. hm_get (qs_pending ?st) j = Some p \<and> pq_criteria p = d"
  proof safe
    fix j d assume jd: "(j, d) \<in> set es"
    then have "j \<noteq> ident" using Cons.prems(2) e by force
    then show "\<exists>p. hm_get (qs_pending ?st) j = Some p \<and> pq_criteria p = d" using Cons.prems(3) jd by (auto simp: get)
  qed
  ultimately show ?case using Cons.IH [of ?st] Cons.prems(2) e by (auto simp: drop_query_def)
qed simp

definition expired :: "u64 \<Rightarrow> PendingQuery \<Rightarrow> bool" where
  "expired now p \<longleftrightarrow> saturating_add (cq_expires_at_secs (pq_query p)) 1 < now"

lemma cleanup_locked:
  assumes "query_inv W M st"
  shows "query_inv W M (cleanup_locked now st)"
    and "hm_get (qs_pending (cleanup_locked now st)) ident =
      (case hm_get (qs_pending st) ident of None \<Rightarrow> None | Some p \<Rightarrow> if expired now p then None else Some p)"
proof -
  let ?es = "map (\<lambda>(query_id, pending). (query_id, pq_criteria pending))
    (filter (\<lambda>(query_id, pending). saturating_add (cq_expires_at_secs (pq_query pending)) 1 < now) (qs_pending st))"
  have wf: "hm_wf (qs_pending st)" using assms by (simp add: query_inv_def)
  have fst: "fst ` set ?es = {j. \<exists>p. hm_get (qs_pending st) j = Some p \<and> expired now p}"
    by (force simp: expired_def hm_get_in_set [OF wf])
  have "map fst ?es = map fst (filter (\<lambda>(query_id, pending). saturating_add (cq_expires_at_secs (pq_query pending)) 1 < now) (qs_pending st))"
    by (simp add: comp_def case_prod_beta')
  then have "distinct (map fst ?es)" using wf unfolding hm_wf_def by (metis distinct_map_filter)
  moreover have "\<forall>(j, c) \<in> set ?es. \<exists>p. hm_get (qs_pending st) j = Some p \<and> pq_criteria p = c"
    by (auto simp: hm_get_in_set [OF wf])
  ultimately have d: "query_inv W M (fold drop_query ?es st)"
    "\<And>j. hm_get (qs_pending (fold drop_query ?es st)) j = (if j \<in> fst ` set ?es then None else hm_get (qs_pending st) j)"
    using drop_queries [OF assms] by blast+
  then show "query_inv W M (cleanup_locked now st)" by (simp add: cleanup_locked_def)
  show "hm_get (qs_pending (cleanup_locked now st)) ident =
      (case hm_get (qs_pending st) ident of None \<Rightarrow> None | Some p \<Rightarrow> if expired now p then None else Some p)"
    unfolding cleanup_locked_def d(2) fst by (auto split: option.splits)
qed

text \<open>Replacing a pending query by one of the same criteria.\<close>

lemma replace_inv:
  assumes "query_inv W M st" "hm_get (qs_pending st) ident = Some p" "pending_ok W M ident p'" "pq_criteria p' = pq_criteria p"
  shows "query_inv W M (st\<lparr>qs_pending := hm_insert ident p' (qs_pending st)\<rparr>)"
proof -
  have "length (hm_insert ident p' (qs_pending st)) = length (qs_pending st)"
    using assms(1,2) by (simp add: query_inv_def hm_length_insert hm_get_Some_key)
  then show ?thesis using assms unfolding query_inv_def by auto (metis option.inject)
qed

lemma pending_ok_target [simp]: "pending_ok W M ident (p\<lparr>pq_target_offers := n\<rparr>) = pending_ok W M ident p"
  by (simp add: pending_ok_def)

lemma query_sign_keeps:
  assumes "CapacityQuery_sign W q pub priv now = Ok q'"
  shows "cq_query_id q' = cq_query_id q" "asks q' c = asks q c" "cq_expires_at_secs q' = cq_expires_at_secs q"
  using assms by (auto simp: CapacityQuery_sign_def Let_def asks_def)

lemma create_query_cases:
  assumes "create_query W M identity criteria target io st = (st', r)"
  obtains e where "st' = st" "r = Err e"
  | query where "cq_query_id query = bi_query_id io" "asks query criteria" "r = Ok \<lparr>bq_query = query, bq_newly_created = True, bq_target_offers = target\<rparr>"
    "st' = st\<lparr>qs_equivalent := hm_insert criteria (bi_query_id io) (qs_equivalent st),
      qs_pending := hm_insert (bi_query_id io)
        \<lparr>pq_criteria = criteria, pq_query = query, pq_offers = [], pq_selected = [], pq_target_offers = target\<rparr> (qs_pending st)\<rparr>"
proof -
  let ?exp = "saturating_add (bi_now io) (qm_query_timeout M)"
  let ?r = "try_r (SchedulerIdentity_endpoint_record W identity (bi_reply_address io) (bi_now io) ?exp) (\<lambda>reply_endpoint.
     CapacityQuery_sign W (new_query criteria io reply_endpoint ?exp) (sc_signing_public identity)
       (sc_signing_private identity) (bi_now io))"
  show thesis
  proof (cases ?r)
    case (Err e)
    then show thesis using assms that(1) by (auto simp: create_query_def Let_def)
  next
    case (Ok query)
    then obtain reply where "CapacityQuery_sign W (new_query criteria io reply ?exp) (sc_signing_public identity)
       (sc_signing_private identity) (bi_now io) = Ok query" by auto
    note keeps = query_sign_keeps [OF this]
    have "cq_query_id query = bi_query_id io" "asks query criteria"
      using keeps(1) keeps(2) [of criteria] by (simp_all add: new_query_def asks_def)
    then show thesis using assms Ok that(2) by (auto simp: create_query_def Let_def)
  qed
qed

lemma begin_cases:
  assumes "QueryManager_begin W M identity asked target io st0 = (st', r)"
  defines "st \<equiv> cleanup_locked (bi_now io) st0" and "criteria \<equiv> CapacityCriteria_normalized asked"
  obtains e where "st' = st" "r = Err e"
  | ident p n where "hm_get (qs_equivalent st) criteria = Some ident" "hm_get (qs_pending st) ident = Some p"
      "st' = st\<lparr>qs_pending := hm_insert ident (p\<lparr>pq_target_offers := n\<rparr>) (qs_pending st)\<rparr>"
      "r = Ok \<lparr>bq_query = pq_query p, bq_newly_created = False, bq_target_offers = n\<rparr>"
  | n where "Option.bind (hm_get (qs_equivalent st) criteria) (hm_get (qs_pending st)) = None"
      "length (qs_pending st) < qm_max_pending_queries M" "create_query W M identity criteria n io st = (st', r)"
proof -
  show thesis
  proof (cases "Option.bind (hm_get (qs_equivalent st) criteria) (\<lambda>query_id. map_option (Pair query_id) (hm_get (qs_pending st) query_id))")
    case None
    then have "Option.bind (hm_get (qs_equivalent st) criteria) (hm_get (qs_pending st)) = None"
      by (auto simp: bind_eq_None_conv)
    then show thesis using assms(1) None that(1,3)
      by (auto simp: QueryManager_begin_def Let_def st_def criteria_def split: if_splits)
  next
    case (Some x)
    then obtain ident p where "x = (ident, p)" "hm_get (qs_equivalent st) criteria = Some ident" "hm_get (qs_pending st) ident = Some p"
      by (auto simp: bind_eq_Some_conv)
    then show thesis using assms(1) Some that(2)
      by (auto simp: QueryManager_begin_def Let_def st_def criteria_def)
  qed
qed

lemma submit_cases:
  assumes "QueryManager_submit_offer W M bid endpoint now st0 = (st', r)"
  obtains "st' = st0" "\<not> is_ok r"
  | "st' = cleanup_locked now st0" "r \<noteq> Ok True"
  | p where "hm_get (qs_pending (cleanup_locked now st0)) (co_query_id bid) = Some p"
      "CapacityOffer_verify W bid now = Ok ()" "er_endpoint_id (co_agent_endpoint bid) = endpoint"
      "offer_checks p bid endpoint now = Ok ()" "endpoint \<notin> hm_keys (pq_offers p)"
      "length (pq_offers p) < qm_max_offers_per_query M" "r = Ok True"
      "st' = cleanup_locked now st0\<lparr>qs_pending := hm_insert (co_query_id bid)
         (p\<lparr>pq_offers := hm_insert endpoint bid (pq_offers p)\<rparr>) (qs_pending (cleanup_locked now st0))\<rparr>"
proof (cases "CapacityOffer_verify W bid now = Ok () \<and> er_endpoint_id (co_agent_endpoint bid) = endpoint")
  case False
  let ?r = "try_r (CapacityOffer_verify W bid now) (\<lambda>_. ensure (er_endpoint_id (co_agent_endpoint bid) = endpoint)
     ''capacity offer EndpointId does not match authenticated sender'' (Ok ()))"
  have "?r \<noteq> Ok ()" using False by auto
  then obtain e where "?r = Err e" by (cases ?r) auto
  then show thesis using assms that(1) by (auto simp: QueryManager_submit_offer_def)
next
  case True
  let ?st = "cleanup_locked now st0"
  show thesis
  proof (cases "hm_get (qs_pending ?st) (co_query_id bid)")
    case None
    then show thesis using assms True that(2) by (auto simp: QueryManager_submit_offer_def Let_def)
  next
    case (Some p)
    show thesis
    proof (cases "offer_checks p bid endpoint now")
      case (Err e)
      then show thesis using assms True Some that(2) by (auto simp: QueryManager_submit_offer_def Let_def)
    next
      case (Ok u)
      then show thesis using assms True Some that(2) that(3) [OF Some]
        by (simp add: QueryManager_submit_offer_def Let_def hm_contains_iff split: if_splits) auto
    qed
  qed
qed

lemma finish_cases:
  assumes "QueryManager_finish query_id now st = (st', r)"
  obtains "st' = st" "r = None"
  | p e f where "hm_get (qs_pending st) query_id = Some p" "(e, f) \<in> set (open_offers p now)"
      "\<forall>y \<in> set (open_offers p now). offer_rank (pq_criteria p) f \<le> offer_rank (pq_criteria p) (snd y)"
      "r = hm_get (pq_offers p) e"
      "st' = st\<lparr>qs_pending := hm_insert query_id (p\<lparr>pq_selected := List.insert e (pq_selected p)\<rparr>) (qs_pending st)\<rparr>"
proof (cases "hm_get (qs_pending st) query_id")
  case None
  then show thesis using assms that(1) by (simp add: QueryManager_finish_def)
next
  case (Some p)
  let ?c = "\<lambda>l r. compare_offers (pq_criteria p) (snd l) (snd r)"
  show thesis
  proof (cases "min_by ?c (open_offers p now)")
    case None
    then show thesis using assms Some that(1) by (simp add: QueryManager_finish_def)
  next
    case (Some m)
    have "m \<in> set (open_offers p now) \<and> (\<forall>y \<in> set (open_offers p now). offer_rank (pq_criteria p) (snd m) \<le> offer_rank (pq_criteria p) (snd y))"
      by (rule min_by_rank [OF _ Some, where rank = "\<lambda>y. offer_rank (pq_criteria p) (snd y)"]) (simp add: compare_offers_Greater)
    then show thesis using assms Some \<open>hm_get (qs_pending st) query_id = Some p\<close> that(2) [of p "fst m" "snd m"]
      by (auto simp: QueryManager_finish_def split: prod.splits)
  qed
qed

lemma open_offers_set: "hm_wf (pq_offers p) \<Longrightarrow>
  (e, f) \<in> set (open_offers p now) \<longleftrightarrow> hm_get (pq_offers p) e = Some f \<and> now \<le> co_expires_at_secs f \<and> e \<notin> set (pq_selected p)"
  by (auto simp: open_offers_def hm_get_in_set)

lemma offer_accepted_ok:
  assumes "pending_ok W M ident p" "co_query_id bid = ident" "CapacityOffer_verify W bid now = Ok ()"
    and "er_endpoint_id (co_agent_endpoint bid) = endpoint" "offer_checks p bid endpoint now = Ok ()"
    and "endpoint \<notin> hm_keys (pq_offers p)" "length (pq_offers p) < qm_max_offers_per_query M"
  shows "pending_ok W M ident (p\<lparr>pq_offers := hm_insert endpoint bid (pq_offers p)\<rparr>)"
proof -
  have q: "asks (pq_query p) (pq_criteria p)" "cq_query_id (pq_query p) = ident" "hm_wf (pq_offers p)"
    using assms(1) by (auto simp: pending_ok_def)
  have "fits (pq_query p) bid" "in_time W (pq_query p) bid"
    using assms(2-5) q by (auto simp: fits_def in_time_def asks_def offer_checks_def list_all_iff)
  then show ?thesis using assms q by (auto simp: pending_ok_def hm_length_insert)
qed

definition fresh_event :: "query_event \<Rightarrow> QueryState \<Rightarrow> bool" where
  "fresh_event e st \<longleftrightarrow> (case e of Begin _ _ io \<Rightarrow> bi_query_id io \<notin> hm_keys (qs_pending st) | _ \<Rightarrow> True)"

lemma insert_new_inv:
  assumes "query_inv W M st" "ident \<notin> hm_keys (qs_pending st)" "length (qs_pending st) < qm_max_pending_queries M"
    and "Option.bind (hm_get (qs_equivalent st) (pq_criteria p)) (hm_get (qs_pending st)) = None" "pending_ok W M ident p"
  shows "query_inv W M (st\<lparr>qs_equivalent := hm_insert (pq_criteria p) ident (qs_equivalent st),
    qs_pending := hm_insert ident p (qs_pending st)\<rparr>)"
proof -
  have "hm_get (qs_equivalent st) (pq_criteria p) = None"
    using assms(1,4) unfolding query_inv_def by (metis bind.bind_lunit not_Some_eq)
  moreover have "hm_get (qs_pending st) ident = None" using assms(2) by (auto simp: hm_keys_dom)
  ultimately have "hm_get (qs_equivalent st) c \<noteq> Some ident" "hm_get (qs_pending st) j = Some p' \<Longrightarrow> pq_criteria p' \<noteq> pq_criteria p"
    for c j p' using assms(1) unfolding query_inv_def by fastforce+
  then show ?thesis using assms(1,2,3,5) unfolding query_inv_def by (auto simp: hm_length_insert)
qed

lemma query_step_inv:
  assumes "query_inv W M st" "fresh_event e st"
  shows "query_inv W M (query_step W M identity e st)"
proof (cases e)
  case (Begin asked target io)
  let ?st = "cleanup_locked (bi_now io) st"
  note clean = cleanup_locked [OF assms(1), of "bi_now io"]
  obtain st' r where b: "QueryManager_begin W M identity asked target io st = (st', r)" by fastforce
  from b show ?thesis
  proof (cases rule: begin_cases)
    case (2 ident p n)
    then have "pending_ok W M ident p" using clean(1) by (simp add: query_inv_def)
    then show ?thesis using b Begin 2 replace_inv [OF clean(1) 2(2)] by (simp add: query_step_def)
  next
    case (3 n)
    have new: "bi_query_id io \<notin> hm_keys (qs_pending ?st)"
      using assms(2) Begin clean(2) [of "bi_query_id io"] by (auto simp: fresh_event_def hm_keys_dom split: option.splits)
    from 3(3) show ?thesis
    proof (cases rule: create_query_cases)
      case (2 query)
      let ?p = "\<lparr>pq_criteria = CapacityCriteria_normalized asked, pq_query = query, pq_offers = [], pq_selected = [], pq_target_offers = n\<rparr>"
      have "pending_ok W M (bi_query_id io) ?p" using 2 by (simp add: pending_ok_def)
      then show ?thesis using b Begin 2 3 insert_new_inv [OF clean(1) new 3(2), of ?p] by (simp add: query_step_def)
    qed (use b Begin clean in \<open>simp add: query_step_def\<close>)
  qed (use b Begin clean in \<open>simp add: query_step_def\<close>)
next
  case (Submit bid endpoint now)
  note clean = cleanup_locked [OF assms(1), of now]
  obtain st' r where b: "QueryManager_submit_offer W M bid endpoint now st = (st', r)" by fastforce
  from b show ?thesis
  proof (cases rule: submit_cases)
    case (3 p)
    have "pending_ok W M (co_query_id bid) p" using 3(1) clean(1) by (simp add: query_inv_def)
    from offer_accepted_ok [OF this refl 3(2-6)] replace_inv [OF clean(1) 3(1)] show ?thesis
      using b Submit 3 by (simp add: query_step_def)
  qed (use b Submit clean assms in \<open>simp_all add: query_step_def\<close>)
next
  case (Finish query_id now)
  obtain st' r where b: "QueryManager_finish query_id now st = (st', r)" by fastforce
  from b show ?thesis
  proof (cases rule: finish_cases)
    case (2 p e f)
    have ok: "pending_ok W M query_id p" using 2(1) assms(1) by (simp add: query_inv_def)
    have "e \<in> hm_keys (pq_offers p)" using 2(2) by (force simp: open_offers_def hm_keys_def)
    with ok have "pending_ok W M query_id (p\<lparr>pq_selected := List.insert e (pq_selected p)\<rparr>)" by (simp add: pending_ok_def)
    then show ?thesis using b Finish 2 replace_inv [OF assms(1) 2(1)] by (simp add: query_step_def)
  qed (use b Finish assms in \<open>simp add: query_step_def\<close>)
next
  case (Abort query_id)
  then show ?thesis using assms(1) drop_query_inv by (auto simp: query_step_def QueryManager_abort_def split: option.splits)
next
  case (Cleanup now)
  then show ?thesis using cleanup_locked [OF assms(1)] by (simp add: query_step_def QueryManager_cleanup_def)
qed

text \<open>A step drops a pending query, keeps it with what was selected so far, or creates the one it names.\<close>

lemma query_step_evolves:
  assumes "query_inv W M st" "hm_get (qs_pending (query_step W M identity e st)) ident = Some p'"
  shows "ident \<in> set (uuids [e]) \<or> (\<exists>p. hm_get (qs_pending st) ident = Some p \<and> set (pq_selected p) \<subseteq> set (pq_selected p'))"
proof -
  have clean: "\<exists>p. hm_get (qs_pending st) j = Some p \<and> set (pq_selected p) \<subseteq> set (pq_selected q)"
    if "hm_get (qs_pending (cleanup_locked now st)) j = Some q" for now j q
    using that cleanup_locked(2) [OF assms(1), of now j] by (auto split: option.splits if_splits)
  show ?thesis
  proof (cases e)
    case (Begin asked target io)
    obtain st' r where b: "QueryManager_begin W M identity asked target io st = (st', r)" by fastforce
    then have p': "hm_get (qs_pending st') ident = Some p'" using assms(2) Begin by (simp add: query_step_def)
    from b show ?thesis
    proof (cases rule: begin_cases)
      case (2 j p n)
      then show ?thesis using p' clean [of "bi_now io"] by (auto split: if_splits)
    next
      case (3 n)
      from 3(3) show ?thesis
        by (cases rule: create_query_cases) (use p' Begin clean [of "bi_now io"] in \<open>auto split: if_splits\<close>)
    qed (use p' clean [of "bi_now io"] in auto)
  next
    case (Submit bid endpoint now)
    obtain st' r where b: "QueryManager_submit_offer W M bid endpoint now st = (st', r)" by fastforce
    then have p': "hm_get (qs_pending st') ident = Some p'" using assms(2) Submit by (simp add: query_step_def)
    from b show ?thesis
      by (cases rule: submit_cases) (use p' clean [of now] in \<open>auto split: if_splits\<close>)
  next
    case (Finish query_id now)
    obtain st' r where b: "QueryManager_finish query_id now st = (st', r)" by fastforce
    then have p': "hm_get (qs_pending st') ident = Some p'" using assms(2) Finish by (simp add: query_step_def)
    from b show ?thesis by (cases rule: finish_cases) (use p' in \<open>auto split: if_splits\<close>)
  next
    case (Abort query_id)
    then show ?thesis using assms(2)
      by (auto simp: query_step_def QueryManager_abort_def drop_query_def split: option.splits if_splits)
  next
    case (Cleanup now)
    then show ?thesis using assms(2) clean [of now] by (auto simp: query_step_def QueryManager_cleanup_def)
  qed
qed

lemma uuids_Cons: "uuids (e # es) = uuids [e] @ uuids es"
  by (cases e) auto

lemma uuids_append: "uuids (es @ es') = uuids es @ uuids es'"
proof (induction es)
  case (Cons e es)
  then show ?case using uuids_Cons [of e "es @ es'"] uuids_Cons [of e es] by simp
qed simp

definition fresh_run :: "query_event list \<Rightarrow> QueryState \<Rightarrow> bool" where
  "fresh_run es st \<longleftrightarrow> distinct (uuids es) \<and> set (uuids es) \<inter> hm_keys (qs_pending st) = {}"

lemma fresh_run_step:
  assumes "query_inv W M st" "fresh_run (e # es) st"
  shows "fresh_event e st" "query_inv W M (query_step W M identity e st)" "fresh_run es (query_step W M identity e st)"
proof -
  show fresh: "fresh_event e st" using assms(2) by (cases e) (auto simp: fresh_run_def fresh_event_def)
  show "query_inv W M (query_step W M identity e st)" by (rule query_step_inv [OF assms(1) fresh])
  have "hm_keys (qs_pending (query_step W M identity e st)) \<subseteq> set (uuids [e]) \<union> hm_keys (qs_pending st)"
    using query_step_evolves [OF assms(1), of identity e] by (fastforce simp: hm_keys_dom)
  then show "fresh_run es (query_step W M identity e st)"
    using assms(2) unfolding fresh_run_def uuids_Cons [of e es] by auto
qed

lemma query_run_inv:
  "query_inv W M st \<Longrightarrow> fresh_run es st \<Longrightarrow> query_inv W M (query_run W M identity es st)"
proof (induction es arbitrary: st)
  case (Cons e es)
  show ?case
    using Cons.IH [OF fresh_run_step(2,3) [OF Cons.prems]] by (simp add: query_run_def)
qed (simp add: query_run_def)

lemma finish_chooses:
  assumes "query_inv W M st" "QueryManager_finish query_id now st = (st', Some f)"
  obtains p where "hm_get (qs_pending st) query_id = Some p" "pending_ok W M query_id p"
    "hm_get (pq_offers p) (er_endpoint_id (co_agent_endpoint f)) = Some f" "now \<le> co_expires_at_secs f"
    "er_endpoint_id (co_agent_endpoint f) \<notin> set (pq_selected p)"
    "\<forall>y \<in> set (open_offers p now). offer_rank (pq_criteria p) f \<le> offer_rank (pq_criteria p) (snd y)"
    "st' = st\<lparr>qs_pending := hm_insert query_id
       (p\<lparr>pq_selected := List.insert (er_endpoint_id (co_agent_endpoint f)) (pq_selected p)\<rparr>) (qs_pending st)\<rparr>"
  using assms(2)
proof (cases rule: finish_cases)
  case (2 p e g)
  have ok: "pending_ok W M query_id p" using assms(1) 2(1) by (simp add: query_inv_def)
  then have "hm_wf (pq_offers p)" by (simp add: pending_ok_def)
  note in_open = 2(2) [unfolded open_offers_set [OF this]]
  then have "f = g" using 2(4) by simp
  moreover have "er_endpoint_id (co_agent_endpoint f) = e" using ok 2(4) by (simp add: pending_ok_def)
  ultimately show thesis using that [of p] 2 ok in_open by simp
qed simp

text \<open>No agent is chosen twice for one query.\<close>

lemma chosen_distinct:
  assumes "query_inv W M st" "fresh_run es st"
  shows "distinct (chosen W M identity es st) \<and> (\<forall>(ident, a) \<in> set (chosen W M identity es st). ident \<in> set (uuids es)
    \<or> (\<exists>p. hm_get (qs_pending st) ident = Some p \<and> a \<notin> set (pq_selected p)))"
  using assms
proof (induction es arbitrary: st)
  case (Cons e es)
  let ?st = "query_step W M identity e st" and ?rest = "chosen W M identity es (query_step W M identity e st)"
  note IH = Cons.IH [OF fresh_run_step(2,3) [OF Cons.prems]]
  have earlier: "ident \<in> set (uuids (e # es)) \<or> (\<exists>p. hm_get (qs_pending st) ident = Some p \<and> a \<notin> set (pq_selected p))"
    if "(ident, a) \<in> set ?rest" for ident a
    using IH that query_step_evolves [OF Cons.prems(1), of identity e ident] unfolding uuids_Cons [of e es] by fastforce
  show ?case
  proof (cases "\<exists>query_id now f. e = Finish query_id now \<and> snd (QueryManager_finish query_id now st) = Some f")
    case True
    then obtain query_id now f st' where e: "e = Finish query_id now" "QueryManager_finish query_id now st = (st', Some f)"
      by (metis prod.collapse)
    let ?a = "er_endpoint_id (co_agent_endpoint f)"
    obtain p where p: "hm_get (qs_pending st) query_id = Some p" "?a \<notin> set (pq_selected p)"
      "st' = st\<lparr>qs_pending := hm_insert query_id (p\<lparr>pq_selected := List.insert ?a (pq_selected p)\<rparr>) (qs_pending st)\<rparr>"
      by (rule finish_chooses [OF Cons.prems(1) e(2)]) blast
    have "query_id \<notin> set (uuids es)" using Cons.prems(2) p(1) by (auto simp: fresh_run_def e(1) hm_keys_dom)
    moreover have "hm_get (qs_pending ?st) query_id = Some (p\<lparr>pq_selected := List.insert ?a (pq_selected p)\<rparr>)"
      using e p(3) by (simp add: query_step_def)
    ultimately have "(query_id, ?a) \<notin> set ?rest" using IH by fastforce
    then show ?thesis using IH earlier p(1,2) e by auto
  next
    case False
    then have "chosen W M identity (e # es) st = ?rest" by (cases e) (auto split: option.splits)
    then show ?thesis using IH earlier by auto
  qed
qed simp

section \<open>Properties\<close>

text \<open>C37: a placement is sound. Whatever calls preceded it, in any order, the offer handed to a caller of a query
  was signed by its agent and arrived before the deadline of the query, comes from an agent the query did not
  exclude, covers the amounts and capabilities asked for, has not expired, and leaves the smallest surplus among
  the offers that are still open; no agent is handed out twice for one query; and the number of queries in flight
  and of offers per query stays within the limits. The identifiers of queries are assumed fresh, as UUIDs are.\<close>

theorem placement_choice_sound:
  assumes "distinct (uuids es)"
    and "QueryManager_finish query_id now (query_run W M identity es QueryState_new) = (st', Some f)"
  shows "\<exists>p. hm_get (qs_pending (query_run W M identity es QueryState_new)) query_id = Some p
    \<and> asks (pq_query p) (pq_criteria p) \<and> fits (pq_query p) f \<and> in_time W (pq_query p) f \<and> now \<le> co_expires_at_secs f
    \<and> list_all (\<lambda>(_, g). compare_offers (pq_criteria p) f g \<noteq> Greater) (open_offers p now)
    \<and> distinct (chosen W M identity (es @ [Finish query_id now]) QueryState_new)
    \<and> length (qs_pending (query_run W M identity es QueryState_new)) \<le> qm_max_pending_queries M
    \<and> length (pq_offers p) \<le> qm_max_offers_per_query M"
proof -
  let ?st = "query_run W M identity es QueryState_new"
  have fresh: "fresh_run es QueryState_new" "fresh_run (es @ [Finish query_id now]) QueryState_new"
    using assms(1) by (simp_all add: fresh_run_def QueryState_new_def uuids_append)
  have inv: "query_inv W M ?st" by (rule query_run_inv [OF query_inv_new fresh(1)])
  obtain p where p: "hm_get (qs_pending ?st) query_id = Some p" "pending_ok W M query_id p"
    "hm_get (pq_offers p) (er_endpoint_id (co_agent_endpoint f)) = Some f" "now \<le> co_expires_at_secs f"
    "\<forall>y \<in> set (open_offers p now). offer_rank (pq_criteria p) f \<le> offer_rank (pq_criteria p) (snd y)"
    by (rule finish_chooses [OF inv assms(2)]) blast
  have "list_all (\<lambda>(_, g). compare_offers (pq_criteria p) f g \<noteq> Greater) (open_offers p now)"
    using p(5) by (auto simp: list_all_iff compare_offers_Greater not_less)
  moreover have "asks (pq_query p) (pq_criteria p)" "fits (pq_query p) f" "in_time W (pq_query p) f"
    "length (pq_offers p) \<le> qm_max_offers_per_query M"
    using p(2,3) by (auto simp: pending_ok_def)
  moreover have "length (qs_pending ?st) \<le> qm_max_pending_queries M" using inv by (simp add: query_inv_def)
  ultimately show ?thesis using p(1,4) chosen_distinct [OF query_inv_new fresh(2)] by blast
qed

lemma offer_endpoint:
  assumes "capacity_offer E query a now ag = (ag', Ok (Some f))"
  shows "er_endpoint_id (co_agent_endpoint f) = ea_id a" "co_capabilities f = [''multi-workload'']"
    "ea_id a \<notin> set (cq_excluded_endpoint_ids query)" "set (cq_required_capabilities query) \<subseteq> {''multi-workload''}"
    "co_expires_at_secs f = now + MAX_CAPACITY_OFFER_LIFETIME_SECS"
  using assms by (auto simp: capacity_offer_def op_bind_Ok Let_def signed_offer_def CapacityOffer_sign_def
      signed_endpoint_record_def EndpointRecord_sign_def list_ex_iff list_all_iff split: if_splits)

lemma honest_offer_accepted:
  assumes "query_inv W M st" "hm_get (qs_pending st) query_id = Some p"
    and "CapacityQuery_verify W (pq_query p) now = Ok ()" "CapacityOffer_verify W f now = Ok ()"
    and "fits (pq_query p) f" "now \<le> co_expires_at_secs f"
    and "er_endpoint_id (co_agent_endpoint f) \<notin> hm_keys (pq_offers p)"
    and "length (pq_offers p) < qm_max_offers_per_query M"
  shows "\<exists>st' st'' g. QueryManager_submit_offer W M f (er_endpoint_id (co_agent_endpoint f)) now st = (st', Ok True)
    \<and> QueryManager_finish query_id now st' = (st'', Some g)"
proof -
  let ?e = "er_endpoint_id (co_agent_endpoint f)" and ?st = "cleanup_locked now st"
  let ?p = "p\<lparr>pq_offers := hm_insert ?e f (pq_offers p)\<rparr>"
  have "now \<le> cq_expires_at_secs (pq_query p)"
    using assms(3) by (auto simp: CapacityQuery_verify_def CapacityQuery_validate_def CapacityQuery_validate_unsigned_def validate_common_def)
  moreover from this have "\<not> expired now p"
    using saturating_add_le [of "cq_expires_at_secs (pq_query p)" 1] by (simp add: expired_def not_less)
  then have pending: "hm_get (qs_pending ?st) query_id = Some p"
    using assms(2) cleanup_locked(2) [OF assms(1), of now query_id] by simp
  have ok: "pending_ok W M query_id p" using assms(1,2) by (simp add: query_inv_def)
  then have q: "asks (pq_query p) (pq_criteria p)" "co_query_id f = query_id" using assms(5) by (auto simp: pending_ok_def fits_def)
  ultimately have checks: "offer_checks p f ?e now = Ok ()" using assms(5) by (auto simp: offer_checks_def fits_def asks_def list_all_iff)
  let ?st' = "?st\<lparr>qs_pending := hm_insert query_id ?p (qs_pending ?st)\<rparr>"
  have sub: "QueryManager_submit_offer W M f ?e now st = (?st', Ok True)"
    using assms(4,7,8) pending checks q(2) by (simp add: QueryManager_submit_offer_def Let_def hm_contains_iff)
  have inv': "query_inv W M ?st'"
    using replace_inv [OF cleanup_locked(1) [OF assms(1)] pending, of ?p]
      offer_accepted_ok [OF ok q(2) assms(4) refl checks assms(7,8)] by simp
  have "hm_wf (pq_offers ?p)" "?e \<notin> set (pq_selected ?p)" using ok assms(7) by (auto simp: pending_ok_def)
  then have "(?e, f) \<in> set (open_offers ?p now)" unfolding open_offers_set [OF \<open>hm_wf (pq_offers ?p)\<close>] using assms(6) by simp
  then have "min_by (\<lambda>l r. compare_offers (pq_criteria ?p) (snd l) (snd r)) (open_offers ?p now) \<noteq> None"
    unfolding min_by_None by auto
  then obtain e g where m: "min_by (\<lambda>l r. compare_offers (pq_criteria ?p) (snd l) (snd r)) (open_offers ?p now) = Some (e, g)" by auto
  from min_by_rank [OF _ m, of "\<lambda>y. offer_rank (pq_criteria ?p) (snd y)"] have "(e, g) \<in> set (open_offers ?p now)"
    by (simp add: compare_offers_Greater)
  then have "hm_get (pq_offers ?p) e = Some g" using open_offers_set [OF \<open>hm_wf (pq_offers ?p)\<close>] by blast
  then have "snd (QueryManager_finish query_id now ?st') = Some g" using m by (simp add: QueryManager_finish_def)
  then show ?thesis using sub by (metis prod.collapse)
qed

lemma agent_offer_accepted:
  assumes "distinct (uuids es)" "hm_get (qs_pending (query_run (ae_capacity E) M identity es QueryState_new)) query_id = Some p"
    and "st_inv (ae_config E) (ag_state ag)" "bounded_config (ae_config E)"
    and "base64_law (cw_crates (ae_capacity E))" "ed_key (cw_crates (ae_capacity E)) (ae_signing_private E)"
    and "ae_signing_public E = ed_public (cw_crates (ae_capacity E)) (ae_signing_private E)"
    and "capacity_offer E (pq_query p) a now ag = (ag', Ok (Some f))"
    and "ea_id a \<notin> hm_keys (pq_offers p)" and "length (pq_offers p) < qm_max_offers_per_query M"
  shows "\<exists>st' st'' g. QueryManager_submit_offer (ae_capacity E) M f (ea_id a) now
        (query_run (ae_capacity E) M identity es QueryState_new) = (st', Ok True)
    \<and> QueryManager_finish query_id now st' = (st'', Some g)"
proof -
  note honest = capacity_offer_honest [OF assms(3-8)] and from_agent = offer_endpoint [OF assms(8)]
  have inv: "query_inv (ae_capacity E) M (query_run (ae_capacity E) M identity es QueryState_new)"
    by (rule query_run_inv [OF query_inv_new]) (use assms(1) in \<open>simp add: fresh_run_def QueryState_new_def\<close>)
  have "cq_amount r (pq_query p) \<le> co_amount r f" for r using honest by blast
  from this [of Cpu] this [of Memory] this [of Storage] have "cq_cpu_milli (pq_query p) \<le> co_available_cpu_milli f"
    "cq_memory_bytes (pq_query p) \<le> co_available_memory_bytes f" "cq_storage_bytes (pq_query p) \<le> co_available_storage_bytes f"
    by (simp_all add: word_le_nat_alt)
  then have "fits (pq_query p) f" using honest from_agent by (auto simp: fits_def)
  moreover have "now \<le> co_expires_at_secs f"
    using honest by (auto simp: CapacityOffer_verify_def CapacityOffer_validate_def CapacityOffer_validate_unsigned_def validate_common_def)
  ultimately show ?thesis
    using honest_offer_accepted [OF inv assms(2), of now f] honest assms(9,10) from_agent(1) by simp
qed


text \<open>C38: an agent that answers is used. When an agent answers a pending query of a scheduler with an offer, and the
  two share the clock and the wire format, the scheduler accepts the offer from the agent's connection and the next
  caller of that query is handed an offer, unless the agent has already answered or the query is full.\<close>

theorem agent_offer_placed:
  assumes "distinct (uuids es)" "hm_get (qs_pending (query_run (ae_capacity E) M identity es QueryState_new)) query_id = Some p"
    and "st_inv (ae_config E) (ag_state ag)" "bounded_config (ae_config E)"
    and "base64_law (cw_crates (ae_capacity E))" "ed_key (cw_crates (ae_capacity E)) (ae_signing_private E)"
    and "ae_signing_public E = ed_public (cw_crates (ae_capacity E)) (ae_signing_private E)"
    and "capacity_offer E (pq_query p) a now ag = (ag', Ok (Some f))"
    and "ea_id a \<notin> hm_keys (pq_offers p)" and "length (pq_offers p) < qm_max_offers_per_query M"
  shows "\<exists>st' st'' g. QueryManager_submit_offer (ae_capacity E) M f (ea_id a) now
        (query_run (ae_capacity E) M identity es QueryState_new) = (st', Ok True)
    \<and> QueryManager_finish query_id now st' = (st'', Some g)"
  by (rule agent_offer_accepted [OF assms])

text \<open>C39: a caller who comes a second late is turned away. A query is kept for one more second after its deadline, and
  a caller with the same criteria joins it even then. No query is sent for it, it does not wait, no agent can answer
  any more, and unless an offer is left over it is told that there is no capacity, whatever the agents have.\<close>

theorem late_caller_turned_away:
  assumes "distinct (uuids es)" "st = query_run W M identity es QueryState_new" "hm_get (qs_pending st) query_id = Some p"
    and "pq_criteria p = CapacityCriteria_normalized criteria" "open_offers p (bi_now io) = []"
    and "bi_now io = cq_expires_at_secs (pq_query p) + 1" "cq_expires_at_secs (pq_query p) < bi_now io"
  shows "\<exists>st' b. solicit_begin W M identity False criteria target io published st = (st', Ok (b, 0)) \<and> \<not> bq_newly_created b
    \<and> snd (QueryManager_finish (cq_query_id (bq_query b)) (bi_now io) st') = None
    \<and> (\<forall>f e. co_query_id f = query_id \<longrightarrow> \<not> is_ok (snd (QueryManager_submit_offer W M f e (bi_now io) st')))"
proof -
  let ?now = "bi_now io" and ?st = "cleanup_locked (bi_now io) st"
  let ?n = "min (pq_target_offers p + min (max 1 target) (qm_max_offers_per_query M)) (qm_max_offers_per_query M)"
  let ?p = "p\<lparr>pq_target_offers := ?n\<rparr>"
  let ?st' = "?st\<lparr>qs_pending := hm_insert query_id ?p (qs_pending ?st)\<rparr>"
  have inv: "query_inv W M st"
    unfolding assms(2) by (rule query_run_inv [OF query_inv_new]) (use assms(1) in \<open>simp add: fresh_run_def QueryState_new_def\<close>)
  have live: "\<not> expired ?now q" if "cq_expires_at_secs (pq_query q) = cq_expires_at_secs (pq_query p)" for q
    using that assms(6,7) by (simp add: expired_def saturating_add_def)
  have get: "hm_get (qs_pending ?st) query_id = Some p" using cleanup_locked(2) [OF inv, of ?now query_id] assms(3) live by simp
  note kept = cleanup_locked(1) [OF inv, of ?now]
  then have ok: "pending_ok W M query_id p" "hm_get (qs_equivalent ?st) (CapacityCriteria_normalized criteria) = Some query_id"
    using get by (auto simp: query_inv_def assms(4) [symmetric])
  have "QueryManager_begin W M identity criteria target io st
      = (?st', Ok \<lparr>bq_query = pq_query p, bq_newly_created = False, bq_target_offers = ?n\<rparr>)"
    using ok(2) get by (simp add: QueryManager_begin_def Let_def)
  moreover have "snd (QueryManager_finish query_id ?now ?st') = None"
    using assms(5) by (simp add: QueryManager_finish_def open_offers_def)
  moreover have "query_inv W M ?st'" using replace_inv [OF kept get, of ?p] ok(1) by simp
  then have "hm_get (qs_pending (cleanup_locked ?now ?st')) query_id = Some ?p"
    using cleanup_locked(2) [of W M ?st' ?now query_id] live [of ?p] by simp
  then have "\<not> is_ok (snd (QueryManager_submit_offer W M f e ?now ?st'))" if "co_query_id f = query_id" for f e
    using that assms(7) by (auto simp: QueryManager_submit_offer_def Let_def offer_checks_def split: result.splits)
  moreover have "cq_query_id (pq_query p) = query_id" using ok(1) by (simp add: pending_ok_def)
  ultimately show ?thesis using assms(7) by (simp add: solicit_begin_def saturating_sub_def)
qed

section \<open>Witnesses\<close>

text \<open>The scheduler of \<open>toy_endpoint\<close> asks at time 295 for the amounts of \<open>toy_query\<close>; the agent of
  \<open>toy_agent_env\<close> answers at time 300.\<close>

definition toy_scheduler :: SchedulerIdentity where
  "toy_scheduler = \<lparr>sc_endpoint_id = replicate 32 0xBB, sc_signing_public = replicate 32 9,
     sc_signing_private = replicate 32 9, sc_advertise_addresses = []\<rparr>"

definition toy_limits :: QueryManager where
  "toy_limits = \<lparr>qm_max_pending_queries = 2, qm_max_offers_per_query = 2, qm_query_timeout = 10\<rparr>"

definition toy_criteria :: CapacityCriteria where
  "toy_criteria = \<lparr>cc_cpu_milli = 3000, cc_memory_bytes = 500, cc_storage_bytes = 500,
     cc_required_capabilities = [''multi-workload''], cc_excluded_endpoint_ids = []\<rparr>"

definition toy_begin :: query_event where
  "toy_begin = Begin toy_criteria 1 \<lparr>bi_query_id = ''q'', bi_nonce = ''n'',
     bi_reply_address = \<lparr>ea_id = replicate 32 0xBB, ea_relay_urls = [], ea_ip_addrs = [''192.0.2.10:4000'']\<rparr>, bi_now = 295\<rparr>"

definition reply_endpoint :: EndpointRecord where
  "reply_endpoint = toy_endpoint\<lparr>er_issued_at_secs := 295, er_expires_at_secs := 305\<rparr>"

definition toy_pending :: PendingQuery where
  "toy_pending = \<lparr>pq_criteria = toy_criteria, pq_query = toy_query\<lparr>cq_reply_endpoint := reply_endpoint\<rparr>,
     pq_offers = [], pq_selected = [], pq_target_offers = 1\<rparr>"

lemma reply_endpoint_valid:
  assumes "now = 295 \<or> now = 300"
  shows "EndpointRecord_validate_unsigned (reply_endpoint\<lparr>er_signature := s\<rparr>) now = Ok ()"
    and "EndpointRecord_verify lax (\<lambda>_. Ok [3]) reply_endpoint now = Ok ()"
proof -
  show valid: "EndpointRecord_validate_unsigned (reply_endpoint\<lparr>er_signature := s\<rparr>) now = Ok ()" for s
    using assms by (auto simp: EndpointRecord_validate_unsigned_def reply_endpoint_def toy_endpoint_def validate_direct_addresses_def
        endpoint_consts parse_socket_addr_examples(1) saturating_add_def saturating_sub_def)
  show "EndpointRecord_verify lax (\<lambda>_. Ok [3]) reply_endpoint now = Ok ()"
    using valid [of "er_signature reply_endpoint"] by (simp add: lax_endpoint reply_endpoint_def toy_endpoint_def)
qed

lemma toy_query_valid:
  assumes "now = 295 \<or> now = 300"
  shows "CapacityQuery_validate_unsigned (ae_capacity toy_agent_env) (toy_query\<lparr>cq_reply_endpoint := reply_endpoint, cq_signature := s\<rparr>) now = Ok ()"
    and "CapacityQuery_verify (ae_capacity toy_agent_env) (toy_query\<lparr>cq_reply_endpoint := reply_endpoint\<rparr>) now = Ok ()"
    and "CapacityQuery_validate (ae_capacity toy_agent_env) (toy_query\<lparr>cq_reply_endpoint := reply_endpoint\<rparr>) now = Ok ()"
proof -
  show valid: "CapacityQuery_validate_unsigned (ae_capacity toy_agent_env) (toy_query\<lparr>cq_reply_endpoint := reply_endpoint, cq_signature := s\<rparr>) now = Ok ()" for s
    using assms reply_endpoint_valid(2) [OF assms]
    by (auto simp: CapacityQuery_validate_unsigned_def toy_query_def validate_common_Ok validate_capabilities_def
        validate_exclusions_def capacity_consts reply_endpoint_def toy_endpoint_def)
  show checked: "CapacityQuery_validate (ae_capacity toy_agent_env) (toy_query\<lparr>cq_reply_endpoint := reply_endpoint\<rparr>) now = Ok ()"
    using valid [of "cq_signature toy_query"]
    by (simp add: CapacityQuery_validate_def validate_signature_fields_def toy_query_def capacity_consts)
  then show "CapacityQuery_verify (ae_capacity toy_agent_env) (toy_query\<lparr>cq_reply_endpoint := reply_endpoint\<rparr>) now = Ok ()"
    by (simp add: CapacityQuery_verify_def CapacityQuery_canonical_bytes_def encode_bounded_def validate_message_size_def
        verify_signature_def capacity_consts toy_query_def)
qed

lemma toy_replies:
  "SchedulerIdentity_endpoint_record (ae_capacity toy_agent_env) toy_scheduler
     \<lparr>ea_id = replicate 32 0xBB, ea_relay_urls = [], ea_ip_addrs = [''192.0.2.10:4000'']\<rparr> 295 305 = Ok reply_endpoint"
  using reply_endpoint_valid(1) [of 295 "[]"] reply_endpoint_valid(1) [of 295 "toy_b64 (replicate 64 0)"]
  by (simp add: SchedulerIdentity_endpoint_record_def toy_scheduler_def EndpointRecord_sign_def Let_def lax_endpoint
      reply_endpoint_def toy_endpoint_def EndpointRecord_canonical_bytes_def validate_encoded_size_def endpoint_consts)

lemma toy_run:
  "query_run (ae_capacity toy_agent_env) toy_limits toy_scheduler [toy_begin] QueryState_new
     = \<lparr>qs_pending = [(''q'', toy_pending)], qs_equivalent = [(toy_criteria, ''q'')]\<rparr>"
proof -
  have "CapacityQuery_sign (ae_capacity toy_agent_env) (toy_query\<lparr>cq_reply_endpoint := reply_endpoint, cq_signing_pubkey := [], cq_signature := []\<rparr>)
      (replicate 32 9) (replicate 32 9) 295 = Ok (toy_query\<lparr>cq_reply_endpoint := reply_endpoint\<rparr>)"
    using toy_query_valid(1) [of 295 "[]"] toy_query_valid(3) [of 295]
    by (simp add: CapacityQuery_sign_def Let_def toy_query_def CapacityQuery_canonical_bytes_def encode_bounded_def
        validate_message_size_def capacity_consts)
  moreover have "new_query toy_criteria \<lparr>bi_query_id = ''q'', bi_nonce = ''n'', bi_reply_address = a, bi_now = 295\<rparr> reply_endpoint 305
      = toy_query\<lparr>cq_reply_endpoint := reply_endpoint, cq_signing_pubkey := [], cq_signature := []\<rparr>" for a
    by (simp add: new_query_def toy_criteria_def toy_query_def capacity_consts)
  moreover have "CapacityCriteria_normalized toy_criteria = toy_criteria" by (simp add: CapacityCriteria_normalized_def toy_criteria_def)
  moreover have "saturating_add 295 (10 :: u64) = 305" by (simp add: saturating_add_def)
  moreover have "cq_query_id toy_query = ''q''" by (simp add: toy_query_def)
  moreover have "sc_signing_public toy_scheduler = replicate 32 9" "sc_signing_private toy_scheduler = replicate 32 9"
    by (simp_all add: toy_scheduler_def)
  ultimately show ?thesis
    using toy_replies
    by (simp add: query_run_def query_step_def toy_begin_def QueryManager_begin_def create_query_def cleanup_locked_def
        QueryState_new_def toy_limits_def toy_pending_def hm_insert_def hm_remove_def Let_def)
qed


lemma toy_offer_env:
  "st_inv (ae_config toy_agent_env) (ag_state (toy_agent []))" "bounded_config (ae_config toy_agent_env)"
  "base64_law (cw_crates (ae_capacity toy_agent_env))" "ed_key (cw_crates (ae_capacity toy_agent_env)) (ae_signing_private toy_agent_env)"
  "ae_signing_public toy_agent_env = ed_public (cw_crates (ae_capacity toy_agent_env)) (ae_signing_private toy_agent_env)"
  by (simp_all add: st_inv_default toy_config_bounded)

lemma toy_run_pending:
  "distinct (uuids [toy_begin])"
  "hm_get (qs_pending (query_run (ae_capacity toy_agent_env) toy_limits toy_scheduler [toy_begin] QueryState_new)) ''q'' = Some toy_pending"
  "ea_id toy_addr \<notin> hm_keys (pq_offers toy_pending)" "length (pq_offers toy_pending) < qm_max_offers_per_query toy_limits"
  unfolding toy_run by (simp_all add: toy_begin_def toy_pending_def toy_limits_def hm_keys_def)

lemma toy_agent_answers:
  "\<exists>f. capacity_offer toy_agent_env (pq_query toy_pending) toy_addr 300 (toy_agent []) = (toy_agent [], Ok (Some f))"
  using toy_offers_to [OF toy_query_valid(2)] by (simp add: toy_pending_def)

text \<open>Witness of C37: one query, answered by one agent, whose offer the caller is handed.\<close>

theorem placement_choice_sound_witness:
  "\<exists>f st' g p. let es = [toy_begin, Submit f (ea_id toy_addr) 300] in
     QueryManager_finish ''q'' 300 (query_run (ae_capacity toy_agent_env) toy_limits toy_scheduler es QueryState_new) = (st', Some g)
     \<and> hm_get (qs_pending (query_run (ae_capacity toy_agent_env) toy_limits toy_scheduler es QueryState_new)) ''q'' = Some p
     \<and> fits (pq_query p) g \<and> in_time (ae_capacity toy_agent_env) (pq_query p) g \<and> 300 \<le> co_expires_at_secs g"
proof -
  let ?W = "ae_capacity toy_agent_env"
  obtain f where f: "capacity_offer toy_agent_env (pq_query toy_pending) toy_addr 300 (toy_agent []) = (toy_agent [], Ok (Some f))"
    using toy_agent_answers by blast
  let ?es = "[toy_begin, Submit f (ea_id toy_addr) 300]"
  obtain st' st'' g where a: "QueryManager_submit_offer ?W toy_limits f (ea_id toy_addr) 300
      (query_run ?W toy_limits toy_scheduler [toy_begin] QueryState_new) = (st', Ok True)"
    "QueryManager_finish ''q'' 300 st' = (st'', Some g)"
    using agent_offer_accepted [OF toy_run_pending(1,2) toy_offer_env f toy_run_pending(3,4)] by blast
  then have run: "QueryManager_finish ''q'' 300 (query_run ?W toy_limits toy_scheduler ?es QueryState_new) = (st'', Some g)"
    by (simp add: query_run_def query_step_def)
  have "distinct (uuids ?es)" using toy_run_pending(1) by (simp add: toy_begin_def)
  from placement_choice_sound [OF this run] obtain p where
    "hm_get (qs_pending (query_run ?W toy_limits toy_scheduler ?es QueryState_new)) ''q'' = Some p" "fits (pq_query p) g" "in_time ?W (pq_query p) g" "300 \<le> co_expires_at_secs g"
    by blast
  with run show ?thesis unfolding Let_def by (intro exI conjI)
qed

text \<open>Witness of C38.\<close>

theorem agent_offer_placed_witness:
  "\<exists>f st' st'' g. capacity_offer toy_agent_env (pq_query toy_pending) toy_addr 300 (toy_agent []) = (toy_agent [], Ok (Some f))
     \<and> QueryManager_submit_offer (ae_capacity toy_agent_env) toy_limits f (ea_id toy_addr) 300
         (query_run (ae_capacity toy_agent_env) toy_limits toy_scheduler [toy_begin] QueryState_new) = (st', Ok True)
     \<and> QueryManager_finish ''q'' 300 st' = (st'', Some g)"
  using toy_agent_answers agent_offer_placed [OF toy_run_pending(1,2) toy_offer_env _ toy_run_pending(3,4)] by blast


text \<open>Witness of C39: the same criteria at 306, one second after the deadline.\<close>

theorem late_caller_turned_away_witness:
  "\<exists>st' b. solicit_begin (ae_capacity toy_agent_env) toy_limits toy_scheduler False toy_criteria 1
       \<lparr>bi_query_id = ''r'', bi_nonce = ''m'', bi_reply_address = toy_addr, bi_now = 306\<rparr> (Ok ())
       (query_run (ae_capacity toy_agent_env) toy_limits toy_scheduler [toy_begin] QueryState_new) = (st', Ok (b, 0))
     \<and> \<not> bq_newly_created b \<and> snd (QueryManager_finish (cq_query_id (bq_query b)) 306 st') = None"
proof -
  have "pq_criteria toy_pending = CapacityCriteria_normalized toy_criteria" "open_offers toy_pending 306 = []"
    "cq_expires_at_secs (pq_query toy_pending) = 305"
    by (simp_all add: toy_pending_def toy_criteria_def CapacityCriteria_normalized_def open_offers_def toy_query_def)
  then show ?thesis
    using late_caller_turned_away [OF toy_run_pending(1) refl toy_run_pending(2), where criteria = toy_criteria and target = 1 and published = "Ok ()"
        and io = "\<lparr>bi_query_id = ''r'', bi_nonce = ''m'', bi_reply_address = toy_addr, bi_now = 306\<rparr>"] by auto
qed

end
