(* ===== verification/Spec2Isabelle.thy ===== *)
theory Spec2Isabelle
  imports Replay_Registry Agent_Capacity Agent_Manifest Scheduler_Query
begin

text \<open>
  A verification development for podmesh, a mesh in which the owner of a namespace places pods on agents. The owner
  asks a scheduler for room; the scheduler broadcasts a capacity query, collects the offers of agents and hands one
  out. The owner then deals with that agent directly: it reserves, deploys, updates and deletes workloads by signed
  and sealed requests. The agent checks the manifest, adds a sidecar, runs the pod and keeps a record of it on disk
  from which it comes up again after a crash. Inside the pod a connector gets the identity with which the workload
  talks to proxies and other workloads.

  \<^bold>\<open>Foundations.\<close>
  \<^item> \<open>Prelude\<close>, \<open>Std_Str\<close>, \<open>Std_Net\<close>: Rust's \<open>Result\<close> with \<open>ensure!\<close>, \<open>?\<close> and \<open>context\<close>, machine integers as words with
    their saturating operations, hash maps as association lists, and the parts of \<open>str\<close> and \<open>std::net\<close> in use.
  \<^item> \<open>Replay_Window\<close> and \<open>Fifo_Cache\<close>: the contract of a bounded replay cache as the locale \<open>replay_cache\<close>, and the shape
    of those that evict in order, \<open>fifo_cache\<close>. A recorded key is refused while it lives, unless enough other keys
    were accepted to evict it.
  \<^item> \<open>Replay_Registry\<close> (\<open>shared/protocol/src/replay_registry.rs\<close>): nonces per peer. It refuses replays within the window
    and stays within its limits.

  \<^bold>\<open>Messages\<close> (\<open>shared/crypto/src\<close>, \<open>shared/protocol/src\<close>).
  \<^item> \<open>Crypto_Lib\<close>: signatures bound to a domain, sealed blobs. Signatures do not cross domains, a sealed blob opens to what
    was sealed and is never a prefix of another. The locale \<open>signed_message\<close> says what a signed message type promises;
    every type of the theories below interprets it on its own \<open>verify\<close>.
  \<^item> \<open>Endpoint_Record\<close>, \<open>Mesh_Ids\<close>, \<open>Service_Discovery\<close>: address records, hashed identifiers, service catalogues and the
    leases of replicas.
  \<^item> \<open>Biscuit_Tokens\<close>, \<open>Workload_Identity\<close>: proxy grants, workload credentials and the identity of a workload. A session
    a proxy accepts traces back to the owner and to the agent that runs the workload.
  \<^item> \<open>Agent_Types\<close>, \<open>Agent_Requests\<close>, \<open>Agent_Responses\<close> (\<open>agent.rs\<close>): what owners ask of agents and what these answer. An
    accepted request was signed by the owner for that node, workload and revision.
  \<^item> \<open>Capacity\<close>, \<open>Workload_Connector\<close>, \<open>Mesh_Messages\<close>: capacity queries and offers, the frames between agent and connector,
    and what schedulers, agents and relays exchange.

  \<^bold>\<open>Manifests\<close> (\<open>shared/protocol/src\<close>, \<open>podmesh-agent/src/sidecar.rs\<close>).
  \<^item> \<open>Manifest_Value\<close>, \<open>Manifest_Quantity\<close>, \<open>Manifest_Measure\<close>: documents as trees, exact reading of resource quantities, and
    what a manifest may consume.
  \<^item> \<open>Rego_Lang\<close>, \<open>Manifest_Policy\<close>, \<open>Manifest_Safety\<close>: the Rego constructs the policy uses, the policy rule by rule with the
    mutation of resource defaults, and what an admitted manifest can and cannot do.
  \<^item> \<open>Service_Manifest\<close>, \<open>Sidecar_Inject\<close>: the services a manifest declares, and the container an agent adds to it.

  \<^bold>\<open>The agent\<close> (\<open>podmesh-agent/src\<close>).
  \<^item> \<open>Agent_Replay\<close>, \<open>Agent_Accounting\<close>, \<open>Agent_Store\<close>: the replay cache of \<open>service.rs\<close> and the queries already seen
    (\<open>machine/seen.rs\<close>), the tables of workloads and reservations with the admission decision, and the sealed records
    of \<open>store.rs\<close>, which refine a map from workload ids to records (locale \<open>workload_store\<close>).
  \<^item> \<open>Agent_Service\<close>, \<open>Agent_Deploy\<close>, \<open>Agent_Update\<close>, \<open>Agent_Command\<close>, \<open>Agent_Restore\<close>, \<open>Agent_Enrollment\<close>: the handlers of
    \<open>service.rs\<close> and \<open>service/enrollment.rs\<close>. The state is the record \<open>agent\<close>; a handler is split where it waits for
    the container runtime.
  \<^item> \<open>Agent_System\<close>: all handlers at once, as a step relation with crashes and restarts, and its invariant. \<open>Agent_Example\<close>
    is a concrete run. \<open>Agent_Safety\<close> and \<open>Agent_Capacity\<close> hold what follows for every run: no pod without a record,
    memory and disk agree, one operation per workload, capacity is respected, restarts succeed, and the one kind of
    update that breaks the last two.
  \<^item> \<open>Agent_Manifest\<close>: the agent composed with the theories on manifests. What it hands to the runtime is confined and
    within its reservation.

  \<^bold>\<open>The scheduler\<close> (\<open>podmesh-scheduler/src/machine\<close>).
  \<^item> \<open>Scheduler_Query\<close>: its identity and \<open>QueryManager\<close>, as functions of the state, with runs as lists of calls in any order.
    The offer handed out is sound and the best one open, no agent is handed out twice for a query, and the honest offer
    of an agent is accepted; a caller a second after the deadline of an equivalent query is turned away.

  \<^bold>\<open>Parameters.\<close> Code outside the repository is an argument: the cryptographic crates and base64 (\<open>crates\<close>), the Biscuit
  engine (\<open>biscuit\<close>), postcard and serde encodings (the \<open>_wire\<close> records), YAML (\<open>yaml_io\<close>), the container runtime and
  redb (the outcome of every call is an input of the handler). What a theorem needs of them is a hypothesis such as
  \<open>base64_law\<close>, \<open>ed_key\<close>, \<open>aead_law\<close>, \<open>signed_by\<close> (unforgeability), \<open>codec_law\<close> or \<open>yaml_law\<close>, and its witness instantiates the
  parameters with concrete functions. The clock, random bytes and new UUIDs are inputs; distinct UUIDs are a hypothesis
  where they matter. Constants keep the names and values of the source. No definition needs fuel: every loop of the modelled code is a structural recursion or a fold.

  \<^bold>\<open>Not modelled.\<close>
  \<^item> The tasks that serve iroh connections, gossip topics and HTTP, at the agent, the scheduler, the proxy and the sidecar,
    with the registries of attached agents, locations, members and tenant sessions they keep: their behaviour is the
    timing of third-party transports.
  \<^item> The commands given to podman and nftables, the command lines, key files and certificates of \<open>podctl\<close> and of the
    processes: I/O.
  \<^item> FlatBuffers envelopes, which the build generates, and the frames of tenant traffic (\<open>http_proxy.rs\<close>, \<open>egress.rs\<close>,
    \<open>workload_stream.rs\<close>).
  \<^item> Metrics and logging, on which nothing depends, and Rego policies loaded at run time, which are not in the repository.
\<close>

end
